(* ===== verification/Prelude.thy ===== *)
theory Prelude
  imports Main "HOL-Library.AList" "HOL-Library.Sublist" "HOL-Library.Multiset"
begin

text \<open>
  What every component shares: results and the state/error monad in which the asynchronous
  functions of the code are written, JavaScript's insertion-ordered \<open>Map\<close> as an association
  list, and the string operations of the JavaScript standard library that the code calls.
  Strings are lists of characters; a character stands for one UTF-8 byte, so \<open>Buffer.from(s)\<close>
  is the identity and \<open>length\<close> counts bytes (it agrees with JavaScript's \<open>length\<close> on ASCII).
  Dates are integers: milliseconds since the epoch, as \<open>Date.getTime()\<close> gives them.
\<close>

named_theorems monad_simps
named_theorems map_simps

section \<open>Results and effects\<close>

type_synonym ('e, 'a) result = "'e + 'a"

abbreviation Err :: "'e \<Rightarrow> 'e + 'a" where "Err \<equiv> Inl"
abbreviation Ok :: "'a \<Rightarrow> 'e + 'a" where "Ok \<equiv> Inr"

definition is_ok :: "'e + 'a \<Rightarrow> bool" where
  "is_ok r = (case r of Inl _ \<Rightarrow> False | Inr _ \<Rightarrow> True)"

lemma is_ok_simps [simp]: "is_ok (Inl e) = False" "is_ok (Inr a) = True"
  by (simp_all add: is_ok_def)

text \<open>An asynchronous function that may throw: it runs on a state and returns the next one.\<close>

type_synonym ('s, 'e, 'a) act = "'s \<Rightarrow> ('e + 'a) \<times> 's"

definition ret :: "'a \<Rightarrow> ('s, 'e, 'a) act" where
  "ret a = (\<lambda>s. (Inr a, s))"

definition raise :: "'e \<Rightarrow> ('s, 'e, 'a) act" where
  "raise e = (\<lambda>s. (Inl e, s))"

definition andThen :: "('s, 'e, 'a) act \<Rightarrow> ('a \<Rightarrow> ('s, 'e, 'b) act) \<Rightarrow> ('s, 'e, 'b) act" where
  "andThen m k = (\<lambda>s. case m s of (Inl e, s') \<Rightarrow> (Inl e, s') | (Inr a, s') \<Rightarrow> k a s')"

text \<open>\<open>try { m } catch (e) { h(e) }\<close>: the effects of \<open>m\<close> before the throw are kept.\<close>

definition tryCatch :: "('s, 'e, 'a) act \<Rightarrow> ('e \<Rightarrow> ('s, 'e, 'a) act) \<Rightarrow> ('s, 'e, 'a) act" where
  "tryCatch m h = (\<lambda>s. case m s of (Inl e, s') \<Rightarrow> h e s' | (Inr a, s') \<Rightarrow> (Inr a, s'))"

text \<open>\<open>try { m } finally { f }\<close>: a throw of \<open>f\<close> replaces the outcome of \<open>m\<close>.\<close>

definition finally_do :: "('s, 'e, 'a) act \<Rightarrow> ('s, 'e, unit) act \<Rightarrow> ('s, 'e, 'a) act" where
  "finally_do m f = (\<lambda>s. case m s of (r, s') \<Rightarrow>
     (case f s' of (Inl e, s'') \<Rightarrow> (Inl e, s'') | (Inr _, s'') \<Rightarrow> (r, s'')))"

definition of_result :: "'e + 'a \<Rightarrow> ('s, 'e, 'a) act" where
  "of_result r = (\<lambda>s. (r, s))"

definition when_do :: "bool \<Rightarrow> ('s, 'e, unit) act \<Rightarrow> ('s, 'e, unit) act" where
  "when_do b m = (if b then m else ret ())"

lemma ret_run [simp, monad_simps]: "ret a s = (Inr a, s)"
  by (simp add: ret_def)

lemma raise_run [simp, monad_simps]: "raise e s = (Inl e, s)"
  by (simp add: raise_def)

lemma of_result_run [simp, monad_simps]: "of_result r s = (r, s)"
  by (simp add: of_result_def)

lemma andThen_run [monad_simps]:
  "andThen m k s = (case m s of (Inl e, s') \<Rightarrow> (Inl e, s') | (Inr a, s') \<Rightarrow> k a s')"
  by (simp add: andThen_def)

lemma tryCatch_run [monad_simps]:
  "tryCatch m h s = (case m s of (Inl e, s') \<Rightarrow> h e s' | (Inr a, s') \<Rightarrow> (Inr a, s'))"
  by (simp add: tryCatch_def)

lemma finally_do_run [monad_simps]:
  "finally_do m f s = (case m s of (r, s') \<Rightarrow>
     (case f s' of (Inl e, s'') \<Rightarrow> (Inl e, s'') | (Inr _, s'') \<Rightarrow> (r, s'')))"
  by (simp add: finally_do_def)

lemma when_do_run [simp, monad_simps]: "when_do b m s = (if b then m s else (Inr (), s))"
  by (simp add: when_do_def)

lemma andThen_ok: "m s = (Inr a, s') \<Longrightarrow> andThen m k s = k a s'"
  by (simp add: andThen_def)

lemma andThen_err: "m s = (Inl e, s') \<Longrightarrow> andThen m k s = (Inl e, s')"
  by (simp add: andThen_def)

lemma andThen_okE:
  assumes "andThen m k s = (Inr b, s'')"
  obtains a s' where "m s = (Inr a, s')" "k a s' = (Inr b, s'')"
  using assms by (auto simp: andThen_def split: prod.splits sum.splits)

text \<open>What an action leaves alone: \<open>f\<close> of the state is the same after it, whatever its outcome.\<close>

definition preserves :: "('s \<Rightarrow> 'b) \<Rightarrow> ('s, 'e, 'a) act \<Rightarrow> bool" where
  "preserves f m = (\<forall>s. f (snd (m s)) = f s)"

named_theorems preserves_intros

lemma preservesD: "preserves f m \<Longrightarrow> m s = (r, s') \<Longrightarrow> f s' = f s"
  by (metis preserves_def snd_conv)

lemma preserves_basic [preserves_intros]:
  "preserves f (ret a)" "preserves f (raise e)" "preserves f (of_result r)"
  by (simp_all add: preserves_def)

lemma preserves_andThen [preserves_intros]:
  "preserves f m \<Longrightarrow> (\<And>a. preserves f (k a)) \<Longrightarrow> preserves f (andThen m k)"
  by (auto simp: preserves_def andThen_def split: prod.splits sum.splits) (metis snd_conv)+

lemma preserves_tryCatch [preserves_intros]:
  "preserves f m \<Longrightarrow> (\<And>e. preserves f (h e)) \<Longrightarrow> preserves f (tryCatch m h)"
  by (auto simp: preserves_def tryCatch_def split: prod.splits sum.splits) (metis snd_conv)+

section \<open>Insertion-ordered maps\<close>

type_synonym ('k, 'v) jsmap = "('k \<times> 'v) list"

abbreviation mget :: "('k, 'v) jsmap \<Rightarrow> 'k \<Rightarrow> 'v option" where "mget m k \<equiv> map_of m k"
abbreviation mset_to :: "'k \<Rightarrow> 'v \<Rightarrow> ('k, 'v) jsmap \<Rightarrow> ('k, 'v) jsmap" where
  "mset_to k v m \<equiv> AList.update k v m"
abbreviation mdelete :: "'k \<Rightarrow> ('k, 'v) jsmap \<Rightarrow> ('k, 'v) jsmap" where
  "mdelete k m \<equiv> AList.delete k m"

definition map_ok :: "('k, 'v) jsmap \<Rightarrow> bool" where
  "map_ok m = distinct (map fst m)"

lemma mget_mset [simp, map_simps]: "mget (mset_to k v m) k' = (if k' = k then Some v else mget m k')"
  by (simp add: update_conv')

lemma mget_mdelete [simp, map_simps]: "mget (mdelete k m) k' = (if k' = k then None else mget m k')"
  by (simp add: delete_conv')

lemma map_ok_Nil [simp]: "map_ok []"
  by (simp add: map_ok_def)

lemma map_ok_mset [simp, intro]: "map_ok m \<Longrightarrow> map_ok (mset_to k v m)"
  by (simp add: map_ok_def distinct_update)

lemma map_ok_mdelete [simp, intro]: "map_ok m \<Longrightarrow> map_ok (mdelete k m)"
  by (simp add: map_ok_def distinct_delete)

lemma set_mset_subset: "set (mset_to k v m) \<subseteq> insert (k, v) (set m)"
  by (induction m) auto

lemma map_ok_mget_iff: "map_ok m \<Longrightarrow> (k, v) \<in> set m \<longleftrightarrow> mget m k = Some v"
  by (auto simp: map_ok_def dest: map_of_SomeD)

section \<open>Sorting\<close>

text \<open>\<open>Array.prototype.sort\<close> with a comparator: stable.\<close>

fun js_insert :: "('a \<Rightarrow> 'a \<Rightarrow> int) \<Rightarrow> 'a \<Rightarrow> 'a list \<Rightarrow> 'a list" where
  "js_insert cmp x [] = [x]"
| "js_insert cmp x (y # ys) = (if cmp x y \<le> 0 then x # y # ys else y # js_insert cmp x ys)"

definition js_sort :: "('a \<Rightarrow> 'a \<Rightarrow> int) \<Rightarrow> 'a list \<Rightarrow> 'a list" where
  "js_sort cmp xs = foldr (js_insert cmp) xs []"

lemma mset_js_insert: "mset (js_insert cmp x xs) = add_mset x (mset xs)"
  by (induction xs) auto

lemma mset_js_sort: "mset (js_sort cmp xs) = mset xs"
  by (induction xs) (simp_all add: js_sort_def mset_js_insert)

text \<open>The result of a sort on an integer key is ordered by that key.\<close>

lemma sorted_js_insert:
  "sorted_wrt (\<lambda>a b. key a \<le> key b) xs \<Longrightarrow>
    sorted_wrt (\<lambda>a b. key a \<le> key b) (js_insert (\<lambda>a b. key a - key b) x xs)" for key :: "'a \<Rightarrow> int"
proof (induction xs)
  case (Cons y ys)
  have "set (js_insert (\<lambda>a b. key a - key b) x ys) = insert x (set ys)"
    by (metis mset_js_insert set_mset_add_mset_insert set_mset_mset)
  then show ?case using Cons by auto
qed simp

lemma sorted_js_sort: "sorted_wrt (\<lambda>a b. key a \<le> key b) (js_sort (\<lambda>a b. key a - key b) xs)"
  for key :: "'a \<Rightarrow> int"
  by (induction xs) (simp_all add: js_sort_def sorted_js_insert)

lemma set_js_sort [simp]: "set (js_sort cmp xs) = set xs"
  by (metis mset_js_sort set_mset_mset)

text \<open>The first element of a sort on an integer key: the one with the least key, when there is one.\<close>

lemma js_sort_first:
  fixes key :: "'a \<Rightarrow> int"
  assumes "x \<in> set xs" "\<forall>y \<in> set xs. y \<noteq> x \<longrightarrow> key x < key y"
  shows "\<exists>rest. js_sort (\<lambda>a b. key a - key b) xs = x # rest"
proof (cases "js_sort (\<lambda>a b. key a - key b) xs")
  case Nil
  then have "set xs = {}" by (metis set_js_sort set_empty)
  then show ?thesis using assms(1) by simp
next
  case (Cons y rest)
  have mem: "y \<in> set xs" "x \<in> set (y # rest)" using assms(1) Cons set_js_sort [of "\<lambda>a b. key a - key b" xs] by auto
  have "sorted_wrt (\<lambda>a b. key a \<le> key b) (y # rest)" using sorted_js_sort [of key xs] Cons by simp
  then have "key y \<le> key x" using mem(2) by auto
  then have "y = x" using assms(2) mem(1) by force
  then show ?thesis using Cons by simp
qed

text \<open>Searching a list for something that is there once, or not at all.\<close>

lemma find_only:
  assumes "x \<in> set xs" "P x" "\<forall>y \<in> set xs. P y \<longrightarrow> y = x"
  shows "find P xs = Some x"
proof (cases "find P xs")
  case None
  then show ?thesis using assms(1,2) by (auto simp: find_None_iff)
next
  case (Some y)
  then have "y \<in> set xs" "P y" by (auto simp: find_Some_iff in_set_conv_nth)
  then show ?thesis using assms(3) Some by simp
qed

lemma find_nothing: "\<forall>x \<in> set xs. \<not> P x \<Longrightarrow> find P xs = None"
  by (simp add: find_None_iff)

section \<open>Strings of the JavaScript standard library\<close>

definition sq :: string where \<comment> \<open>an apostrophe\<close>
  "sq = [CHR 0x27]"

definition em_dash :: string where \<comment> \<open>U+2014 in UTF-8\<close>
  "em_dash = [CHR 0xE2, CHR 0x80, CHR 0x94]"

definition quoted :: "string \<Rightarrow> string" where
  "quoted s = sq @ s @ sq"

definition digit_char :: "nat \<Rightarrow> char" where
  "digit_char n = ''0123456789'' ! (n mod 10)"

function nat_str :: "nat \<Rightarrow> string" where
  "nat_str n = (if n < 10 then [digit_char n] else nat_str (n div 10) @ [digit_char (n mod 10)])"
  by pat_completeness auto
termination by (relation "measure id") auto

declare nat_str.simps [simp del]

definition int_str :: "int \<Rightarrow> string" where
  "int_str i = (if i < 0 then ''-'' @ nat_str (nat (- i)) else nat_str (nat i))"

definition padStart :: "nat \<Rightarrow> char \<Rightarrow> string \<Rightarrow> string" where
  "padStart n c s = replicate (n - length s) c @ s"

definition startsWith :: "string \<Rightarrow> string \<Rightarrow> bool" where
  "startsWith p s = (take (length p) s = p)"

definition endsWith :: "string \<Rightarrow> string \<Rightarrow> bool" where
  "endsWith p s = (length p \<le> length s \<and> drop (length s - length p) s = p)"

text \<open>\<open>s.indexOf(p)\<close>, with \<open>None\<close> for \<open>-1\<close>.\<close>

fun indexOf :: "string \<Rightarrow> string \<Rightarrow> nat option" where
  "indexOf p [] = (if p = [] then Some 0 else None)"
| "indexOf p (c # s) =
     (if startsWith p (c # s) then Some 0 else map_option Suc (indexOf p s))"

definition is_space :: "char \<Rightarrow> bool" where
  "is_space c = (c \<in> {CHR 0x20, CHR 0x09, CHR 0x0A, CHR 0x0B, CHR 0x0C, CHR 0x0D})"

definition trim :: "string \<Rightarrow> string" where
  "trim s = rev (dropWhile is_space (rev (dropWhile is_space s)))"

text \<open>\<open>s.split(sep)\<close> for a separator of one character.\<close>

fun split_on :: "char \<Rightarrow> string \<Rightarrow> string list" where
  "split_on c [] = [[]]"
| "split_on c (x # s) =
     (if x = c then [] # split_on c s
      else (case split_on c s of [] \<Rightarrow> [[x]] | w # ws \<Rightarrow> (x # w) # ws))"

definition join_with :: "string \<Rightarrow> string list \<Rightarrow> string" where
  "join_with sep ws = (case ws of [] \<Rightarrow> [] | w # vs \<Rightarrow> w @ concat (map (\<lambda>v. sep @ v) vs))"

text \<open>\<open>s.split(sep)\<close> for a separator of one or more characters.\<close>

function split_str :: "string \<Rightarrow> string \<Rightarrow> string list" where
  "split_str sep s = (case indexOf sep s of
       None \<Rightarrow> [s]
     | Some i \<Rightarrow> if sep = [] then [s] else take i s # split_str sep (drop (i + length sep) s))"
  by pat_completeness auto
termination
proof (relation "measure (\<lambda>(sep, s). length s)", goal_cases)
  case (2 sep s i)
  then have "s \<noteq> []" by (cases s) (auto split: if_splits)
  with 2 show ?case by (cases sep) auto
qed simp

declare split_str.simps [simp del]

definition is_lower :: "char \<Rightarrow> bool" where
  "is_lower c = (let n = (of_char c :: nat) in 97 \<le> n \<and> n \<le> 122)"

definition is_upper :: "char \<Rightarrow> bool" where
  "is_upper c = (let n = (of_char c :: nat) in 65 \<le> n \<and> n \<le> 90)"

definition is_digit :: "char \<Rightarrow> bool" where
  "is_digit c = (let n = (of_char c :: nat) in 48 \<le> n \<and> n \<le> 57)"

definition to_lower_char :: "char \<Rightarrow> char" where
  "to_lower_char c = (if is_upper c then char_of (of_char c + (32 :: nat)) else c)"

definition toLowerCase :: "string \<Rightarrow> string" where
  "toLowerCase s = map to_lower_char s"

text \<open>\<open>a ?? b\<close> for an optional \<open>a\<close>.\<close>

definition or_else :: "'a option \<Rightarrow> 'a \<Rightarrow> 'a" where
  "or_else o1 d = (case o1 of None \<Rightarrow> d | Some x \<Rightarrow> x)"

end
