(* ===== verification/JsNumber.thy ===== *)
theory JsNumber
  imports Prelude
begin

text \<open>
  JavaScript's \<open>number\<close>: the IEEE 754 binary64 values with round-to-nearest-even arithmetic,
  and the conversions between numbers and strings that the invoice arithmetic calls:
  \<open>Number.prototype.toString\<close> (shortest digits that read back), \<open>toFixed\<close> and
  \<open>Number.parseFloat\<close>. A finite value is \<open>Fin s m e\<close>, that is \<open>(-1)^s * m * 2^e\<close>, kept canonical:
  \<open>m < 2^53\<close>, \<open>e \<ge> -1074\<close>, and \<open>m \<ge> 2^52\<close> unless \<open>e = -1074\<close>. Everything computes on
  \<open>nat\<close> and \<open>int\<close>, so the kernel can evaluate the code's arithmetic digit by digit.
\<close>

section \<open>Values and rounding\<close>

datatype num64 = NaN | Infinite bool | Fin bool nat int

named_theorems num_eval

fun bitlen :: "nat \<Rightarrow> nat" where
  "bitlen n = (if n = 0 then 0 else Suc (bitlen (n div 2)))"

declare bitlen.simps [simp del]

text \<open>The kernel reads the length off the binary numeral.\<close>

lemma bitlen_eval [num_eval]:
  "bitlen 0 = 0" "bitlen 1 = 1" "bitlen (Suc 0) = 1"
  "bitlen (numeral (Num.Bit0 k)) = Suc (bitlen (numeral k))"
  "bitlen (numeral (Num.Bit1 k)) = Suc (bitlen (numeral k))"
  by (simp_all add: bitlen.simps [of 0] bitlen.simps [of 1] bitlen.simps [of "Suc 0"]
      bitlen.simps [of "numeral (Num.Bit0 k)"] bitlen.simps [of "numeral (Num.Bit1 k)"])

text \<open>The quotient \<open>n / d\<close> rounded to the nearest integer, ties to even.\<close>

definition div_even :: "nat \<Rightarrow> nat \<Rightarrow> nat" where
  "div_even n d = (if 2 * (n mod d) < d then n div d
     else if d < 2 * (n mod d) then Suc (n div d)
     else if even (n div d) then n div d else Suc (n div d))"

text \<open>The quotient rounded half up, as \<open>toFixed\<close> ("the larger \<open>n\<close>") and digit search use it.\<close>

definition div_up :: "nat \<Rightarrow> nat \<Rightarrow> nat" where
  "div_up n d = (2 * n + d) div (2 * d)"

text \<open>\<open>n / d\<close> divided by \<open>2^e\<close>, as a pair of numerator and denominator.\<close>

definition scale2 :: "nat \<Rightarrow> nat \<Rightarrow> int \<Rightarrow> nat \<times> nat" where
  "scale2 n d e = (if 0 \<le> e then (n, d * 2 ^ nat e) else (n * 2 ^ nat (- e), d))"

text \<open>The double nearest to \<open>(-1)^s * n / d\<close>.\<close>

definition pack64 :: "bool \<Rightarrow> nat \<Rightarrow> int \<Rightarrow> num64" where
  "pack64 s q e = (if q = 2 ^ 53 then (if 970 < e then Infinite s else Fin s (2 ^ 52) (e + 1))
     else if 971 < e then Infinite s else Fin s q e)"

definition round_at :: "bool \<Rightarrow> nat \<Rightarrow> nat \<Rightarrow> int \<Rightarrow> num64" where
  "round_at s n d e = pack64 s (case scale2 n d e of (a, b) \<Rightarrow> div_even a b) e"

definition exponent_at :: "nat \<Rightarrow> nat \<Rightarrow> int \<Rightarrow> int" where
  "exponent_at n d e = (case scale2 n d e of (a, b) \<Rightarrow>
     max (if b * 2 ^ 53 \<le> a then e + 1 else e) (-1074))"

definition round64 :: "bool \<Rightarrow> nat \<Rightarrow> nat \<Rightarrow> num64" where
  "round64 s n d = (if n = 0 then Fin s 0 (-1074)
     else round_at s n d (exponent_at n d (int (bitlen n) - int (bitlen d) - 53)))"

definition num_of_nat :: "nat \<Rightarrow> num64" where
  "num_of_nat n = round64 False n 1"

definition num_of_int :: "int \<Rightarrow> num64" where
  "num_of_int i = round64 (i < 0) (nat \<bar>i\<bar>) 1"

text \<open>A decimal literal: \<open>dec n k\<close> is the number written as \<open>n * 10^(-k)\<close> in the source.\<close>

definition dec :: "nat \<Rightarrow> nat \<Rightarrow> num64" where
  "dec n k = round64 False n (10 ^ k)"

definition neg64 :: "num64 \<Rightarrow> num64" where
  "neg64 x = (case x of NaN \<Rightarrow> NaN | Infinite s \<Rightarrow> Infinite (\<not> s) | Fin s m e \<Rightarrow> Fin (\<not> s) m e)"

text \<open>Truthiness: \<open>0\<close>, \<open>-0\<close> and \<open>NaN\<close> are falsy.\<close>

definition truthy_num :: "num64 \<Rightarrow> bool" where
  "truthy_num x = (case x of NaN \<Rightarrow> False | Infinite _ \<Rightarrow> True | Fin _ m _ \<Rightarrow> m \<noteq> 0)"

definition signed :: "bool \<Rightarrow> nat \<Rightarrow> int" where
  "signed s m = (if s then - int m else int m)"

text \<open>The exact integer \<open>i\<close> times \<open>2^e\<close>, rounded; \<open>z\<close> is the sign of a zero result.\<close>

definition round_int2 :: "bool \<Rightarrow> int \<Rightarrow> int \<Rightarrow> num64" where
  "round_int2 z i e = (if i = 0 then Fin z 0 (-1074)
     else if 0 \<le> e then round64 (i < 0) (nat \<bar>i\<bar> * 2 ^ nat e) 1
     else round64 (i < 0) (nat \<bar>i\<bar>) (2 ^ nat (- e)))"

section \<open>Arithmetic\<close>

fun add64 :: "num64 \<Rightarrow> num64 \<Rightarrow> num64" where
  "add64 NaN _ = NaN"
| "add64 _ NaN = NaN"
| "add64 (Infinite s) (Infinite t) = (if s = t then Infinite s else NaN)"
| "add64 (Infinite s) (Fin _ _ _) = Infinite s"
| "add64 (Fin _ _ _) (Infinite t) = Infinite t"
| "add64 (Fin s m e) (Fin t n f) =
     round_int2 (s \<and> t)
       (signed s (m * 2 ^ nat (e - min e f)) + signed t (n * 2 ^ nat (f - min e f))) (min e f)"

definition sub64 :: "num64 \<Rightarrow> num64 \<Rightarrow> num64" where
  "sub64 x y = add64 x (neg64 y)"

fun mul64 :: "num64 \<Rightarrow> num64 \<Rightarrow> num64" where
  "mul64 NaN _ = NaN"
| "mul64 _ NaN = NaN"
| "mul64 (Infinite s) (Infinite t) = Infinite (s \<noteq> t)"
| "mul64 (Infinite s) (Fin t n f) = (if n = 0 then NaN else Infinite (s \<noteq> t))"
| "mul64 (Fin s m e) (Infinite t) = (if m = 0 then NaN else Infinite (s \<noteq> t))"
| "mul64 (Fin s m e) (Fin t n f) = round_int2 (s \<noteq> t) (signed (s \<noteq> t) (m * n)) (e + f)"

fun div64 :: "num64 \<Rightarrow> num64 \<Rightarrow> num64" where
  "div64 NaN _ = NaN"
| "div64 _ NaN = NaN"
| "div64 (Infinite s) (Infinite t) = NaN"
| "div64 (Infinite s) (Fin t n f) = Infinite (s \<noteq> t)"
| "div64 (Fin s m e) (Infinite t) = Fin (s \<noteq> t) 0 (-1074)"
| "div64 (Fin s m e) (Fin t n f) =
     (if n = 0 then (if m = 0 then NaN else Infinite (s \<noteq> t))
      else (case scale2 m n (f - e) of (a, b) \<Rightarrow> round64 (s \<noteq> t) a b))"

text \<open>\<open>x < y\<close>; false when either is \<open>NaN\<close>.\<close>

fun lt64 :: "num64 \<Rightarrow> num64 \<Rightarrow> bool" where
  "lt64 NaN _ = False"
| "lt64 _ NaN = False"
| "lt64 (Infinite s) (Infinite t) = (s \<and> \<not> t)"
| "lt64 (Infinite s) (Fin _ _ _) = s"
| "lt64 (Fin _ _ _) (Infinite t) = (\<not> t)"
| "lt64 (Fin s m e) (Fin t n f) =
     (signed s (m * 2 ^ nat (e - min e f)) < signed t (n * 2 ^ nat (f - min e f)))"

definition is_zero64 :: "num64 \<Rightarrow> bool" where
  "is_zero64 x = (case x of Fin _ m _ \<Rightarrow> m = 0 | _ \<Rightarrow> False)"

text \<open>\<open>x === y\<close>: the two zeros are equal, \<open>NaN\<close> equals nothing.\<close>

definition eq64 :: "num64 \<Rightarrow> num64 \<Rightarrow> bool" where
  "eq64 x y = (x \<noteq> NaN \<and> (x = y \<or> is_zero64 x \<and> is_zero64 y))"

definition le64 :: "num64 \<Rightarrow> num64 \<Rightarrow> bool" where
  "le64 x y = (lt64 x y \<or> eq64 x y)"

section \<open>Numbers to strings\<close>

text \<open>The value \<open>m * 2^e\<close> as a fraction.\<close>

definition frac2 :: "nat \<Rightarrow> int \<Rightarrow> nat \<times> nat" where
  "frac2 m e = (if 0 \<le> e then (m * 2 ^ nat e, 1) else (m, 2 ^ nat (- e)))"

text \<open>\<open>pow10_count a b\<close> is the \<open>n\<close> with \<open>10^(n-1) \<le> a/b < 10^n\<close>, for \<open>a/b > 0\<close>.\<close>

fun digit_count :: "nat \<Rightarrow> nat" where
  "digit_count a = (if a = 0 then 0 else Suc (digit_count (a div 10)))"

fun count_down :: "nat \<Rightarrow> nat \<Rightarrow> nat \<Rightarrow> nat" where
  "count_down 0 a b = 0"
| "count_down (Suc f) a b = (if b \<le> 10 * a then 0 else Suc (count_down f (10 * a) b))"

declare digit_count.simps [simp del] count_down.simps [simp del]

lemma digit_count_eval [num_eval]:
  "digit_count 0 = 0" "digit_count 1 = 1" "digit_count (Suc 0) = 1"
  "digit_count (numeral k) = Suc (digit_count (numeral k div 10))"
  by (simp_all add: digit_count.simps [of 0] digit_count.simps [of 1]
      digit_count.simps [of "Suc 0"] digit_count.simps [of "numeral k"])

lemma count_down_eval [num_eval]:
  "count_down (numeral k) a b =
     (if b \<le> 10 * a then 0 else Suc (count_down (numeral k - 1) (10 * a) b))"
  "count_down (Suc 0) a b = (if b \<le> 10 * a then 0 else Suc (count_down 0 (10 * a) b))"
  "count_down 0 a b = 0"
  by (simp_all only: numeral_eq_Suc count_down.simps diff_Suc_1)

definition pow10_count :: "nat \<Rightarrow> nat \<Rightarrow> int" where
  "pow10_count a b = (if b \<le> a then int (digit_count (a div b)) else - int (count_down 400 a b))"

text \<open>The fraction \<open>a/b\<close> divided by \<open>10^p\<close>, rounded to an integer.\<close>

definition scale10 :: "nat \<Rightarrow> nat \<Rightarrow> int \<Rightarrow> nat \<times> nat" where
  "scale10 a b p = (if 0 \<le> p then (a, b * 10 ^ nat p) else (a * 10 ^ nat (- p), b))"

text \<open>
  The shortest decimal: for \<open>k\<close> digits, the integer \<open>s\<close> nearest to \<open>x / 10^(n-k)\<close> is tried;
  the first \<open>k\<close> whose decimal rounds back to \<open>x\<close> gives the digits \<open>s\<close> and the position \<open>n\<close>
  (the value is \<open>s * 10^(n-k)\<close>). Seventeen digits always suffice for binary64.
\<close>

text \<open>A decimal as digits \<open>s\<close>, their number \<open>k\<close> and the position \<open>n\<close> of the point.\<close>

definition decimal64 :: "nat \<Rightarrow> nat \<Rightarrow> int \<Rightarrow> num64" where
  "decimal64 s k n = (case scale10 s 1 (int k - n) of (a, b) \<Rightarrow> round64 False a b)"

definition candidate :: "nat \<Rightarrow> nat \<Rightarrow> nat \<Rightarrow> int \<Rightarrow> nat" where
  "candidate k a b n = (case scale10 a b (n - int k) of (u, v) \<Rightarrow> div_even u v)"

definition normal_dec :: "nat \<Rightarrow> nat \<Rightarrow> int \<Rightarrow> nat \<times> nat \<times> int" where
  "normal_dec s k n = (if s = 10 ^ k then (1, 1, n + 1) else (s, k, n))"

fun shortest :: "nat \<Rightarrow> nat \<Rightarrow> num64 \<Rightarrow> nat \<Rightarrow> nat \<Rightarrow> int \<Rightarrow> nat \<times> nat \<times> int" where
  "shortest 0 k x a b n = normal_dec (candidate k a b n) k n"
| "shortest (Suc f) k x a b n =
     (case normal_dec (candidate k a b n) k n of (s', k', n') \<Rightarrow>
       (if decimal64 s' k' n' = x then (s', k', n') else shortest f (k + 1) x a b n))"

declare shortest.simps [simp del]

lemma shortest_eval [num_eval]:
  "shortest (numeral j) k x a b n =
     (case normal_dec (candidate k a b n) k n of (s', k', n') \<Rightarrow>
       (if decimal64 s' k' n' = x then (s', k', n') else shortest (numeral j - 1) (k + 1) x a b n))"
  "shortest (Suc 0) k x a b n =
     (case normal_dec (candidate k a b n) k n of (s', k', n') \<Rightarrow>
       (if decimal64 s' k' n' = x then (s', k', n') else shortest 0 (k + 1) x a b n))"
  "shortest 0 k x a b n = normal_dec (candidate k a b n) k n"
  by (simp_all only: numeral_eq_Suc shortest.simps diff_Suc_1)

text \<open>\<open>Number::toString\<close>: how \<open>k\<close> digits with the point at \<open>n\<close> are laid out.\<close>

definition layout_at :: "string \<Rightarrow> int \<Rightarrow> int \<Rightarrow> string" where
  "layout_at ds k n =
     (if k \<le> n \<and> n \<le> 21 then ds @ replicate (nat (n - k)) (CHR ''0'')
      else if 0 < n \<and> n \<le> 21 then take (nat n) ds @ ''.'' @ drop (nat n) ds
      else if -6 < n \<and> n \<le> 0 then ''0.'' @ replicate (nat (- n)) (CHR ''0'') @ ds
      else take 1 ds @ (if k = 1 then [] else ''.'' @ drop 1 ds) @ ''e'' @
           (if 0 < n - 1 then ''+'' else ''-'') @ nat_str (nat \<bar>n - 1\<bar>))"

definition layout :: "string \<Rightarrow> int \<Rightarrow> string" where
  "layout ds n = layout_at ds (int (length ds)) n"

definition frac_str :: "num64 \<Rightarrow> nat \<Rightarrow> nat \<Rightarrow> string" where
  "frac_str x a b = (case shortest 16 1 x a b (pow10_count a b) of (s, k, n) \<Rightarrow>
     layout (nat_str s) n)"

definition abs_str :: "nat \<Rightarrow> int \<Rightarrow> string" where
  "abs_str m e = (if m = 0 then ''0'' else
     (case frac2 m e of (a, b) \<Rightarrow> frac_str (Fin False m e) a b))"

definition num_str :: "num64 \<Rightarrow> string" where
  "num_str x = (case x of NaN \<Rightarrow> ''NaN''
     | Infinite s \<Rightarrow> (if s then ''-Infinity'' else ''Infinity'')
     | Fin s m e \<Rightarrow> (if s \<and> m \<noteq> 0 then ''-'' else []) @ abs_str m e)"

text \<open>
  \<open>x.toFixed(f)\<close>: the integer nearest to \<open>x * 10^f\<close>, ties upwards in absolute value, written
  with \<open>f\<close> decimals; from \<open>10^21\<close> on it is \<open>toString\<close>.
\<close>

definition point_at :: "nat \<Rightarrow> string \<Rightarrow> string" where
  "point_at f z = take (length z - f) z @ ''.'' @ drop (length z - f) z"

definition fixed_digits :: "nat \<Rightarrow> nat \<Rightarrow> string" where
  "fixed_digits f n = (if f = 0 then nat_str n
     else point_at f (padStart (Suc f) (CHR ''0'') (nat_str n)))"

definition toFixed :: "num64 \<Rightarrow> nat \<Rightarrow> string" where
  "toFixed x f = (case x of Fin s m e \<Rightarrow>
       (case frac2 m e of (a, b) \<Rightarrow>
        if b * 10 ^ 21 \<le> a then num_str x
        else (if s \<and> m \<noteq> 0 then ''-'' else []) @ fixed_digits f (div_up (a * 10 ^ f) b))
     | _ \<Rightarrow> num_str x)"

section \<open>Strings to numbers\<close>

definition digit_val :: "char \<Rightarrow> nat" where
  "digit_val c = of_char c - 48"

definition digits_val :: "string \<Rightarrow> nat" where
  "digits_val ds = foldl (\<lambda>a c. 10 * a + digit_val c) 0 ds"

text \<open>A sign at the head of the text, and what follows it.\<close>

definition sign_part :: "string \<Rightarrow> bool \<times> string" where
  "sign_part t = (case t of [] \<Rightarrow> (False, []) | c # v \<Rightarrow>
     if c = CHR ''-'' then (True, v) else if c = CHR ''+'' then (False, v) else (False, t))"

text \<open>An exponent part \<open>e[+-]digits\<close> at the head of the text; 0 when there is none.\<close>

definition exp_part :: "string \<Rightarrow> int" where
  "exp_part s = (case s of [] \<Rightarrow> 0 | c # t \<Rightarrow>
     if c = CHR ''e'' \<or> c = CHR ''E'' then
       (case sign_part t of (neg, u) \<Rightarrow>
          (if neg then - int (digits_val (takeWhile is_digit u))
           else int (digits_val (takeWhile is_digit u))))
     else 0)"

definition frac_part :: "string \<Rightarrow> string \<times> string" where
  "frac_part r = (case r of [] \<Rightarrow> ([], []) | c # v \<Rightarrow>
     if c = CHR ''.'' then (takeWhile is_digit v, dropWhile is_digit v) else ([], r))"

definition scaled64 :: "bool \<Rightarrow> nat \<Rightarrow> int \<Rightarrow> num64" where
  "scaled64 neg n x = (if 0 \<le> x then round64 neg (n * 10 ^ nat x) 1
     else round64 neg n (10 ^ nat (- x)))"

text \<open>
  \<open>Number.parseFloat\<close> on the longest prefix that is a decimal literal; \<open>NaN\<close> without a digit.
\<close>

definition parse_unsigned :: "bool \<Rightarrow> string \<Rightarrow> num64" where
  "parse_unsigned neg u =
     (if startsWith ''Infinity'' u then Infinite neg
      else (case frac_part (dropWhile is_digit u) of (fp, rest) \<Rightarrow>
        (if takeWhile is_digit u = [] \<and> fp = [] then NaN
         else scaled64 neg (digits_val (takeWhile is_digit u @ fp))
                (exp_part rest - int (length fp)))))"

definition parseFloat :: "string \<Rightarrow> num64" where
  "parseFloat str = (case sign_part (dropWhile is_space str) of (neg, u) \<Rightarrow> parse_unsigned neg u)"

section \<open>Evaluation by the simplifier\<close>

lemma nat_str_eval [num_eval]:
  "nat_str (numeral k) = (if numeral k < (10 :: nat) then [digit_char (numeral k)]
     else nat_str (numeral k div 10) @ [digit_char (numeral k mod 10)])"
  "nat_str 0 = ''0''" "nat_str 1 = ''1''" "nat_str (Suc 0) = ''1''"
  by (simp_all add: nat_str.simps [of "numeral k"] nat_str.simps [of 0] nat_str.simps [of 1]
      nat_str.simps [of "Suc 0"] digit_char_def)

lemma small_eval [num_eval]: "Suc (Suc 0) = 2" "replicate 2 c = [c, c]"
  by (simp_all add: numeral_2_eq_2)

lemmas number_defs [num_eval] =
  div_even_def div_up_def scale2_def pack64_def round_at_def exponent_at_def round64_def
  num_of_nat_def num_of_int_def dec_def neg64_def truthy_num_def signed_def round_int2_def
  sub64_def is_zero64_def eq64_def le64_def frac2_def pow10_count_def scale10_def decimal64_def
  candidate_def normal_dec_def layout_at_def layout_def frac_str_def abs_str_def num_str_def
  point_at_def fixed_digits_def toFixed_def padStart_def digit_val_def digits_val_def
  sign_part_def exp_part_def frac_part_def scaled64_def parse_unsigned_def parseFloat_def
  is_digit_def is_space_def startsWith_def digit_char_def

end
