(* ===== verification/JsValue.thy ===== *)
theory JsValue
  imports JsNumber
begin

text \<open>
  JavaScript values as the XML layer and the JSON bodies use them: objects are property lists in
  insertion order, arrays are lists. Properties inherited from \<open>Object.prototype\<close> or
  \<open>Array.prototype\<close> are not represented, nor are named properties on arrays.
\<close>

datatype jsval =
    JUndef
  | JNull
  | JBool bool
  | JNum num64
  | JStr string
  | JArr "jsval list"
  | JObj "(string \<times> jsval) list"

definition is_object :: "jsval \<Rightarrow> bool" where \<comment> \<open>\<open>typeof v === "object"\<close> and not null\<close>
  "is_object v = (case v of JArr _ \<Rightarrow> True | JObj _ \<Rightarrow> True | _ \<Rightarrow> False)"

definition is_nullish :: "jsval \<Rightarrow> bool" where
  "is_nullish v = (case v of JUndef \<Rightarrow> True | JNull \<Rightarrow> True | _ \<Rightarrow> False)"

definition truthy :: "jsval \<Rightarrow> bool" where
  "truthy v = (case v of JUndef \<Rightarrow> False | JNull \<Rightarrow> False | JBool b \<Rightarrow> b
     | JNum x \<Rightarrow> truthy_num x | JStr s \<Rightarrow> s \<noteq> [] | JArr _ \<Rightarrow> True | JObj _ \<Rightarrow> True)"

text \<open>An array index written as a property name: canonical decimal digits.\<close>

definition index_of :: "string \<Rightarrow> nat option" where
  "index_of t = (if t \<noteq> [] \<and> (\<forall>c \<in> set t. is_digit c) \<and> nat_str (digits_val t) = t
     then Some (digits_val t) else None)"

definition arr_get :: "jsval list \<Rightarrow> string \<Rightarrow> jsval" where
  "arr_get xs t = (if t = ''length'' then JNum (num_of_nat (length xs))
     else (case index_of t of None \<Rightarrow> JUndef
       | Some i \<Rightarrow> if i < length xs then xs ! i else JUndef))"

text \<open>\<open>v[t]\<close> on an object or an array; \<open>JUndef\<close> for a missing property.\<close>

definition jget :: "jsval \<Rightarrow> string \<Rightarrow> jsval" where
  "jget v t = (case v of
       JObj ps \<Rightarrow> (case map_of ps t of None \<Rightarrow> JUndef | Some x \<Rightarrow> x)
     | JArr xs \<Rightarrow> arr_get xs t
     | _ \<Rightarrow> JUndef)"

text \<open>\<open>v[t] = x\<close>.\<close>

definition jset :: "jsval \<Rightarrow> string \<Rightarrow> jsval \<Rightarrow> jsval" where
  "jset v t x = (case v of
       JObj ps \<Rightarrow> JObj (AList.update t x ps)
     | JArr xs \<Rightarrow> (case index_of t of None \<Rightarrow> JArr xs
         | Some i \<Rightarrow> if i < length xs then JArr (xs[i := x]) else JArr xs)
     | _ \<Rightarrow> v)"

text \<open>\<open>delete v[t]\<close>.\<close>

definition jdel :: "jsval \<Rightarrow> string \<Rightarrow> jsval" where
  "jdel v t = (case v of JObj ps \<Rightarrow> JObj (AList.delete t ps)
     | JArr xs \<Rightarrow> (case index_of t of None \<Rightarrow> JArr xs
         | Some i \<Rightarrow> if i < length xs then JArr (xs[i := JUndef]) else JArr xs)
     | _ \<Rightarrow> v)"

text \<open>
  \<open>a === b\<close>. Two objects are equal only when they are the same reference; the values compared
  by the code come from a parse and from a literal, so two objects are never equal here.
\<close>

fun strict_eq :: "jsval \<Rightarrow> jsval \<Rightarrow> bool" where
  "strict_eq JUndef JUndef = True"
| "strict_eq JNull JNull = True"
| "strict_eq (JBool a) (JBool b) = (a = b)"
| "strict_eq (JNum a) (JNum b) = eq64 a b"
| "strict_eq (JStr a) (JStr b) = (a = b)"
| "strict_eq _ _ = False"

text \<open>\<open>String(v)\<close>.\<close>

function to_str :: "jsval \<Rightarrow> string" where
  "to_str JUndef = ''undefined''"
| "to_str JNull = ''null''"
| "to_str (JBool b) = (if b then ''true'' else ''false'')"
| "to_str (JNum x) = num_str x"
| "to_str (JStr s) = s"
| "to_str (JArr xs) = join_with '','' (map (\<lambda>x. if is_nullish x then [] else to_str x) xs)"
| "to_str (JObj ps) = ''[object Object]''"
  by pat_completeness auto
termination by (relation "measure size") (auto simp: size_list_estimation' less_Suc_eq_le)

text \<open>\<open>JSON.stringify(v)\<close>; \<open>None\<close> is JavaScript's \<open>undefined\<close>.\<close>

definition json_char :: "char \<Rightarrow> string" where
  "json_char c = (let n = (of_char c :: nat) in
     if n = 34 then [CHR 0x5C, CHR 0x22]
     else if n = 92 then [CHR 0x5C, CHR 0x5C]
     else if n = 8 then [CHR 0x5C, CHR ''b'']
     else if n = 9 then [CHR 0x5C, CHR ''t'']
     else if n = 10 then [CHR 0x5C, CHR ''n'']
     else if n = 12 then [CHR 0x5C, CHR ''f'']
     else if n = 13 then [CHR 0x5C, CHR ''r'']
     else if n < 32 then [CHR 0x5C, CHR ''u'', CHR ''0'', CHR ''0'', digit_char (n div 16),
       ''0123456789abcdef'' ! (n mod 16)]
     else [c])"

definition json_string :: "string \<Rightarrow> string" where
  "json_string s = [CHR 0x22] @ concat (map json_char s) @ [CHR 0x22]"

fun json_num :: "num64 \<Rightarrow> string" where
  "json_num (Fin s m e) = num_str (Fin s m e)"
| "json_num _ = ''null''"

function json_of :: "jsval \<Rightarrow> string option" where
  "json_of JUndef = None"
| "json_of JNull = Some ''null''"
| "json_of (JBool b) = Some (if b then ''true'' else ''false'')"
| "json_of (JNum x) = Some (json_num x)"
| "json_of (JStr s) = Some (json_string s)"
| "json_of (JArr xs) = Some (''['' @ join_with '',''
     (map (\<lambda>x. case json_of x of None \<Rightarrow> ''null'' | Some t \<Rightarrow> t) xs) @ '']'')"
| "json_of (JObj ps) = Some (''{'' @ join_with '',''
     (concat (map (\<lambda>(k, x). case json_of x of None \<Rightarrow> []
        | Some t \<Rightarrow> [json_string k @ '':'' @ t]) ps)) @ ''}'')"
  by pat_completeness auto
termination
  by (relation "measure size")
    (auto simp: size_list_estimation' less_Suc_eq_le intro: size_list_estimation)

lemma jget_jset_same: "v = JObj ps \<Longrightarrow> jget (jset v t x) t = x"
  by (simp add: jget_def jset_def update_conv')

lemma jget_JObj [simp]: "jget (JObj ps) t = (case map_of ps t of None \<Rightarrow> JUndef | Some x \<Rightarrow> x)"
  by (simp add: jget_def)

lemma jset_JObj [simp]: "jset (JObj ps) t x = JObj (AList.update t x ps)"
  by (simp add: jset_def)

lemma jdel_JObj [simp]: "jdel (JObj ps) t = JObj (AList.delete t ps)"
  by (simp add: jdel_def)

end
