(* ===== verification/Errors.thy ===== *)
theory Errors
  imports JsValue
begin

text \<open>
  The error classes thrown by both packages (\<open>core/src/types/errors.ts\<close>,
  \<open>server/src/errors.ts\<close>) as one datatype, and the central mapper that turns a thrown value into
  an HTTP response (\<open>server/src/middleware/errors.ts\<close>). A constructor carries the fields the code
  reads; \<open>cause\<close> and the stack are not represented.
\<close>

named_theorems error_simps

section \<open>The hierarchy\<close>

datatype registry_code = Not_found | Conflict | Invalid

datatype error =
    ZatcaError string
  | ZatcaValidationError string
  | ZatcaApiError string int "jsval option" "string option"
  | ZatcaSigningError string
  | ZatcaCertificateError string
  | ZatcaOnboardingError string
  | ZatcaStorageError string
  | ZatcaServerError string "int option"
  | ZatcaCipherError string
  | ZatcaRegistryError string "registry_code option"
  | ZatcaAuthError string int
  | ZatcaAuditError string
  | PlainError string "int option" \<comment> \<open>any other \<open>Error\<close>, with its \<open>statusCode\<close> if stamped\<close>
  | NonError \<comment> \<open>a thrown value that is not an \<open>Error\<close>\<close>

type_synonym ('s, 'a) eff = "('s, error, 'a) act"

fun err_message :: "error \<Rightarrow> string" where
  "err_message (ZatcaError m) = m"
| "err_message (ZatcaValidationError m) = m"
| "err_message (ZatcaApiError m _ _ _) = m"
| "err_message (ZatcaSigningError m) = m"
| "err_message (ZatcaCertificateError m) = m"
| "err_message (ZatcaOnboardingError m) = m"
| "err_message (ZatcaStorageError m) = m"
| "err_message (ZatcaServerError m _) = m"
| "err_message (ZatcaCipherError m) = m"
| "err_message (ZatcaRegistryError m _) = m"
| "err_message (ZatcaAuthError m _) = m"
| "err_message (ZatcaAuditError m) = m"
| "err_message (PlainError m _) = m"
| "err_message NonError = ''Unknown error''"

fun err_name :: "error \<Rightarrow> string" where
  "err_name (ZatcaError _) = ''ZatcaError''"
| "err_name (ZatcaValidationError _) = ''ZatcaValidationError''"
| "err_name (ZatcaApiError _ _ _ _) = ''ZatcaApiError''"
| "err_name (ZatcaSigningError _) = ''ZatcaSigningError''"
| "err_name (ZatcaCertificateError _) = ''ZatcaCertificateError''"
| "err_name (ZatcaOnboardingError _) = ''ZatcaOnboardingError''"
| "err_name (ZatcaStorageError _) = ''ZatcaStorageError''"
| "err_name (ZatcaServerError _ _) = ''ZatcaServerError''"
| "err_name (ZatcaCipherError _) = ''ZatcaCipherError''"
| "err_name (ZatcaRegistryError _ _) = ''ZatcaRegistryError''"
| "err_name (ZatcaAuthError _ _) = ''ZatcaAuthError''"
| "err_name (ZatcaAuditError _) = ''ZatcaAuditError''"
| "err_name (PlainError _ _) = ''InternalServerError''"
| "err_name NonError = ''InternalServerError''"

section \<open>The response mapper\<close>

record error_response =
  statusCode :: int
  body_name :: string
  body_message :: string
  zatcaRequestId :: "string option"
  validationResults :: "jsval option"
  upstreamStatus :: "int option"
  response_headers :: "(string \<times> string) list"

definition makeBody :: "int \<Rightarrow> string \<Rightarrow> string \<Rightarrow> (string \<times> string) list \<Rightarrow> error_response" where
  "makeBody status name msg headers =
     \<lparr>statusCode = status, body_name = name, body_message = msg, zatcaRequestId = None,
      validationResults = None, upstreamStatus = None, response_headers = headers\<rparr>"

definition is_word_char :: "char \<Rightarrow> bool" where
  "is_word_char c = (is_lower c \<or> is_upper c \<or> is_digit c \<or> c = CHR ''_'')"

text \<open>\<open>/^Unknown\b/.test(message)\<close>.\<close>

definition unknown_message :: "string \<Rightarrow> bool" where
  "unknown_message m = (startsWith ''Unknown'' m \<and>
     (case drop 7 m of [] \<Rightarrow> True | c # _ \<Rightarrow> \<not> is_word_char c))"

definition registryErrorStatus :: "string \<Rightarrow> registry_code option \<Rightarrow> int" where
  "registryErrorStatus msg code = (case code of
       Some Not_found \<Rightarrow> 404
     | Some Invalid \<Rightarrow> 400
     | Some Conflict \<Rightarrow> 409
     | None \<Rightarrow> (if unknown_message msg then 404 else 409))"

text \<open>The statuses of ZATCA that would mislead the caller are mapped to gateway errors.\<close>

definition remapUpstream :: "int \<Rightarrow> int" where
  "remapUpstream upstream =
     (if upstream = 401 \<or> upstream = 403 then 502
      else if upstream = 429 then 503
      else if 400 \<le> upstream \<and> upstream < 600 then upstream
      else 502)"

definition apiErrorResponse ::
  "string \<Rightarrow> int \<Rightarrow> jsval option \<Rightarrow> string option \<Rightarrow> error_response" where
  "apiErrorResponse msg upstream results reqId =
     \<lparr>statusCode = remapUpstream upstream, body_name = ''ZatcaApiError'', body_message = msg,
      zatcaRequestId = reqId, validationResults = results, upstreamStatus = Some upstream,
      response_headers =
        (case reqId of None \<Rightarrow> [] | Some r \<Rightarrow> [(''X-Zatca-Request-Id'', r)]) @
        (if remapUpstream upstream = 503 then [(''retry-after'', ''30'')] else [])\<rparr>"

fun mapErrorToResponse :: "error \<Rightarrow> error_response" where
  "mapErrorToResponse (ZatcaAuthError m status) = makeBody status ''ZatcaAuthError'' m []"
| "mapErrorToResponse (ZatcaValidationError m) = makeBody 400 ''ZatcaValidationError'' m []"
| "mapErrorToResponse (ZatcaRegistryError m code) =
     makeBody (registryErrorStatus m code) ''ZatcaRegistryError'' m []"
| "mapErrorToResponse (ZatcaCipherError m) = makeBody 500 ''ZatcaCipherError'' m []"
| "mapErrorToResponse (ZatcaAuditError m) = makeBody 500 ''ZatcaAuditError'' m []"
| "mapErrorToResponse (ZatcaApiError m upstream results reqId) =
     apiErrorResponse m upstream results reqId"
| "mapErrorToResponse (ZatcaOnboardingError m) = makeBody 422 ''ZatcaOnboardingError'' m []"
| "mapErrorToResponse (ZatcaSigningError m) = makeBody 500 ''ZatcaSigningError'' m []"
| "mapErrorToResponse (ZatcaCertificateError m) = makeBody 500 ''ZatcaCertificateError'' m []"
| "mapErrorToResponse (ZatcaStorageError m) = makeBody 500 ''ZatcaStorageError'' m []"
| "mapErrorToResponse (ZatcaServerError m hint) =
     makeBody (case hint of None \<Rightarrow> 500 | Some h \<Rightarrow> h) ''ZatcaServerError'' m []"
| "mapErrorToResponse (ZatcaError m) = makeBody 500 ''ZatcaError'' m []"
| "mapErrorToResponse (PlainError m stamped) =
     (case stamped of
        Some st \<Rightarrow> makeBody (if 400 \<le> st \<and> st < 600 then st else 500) ''InternalServerError'' m []
      | None \<Rightarrow> makeBody 500 ''InternalServerError'' m [])"
| "mapErrorToResponse NonError = makeBody 500 ''InternalServerError'' ''Unknown error'' []"

text \<open>The hints the code's own throw sites use are HTTP error statuses.\<close>

fun hint_ok :: "error \<Rightarrow> bool" where
  "hint_ok (ZatcaServerError _ (Some h)) = (400 \<le> h \<and> h < 600)"
| "hint_ok (ZatcaAuthError _ h) = (h = 401 \<or> h = 403)"
| "hint_ok _ = True"

lemma makeBody_simps [simp, error_simps]:
  "statusCode (makeBody s n m h) = s" "body_name (makeBody s n m h) = n"
  "body_message (makeBody s n m h) = m" "upstreamStatus (makeBody s n m h) = None"
  "response_headers (makeBody s n m h) = h"
  by (simp_all add: makeBody_def)

lemma remapUpstream_range: "400 \<le> remapUpstream u \<and> remapUpstream u < 600"
  by (simp add: remapUpstream_def)

lemma remapUpstream_auth: "remapUpstream u \<noteq> 401 \<and> remapUpstream u \<noteq> 403 \<and> remapUpstream u \<noteq> 429"
  by (simp add: remapUpstream_def)

lemma registryErrorStatus_range: "registryErrorStatus m c \<in> {400, 404, 409}"
  by (cases c rule: option.exhaust; cases "the c") (auto simp: registryErrorStatus_def)

lemma status_range: "hint_ok e \<Longrightarrow> 400 \<le> statusCode (mapErrorToResponse e)
    \<and> statusCode (mapErrorToResponse e) < 600"
proof (cases e)
  case (ZatcaRegistryError m c)
  then show ?thesis using registryErrorStatus_range [of m c] by auto
next
  case (ZatcaServerError m h)
  moreover assume "hint_ok e"
  ultimately show ?thesis by (cases h) auto
next
  case (PlainError m h)
  then show ?thesis by (cases h) auto
qed (auto simp: apiErrorResponse_def remapUpstream_range)

lemma message_kept: "body_message (mapErrorToResponse e) = err_message e"
  by (cases e) (auto simp: apiErrorResponse_def split: option.splits)

lemma name_kept: "body_name (mapErrorToResponse e) = err_name e"
  by (cases e) (auto simp: apiErrorResponse_def split: option.splits)

lemma auth_status_source:
  "hint_ok e \<Longrightarrow> statusCode (mapErrorToResponse e) = 401 \<Longrightarrow>
    (\<exists>m. e = ZatcaAuthError m 401) \<or> (\<exists>m. e = ZatcaServerError m (Some 401)) \<or>
    (\<exists>m. e = PlainError m (Some 401))"
proof (cases e)
  case (ZatcaApiError m u v r)
  moreover assume "statusCode (mapErrorToResponse e) = 401"
  ultimately show ?thesis using remapUpstream_auth [of u] by (simp add: apiErrorResponse_def)
next
  case (ZatcaRegistryError m c)
  moreover assume "statusCode (mapErrorToResponse e) = 401"
  ultimately show ?thesis using registryErrorStatus_range [of m c] by auto
next
  case (ZatcaServerError m h)
  moreover assume "statusCode (mapErrorToResponse e) = 401"
  ultimately show ?thesis by (cases h) auto
next
  case (PlainError m h)
  moreover assume "statusCode (mapErrorToResponse e) = 401"
  ultimately show ?thesis by (cases h) (auto split: if_splits)
qed auto

end
