(* ===== verification/Types.thy ===== *)
theory Types
  imports Errors
begin

text \<open>
  The data of the core package: the invoice inputs (\<open>core/src/types/invoice.ts\<close>), parties and EGS
  units (\<open>parties.ts\<close>, \<open>egs.ts\<close>), and the rows and scope of the storage interface
  (\<open>storage.ts\<close>). Branded strings (\<open>branded.ts\<close>) are plain strings, as they are at run time.
  Numbers of an invoice (prices, quantities, percentages) are doubles; counters are integers.
\<close>

section \<open>Invoices\<close>

datatype InvoiceKind =
    Simplified_tax_invoice | Standard_tax_invoice
  | Simplified_credit_note | Standard_credit_note
  | Simplified_debit_note | Standard_debit_note
  | Phase1_invoice | Phase1_credit_note

fun kind_str :: "InvoiceKind \<Rightarrow> string" where
  "kind_str Simplified_tax_invoice = ''simplified-tax-invoice''"
| "kind_str Standard_tax_invoice = ''standard-tax-invoice''"
| "kind_str Simplified_credit_note = ''simplified-credit-note''"
| "kind_str Standard_credit_note = ''standard-credit-note''"
| "kind_str Simplified_debit_note = ''simplified-debit-note''"
| "kind_str Standard_debit_note = ''standard-debit-note''"
| "kind_str Phase1_invoice = ''phase1-invoice''"
| "kind_str Phase1_credit_note = ''phase1-credit-note''"

definition phase1_kind :: "InvoiceKind \<Rightarrow> bool" where
  "phase1_kind k = (k = Phase1_invoice \<or> k = Phase1_credit_note)"

record ZATCAInvoiceLineItemTax =
  percentAmount :: num64

record ZATCAInvoiceLineItemDiscount =
  discount_amount :: num64
  discount_reason :: string

record ZATCAInvoiceLineItem =
  item_id :: string
  item_name :: string
  item_quantity :: num64
  taxExclusivePrice :: num64
  otherTaxes :: "ZATCAInvoiceLineItemTax list option"
  discounts :: "ZATCAInvoiceLineItemDiscount list option"
  vatPercent :: num64

record ZATCAInvoiceCancelation =
  canceledInvoiceNumber :: num64
  paymentMethod :: string
  cancelationType :: string
  cancelation_reason :: string

record PartyAddress =
  addr_streetName :: string
  addr_buildingNumber :: string
  addr_plotIdentification :: "string option"
  addr_cityName :: string
  addr_citySubdivision :: "string option"
  addr_postalZone :: string
  addr_countryCode :: string

record BuyerInfo =
  buyer_vatNumber :: "string option"
  buyer_registrationName :: string
  buyer_address :: "PartyAddress option"
  buyer_identityScheme :: string
  buyer_identityNumber :: string

record EGSUnitLocation =
  loc_cityName :: string
  loc_citySubdivision :: string
  loc_street :: string
  loc_plotIdentification :: string
  loc_building :: string
  loc_postalZone :: string

record EGSCertificate =
  cert_privateKey :: "string option"
  cert_csr :: "string option"
  cert_complianceCertificate :: "string option"
  cert_complianceApiSecret :: "string option"
  cert_productionCertificate :: "string option"
  cert_productionApiSecret :: "string option"

record EGSUnitInfo =
  egs_uuid :: string
  egs_customId :: string
  egs_model :: string
  egs_crnNumber :: string
  egs_vatName :: string
  egs_vatNumber :: string
  egs_branchName :: string
  egs_branchIndustry :: string
  egs_location :: EGSUnitLocation
  egs_certificate :: "EGSCertificate option"

text \<open>
  \<open>InvoiceInput\<close>: the variants share one shape and differ in \<open>kind\<close>, so the union is a record
  with the tag as a field.
\<close>

record InvoiceInput =
  inv_kind :: InvoiceKind
  inv_egsInfo :: EGSUnitInfo
  invoiceCounterNumber :: int
  invoiceSerialNumber :: string
  issueDate :: string
  issueTime :: string
  inv_previousInvoiceHash :: string
  lineItems :: "ZATCAInvoiceLineItem list"
  cancelation :: "ZATCAInvoiceCancelation option"
  buyerName :: "string option"
  buyerInfo :: "BuyerInfo option"

section \<open>Storage rows\<close>

record TenantScope =
  scope_vatNumber :: string
  scope_egsUuid :: string

datatype InvoiceStatus = Pending | Submitted | Accepted | Rejected | Cancelled

record InvoiceRecord =
  rec_invoiceId :: string
  rec_kind :: InvoiceKind
  rec_serial :: string
  rec_counterNumber :: int
  rec_uuid :: string
  rec_invoiceHash :: string
  rec_previousInvoiceHash :: string
  rec_signedXml :: string
  rec_qrBase64 :: string
  rec_issuedAt :: int
  rec_status :: InvoiceStatus
  rec_clearanceNumber :: "string option"
  rec_validationResults :: "jsval option"

text \<open>The hash before the first invoice of a chain, as every adapter and issuer spells it.\<close>

definition ZATCA_BASE_INVOICE_HASH :: string where
  "ZATCA_BASE_INVOICE_HASH =
     ''NWZlY2ViNjZmZmM4NmYzOGQ5NTI3ODZjNmQ2OTZjNzljMmRiYzIzOWRkNGU5MWI0NjcyOWQ3M2EyN2ZiNTdlOQ==''"

definition scopeKey :: "TenantScope \<Rightarrow> string" where
  "scopeKey scope = scope_vatNumber scope @ '':'' @ scope_egsUuid scope"

text \<open>A VAT number holds no colon, so the key of a scope determines the scope.\<close>

definition plain_scope :: "TenantScope \<Rightarrow> bool" where
  "plain_scope scope = (CHR '':'' \<notin> set (scope_vatNumber scope))"

lemma append_colon_inj:
  "CHR '':'' \<notin> set a \<Longrightarrow> CHR '':'' \<notin> set b \<Longrightarrow> a @ CHR '':'' # x = b @ CHR '':'' # y \<Longrightarrow> a = b \<and> x = y"
proof (induction a arbitrary: b)
  case Nil
  then show ?case by (cases b) auto
next
  case (Cons c a)
  then show ?case by (cases b) auto
qed

lemma scopeKey_inj:
  assumes "plain_scope a" "plain_scope b" "scopeKey a = scopeKey b"
  shows "a = b"
  using append_colon_inj [of "scope_vatNumber a" "scope_vatNumber b" "scope_egsUuid a" "scope_egsUuid b"]
    assms by (simp add: scopeKey_def plain_scope_def)

section \<open>ZATCA environments\<close>

datatype Environment = Sandbox | Simulation | Production

fun env_str :: "Environment \<Rightarrow> string" where
  "env_str Sandbox = ''sandbox''"
| "env_str Simulation = ''simulation''"
| "env_str Production = ''production''"

end
