(* ===== verification/TaxArithmetic.thy ===== *)
theory TaxArithmetic
  imports Types
begin

text \<open>
  The invoice arithmetic on doubles: truncating formatting (\<open>core/src/invoices/fixed-no-rounding.ts\<close>),
  the line and document totals of invoices and credit notes (\<open>shared-tax-arithmetic.ts\<close>) and of
  debit notes (\<open>shared-debit-note-arithmetic.ts\<close>). Every intermediate value is the double the
  code computes, so rounding and truncation happen where they happen in the code.
\<close>

named_theorems tax_defs

section \<open>Truncating formatter\<close>

text \<open>The match of \<open>/^-?\d+(?:\.\d{0,n})?/\<close> at the head of a text.\<close>

definition minus_part :: "string \<Rightarrow> string \<times> string" where
  "minus_part t = (case t of [] \<Rightarrow> ([], []) | c # v \<Rightarrow> if c = CHR ''-'' then (''-'', v) else ([], t))"

definition decimals :: "nat \<Rightarrow> string \<Rightarrow> string option" where
  "decimals n r = (case r of [] \<Rightarrow> None
     | c # v \<Rightarrow> if c = CHR ''.'' then Some (take n (takeWhile is_digit v)) else None)"

text \<open>
  The matched sign, integer digits and decimals; without the point the code appends \<open>n\<close> zeros,
  with it the zeros that are missing.
\<close>

definition truncated :: "nat \<Rightarrow> string \<Rightarrow> string \<Rightarrow> string" where
  "truncated n sg u =
     (if takeWhile is_digit u = [] then ''0.00''
      else sg @ takeWhile is_digit u @ ''.'' @
        (case decimals n (dropWhile is_digit u) of
           None \<Rightarrow> replicate n (CHR ''0'')
         | Some f \<Rightarrow> f @ replicate (n - length f) (CHR ''0'')))"

definition toFixedNoRounding :: "num64 \<Rightarrow> nat \<Rightarrow> string" where
  "toFixedNoRounding value n = (case minus_part (num_str value) of (sg, u) \<Rightarrow> truncated n sg u)"

text \<open>\<open>Number.parseFloat(toFixedNoRounding(x, 2))\<close>.\<close>

definition trunc2 :: "num64 \<Rightarrow> num64" where
  "trunc2 x = parseFloat (toFixedNoRounding x 2)"

section \<open>Fragments\<close>

definition amount :: "jsval \<Rightarrow> jsval" where
  "amount v = JObj [(''@_currencyID'', JStr ''SAR''), (''#text'', v)]"

definition money :: "num64 \<Rightarrow> jsval" where
  "money x = amount (JStr (toFixedNoRounding x 2))"

definition vat_scheme :: jsval where
  "vat_scheme = JObj [(''cbc:ID'', JStr ''VAT'')]"

definition vat_entry :: "num64 \<Rightarrow> jsval" where
  "vat_entry p = JObj ([(''cbc:ID'', JStr (if truthy_num p then ''S'' else ''O''))]
     @ (if truthy_num p then [(''cbc:Percent'', JStr (toFixedNoRounding p 2))] else [])
     @ [(''cac:TaxScheme'', vat_scheme)])"

definition allowance_charge :: "ZATCAInvoiceLineItemDiscount \<Rightarrow> jsval" where
  "allowance_charge d = JObj
     [(''cbc:ChargeIndicator'', JStr ''false''),
      (''cbc:AllowanceChargeReason'', JStr (discount_reason d)),
      (''cbc:Amount'', money (discount_amount d))]"

definition discounts_of :: "ZATCAInvoiceLineItem \<Rightarrow> ZATCAInvoiceLineItemDiscount list" where
  "discounts_of l = (case discounts l of None \<Rightarrow> [] | Some ds \<Rightarrow> ds)"

definition taxes_of :: "ZATCAInvoiceLineItem \<Rightarrow> ZATCAInvoiceLineItemTax list" where
  "taxes_of l = (case otherTaxes l of None \<Rightarrow> [] | Some ts \<Rightarrow> ts)"

definition discount_sum :: "ZATCAInvoiceLineItem \<Rightarrow> num64" where
  "discount_sum l = foldl (\<lambda>a d. add64 a (discount_amount d)) (Fin False 0 (- 1074)) (discounts_of l)"

definition zero64 :: num64 where "zero64 = Fin False 0 (- 1074)"
definition hundred64 :: num64 where "hundred64 = num_of_nat 100"

definition taxable_amount :: "ZATCAInvoiceLineItem \<Rightarrow> num64" where
  "taxable_amount l = sub64 (mul64 (taxExclusivePrice l) (item_quantity l)) (discount_sum l)"

record LineItemTotals =
  cacAllowanceCharges :: "jsval list"
  cacClassifiedTaxCategories :: "jsval list"
  cacTaxTotal :: jsval
  lineItemTotalTaxExclusive :: num64
  lineItemTotalTaxes :: num64
  lineItemTotalDiscounts :: num64

section \<open>Invoices and credit notes\<close>

definition line_subtotal :: "ZATCAInvoiceLineItem \<Rightarrow> num64" where
  "line_subtotal l = trunc2 (taxable_amount l)"

definition line_vat :: "ZATCAInvoiceLineItem \<Rightarrow> num64 \<Rightarrow> num64" where
  "line_vat l subtotal =
     trunc2 (add64 (trunc2 zero64) (trunc2 (div64 (mul64 subtotal (vatPercent l)) hundred64)))"

definition add_other_tax :: "num64 \<Rightarrow> num64 \<Rightarrow> ZATCAInvoiceLineItemTax \<Rightarrow> num64" where
  "add_other_tax subtotal tot t =
     trunc2 (add64 (trunc2 tot) (trunc2 (div64 (mul64 (percentAmount t) subtotal) hundred64)))"

definition other_tax_entry :: "ZATCAInvoiceLineItemTax \<Rightarrow> jsval" where
  "other_tax_entry t = JObj [(''cbc:ID'', JStr ''S''),
     (''cbc:Percent'', JStr (toFixedNoRounding (percentAmount t) 2)), (''cac:TaxScheme'', vat_scheme)]"

definition rounding_amount :: "num64 \<Rightarrow> num64 \<Rightarrow> jsval" where
  "rounding_amount subtotal taxes = amount (JStr (toFixed (add64 (trunc2 subtotal) (trunc2 taxes)) 2))"

definition buildInvoiceLineItemTotals :: "ZATCAInvoiceLineItem \<Rightarrow> LineItemTotals" where
  "buildInvoiceLineItemTotals l =
     (let subtotal = line_subtotal l;
          taxes = foldl (add_other_tax subtotal) (line_vat l subtotal) (taxes_of l)
      in \<lparr>cacAllowanceCharges = map allowance_charge (discounts_of l),
          cacClassifiedTaxCategories = vat_entry (vatPercent l) # map other_tax_entry (taxes_of l),
          cacTaxTotal = JObj [(''cbc:TaxAmount'', money taxes),
            (''cbc:RoundingAmount'', rounding_amount subtotal taxes)],
          lineItemTotalTaxExclusive = subtotal,
          lineItemTotalTaxes = taxes,
          lineItemTotalDiscounts = discount_sum l\<rparr>)"

definition tax_category :: "num64 \<Rightarrow> jsval" where
  "tax_category p = JObj
     ([(''cbc:ID'', JObj [(''@_schemeAgencyID'', JNum (num_of_nat 6)), (''@_schemeID'', JStr ''UN/ECE 5305''),
         (''#text'', JStr (if truthy_num p then ''S'' else ''O''))]),
       (''cbc:Percent'', JStr (toFixedNoRounding p 2))]
      @ (if truthy_num p then [] else [(''cbc:TaxExemptionReason'', JStr ''Not subject to VAT'')])
      @ [(''cac:TaxScheme'', JObj [(''cbc:ID'', JObj [(''@_schemeAgencyID'', JStr ''6''),
           (''@_schemeID'', JStr ''UN/ECE 5153''), (''#text'', JStr ''VAT'')])])])"

definition tax_subtotal :: "num64 \<Rightarrow> num64 \<Rightarrow> num64 \<Rightarrow> jsval" where
  "tax_subtotal taxable tax percent = JObj [(''cbc:TaxableAmount'', money taxable),
     (''cbc:TaxAmount'', money tax), (''cac:TaxCategory'', tax_category percent)]"

definition percent_of :: "num64 \<Rightarrow> num64 \<Rightarrow> num64" where
  "percent_of p x = div64 (mul64 p x) hundred64"

text \<open>The percentages of a line in order: the VAT first, then the other taxes.\<close>

definition line_percents :: "ZATCAInvoiceLineItem \<Rightarrow> num64 list" where
  "line_percents l = vatPercent l # map percentAmount (taxes_of l)"

definition line_tax_subtotals :: "ZATCAInvoiceLineItem \<Rightarrow> jsval list" where
  "line_tax_subtotals l = map (\<lambda>p. tax_subtotal (taxable_amount l) (percent_of p (taxable_amount l)) p)
     (line_percents l)"

definition add_line_taxes :: "num64 \<Rightarrow> ZATCAInvoiceLineItem \<Rightarrow> num64" where
  "add_line_taxes tot l =
     foldl (\<lambda>a p. add64 a (trunc2 (percent_of p (taxable_amount l)))) tot (line_percents l)"

definition document_tax_sum :: "ZATCAInvoiceLineItem list \<Rightarrow> num64" where
  "document_tax_sum ls = foldl add_line_taxes zero64 ls"

definition buildInvoiceTaxTotal :: "ZATCAInvoiceLineItem list \<Rightarrow> jsval list" where
  "buildInvoiceTaxTotal ls = (let tot = parseFloat (toFixed (document_tax_sum ls) 2) in
     [JObj [(''cbc:TaxAmount'', money tot),
            (''cac:TaxSubtotal'', JArr (concat (map line_tax_subtotals ls)))],
      JObj [(''cbc:TaxAmount'', money tot)]])"

definition buildInvoiceLegalMonetaryTotal :: "num64 \<Rightarrow> num64 \<Rightarrow> jsval" where
  "buildInvoiceLegalMonetaryTotal totalSubtotal totalTaxes =
     (let tot = JNum (parseFloat (toFixed (add64 totalSubtotal totalTaxes) 2)) in
      JObj [(''cbc:LineExtensionAmount'', money totalSubtotal),
            (''cbc:TaxExclusiveAmount'', money totalSubtotal),
            (''cbc:TaxInclusiveAmount'', amount tot),
            (''cbc:AllowanceTotalAmount'', amount (JNum zero64)),
            (''cbc:PrepaidAmount'', amount (JNum zero64)),
            (''cbc:PayableAmount'', amount tot)])"

section \<open>Debit notes\<close>

definition add_debit_tax :: "num64 \<Rightarrow> num64 \<Rightarrow> ZATCAInvoiceLineItemTax \<Rightarrow> num64" where
  "add_debit_tax subtotal tot t =
     add64 tot (trunc2 (div64 (mul64 subtotal (percentAmount t)) hundred64))"

definition buildDebitNoteLineItemTotals :: "ZATCAInvoiceLineItem \<Rightarrow> bool \<Rightarrow> LineItemTotals" where
  "buildDebitNoteLineItemTotals l withRoundingAmount =
     (let subtotal = line_subtotal l;
          taxes = trunc2 (foldl (add_debit_tax subtotal) (line_vat l subtotal) (taxes_of l))
      in \<lparr>cacAllowanceCharges = map allowance_charge (discounts_of l),
          cacClassifiedTaxCategories = [vat_entry (vatPercent l)],
          cacTaxTotal = JObj ([(''cbc:TaxAmount'', money taxes)]
            @ (if withRoundingAmount then [(''cbc:RoundingAmount'', rounding_amount subtotal taxes)] else [])
            @ [(''cac:TaxSubtotal'', tax_subtotal subtotal
                 (div64 (mul64 subtotal (vatPercent l)) hundred64) (vatPercent l))]),
          lineItemTotalTaxExclusive = subtotal,
          lineItemTotalTaxes = taxes,
          lineItemTotalDiscounts = discount_sum l\<rparr>)"

definition buildDebitNoteTaxTotal :: "ZATCAInvoiceLineItem list \<Rightarrow> jsval list" where
  "buildDebitNoteTaxTotal ls =
     [JObj [(''cbc:TaxAmount'', money (document_tax_sum ls)),
            (''cac:TaxSubtotal'', JArr (concat (map line_tax_subtotals ls)))]]"

definition buildDebitNoteLegalMonetaryTotal :: "num64 \<Rightarrow> num64 \<Rightarrow> jsval" where
  "buildDebitNoteLegalMonetaryTotal totalSubtotal totalTaxes =
     (let tot = money (add64 totalSubtotal totalTaxes) in
      JObj [(''cbc:LineExtensionAmount'', money totalSubtotal),
            (''cbc:TaxExclusiveAmount'', money totalSubtotal),
            (''cbc:TaxInclusiveAmount'', tot),
            (''cbc:AllowanceTotalAmount'', amount (JStr ''0.00'')),
            (''cbc:PrepaidAmount'', amount (JStr ''0.00'')),
            (''cbc:PayableAmount'', tot)])"

lemmas tax_unfold [tax_defs] =
  minus_part_def decimals_def truncated_def toFixedNoRounding_def trunc2_def amount_def money_def
  vat_scheme_def vat_entry_def allowance_charge_def discounts_of_def taxes_of_def discount_sum_def
  zero64_def hundred64_def taxable_amount_def line_subtotal_def line_vat_def add_other_tax_def
  percent_of_def line_percents_def add_line_taxes_def document_tax_sum_def

section \<open>Shape of the formatted amounts\<close>

text \<open>An optional minus, at least one digit, a point and \<open>n\<close> digits.\<close>

definition fixed_shape :: "nat \<Rightarrow> string \<Rightarrow> bool" where
  "fixed_shape n t = (\<exists>sg ds fs. t = sg @ ds @ ''.'' @ fs \<and> sg \<in> {[], ''-''} \<and> ds \<noteq> [] \<and>
     list_all is_digit ds \<and> list_all is_digit fs \<and> length fs = n)"

lemma list_all_takeWhile: "list_all P (takeWhile P xs)"
  by (induction xs) auto

lemma is_digit_zero [simp]: "is_digit (CHR ''0'')"
  by (simp add: is_digit_def)

lemma minus_part_sign: "fst (minus_part t) \<in> {[], ''-''}"
  by (auto simp: minus_part_def split: list.splits)

lemma truncated_shape: "sg \<in> {[], ''-''} \<Longrightarrow> takeWhile is_digit u \<noteq> [] \<Longrightarrow> fixed_shape n (truncated n sg u)"
proof -
  assume sg: "sg \<in> {[], ''-''}" and u: "takeWhile is_digit u \<noteq> []"
  let ?f = "case decimals n (dropWhile is_digit u) of None \<Rightarrow> replicate n (CHR ''0'')
      | Some f \<Rightarrow> f @ replicate (n - length f) (CHR ''0'')"
  have "list_all is_digit ?f" "length ?f = n"
    by (auto simp: decimals_def list_all_iff dest!: in_set_takeD set_takeWhileD split: option.splits list.splits if_splits)
  then show ?thesis using sg u list_all_takeWhile [of is_digit u]
    unfolding fixed_shape_def truncated_def by (intro exI [of _ sg] exI [of _ "takeWhile is_digit u"] exI [of _ ?f]) auto
qed

lemma toFixedNoRounding_shape: "fixed_shape 2 (toFixedNoRounding x 2)"
proof (cases "minus_part (num_str x)")
  case (Pair sg u)
  have z: "fixed_shape 2 ''0.00''"
    unfolding fixed_shape_def
    by (intro exI [of _ "[]"] exI [of _ "''0''"] exI [of _ "''00''"]) simp
  show ?thesis
  proof (cases "takeWhile is_digit u = []")
    case True
    then show ?thesis using z Pair by (simp add: toFixedNoRounding_def truncated_def)
  next
    case False
    then show ?thesis using truncated_shape [of sg u 2] minus_part_sign [of "num_str x"] Pair
      by (simp add: toFixedNoRounding_def)
  qed
qed

end
