(* ===== verification/Xml.thy ===== *)
theory Xml
  imports JsValue
begin

text \<open>
  \<open>XMLDocument\<close> (\<open>packages/core/src/xml/document.ts\<close>): path queries and in-place updates on the
  object tree that \<open>fast-xml-parser\<close> produces. The parser and the builder are parameters of the
  functions that call them. In-place mutation of the node at the end of a path is
  \<open>update_at\<close>, which returns the tree with that node replaced.
\<close>

section \<open>Guards and matching\<close>

definition FORBIDDEN_PATH_SEGMENTS :: "string list" where
  "FORBIDDEN_PATH_SEGMENTS = [''__proto__'', ''constructor'', ''prototype'']"

definition isForbiddenSegment :: "string option \<Rightarrow> bool" where
  "isForbiddenSegment seg = (case seg of None \<Rightarrow> False | Some t \<Rightarrow> t \<in> set FORBIDDEN_PATH_SEGMENTS)"

text \<open>
  The walk splits off one segment at a time and stops at an empty rest, so a trailing empty
  segment is not visited.
\<close>

definition raw_segments :: "string \<Rightarrow> string list" where
  "raw_segments path = split_on (CHR ''/'') path"

definition normal_path :: "string list \<Rightarrow> string list" where
  "normal_path ts = (if ts \<noteq> [] \<and> last ts = [] then butlast ts else ts)"

definition segments :: "string \<Rightarrow> string list" where
  "segments path = normal_path (raw_segments path)"

definition pathHasForbiddenSegment :: "string \<Rightarrow> bool" where
  "pathHasForbiddenSegment path = list_ex (\<lambda>t. isForbiddenSegment (Some t)) (raw_segments path)"

definition matchesSubset :: "jsval \<Rightarrow> (string \<times> jsval) list \<Rightarrow> bool" where
  "matchesSubset item partial =
     (is_object item \<and> list_all (\<lambda>(k, v). strict_eq (jget item k) v) partial)"

definition filterByMatchSubset :: "jsval list \<Rightarrow> (string \<times> jsval) list \<Rightarrow> jsval list" where
  "filterByMatchSubset arr predicate = filter (\<lambda>x. matchesSubset x predicate) arr"

definition isEmpty :: "jsval \<Rightarrow> bool" where
  "isEmpty v = (case v of JUndef \<Rightarrow> True | JNull \<Rightarrow> True | JArr xs \<Rightarrow> xs = []
     | JObj ps \<Rightarrow> ps = [] | _ \<Rightarrow> \<not> truthy v)"

section \<open>Walking a path\<close>

text \<open>The result is the node, its parent and the tag under which the parent holds it.\<close>

fun getElement :: "jsval \<Rightarrow> string list \<Rightarrow> jsval \<Rightarrow> string option
    \<Rightarrow> jsval \<times> jsval \<times> string option" where
  "getElement x [] parent last_tag = (x, parent, last_tag)"
| "getElement x (t # path) parent last_tag =
     (if is_nullish x then (JUndef, parent, last_tag)
      else if \<not> is_object x then (JUndef, parent, last_tag)
      else getElement (jget x t) path x (Some t))"

text \<open>In-place change of the node at the end of a path.\<close>

fun update_at :: "string list \<Rightarrow> (jsval \<Rightarrow> jsval) \<Rightarrow> jsval \<Rightarrow> jsval" where
  "update_at [] f x = f x"
| "update_at (t # path) f x = jset x t (update_at path f (jget x t))"

definition node_at :: "jsval \<Rightarrow> string list \<Rightarrow> jsval" where
  "node_at x path = fst (getElement x path JUndef None)"

definition as_list :: "jsval \<Rightarrow> jsval list" where
  "as_list v = (case v of JArr xs \<Rightarrow> xs | _ \<Rightarrow> [v])"

section \<open>The three operations\<close>

text \<open>\<open>get\<close>: \<open>None\<close> stands for \<open>undefined\<close>.\<close>

definition doc_get :: "jsval \<Rightarrow> string \<Rightarrow> (string \<times> jsval) list option \<Rightarrow> jsval list option" where
  "doc_get doc path condition =
     (let x = node_at doc (segments path) in
      if x = JUndef then None
      else (let rs = as_list x;
                qs = (case condition of None \<Rightarrow> rs | Some c \<Rightarrow> filterByMatchSubset rs c)
            in if qs = [] then None else Some qs))"

definition remove_matching :: "jsval \<Rightarrow> string \<Rightarrow> (string \<times> jsval) list option \<Rightarrow> jsval" where
  "remove_matching parent tag condition =
     (case (jget parent tag, condition) of
        (JArr xs, Some c) \<Rightarrow>
          (let filtered = filter (\<lambda>e. \<not> matchesSubset e c) xs in
           if filtered = [] then jdel parent tag else jset parent tag (JArr filtered))
      | _ \<Rightarrow> jdel parent tag)"

definition doc_delete :: "jsval \<Rightarrow> string \<Rightarrow> (string \<times> jsval) list option \<Rightarrow> bool \<times> jsval" where
  "doc_delete doc path condition =
     (if pathHasForbiddenSegment path then (False, doc)
      else (case getElement doc (segments path) JUndef None of (x, parent, last_tag) \<Rightarrow>
        (if x = JUndef then (False, doc)
         else (let rs = as_list x;
                   qs = (case condition of None \<Rightarrow> rs | Some c \<Rightarrow> filterByMatchSubset rs c)
               in if qs = [] then (False, doc)
                  else (case last_tag of None \<Rightarrow> (True, doc)
                    | Some tag \<Rightarrow>
                        (True, update_at (butlast (segments path))
                                 (\<lambda>p. remove_matching p tag condition) doc))))))"

definition put_prop :: "string \<Rightarrow> bool \<Rightarrow> jsval \<Rightarrow> jsval \<Rightarrow> jsval" where
  "put_prop tag overwrite set_xml branch =
     (case jget branch tag of
        JArr xs \<Rightarrow> jset branch tag (if overwrite then set_xml else JArr (xs @ [set_xml]))
      | JUndef \<Rightarrow> jset branch tag set_xml
      | old \<Rightarrow> jset branch tag (if overwrite then set_xml else JArr [old, set_xml]))"

text \<open>
  \<open>set\<close>: the parent path must lead to a non-empty node; a parent that is a primitive makes the
  assignment throw, which the code turns into \<open>false\<close>.
\<close>

definition doc_set :: "jsval \<Rightarrow> string \<Rightarrow> bool \<Rightarrow> jsval \<Rightarrow> bool \<times> jsval" where
  "doc_set doc path overwrite set_xml =
     (if pathHasForbiddenSegment path then (False, doc)
      else (let ts = raw_segments path; tag = last ts; up = normal_path (butlast ts);
                x = node_at doc up in
        (if isEmpty x then (False, doc)
         else if \<not> is_object x then (False, doc)
         else (True, update_at up (put_prop tag overwrite set_xml) doc))))"

text \<open>\<open>toString\<close>: the builder's text, without the declaration if asked, apostrophes restored.\<close>

fun replace_all :: "string \<Rightarrow> string \<Rightarrow> nat \<Rightarrow> string \<Rightarrow> string" where
  "replace_all p r skip [] = []"
| "replace_all p r (Suc n) (c # s) = replace_all p r n s"
| "replace_all p r 0 (c # s) =
     (if p \<noteq> [] \<and> startsWith p (c # s) then r @ replace_all p r (length p - 1) s
      else c # replace_all p r 0 s)"

definition drop_first :: "string \<Rightarrow> string \<Rightarrow> string" where
  "drop_first p s = (case indexOf p s of None \<Rightarrow> s | Some i \<Rightarrow> take i s @ drop (i + length p) s)"

definition doc_toString :: "(jsval \<Rightarrow> string) \<Rightarrow> bool \<Rightarrow> jsval \<Rightarrow> string" where
  "doc_toString build no_header doc =
     (let xml_str = build doc;
          body = (if no_header
                  then drop_first ''<?xml version=\"1.0\" encoding=\"UTF-8\"?>'' xml_str else xml_str)
      in replace_all ''&apos;'' sq 0 body)"

text \<open>The constructor, over the parser: an empty text gives the declaration only.\<close>

definition doc_new :: "(string \<Rightarrow> jsval) \<Rightarrow> string \<Rightarrow> jsval" where
  "doc_new parse xml_str =
     (if xml_str \<noteq> [] then (case parse xml_str of JUndef \<Rightarrow> JObj [] | JNull \<Rightarrow> JObj [] | v \<Rightarrow> v)
      else JObj [(''?xml'', JObj [(''@_version'', JStr ''1.0''), (''@_encoding'', JStr ''UTF-8'')])])"

section \<open>Laws of walking and updating\<close>

named_theorems xml_simps

lemma getElement_node: "fst (getElement x path p l) = node_at x path"
  unfolding node_at_def by (cases path) simp_all

lemma node_at_Nil [simp, xml_simps]: "node_at x [] = x"
  by (simp add: node_at_def)

lemma node_at_Cons [xml_simps]:
  "node_at x (t # path) = (if is_object x then node_at (jget x t) path else JUndef)"
proof -
  have "is_object x \<Longrightarrow> \<not> is_nullish x"
    by (cases x) (simp_all add: is_object_def is_nullish_def)
  then show ?thesis
    using getElement_node [of "jget x t" path x "Some t"] by (simp add: node_at_def)
qed

lemma node_at_append: "node_at x (p @ q) = node_at (node_at x p) q"
proof (induction p arbitrary: x)
  case Nil
  show ?case by simp
next
  case (Cons t p)
  show ?case
  proof (cases "is_object x")
    case True
    then show ?thesis using Cons.IH by (simp add: node_at_Cons)
  next
    case False
    then show ?thesis by (cases q) (simp_all add: node_at_Cons is_object_def)
  qed
qed

lemma jget_jset: "is_object (jget v t) \<Longrightarrow> jget (jset v t y) t = y"
  by (cases v) (auto simp: jget_def jset_def is_object_def arr_get_def update_conv'
      split: option.splits if_splits)

lemma is_object_jset [simp]: "is_object (jset v t y) = is_object v"
  by (cases v) (auto simp: jset_def is_object_def split: option.splits)

lemma node_at_update:
  "is_object (node_at x path) \<Longrightarrow> node_at (update_at path f x) path = f (node_at x path)"
proof (induction path arbitrary: x)
  case Nil
  show ?case by simp
next
  case (Cons t path)
  have obj: "is_object x" and sub: "is_object (node_at (jget x t) path)"
    using Cons.prems by (auto simp: node_at_Cons is_object_def split: if_splits)
  have child: "is_object (jget x t)"
    using sub by (cases path) (auto simp: node_at_Cons is_object_def split: if_splits)
  show ?case
    using Cons.IH [OF sub] obj child by (simp add: node_at_Cons jget_jset)
qed

lemma last_tag_of: "getElement x path p l = (y, q, k) \<Longrightarrow> y \<noteq> JUndef \<Longrightarrow>
    (if path = [] then k = l \<and> q = p else k = Some (last path) \<and> q = node_at x (butlast path))"
proof (induction x path p l arbitrary: y q k rule: getElement.induct)
  case (1 x parent last_tag)
  then show ?case by simp
next
  case (2 x t path parent last_tag)
  have obj: "is_object x" and nn: "\<not> is_nullish x"
    using 2(2,3) by (auto split: if_splits)
  have walk: "getElement (jget x t) path x (Some t) = (y, q, k)"
    using 2(2) obj nn by simp
  show ?case
    using 2(1) [OF nn _ walk 2(3)] obj by (cases path) (auto simp: node_at_Cons split: if_splits)
qed

lemma jget_put_prop_frame:
  "branch = JObj ps \<Longrightarrow> t \<noteq> tag \<Longrightarrow> jget (put_prop tag ow v branch) t = jget branch t"
  by (auto simp: put_prop_def update_conv' split: jsval.splits option.splits)

section \<open>Deleting a child\<close>

text \<open>A tag that is no array index and not \<open>length\<close>; every XML name is one.\<close>

definition plain_tag :: "string \<Rightarrow> bool" where
  "plain_tag t = (index_of t = None \<and> t \<noteq> ''length'')"

lemma jget_jdel: "plain_tag t \<Longrightarrow> jget (jdel v t) u = (if u = t then JUndef else jget v u)"
  by (cases v) (auto simp: jget_def jdel_def plain_tag_def arr_get_def delete_conv' split: option.splits)

lemma jget_jset_other: "plain_tag t \<Longrightarrow> u \<noteq> t \<Longrightarrow> jget (jset v t x) u = jget v u"
  by (cases v) (auto simp: jget_def jset_def plain_tag_def arr_get_def update_conv' split: option.splits)

lemma remove_matching_frame: "plain_tag t \<Longrightarrow> u \<noteq> t \<Longrightarrow> jget (remove_matching v t c) u = jget v u"
  by (auto simp: remove_matching_def jget_jdel jget_jset_other Let_def split: jsval.splits option.splits)

lemma is_object_jdel [simp]: "is_object (jdel v t) = is_object v"
  by (cases v) (auto simp: jdel_def is_object_def split: option.splits)

lemma is_object_remove [simp]: "is_object (remove_matching v t c) = is_object v"
  by (auto simp: remove_matching_def Let_def split: jsval.splits option.splits)

lemma jget_jset_array: "plain_tag t \<Longrightarrow> jget v t = JArr xs \<Longrightarrow> jget (jset v t x) t = x"
  by (cases v) (auto simp: jget_def jset_def plain_tag_def arr_get_def split: option.splits)

text \<open>What is left under the tag.\<close>

lemma remove_matching_None: "plain_tag t \<Longrightarrow> jget (remove_matching v t None) t = JUndef"
  by (simp add: remove_matching_def jget_jdel split: jsval.splits)

definition no_match :: "jsval \<Rightarrow> (string \<times> jsval) list \<Rightarrow> bool" where
  "no_match x c = (x = JUndef \<or> filterByMatchSubset (as_list x) c = [])"

lemma remove_matching_Some: "plain_tag t \<Longrightarrow> no_match (jget (remove_matching v t (Some c)) t) c"
  by (auto simp: remove_matching_def jget_jdel jget_jset_array no_match_def Let_def as_list_def
      filterByMatchSubset_def split: jsval.splits)

text \<open>A document after deleting the child \<open>t\<close> of its element \<open>a\<close>.\<close>

lemma node_two: "node_at doc [a, t] = (if is_object doc \<and> is_object (jget doc a) then jget (jget doc a) t else JUndef)"
  by (simp add: node_at_Cons)

lemma doc_delete_two:
  assumes "segments path = [a, t]" "\<not> pathHasForbiddenSegment path"
  shows "snd (doc_delete doc path c) =
    (let x = node_at doc [a, t]; qs = (case c of None \<Rightarrow> as_list x | Some c \<Rightarrow> filterByMatchSubset (as_list x) c)
     in if x = JUndef \<or> qs = [] then doc else jset doc a (remove_matching (jget doc a) t c))"
proof (cases "node_at doc [a, t] = JUndef")
  case True
  then show ?thesis using assms getElement_node [of doc "[a, t]" JUndef None]
    by (auto simp: doc_delete_def split: prod.split)
next
  case False
  obtain p k where g: "getElement doc [a, t] JUndef None = (node_at doc [a, t], p, k)"
    using getElement_node [of doc "[a, t]" JUndef None] by (metis prod.collapse)
  have "k = Some t" using last_tag_of [OF g] False by simp
  then show ?thesis using assms g False
    by (auto simp: doc_delete_def Let_def split: option.split)
qed

lemma delete_child_frame:
  assumes "segments path = [a, t]" "\<not> pathHasForbiddenSegment path" "plain_tag t" "u \<noteq> t"
  shows "node_at (snd (doc_delete doc path c)) [a, u] = node_at doc [a, u]"
proof (cases "is_object (jget doc a)")
  case True
  then show ?thesis using assms(3,4)
    by (auto simp: doc_delete_two [OF assms(1,2)] node_two Let_def jget_jset remove_matching_frame)
next
  case False
  then have "node_at doc [a, t] = JUndef" by (simp add: node_two)
  then show ?thesis by (simp add: doc_delete_two [OF assms(1,2)])
qed

lemma delete_child_None:
  assumes "segments path = [a, t]" "\<not> pathHasForbiddenSegment path" "plain_tag t"
  shows "node_at (snd (doc_delete doc path None)) [a, t] = JUndef \<or>
    node_at (snd (doc_delete doc path None)) [a, t] = JArr []"
proof (cases "is_object (jget doc a)")
  case True
  then show ?thesis using assms(3)
    by (auto simp: doc_delete_two [OF assms(1,2)] node_two Let_def jget_jset remove_matching_None as_list_def
        split: jsval.splits)
next
  case False
  then have "node_at doc [a, t] = JUndef" by (simp add: node_two)
  then show ?thesis by (simp add: doc_delete_two [OF assms(1,2)])
qed

lemma delete_child_Some:
  assumes "segments path = [a, t]" "\<not> pathHasForbiddenSegment path" "plain_tag t"
  shows "no_match (node_at (snd (doc_delete doc path (Some c))) [a, t]) c"
proof (cases "is_object (jget doc a)")
  case True
  then show ?thesis using assms(3)
    by (auto simp: doc_delete_two [OF assms(1,2)] node_two Let_def jget_jset remove_matching_Some no_match_def)
      (metis no_match_def remove_matching_Some)+
next
  case False
  then have "node_at doc [a, t] = JUndef" by (simp add: node_two)
  then show ?thesis by (simp add: doc_delete_two [OF assms(1,2)] no_match_def)
qed

lemma no_match_get: "segments path = p \<Longrightarrow> no_match (node_at doc p) c \<Longrightarrow> doc_get doc path (Some c) = None"
  by (auto simp: doc_get_def no_match_def Let_def)

end
