(* ===== verification/Templates.thy ===== *)
theory Templates
  imports Types
begin

text \<open>
  The UBL templates and the functions that fill them (\<open>core/src/templates/\<close>, and the copies of the
  signature templates in \<open>core/src/crypto/sign.ts\<close>). A template is a list of literal pieces and
  \<open>SET_*\<close> tokens whose concatenation is the text in the code; filling it is the code's chain of
  \<open>String.prototype.replace\<close> calls, with JavaScript's reading of \<open>$\<close> in the replacement.
\<close>

section \<open>\<open>String.prototype.replace\<close> with a string pattern\<close>

fun expand_dollar :: "string \<Rightarrow> string \<Rightarrow> string \<Rightarrow> string \<Rightarrow> string" where
  "expand_dollar pre m post [] = []"
| "expand_dollar pre m post [c] = [c]"
| "expand_dollar pre m post (c # d # s) =
     (if c \<noteq> CHR ''$'' then c # expand_dollar pre m post (d # s)
      else if d = CHR ''$'' then CHR ''$'' # expand_dollar pre m post s
      else if d = CHR ''&'' then m @ expand_dollar pre m post s
      else if d = CHR 0x60 then pre @ expand_dollar pre m post s
      else if d = CHR 0x27 then post @ expand_dollar pre m post s
      else c # expand_dollar pre m post (d # s))"

definition js_replace :: "string \<Rightarrow> string \<Rightarrow> string \<Rightarrow> string" where
  "js_replace tok repl s = (case indexOf tok s of None \<Rightarrow> s
     | Some i \<Rightarrow> take i s @ expand_dollar (take i s) tok (drop (i + length tok) s) repl
         @ drop (i + length tok) s)"

section \<open>The templates\<close>

datatype piece = Lit string | Tok string

fun piece_str :: "piece \<Rightarrow> string" where
  "piece_str (Lit s) = s"
| "piece_str (Tok t) = t"

definition render :: "piece list \<Rightarrow> string" where
  "render ps = concat (map piece_str ps)"

definition ubl_head :: "piece list" where
  \<open>ubl_head = [Lit ''
<?xml version="1.0" encoding="UTF-8"?>'',
   Lit ''
<Invoice xmlns="urn:oasis:names:specification:ubl:schema:xsd:Invoice-2" xmlns:cac="urn:oasis:names:specification:ubl:schema:xsd:CommonAggregateComponents-2" xmlns:cbc="urn:oasis:names:specification:ubl:schema:xsd:CommonBasicComponents-2" xmlns:ext="urn:oasis:names:specification:ubl:schema:xsd:CommonExtensionComponents-2"><ext:UBLExtensions>'',
   Tok ''SET_UBL_EXTENSIONS_STRING'',
   Lit ''</ext:UBLExtensions>'',
   Lit ''
'',
   Lit ''
    <cbc:ProfileID>reporting:1.0</cbc:ProfileID>'',
   Lit ''
    <cbc:ID>'',
   Tok ''SET_INVOICE_SERIAL_NUMBER'',
   Lit ''</cbc:ID>'',
   Lit ''
    <cbc:UUID>'',
   Tok ''SET_TERMINAL_UUID'',
   Lit ''</cbc:UUID>'',
   Lit ''
    <cbc:IssueDate>'',
   Tok ''SET_ISSUE_DATE'',
   Lit ''</cbc:IssueDate>'',
   Lit ''
    <cbc:IssueTime>'',
   Tok ''SET_ISSUE_TIME'',
   Lit ''</cbc:IssueTime>'',
   Lit ''
    <cbc:InvoiceTypeCode name="'']\<close>

definition ubl_body :: "piece list" where
  \<open>ubl_body = [Lit ''">'',
   Tok ''SET_INVOICE_TYPE'',
   Lit ''</cbc:InvoiceTypeCode>'',
   Lit ''
    <cbc:DocumentCurrencyCode>SAR</cbc:DocumentCurrencyCode>'',
   Lit ''
    <cbc:TaxCurrencyCode>SAR</cbc:TaxCurrencyCode>'',
   Lit ''
    '',
   Tok ''SET_BILLING_REFERENCE'',
   Lit ''
    <cac:AdditionalDocumentReference>'',
   Lit ''
        <cbc:ID>ICV</cbc:ID>'',
   Lit ''
        <cbc:UUID>'',
   Tok ''SET_INVOICE_COUNTER_NUMBER'',
   Lit ''</cbc:UUID>'',
   Lit ''
    </cac:AdditionalDocumentReference>'',
   Lit ''
    <cac:AdditionalDocumentReference>'',
   Lit ''
        <cbc:ID>PIH</cbc:ID>'',
   Lit ''
        <cac:Attachment>'',
   Lit ''
            <cbc:EmbeddedDocumentBinaryObject mimeCode="text/plain">'',
   Tok ''SET_PREVIOUS_INVOICE_HASH'',
   Lit ''</cbc:EmbeddedDocumentBinaryObject>'',
   Lit ''
        </cac:Attachment>'',
   Lit ''
    </cac:AdditionalDocumentReference>'',
   Lit ''
    <cac:AdditionalDocumentReference>'',
   Lit ''
        <cbc:ID>QR</cbc:ID>'',
   Lit ''
        <cac:Attachment>'',
   Lit ''
            <cbc:EmbeddedDocumentBinaryObject mimeCode="text/plain">'',
   Tok ''SET_QR_CODE_DATA'',
   Lit ''</cbc:EmbeddedDocumentBinaryObject>'',
   Lit ''
        </cac:Attachment>'',
   Lit ''
    </cac:AdditionalDocumentReference>'',
   Lit ''
    <cac:Signature>'',
   Lit ''
        <cbc:ID>urn:oasis:names:specification:ubl:signature:Invoice</cbc:ID>'',
   Lit ''
        <cbc:SignatureMethod>urn:oasis:names:specification:ubl:dsig:enveloped:xades</cbc:SignatureMethod>'',
   Lit ''
    </cac:Signature>'',
   Lit ''
    <cac:AccountingSupplierParty>'',
   Lit ''
    <cac:Party>'',
   Lit ''
      <cac:PartyIdentification>'',
   Lit ''
        <cbc:ID schemeID="CRN">'',
   Tok ''SET_COMMERCIAL_REGISTRATION_NUMBER'',
   Lit ''</cbc:ID>'',
   Lit ''
      </cac:PartyIdentification>'',
   Lit ''
      <cac:PostalAddress>'',
   Lit ''
        <cbc:StreetName>'',
   Tok ''SET_STREET_NAME'',
   Lit ''</cbc:StreetName>'',
   Lit ''
        <cbc:BuildingNumber>'',
   Tok ''SET_BUILDING_NUMBER'',
   Lit ''</cbc:BuildingNumber>'',
   Lit ''
        <cbc:PlotIdentification>'',
   Tok ''SET_PLOT_IDENTIFICATION'',
   Lit ''</cbc:PlotIdentification>'',
   Lit ''
        <cbc:CitySubdivisionName>'',
   Tok ''SET_CITY_SUBDIVISION'',
   Lit ''</cbc:CitySubdivisionName>'',
   Lit ''
        <cbc:CityName>'',
   Tok ''SET_CITY'',
   Lit ''</cbc:CityName>'',
   Lit ''
        <cbc:PostalZone>'',
   Tok ''SET_POSTAL_NUMBER'',
   Lit ''</cbc:PostalZone>'',
   Lit ''
        <cac:Country>'',
   Lit ''
          <cbc:IdentificationCode>SA</cbc:IdentificationCode>'',
   Lit ''
        </cac:Country>'',
   Lit ''
      </cac:PostalAddress>'',
   Lit ''
      <cac:PartyTaxScheme>'',
   Lit ''
        <cbc:CompanyID>'',
   Tok ''SET_VAT_NUMBER'',
   Lit ''</cbc:CompanyID>'',
   Lit ''
        <cac:TaxScheme>'',
   Lit ''
          <cbc:ID>VAT</cbc:ID>'',
   Lit ''
        </cac:TaxScheme>'',
   Lit ''
      </cac:PartyTaxScheme>'',
   Lit ''
      <cac:PartyLegalEntity>'',
   Lit ''
        <cbc:RegistrationName>'',
   Tok ''SET_VAT_NAME'',
   Lit ''</cbc:RegistrationName>'',
   Lit ''
      </cac:PartyLegalEntity>'',
   Lit ''
    </cac:Party>'',
   Lit ''
  </cac:AccountingSupplierParty>'',
   Lit ''
  <cac:AccountingCustomerParty>'']\<close>

definition ubl_tail :: "piece list" where
  \<open>ubl_tail = [Lit ''</cac:AccountingCustomerParty>'',
   Lit ''
</Invoice>'',
   Lit ''
'']\<close>

definition billing_reference_template :: "piece list" where
  \<open>billing_reference_template = [Lit ''
<cac:BillingReference>'',
   Lit ''
    <cac:InvoiceDocumentReference>'',
   Lit ''
        <cbc:ID>'',
   Tok ''SET_CANCELED_INVOICE_NUMBER'',
   Lit ''</cbc:ID>'',
   Lit ''
    </cac:InvoiceDocumentReference>'',
   Lit ''
</cac:BillingReference>'',
   Lit ''
'']\<close>

definition ubl_extension_template :: "piece list" where
  \<open>ubl_extension_template = [Lit ''
    <ext:UBLExtension>'',
   Lit ''
        <ext:ExtensionURI>urn:oasis:names:specification:ubl:dsig:enveloped:xades</ext:ExtensionURI>'',
   Lit ''
        <ext:ExtensionContent>'',
   Lit ''
            <sig:UBLDocumentSignatures'',
   Lit ''
                    xmlns:sac="urn:oasis:names:specification:ubl:schema:xsd:SignatureAggregateComponents-2"'',
   Lit ''
                    xmlns:sbc="urn:oasis:names:specification:ubl:schema:xsd:SignatureBasicComponents-2"'',
   Lit ''
                    xmlns:sig="urn:oasis:names:specification:ubl:schema:xsd:CommonSignatureComponents-2">'',
   Lit ''
                <sac:SignatureInformation>'',
   Lit ''
                    <cbc:ID>urn:oasis:names:specification:ubl:signature:1</cbc:ID>'',
   Lit ''
                    <sbc:ReferencedSignatureID>urn:oasis:names:specification:ubl:signature:Invoice</sbc:ReferencedSignatureID>'',
   Lit ''
                    <ds:Signature Id="signature" xmlns:ds="http://www.w3.org/2000/09/xmldsig#">'',
   Lit ''
                        <ds:SignedInfo>'',
   Lit ''
                            <ds:CanonicalizationMethod'',
   Lit ''
                                    Algorithm="http://www.w3.org/2006/12/xml-c14n11"/>'',
   Lit ''
                            <ds:SignatureMethod'',
   Lit ''
                                    Algorithm="http://www.w3.org/2001/04/xmldsig-more#ecdsa-sha256"/>'',
   Lit ''
                            <ds:Reference Id="invoiceSignedData" URI="">'',
   Lit ''
                                <ds:Transforms>'',
   Lit ''
                                    <ds:Transform'',
   Lit ''
                                            Algorithm="http://www.w3.org/TR/1999/REC-xpath-19991116">'',
   Lit ''
                                        <ds:XPath>not(//ancestor-or-self::ext:UBLExtensions)</ds:XPath>'',
   Lit ''
                                    </ds:Transform>'',
   Lit ''
                                    <ds:Transform'',
   Lit ''
                                            Algorithm="http://www.w3.org/TR/1999/REC-xpath-19991116">'',
   Lit ''
                                        <ds:XPath>not(//ancestor-or-self::cac:Signature)</ds:XPath>'',
   Lit ''
                                    </ds:Transform>'',
   Lit ''
                                    <ds:Transform'',
   Lit ''
                                            Algorithm="http://www.w3.org/TR/1999/REC-xpath-19991116">'',
   Lit ''
                                        <ds:XPath>not(//ancestor-or-self::cac:AdditionalDocumentReference[cbc:ID='QR'])</ds:XPath>'',
   Lit ''
                                    </ds:Transform>'',
   Lit ''
                                    <ds:Transform'',
   Lit ''
                                            Algorithm="http://www.w3.org/2006/12/xml-c14n11"/>'',
   Lit ''
                                </ds:Transforms>'',
   Lit ''
                                <ds:DigestMethod'',
   Lit ''
                                        Algorithm="http://www.w3.org/2001/04/xmlenc#sha256"/>'',
   Lit ''
                                <ds:DigestValue>'',
   Tok ''SET_INVOICE_HASH'',
   Lit ''</ds:DigestValue>'',
   Lit ''
                            </ds:Reference>'',
   Lit ''
                            <ds:Reference'',
   Lit ''
                                    Type="http://www.w3.org/2000/09/xmldsig#SignatureProperties"'',
   Lit ''
                                    URI="#xadesSignedProperties">'',
   Lit ''
                                <ds:DigestMethod'',
   Lit ''
                                        Algorithm="http://www.w3.org/2001/04/xmlenc#sha256"/>'',
   Lit ''
                                <ds:DigestValue>'',
   Tok ''SET_SIGNED_PROPERTIES_HASH'',
   Lit ''</ds:DigestValue>'',
   Lit ''
                            </ds:Reference>'',
   Lit ''
                        </ds:SignedInfo>'',
   Lit ''
                        <ds:SignatureValue>'',
   Tok ''SET_DIGITAL_SIGNATURE'',
   Lit ''</ds:SignatureValue>'',
   Lit ''
                        <ds:KeyInfo>'',
   Lit ''
                            <ds:X509Data>'',
   Lit ''
                                <ds:X509Certificate>'',
   Tok ''SET_CERTIFICATE'',
   Lit ''</ds:X509Certificate>'',
   Lit ''
                            </ds:X509Data>'',
   Lit ''
                        </ds:KeyInfo>'',
   Lit ''
                        <ds:Object>'',
   Lit ''
                            <xades:QualifyingProperties Target="signature"'',
   Lit ''
                                                        xmlns:xades="http://uri.etsi.org/01903/v1.3.2#">'',
   Lit ''
                                '',
   Tok ''SET_SIGNED_PROPERTIES_XML'',
   Lit ''
                            </xades:QualifyingProperties>'',
   Lit ''
                        </ds:Object>'',
   Lit ''
                    </ds:Signature>'',
   Lit ''
                </sac:SignatureInformation>'',
   Lit ''
            </sig:UBLDocumentSignatures>'',
   Lit ''
        </ext:ExtensionContent>'',
   Lit ''
    </ext:UBLExtension>'']\<close>

definition signed_properties_for_signing :: "piece list" where
  \<open>signed_properties_for_signing = [Lit ''<xades:SignedProperties xmlns:xades="http://uri.etsi.org/01903/v1.3.2#" Id="xadesSignedProperties">'',
   Lit ''
                                    <xades:SignedSignatureProperties>'',
   Lit ''
                                        <xades:SigningTime>'',
   Tok ''SET_SIGN_TIMESTAMP'',
   Lit ''</xades:SigningTime>'',
   Lit ''
                                        <xades:SigningCertificate>'',
   Lit ''
                                            <xades:Cert>'',
   Lit ''
                                                <xades:CertDigest>'',
   Lit ''
                                                    <ds:DigestMethod xmlns:ds="http://www.w3.org/2000/09/xmldsig#" Algorithm="http://www.w3.org/2001/04/xmlenc#sha256"/>'',
   Lit ''
                                                    <ds:DigestValue xmlns:ds="http://www.w3.org/2000/09/xmldsig#">'',
   Tok ''SET_CERTIFICATE_HASH'',
   Lit ''</ds:DigestValue>'',
   Lit ''
                                                </xades:CertDigest>'',
   Lit ''
                                                <xades:IssuerSerial>'',
   Lit ''
                                                    <ds:X509IssuerName xmlns:ds="http://www.w3.org/2000/09/xmldsig#">'',
   Tok ''SET_CERTIFICATE_ISSUER'',
   Lit ''</ds:X509IssuerName>'',
   Lit ''
                                                    <ds:X509SerialNumber xmlns:ds="http://www.w3.org/2000/09/xmldsig#">'',
   Tok ''SET_CERTIFICATE_SERIAL_NUMBER'',
   Lit ''</ds:X509SerialNumber>'',
   Lit ''
                                                </xades:IssuerSerial>'',
   Lit ''
                                            </xades:Cert>'',
   Lit ''
                                        </xades:SigningCertificate>'',
   Lit ''
                                    </xades:SignedSignatureProperties>'',
   Lit ''
                                </xades:SignedProperties>'']\<close>

definition signed_properties_for_output :: "piece list" where
  \<open>signed_properties_for_output = [Lit ''<xades:SignedProperties xmlns:xades="http://uri.etsi.org/01903/v1.3.2#" Id="xadesSignedProperties">'',
   Lit ''
                                <xades:SignedSignatureProperties>'',
   Lit ''
                                    <xades:SigningTime>'',
   Tok ''SET_SIGN_TIMESTAMP'',
   Lit ''</xades:SigningTime>'',
   Lit ''
                                    <xades:SigningCertificate>'',
   Lit ''
                                        <xades:Cert>'',
   Lit ''
                                            <xades:CertDigest>'',
   Lit ''
                                                <ds:DigestMethod Algorithm="http://www.w3.org/2001/04/xmlenc#sha256"></ds:DigestMethod>'',
   Lit ''
                                                <ds:DigestValue>'',
   Tok ''SET_CERTIFICATE_HASH'',
   Lit ''</ds:DigestValue>'',
   Lit ''
                                            </xades:CertDigest>'',
   Lit ''
                                            <xades:IssuerSerial>'',
   Lit ''
                                                <ds:X509IssuerName>'',
   Tok ''SET_CERTIFICATE_ISSUER'',
   Lit ''</ds:X509IssuerName>'',
   Lit ''
                                                <ds:X509SerialNumber>'',
   Tok ''SET_CERTIFICATE_SERIAL_NUMBER'',
   Lit ''</ds:X509SerialNumber>'',
   Lit ''
                                            </xades:IssuerSerial>'',
   Lit ''
                                        </xades:Cert>'',
   Lit ''
                                    </xades:SigningCertificate>'',
   Lit ''
                                </xades:SignedSignatureProperties>'',
   Lit ''
                            </xades:SignedProperties>'']\<close>

definition replace_seq :: "(string \<times> string) list \<Rightarrow> string \<Rightarrow> string" where
  "replace_seq rs s = foldl (\<lambda>u (tok, v). js_replace tok v u) s rs"

text \<open>
  The six templates differ in the subtype of \<open>cbc:InvoiceTypeCode\<close> and in the customer party.
\<close>

definition invoice_template :: "string \<Rightarrow> piece list \<Rightarrow> piece list" where
  "invoice_template subtype customer = ubl_head @ [Lit subtype] @ ubl_body @ customer @ ubl_tail"

definition generateInvoiceBillingReference :: "num64 \<Rightarrow> string" where
  "generateInvoiceBillingReference n =
     js_replace ''SET_CANCELED_INVOICE_NUMBER'' (num_str n) (render billing_reference_template)"

definition invoice_type :: "string \<Rightarrow> InvoiceInput \<Rightarrow> string" where
  "invoice_type dflt input = (case cancelation input of
     None \<Rightarrow> dflt | Some c \<Rightarrow> cancelationType c)"

definition billing_reference :: "InvoiceInput \<Rightarrow> string" where
  "billing_reference input = (case cancelation input of
     None \<Rightarrow> [] | Some c \<Rightarrow> generateInvoiceBillingReference (canceledInvoiceNumber c))"

text \<open>The replacements that all six chains make, in their order.\<close>

definition common_values :: "string \<Rightarrow> InvoiceInput \<Rightarrow> (string \<times> string) list" where
  "common_values dflt input = (let egs = inv_egsInfo input; loc = egs_location egs in
     [(''SET_INVOICE_TYPE'', invoice_type dflt input),
      (''SET_BILLING_REFERENCE'', billing_reference input),
      (''SET_INVOICE_SERIAL_NUMBER'', invoiceSerialNumber input),
      (''SET_TERMINAL_UUID'', egs_uuid egs),
      (''SET_ISSUE_DATE'', issueDate input),
      (''SET_ISSUE_TIME'', issueTime input),
      (''SET_PREVIOUS_INVOICE_HASH'', inv_previousInvoiceHash input),
      (''SET_INVOICE_COUNTER_NUMBER'', int_str (invoiceCounterNumber input)),
      (''SET_COMMERCIAL_REGISTRATION_NUMBER'', egs_crnNumber egs),
      (''SET_STREET_NAME'', loc_street loc),
      (''SET_BUILDING_NUMBER'', loc_building loc),
      (''SET_PLOT_IDENTIFICATION'', loc_plotIdentification loc),
      (''SET_CITY_SUBDIVISION'', loc_citySubdivision loc),
      (''SET_CITY'', loc_cityName loc),
      (''SET_POSTAL_NUMBER'', loc_postalZone loc),
      (''SET_VAT_NUMBER'', egs_vatNumber egs),
      (''SET_VAT_NAME'', egs_vatName egs)])"

definition buyer_fragment :: "InvoiceInput \<Rightarrow> string" where
  \<open>buyer_fragment input = (case buyerName input of None \<Rightarrow> []
     | Some n \<Rightarrow> if n = [] then [] else ''
    <cac:Party>
      <cac:PartyLegalEntity>
        <cbc:RegistrationName>'' @ n @ ''</cbc:RegistrationName>
      </cac:PartyLegalEntity>
    </cac:Party>'')\<close>

definition SIMPLIFIED_TAX_INVOICE :: "piece list" where
  "SIMPLIFIED_TAX_INVOICE = invoice_template ''0211010'' [Tok ''SET_BUYER_INFO'']"
definition STANDARD_TEMPLATE :: "piece list" where
  "STANDARD_TEMPLATE = invoice_template ''0100000'' []"
definition SIMPLIFIED_NOTE_TEMPLATE :: "piece list" where
  "SIMPLIFIED_NOTE_TEMPLATE = invoice_template ''0200000'' []"

definition populateSimplifiedTaxInvoiceTemplate :: "InvoiceInput \<Rightarrow> string" where
  "populateSimplifiedTaxInvoiceTemplate input =
     replace_seq (common_values ''388'' input @ [(''SET_BUYER_INFO'', buyer_fragment input)])
       (render SIMPLIFIED_TAX_INVOICE)"

definition populateStandardTaxInvoiceTemplate :: "InvoiceInput \<Rightarrow> string" where
  "populateStandardTaxInvoiceTemplate input =
     replace_seq (common_values ''388'' input) (render STANDARD_TEMPLATE)"

definition populateSimplifiedCreditNoteTemplate :: "InvoiceInput \<Rightarrow> string" where
  "populateSimplifiedCreditNoteTemplate input =
     replace_seq (common_values ''388'' input) (render SIMPLIFIED_NOTE_TEMPLATE)"

definition populateStandardCreditNoteTemplate :: "InvoiceInput \<Rightarrow> string" where
  "populateStandardCreditNoteTemplate input =
     replace_seq (common_values ''388'' input) (render STANDARD_TEMPLATE)"

definition populateSimplifiedDebitNoteTemplate :: "InvoiceInput \<Rightarrow> string" where
  "populateSimplifiedDebitNoteTemplate input =
     replace_seq (common_values ''383'' input) (render SIMPLIFIED_NOTE_TEMPLATE)"

definition populateStandardDebitNoteTemplate :: "InvoiceInput \<Rightarrow> string" where
  "populateStandardDebitNoteTemplate input =
     replace_seq (common_values ''383'' input) (render STANDARD_TEMPLATE)"

section \<open>The signature templates\<close>

record SignedPropertiesProps =
  sign_timestamp :: string
  certificate_hash :: string
  certificate_issuer :: string
  certificate_serial_number :: string

definition populateSignedProperties :: "piece list \<Rightarrow> SignedPropertiesProps \<Rightarrow> string" where
  "populateSignedProperties template props = replace_seq
     [(''SET_SIGN_TIMESTAMP'', sign_timestamp props),
      (''SET_CERTIFICATE_HASH'', certificate_hash props),
      (''SET_CERTIFICATE_ISSUER'', certificate_issuer props),
      (''SET_CERTIFICATE_SERIAL_NUMBER'', certificate_serial_number props)] (render template)"

definition populateSignedPropertiesForSigning :: "SignedPropertiesProps \<Rightarrow> string" where
  "populateSignedPropertiesForSigning = populateSignedProperties signed_properties_for_signing"

definition populateSignedPropertiesForOutput :: "SignedPropertiesProps \<Rightarrow> string" where
  "populateSignedPropertiesForOutput = populateSignedProperties signed_properties_for_output"

record UblExtensionParams =
  ext_invoice_hash :: string
  ext_signed_properties_hash :: string
  ext_digital_signature :: string
  ext_certificate_string :: string
  ext_signed_properties_xml :: string

definition populateUBLSignExtension :: "UblExtensionParams \<Rightarrow> string" where
  "populateUBLSignExtension p = replace_seq
     [(''SET_INVOICE_HASH'', ext_invoice_hash p),
      (''SET_SIGNED_PROPERTIES_HASH'', ext_signed_properties_hash p),
      (''SET_DIGITAL_SIGNATURE'', ext_digital_signature p),
      (''SET_CERTIFICATE'', ext_certificate_string p),
      (''SET_SIGNED_PROPERTIES_XML'', ext_signed_properties_xml p)] (render ubl_extension_template)"

section \<open>What a chain of replacements computes\<close>

text \<open>The template with the tokens in \<open>\<sigma>\<close> replaced and the others left.\<close>

fun fill :: "(string \<Rightarrow> string option) \<Rightarrow> piece list \<Rightarrow> string" where
  "fill \<sigma> [] = []"
| "fill \<sigma> (Lit s # ps) = s @ fill \<sigma> ps"
| "fill \<sigma> (Tok t # ps) = (case \<sigma> t of None \<Rightarrow> t | Some v \<Rightarrow> v) @ fill \<sigma> ps"

definition token_char :: "char \<Rightarrow> bool" where
  "token_char c = (is_upper c \<or> c = CHR ''_'')"

fun set_free :: "string \<Rightarrow> bool" where
  "set_free [] = True"
| "set_free (c # s) = (if c = CHR ''S'' \<and> startsWith ''ET_'' s then False else set_free s)"

lemma set_free_Cons: "set_free (c # s) \<longleftrightarrow> \<not> startsWith ''SET_'' (c # s) \<and> set_free s"
  by (auto simp: startsWith_def)

definition good_lit :: "string \<Rightarrow> bool" where
  "good_lit l = (l \<noteq> [] \<and> \<not> token_char (hd l) \<and> \<not> token_char (last l) \<and> set_free l)"

definition good_tok :: "string \<Rightarrow> bool" where
  "good_tok t = (startsWith ''SET_'' t \<and> list_all token_char t \<and> set_free (tl t))"

text \<open>Literals and tokens alternate; a literal comes first and last.\<close>

fun good_template :: "piece list \<Rightarrow> bool" where
  "good_template [Lit l] = good_lit l"
| "good_template (Lit l # Lit m # ps) = (good_lit l \<and> good_template (Lit m # ps))"
| "good_template (Lit l # Tok t # ps) = (good_lit l \<and> good_tok t \<and> good_template ps)"
| "good_template _ = False"

fun tokens :: "piece list \<Rightarrow> string list" where
  "tokens [] = []"
| "tokens (Lit _ # ps) = tokens ps"
| "tokens (Tok t # ps) = t # tokens ps"

definition plain_value :: "string \<Rightarrow> bool" where
  "plain_value v = (set_free v \<and> CHR ''$'' \<notin> set v)"

lemma render_fill: "render ps = fill Map.empty ps"
  unfolding render_def by (induction ps rule: tokens.induct) auto

lemma expand_plain: "CHR ''$'' \<notin> set v \<Longrightarrow> expand_dollar pre m post v = v"
  by (induction pre m post v rule: expand_dollar.induct) auto

text \<open>No occurrence of \<open>t\<close> starts inside \<open>x\<close> when \<open>y\<close> follows.\<close>

definition no_start :: "string \<Rightarrow> string \<Rightarrow> string \<Rightarrow> bool" where
  "no_start t x y = (\<forall>i < length x. \<not> startsWith t (drop i x @ y))"

lemma indexOf_skip: "no_start t x y \<Longrightarrow> t \<noteq> [] \<Longrightarrow>
    indexOf t (x @ y) = map_option ((+) (length x)) (indexOf t y)"
proof (induction x)
  case Nil
  then show ?case by (simp add: option.map_ident)
next
  case (Cons c x)
  have "no_start t x y"
    unfolding no_start_def
  proof (intro allI impI)
    fix i assume "i < length x"
    then show "\<not> startsWith t (drop i x @ y)"
      using Cons.prems(1) unfolding no_start_def by (metis Suc_less_eq drop_Suc_Cons length_Cons)
  qed
  moreover have "\<not> startsWith t (c # x @ y)"
    using Cons.prems(1) unfolding no_start_def by (metis append_Cons drop0 length_greater_0_conv list.distinct(1))
  ultimately show ?case using Cons by (simp add: option.map_comp comp_def)
qed

lemma js_replace_skip:
  assumes "no_start t x y" "t \<noteq> []" "CHR ''$'' \<notin> set v"
  shows "js_replace t v (x @ y) = x @ js_replace t v y"
  using assms by (cases "indexOf t y") (simp_all add: js_replace_def indexOf_skip expand_plain)

lemma startsWith_refl: "startsWith t (t @ s)"
  by (simp add: startsWith_def)

lemma indexOf_here: "t \<noteq> [] \<Longrightarrow> startsWith t s \<Longrightarrow> indexOf t s = Some 0"
  by (cases s) (auto simp: startsWith_def)

lemma js_replace_here:
  assumes "t \<noteq> []" "CHR ''$'' \<notin> set v"
  shows "js_replace t v (t @ y) = v @ y"
  using indexOf_here [OF assms(1) startsWith_refl] assms(2) by (simp add: js_replace_def expand_plain)

lemma set_free_drop: "set_free s \<Longrightarrow> set_free (drop i s)"
proof (induction s arbitrary: i)
  case (Cons c s)
  then show ?case by (cases i) (auto simp: set_free_Cons simp del: set_free.simps)
qed simp

lemma set_free_start: "set_free s \<Longrightarrow> startsWith ''SET_'' t \<Longrightarrow> \<not> startsWith t s"
proof
  assume s: "set_free s" and t: "startsWith ''SET_'' t" and st: "startsWith t s"
  from t have "take 4 t = ''SET_''" by (simp add: startsWith_def numeral_eq_Suc)
  moreover from this have "length (take 4 t) = 4" by simp
  then have "4 \<le> length t" by simp
  moreover from st have "take (length t) s = t" by (simp add: startsWith_def)
  ultimately have "take 4 s = ''SET_''" by (metis min.absorb1 take_take)
  with s show False by (cases s) (auto simp: startsWith_def numeral_eq_Suc)
qed

text \<open>A text free of \<open>SET_\<close> followed by a character outside tokens holds no start of a token.\<close>

lemma no_start_free:
  assumes "set_free x" "startsWith ''SET_'' t" "list_all token_char t" "y \<noteq> []" "\<not> token_char (hd y)"
  shows "no_start t x y"
  unfolding no_start_def
proof (intro allI impI notI)
  fix i assume i: "i < length x" and st: "startsWith t (drop i x @ y)"
  show False
  proof (cases "length t \<le> length (drop i x)")
    case True
    then have "startsWith t (drop i x)" using st by (simp add: startsWith_def)
    then show False using assms(1,2) set_free_drop set_free_start by blast
  next
    case False
    then have "length (drop i x) < length t" by simp
    moreover from st have "take (length t) (drop i x @ y) = t" by (simp add: startsWith_def)
    ultimately have "t = drop i x @ hd y # tl (take (length t - length (drop i x)) y)"
      using assms(4) by (metis (no_types, lifting) hd_take list.collapse take_all_iff take_append
          take_eq_Nil verit_comp_simplify1(3) zero_less_diff less_or_eq_imp_le not_less)
    then have "token_char (hd y)" using assms(3) by (metis in_set_conv_decomp list_all_iff)
    then show False using assms(5) by simp
  qed
qed

lemma no_start_lit:
  assumes "good_lit l" "startsWith ''SET_'' t" "list_all token_char t"
  shows "no_start t l y"
  unfolding no_start_def
proof (intro allI impI notI)
  fix i assume i: "i < length l" and st: "startsWith t (drop i l @ y)"
  show False
  proof (cases "length t \<le> length (drop i l)")
    case True
    then have "startsWith t (drop i l)" using st by (simp add: startsWith_def)
    then show False using assms(1,2) set_free_drop set_free_start unfolding good_lit_def by blast
  next
    case False
    from st have "take (length t) (drop i l @ y) = t" by (simp add: startsWith_def)
    with False have "t = drop i l @ take (length t - length (drop i l)) y" by simp
    moreover have "last l \<in> set (drop i l)" using i by (metis drop_eq_Nil last_drop last_in_set not_le)
    ultimately have "last l \<in> set t" by (metis UnI1 set_append)
    then show False using assms(1,3) by (auto simp: good_lit_def list_all_iff)
  qed
qed

lemma no_start_tok:
  assumes "good_tok u" "good_tok t" "\<not> startsWith t u" "y \<noteq> []" "\<not> token_char (hd y)"
  shows "no_start t u y"
  unfolding no_start_def
proof (intro allI impI)
  fix i assume i: "i < length u"
  show "\<not> startsWith t (drop i u @ y)"
  proof (cases i)
    case 0
    show ?thesis
    proof
      assume st: "startsWith t (drop i u @ y)"
      with 0 assms(3) have len: "\<not> length t \<le> length u" by (auto simp: startsWith_def)
      from st 0 have "take (length t) (u @ y) = t" by (simp add: startsWith_def)
      with len have "t = u @ take (length t - length u) y" by simp
      moreover have "hd y \<in> set (take (length t - length u) y)"
        using len assms(4) by (cases y; cases "length t - length u") auto
      ultimately have "hd y \<in> set t" by (metis UnI2 set_append)
      then show False using assms(2,5) by (auto simp: good_tok_def list_all_iff)
    qed
  next
    case (Suc j)
    have "no_start t (tl u) y"
      using assms no_start_free [of "tl u" t y] by (simp add: good_tok_def)
    moreover have "j < length (tl u)" "drop i u = drop j (tl u)" using i Suc by (simp_all add: drop_Suc)
    ultimately show ?thesis by (simp add: no_start_def)
  qed
qed

lemma fill_head: "good_template ps \<Longrightarrow> fill \<sigma> ps \<noteq> [] \<and> \<not> token_char (hd (fill \<sigma> ps))"
  by (cases ps rule: good_template.cases) (auto simp: good_lit_def)

lemma fill_cong: "(\<And>u. u \<in> set (tokens ps) \<Longrightarrow> \<sigma> u = \<tau> u) \<Longrightarrow> fill \<sigma> ps = fill \<tau> ps"
  by (induction ps rule: tokens.induct) auto

lemma good_tok_nonempty: "good_tok t \<Longrightarrow> t \<noteq> []"
  by (auto simp: good_tok_def startsWith_def)

definition ready :: "string \<Rightarrow> (string \<Rightarrow> string option) \<Rightarrow> string list \<Rightarrow> bool" where
  "ready t \<sigma> us = (\<forall>u \<in> set us. case \<sigma> u of Some w \<Rightarrow> set_free w | None \<Rightarrow> u = t \<or> \<not> startsWith t u)"

lemma js_replace_fill:
  assumes "good_template ps" "distinct (tokens ps)" "t \<in> set (tokens ps)" "\<sigma> t = None"
    "good_tok t" "CHR ''$'' \<notin> set v" "ready t \<sigma> (tokens ps)"
  shows "js_replace t v (fill \<sigma> ps) = fill (\<sigma>(t \<mapsto> v)) ps"
  using assms
proof (induction ps rule: good_template.induct)
  case (2 l m ps)
  then have "no_start t l (fill \<sigma> (Lit m # ps))" by (intro no_start_lit) (auto simp: good_tok_def)
  then show ?case using 2 good_tok_nonempty js_replace_skip [of t l "fill \<sigma> (Lit m # ps)" v] by simp
next
  case (3 l u ps)
  let ?R = "fill \<sigma> ps"
  have R: "?R \<noteq> []" "\<not> token_char (hd ?R)" using 3 fill_head by auto
  have t: "t \<noteq> []" "startsWith ''SET_'' t" "list_all token_char t"
    using 3 good_tok_nonempty by (auto simp: good_tok_def)
  have l: "js_replace t v (l @ z) = l @ js_replace t v z" for z
    using 3 t js_replace_skip no_start_lit by simp
  show ?case
  proof (cases "u = t")
    case True
    have "fill (\<sigma>(t \<mapsto> v)) ps = ?R" using 3 True by (intro fill_cong) auto
    then show ?thesis using l True 3 t js_replace_here [of t v ?R]
      by (simp del: fun_upd_apply add: fun_upd_same)
  next
    case False
    have "no_start t (case \<sigma> u of None \<Rightarrow> u | Some w \<Rightarrow> w) ?R"
    proof (cases "\<sigma> u")
      case None
      then show ?thesis using 3 False R no_start_tok [of u t ?R] by (simp add: ready_def)
    next
      case (Some w)
      then show ?thesis using 3 R t no_start_free [of w t ?R] by (simp add: ready_def)
    qed
    then show ?thesis using l 3 False t js_replace_skip by (simp add: ready_def)
  qed
qed auto

text \<open>
  A chain over distinct tokens: every value free of \<open>SET_\<close> and of \<open>$\<close>, and no token a prefix of one
  that is replaced later.
\<close>

fun chain_ok :: "string list \<Rightarrow> (string \<times> string) list \<Rightarrow> (string \<Rightarrow> string option) \<Rightarrow> bool" where
  "chain_ok us [] \<sigma> = True"
| "chain_ok us ((t, v) # rs) \<sigma> = (t \<in> set us \<and> \<sigma> t = None \<and> good_tok t \<and> ready t \<sigma> us \<and>
     plain_value v \<and> chain_ok us rs (\<sigma>(t \<mapsto> v)))"

lemma replace_seq_fill:
  assumes "good_template ps" "distinct (tokens ps)" "chain_ok (tokens ps) rs \<sigma>"
  shows "replace_seq rs (fill \<sigma> ps) = fill (\<lambda>u. case map_of (rev rs) u of None \<Rightarrow> \<sigma> u | Some v \<Rightarrow> Some v) ps"
  using assms(3)
proof (induction rs arbitrary: \<sigma>)
  case Nil
  then show ?case by (simp add: replace_seq_def)
next
  case (Cons r rs)
  obtain t v where r: "r = (t, v)" by (cases r)
  have "js_replace t v (fill \<sigma> ps) = fill (\<sigma>(t \<mapsto> v)) ps"
    using Cons.prems assms r by (intro js_replace_fill) (auto simp: plain_value_def)
  then have "replace_seq (r # rs) (fill \<sigma> ps) = replace_seq rs (fill (\<sigma>(t \<mapsto> v)) ps)"
    by (simp add: replace_seq_def r)
  also have "\<dots> = fill (\<lambda>u. case map_of (rev rs) u of None \<Rightarrow> (\<sigma>(t \<mapsto> v)) u | Some v \<Rightarrow> Some v) ps"
    using Cons.prems unfolding r chain_ok.simps by (intro Cons.IH) blast
  also have "\<dots> = fill (\<lambda>u. case map_of (rev (r # rs)) u of None \<Rightarrow> \<sigma> u | Some v \<Rightarrow> Some v) ps"
    by (rule fill_cong) (auto simp: r map_add_def split: option.splits)
  finally show ?case .
qed

fun order_ok :: "string list \<Rightarrow> string list \<Rightarrow> string list \<Rightarrow> bool" where
  "order_ok us dn [] = True"
| "order_ok us dn (t # ts) = (List.member us t \<and> \<not> List.member dn t \<and> good_tok t \<and>
     list_all (\<lambda>u. List.member dn u \<or> u = t \<or> \<not> startsWith t u) us \<and> order_ok us (t # dn) ts)"

lemma order_chain_ok:
  assumes "order_ok us dn (map fst rs)" "list_all (\<lambda>(t, v). plain_value v) rs"
    "\<forall>u. \<sigma> u = None \<longleftrightarrow> u \<notin> set dn" "\<forall>u w. \<sigma> u = Some w \<longrightarrow> set_free w"
  shows "chain_ok us rs \<sigma>"
  using assms
proof (induction rs arbitrary: \<sigma> dn)
  case (Cons r rs)
  obtain t v where r: "r = (t, v)" by (cases r)
  have "chain_ok us rs (\<sigma>(t \<mapsto> v))"
    using Cons.prems r by (intro Cons.IH [of "t # dn"]) (auto simp: plain_value_def)
  moreover have "ready t \<sigma> us"
    unfolding ready_def using Cons.prems r by (auto simp: list_all_iff split: option.split)
  ultimately show ?case using Cons.prems r by auto
qed simp

text \<open>The assignment a chain makes: the token's value, for the tokens it replaces.\<close>

definition assign :: "(string \<times> string) list \<Rightarrow> string \<Rightarrow> string option" where
  "assign rs u = map_of (rev rs) u"

lemma populate_fill:
  assumes "good_template ps" "distinct (tokens ps)" "order_ok (tokens ps) [] (map fst rs)"
    "list_all (\<lambda>(t, v). plain_value v) rs"
  shows "replace_seq rs (render ps) = fill (assign rs) ps"
proof -
  have "chain_ok (tokens ps) rs Map.empty"
    using assms(3,4) by (rule order_chain_ok) auto
  then have "replace_seq rs (fill Map.empty ps)
      = fill (\<lambda>u. case map_of (rev rs) u of None \<Rightarrow> Map.empty u | Some v \<Rightarrow> Some v) ps"
    using assms(1,2) by (intro replace_seq_fill)
  also have "\<dots> = fill (assign rs) ps"
    by (rule fill_cong) (simp add: assign_def split: option.splits)
  finally show ?thesis by (simp only: render_fill)
qed

definition plain_values :: "(string \<times> string) list \<Rightarrow> bool" where
  "plain_values rs = list_all (\<lambda>(t, v). plain_value v) rs"

lemma good_templates:
  "good_template SIMPLIFIED_TAX_INVOICE" "good_template STANDARD_TEMPLATE"
  "good_template SIMPLIFIED_NOTE_TEMPLATE"
  by code_simp+

lemma good_signature_templates:
  "good_template signed_properties_for_signing" "good_template signed_properties_for_output"
  "good_template ubl_extension_template"
  by code_simp+

lemma distinct_tokens:
  "distinct (tokens SIMPLIFIED_TAX_INVOICE)" "distinct (tokens STANDARD_TEMPLATE)"
  "distinct (tokens SIMPLIFIED_NOTE_TEMPLATE)" "distinct (tokens signed_properties_for_signing)"
  "distinct (tokens signed_properties_for_output)" "distinct (tokens ubl_extension_template)"
  by code_simp+

definition common_tokens :: "string list" where
  "common_tokens = [''SET_INVOICE_TYPE'', ''SET_BILLING_REFERENCE'', ''SET_INVOICE_SERIAL_NUMBER'',
     ''SET_TERMINAL_UUID'', ''SET_ISSUE_DATE'', ''SET_ISSUE_TIME'', ''SET_PREVIOUS_INVOICE_HASH'',
     ''SET_INVOICE_COUNTER_NUMBER'', ''SET_COMMERCIAL_REGISTRATION_NUMBER'', ''SET_STREET_NAME'',
     ''SET_BUILDING_NUMBER'', ''SET_PLOT_IDENTIFICATION'', ''SET_CITY_SUBDIVISION'', ''SET_CITY'',
     ''SET_POSTAL_NUMBER'', ''SET_VAT_NUMBER'', ''SET_VAT_NAME'']"

lemma common_values_tokens: "map fst (common_values dflt input) = common_tokens"
  by (simp add: common_values_def common_tokens_def Let_def)

lemma order_tokens:
  "order_ok (tokens SIMPLIFIED_TAX_INVOICE) [] (common_tokens @ [''SET_BUYER_INFO''])"
  "order_ok (tokens STANDARD_TEMPLATE) [] common_tokens"
  "order_ok (tokens SIMPLIFIED_NOTE_TEMPLATE) [] common_tokens"
  by code_simp+

lemma populate_simplified_tax:
  "plain_values (common_values ''388'' input @ [(''SET_BUYER_INFO'', buyer_fragment input)]) \<Longrightarrow>
    populateSimplifiedTaxInvoiceTemplate input =
      fill (assign (common_values ''388'' input @ [(''SET_BUYER_INFO'', buyer_fragment input)])) SIMPLIFIED_TAX_INVOICE"
  unfolding populateSimplifiedTaxInvoiceTemplate_def
  by (rule populate_fill)
    (simp_all only: good_templates distinct_tokens order_tokens common_values_tokens map_append list.map fst_conv plain_values_def)

lemma populate_standard:
  "plain_values (common_values dflt input) \<Longrightarrow>
    replace_seq (common_values dflt input) (render STANDARD_TEMPLATE) = fill (assign (common_values dflt input)) STANDARD_TEMPLATE"
  by (rule populate_fill)
    (simp_all only: good_templates distinct_tokens order_tokens common_values_tokens plain_values_def)

lemma populate_simplified_note:
  "plain_values (common_values dflt input) \<Longrightarrow>
    replace_seq (common_values dflt input) (render SIMPLIFIED_NOTE_TEMPLATE)
      = fill (assign (common_values dflt input)) SIMPLIFIED_NOTE_TEMPLATE"
  by (rule populate_fill)
    (simp_all only: good_templates distinct_tokens order_tokens common_values_tokens plain_values_def)

lemma fill_template_nonempty: "good_template ps \<Longrightarrow> fill \<sigma> ps \<noteq> []"
  by (cases ps rule: good_template.cases) (auto simp: good_lit_def)

lemma js_replace_hd:
  assumes "s \<noteq> []" "t \<noteq> []" "hd t \<noteq> hd s"
  shows "js_replace t v s \<noteq> [] \<and> hd (js_replace t v s) = hd s"
proof (cases "indexOf t s")
  case (Some i)
  have "i \<noteq> 0"
  proof
    assume "i = 0"
    then have "startsWith t s" using Some assms(1) by (cases s) (auto split: if_splits)
    then show False using assms by (cases s; cases t) (auto simp: startsWith_def)
  qed
  then show ?thesis using Some assms(1) by (cases s; cases i) (auto simp: js_replace_def)
qed (use assms in \<open>simp add: js_replace_def\<close>)

lemma replace_seq_hd:
  "s \<noteq> [] \<Longrightarrow> \<forall>(t, v) \<in> set rs. t \<noteq> [] \<and> hd t \<noteq> hd s \<Longrightarrow>
    replace_seq rs s \<noteq> [] \<and> hd (replace_seq rs s) = hd s"
proof (induction rs arbitrary: s)
  case (Cons r rs)
  obtain t v where r: "r = (t, v)" by (cases r)
  note h = js_replace_hd [of s t v]
  show ?case using Cons.IH [of "js_replace t v s"] Cons.prems h by (auto simp: r replace_seq_def)
qed (simp add: replace_seq_def)

lemma template_hd: "render (invoice_template u c) \<noteq> [] \<and> hd (render (invoice_template u c)) \<noteq> CHR ''S''"
  by (simp add: render_def invoice_template_def ubl_head_def)

lemma populated_hd:
  assumes "\<forall>(t, v) \<in> set rs. t \<noteq> [] \<and> hd t = CHR ''S''"
  shows "replace_seq (common_values dflt input @ rs) (render (invoice_template u c)) \<noteq> []"
proof -
  have "\<forall>(t, v) \<in> set (common_values dflt input @ rs). t \<noteq> [] \<and> hd t = CHR ''S''"
    using assms by (auto simp: common_values_def Let_def)
  then have "\<forall>(t, v) \<in> set (common_values dflt input @ rs). t \<noteq> [] \<and>
      hd t \<noteq> hd (render (invoice_template u c))"
    using template_hd [of u c] by fastforce
  then show ?thesis using replace_seq_hd template_hd [of u c] by blast
qed

lemmas populate_defs = populateSimplifiedTaxInvoiceTemplate_def populateStandardTaxInvoiceTemplate_def
  populateSimplifiedCreditNoteTemplate_def populateStandardCreditNoteTemplate_def
  populateSimplifiedDebitNoteTemplate_def populateStandardDebitNoteTemplate_def

lemma populated_nonempty:
  "populateSimplifiedTaxInvoiceTemplate input \<noteq> []" "populateStandardTaxInvoiceTemplate input \<noteq> []"
  "populateSimplifiedCreditNoteTemplate input \<noteq> []" "populateStandardCreditNoteTemplate input \<noteq> []"
  "populateSimplifiedDebitNoteTemplate input \<noteq> []" "populateStandardDebitNoteTemplate input \<noteq> []"
  using populated_hd [of "[]"] populated_hd [of "[(''SET_BUYER_INFO'', buyer_fragment input)]"]
  by (simp_all add: populate_defs SIMPLIFIED_TAX_INVOICE_def STANDARD_TEMPLATE_def SIMPLIFIED_NOTE_TEMPLATE_def)

lemma js_replace_amp: "t \<noteq> [] \<Longrightarrow> js_replace t ''$&'' s = s"
proof -
  assume "t \<noteq> []"
  have "take (length t) (drop i s) = t" if "indexOf t s = Some i" for i
    using that
  proof (induction s arbitrary: i)
    case Nil
    then show ?case by (simp split: if_splits)
  next
    case (Cons c s)
    then show ?case by (auto simp: startsWith_def split: if_splits)
  qed
  then have "take i s @ t @ drop (i + length t) s = s" if "indexOf t s = Some i" for i
    using that by (metis add.commute append_take_drop_id drop_drop)
  then show ?thesis by (simp add: js_replace_def split: option.split)
qed

end
