(* ===== verification/Encoding.thy ===== *)
theory Encoding
  imports Errors
begin

text \<open>
  Base64 as \<open>Buffer\<close> encodes and decodes it, and the TLV layout of the QR code
  (\<open>core/src/qr/tlv.ts\<close>). A byte is a \<open>char\<close>.
\<close>

section \<open>Base64\<close>

definition b64_alphabet :: string where
  "b64_alphabet = ''ABCDEFGHIJKLMNOPQRSTUVWXYZabcdefghijklmnopqrstuvwxyz0123456789+/''"

definition b64_char :: "nat \<Rightarrow> char" where
  "b64_char n = b64_alphabet ! n"

definition b64_val :: "char \<Rightarrow> nat option" where
  "b64_val c = map_of (zip b64_alphabet [0..<64]) c"

definition byte :: "char \<Rightarrow> nat" where
  "byte c = of_char c"

fun base64_encode :: "string \<Rightarrow> string" where
  "base64_encode [] = []"
| "base64_encode [a] = (let n = byte a * 16 in
     [b64_char (n div 64), b64_char (n mod 64), CHR ''='', CHR ''=''])"
| "base64_encode [a, b] = (let n = byte a * 1024 + byte b * 4 in
     [b64_char (n div 4096), b64_char (n div 64 mod 64), b64_char (n mod 64), CHR ''=''])"
| "base64_encode (a # b # c # s) = (let n = byte a * 65536 + byte b * 256 + byte c in
     [b64_char (n div 262144), b64_char (n div 4096 mod 64), b64_char (n div 64 mod 64),
      b64_char (n mod 64)] @ base64_encode s)"

text \<open>
  Decoding: digits up to the padding, other characters are skipped; the URL alphabet is accepted.
\<close>

definition b64_digit :: "char \<Rightarrow> nat option" where
  "b64_digit c = b64_val (if c = CHR ''-'' then CHR ''+'' else if c = CHR ''_'' then CHR ''/'' else c)"

fun decode_digits :: "nat list \<Rightarrow> string" where
  "decode_digits (p # q # r # s # ds) =
     (let n = p * 262144 + q * 4096 + r * 64 + s in
      char_of (n div 65536) # char_of (n div 256 mod 256) # char_of (n mod 256) # decode_digits ds)"
| "decode_digits [p, q, r] = (let n = p * 4096 + q * 64 + r in
     [char_of (n div 1024), char_of (n div 4 mod 256)])"
| "decode_digits [p, q] = [char_of ((p * 64 + q) div 16)]"
| "decode_digits _ = []"

definition base64_decode :: "string \<Rightarrow> string" where
  "base64_decode t =
     decode_digits (List.map_filter b64_digit (takeWhile (\<lambda>c. c \<noteq> CHR ''='') t))"

lemma b64_alphabet_length [simp]: "length b64_alphabet = 64"
  by (simp add: b64_alphabet_def)

lemma b64_alphabet_distinct: "distinct b64_alphabet"
  by (simp add: b64_alphabet_def)

lemma b64_val_char: "n < 64 \<Longrightarrow> b64_val (b64_char n) = Some n"
  using map_of_zip_nth [of b64_alphabet "[0..<64]" n] b64_alphabet_distinct
  by (simp add: b64_val_def b64_char_def)

lemma b64_char_in: "n < 64 \<Longrightarrow> b64_char n \<in> set b64_alphabet"
  by (simp add: b64_char_def)

lemma b64_no_specials:
  "CHR ''='' \<notin> set b64_alphabet" "CHR ''-'' \<notin> set b64_alphabet" "CHR ''_'' \<notin> set b64_alphabet"
  by (simp_all add: b64_alphabet_def)

lemma b64_digit_char [simp]: "n < 64 \<Longrightarrow> b64_digit (b64_char n) = Some n"
  using b64_char_in [of n] b64_no_specials b64_val_char [of n] by (auto simp: b64_digit_def)

lemma b64_char_not_pad [simp]: "n < 64 \<Longrightarrow> b64_char n \<noteq> CHR ''=''"
  using b64_char_in [of n] b64_no_specials by auto

lemma byte_less: "byte c < 256"
  by (simp add: byte_def)

lemma char_of_byte [simp]: "char_of (byte c) = c"
  by (simp add: byte_def)

lemma div_lt: "n < a * b \<Longrightarrow> n div b < (a :: nat)"
  by (rule less_mult_imp_div_less)

lemma mod_digit: "n div (64 * k) * (64 * k) + n div k mod 64 * k + n mod k = (n :: nat)"
proof -
  have "n div (64 * k) = n div k div 64" by (simp add: div_mult2_eq [symmetric] mult.commute)
  then have "n div (64 * k) * (64 * k) + n div k mod 64 * k = (n div k div 64 * 64 + n div k mod 64) * k"
    by (simp only: distrib_right mult.assoc)
  also have "\<dots> = n div k * k" by (simp only: div_mult_mod_eq)
  finally show ?thesis by simp
qed

lemma digits_3: "n div 4096 * 4096 + n div 64 mod 64 * 64 + n mod 64 = (n :: nat)"
  using mod_digit [of n 64] by simp

lemma digits_4: "n div 262144 * 262144 + n div 4096 mod 64 * 4096 + n div 64 mod 64 * 64 + n mod 64 = (n :: nat)"
proof -
  have "n div 262144 * 262144 + n div 4096 mod 64 * 4096 + n mod 4096 = n"
    using mod_digit [of n 4096] by simp
  moreover have "n div 4096 * 4096 + n div 64 mod 64 * 64 + n mod 64 = n" by (rule digits_3)
  moreover have "n div 4096 * 4096 + n mod 4096 = n" by (rule div_mult_mod_eq)
  ultimately show ?thesis by linarith
qed

lemma base64_roundtrip: "base64_decode (base64_encode s) = s"
proof (induction s rule: base64_encode.induct)
  case 1
  show ?case by (simp add: base64_decode_def map_filter_simps)
next
  case (2 a)
  define n where "n = byte a * 16"
  have n: "n < 4096" using byte_less [of a] by (simp add: n_def)
  have "(n div 64 * 64 + n mod 64) div 16 = byte a"
    unfolding div_mult_mod_eq by (simp add: n_def)
  then show ?case using div_lt [of n 64 64] n
    by (simp add: base64_decode_def map_filter_simps Let_def n_def [symmetric] del: char_of_mod_256)
next
  case (3 a b)
  define n where "n = byte a * 1024 + byte b * 4"
  have n: "n < 262144" using byte_less [of a] byte_less [of b] by (simp add: n_def)
  have "n div 4 = byte a * 256 + byte b" "n div 1024 = byte a"
    using byte_less [of b] unfolding n_def by linarith+
  then have "n div 1024 = byte a" "n div 4 mod 256 = byte b"
    using byte_less [of b] by simp_all
  then show ?case using div_lt [of n 64 4096] n digits_3 [of n]
    by (simp add: base64_decode_def map_filter_simps Let_def n_def [symmetric] del: char_of_mod_256)
next
  case (4 a b c s)
  define n where "n = byte a * 65536 + byte b * 256 + byte c"
  have n: "n < 16777216" using byte_less [of a] byte_less [of b] byte_less [of c] by (simp add: n_def)
  have q: "n div 256 = byte a * 256 + byte b"
    using byte_less [of c] unfolding n_def by linarith
  have "n div 256 * 256 + n mod 256 = byte a * 65536 + byte b * 256 + byte c"
    unfolding div_mult_mod_eq by (rule n_def)
  with q have "n mod 256 = byte c" by simp
  note q this
  moreover have "n div 65536 = byte a"
    using byte_less [of b] byte_less [of c] unfolding n_def by linarith
  ultimately have "n div 65536 = byte a" "n div 256 mod 256 = byte b" "n mod 256 = byte c"
    using byte_less [of b] by simp_all
  then show ?case using div_lt [of n 64 262144] n digits_4 [of n] 4
    by (simp add: base64_decode_def map_filter_simps Let_def n_def [symmetric] del: char_of_mod_256)
qed

section \<open>The base64 guards\<close>

definition is_b64_char :: "char \<Rightarrow> bool" where
  "is_b64_char c = (c \<in> set b64_alphabet)"

text \<open>\<open>/^[A-Za-z0-9+/]+={0,2}$/\<close> and \<open>/^[A-Za-z0-9+/]{43}=$/\<close>.\<close>

definition isBase64 :: "string \<Rightarrow> bool" where
  "isBase64 s = (takeWhile is_b64_char s \<noteq> [] \<and>
     dropWhile is_b64_char s \<in> {[], ''='', ''==''})"

definition isInvoiceHash :: "string \<Rightarrow> bool" where
  "isInvoiceHash s = (length (takeWhile is_b64_char s) = 43 \<and> dropWhile is_b64_char s = ''='')"

definition asBase64 :: "string \<Rightarrow> error + string" where
  "asBase64 s = (if \<not> isBase64 s then Err (ZatcaValidationError
     ''Invalid base64 string: contains characters outside the RFC 4648 alphabet or has malformed padding.'')
     else Ok s)"

definition asInvoiceHash :: "string \<Rightarrow> error + string" where
  "asInvoiceHash s = (if \<not> isInvoiceHash s then Err (ZatcaValidationError
     (''Invalid invoice hash: '' @ s @ ''. Expected 44 base64 characters ending with '' @ quoted ''='' @ ''.''))
     else Ok s)"

lemma b64_is_char [simp]: "n < 64 \<Longrightarrow> is_b64_char (b64_char n)"
  by (simp add: is_b64_char_def b64_char_in)

lemma pad_not_char [simp]: "\<not> is_b64_char (CHR ''='')"
  using b64_no_specials by (simp add: is_b64_char_def)

lemma base64_encode_suffix: "dropWhile is_b64_char (base64_encode s) \<in> {[], ''='', ''==''}"
proof (induction s rule: base64_encode.induct)
  case (2 a)
  then show ?case using byte_less [of a] div_lt [of "byte a * 16" 64 64] by (simp add: Let_def)
next
  case (3 a b)
  then show ?case using byte_less [of a] byte_less [of b] div_lt [of "byte a * 1024 + byte b * 4" 64 4096]
    by (simp add: Let_def)
next
  case (4 a b c s)
  then show ?case using byte_less [of a] byte_less [of b] byte_less [of c]
      div_lt [of "byte a * 65536 + byte b * 256 + byte c" 64 262144] by (simp add: Let_def)
qed simp

lemma base64_encode_nonempty: "s \<noteq> [] \<Longrightarrow> takeWhile is_b64_char (base64_encode s) \<noteq> []"
proof (cases s rule: base64_encode.cases)
  case (2 a)
  then show ?thesis using byte_less [of a] div_lt [of "byte a * 16" 64 64] by (simp add: Let_def)
next
  case (3 a b)
  then show ?thesis using byte_less [of a] byte_less [of b] div_lt [of "byte a * 1024 + byte b * 4" 64 4096]
    by (simp add: Let_def)
next
  case (4 a b c s)
  then show ?thesis using byte_less [of a] byte_less [of b] byte_less [of c]
      div_lt [of "byte a * 65536 + byte b * 256 + byte c" 64 262144] by (simp add: Let_def)
qed simp

lemma isBase64_encode: "s \<noteq> [] \<Longrightarrow> isBase64 (base64_encode s)"
  using base64_encode_nonempty base64_encode_suffix by (simp add: isBase64_def)

section \<open>TLV\<close>

text \<open>
  A segment is the tag, the length and the value; the tag is stored in a byte, so it wraps.
  A value is \<open>string | Uint8Array\<close>, in either case its bytes.
\<close>

definition tlv_error :: "nat \<Rightarrow> string \<Rightarrow> error" where
  "tlv_error tag v = PlainError (''TLV tag '' @ nat_str tag @ '' exceeds the 255-byte length cap (got ''
     @ nat_str (length v) @ '' bytes).'') None"

definition tlv_segment :: "nat \<Rightarrow> string \<Rightarrow> string" where
  "tlv_segment tag v = char_of tag # char_of (length v) # v"

fun tlv_segments :: "nat \<Rightarrow> string list \<Rightarrow> error + string" where
  "tlv_segments i [] = Ok []"
| "tlv_segments i (v # vs) =
     (if 255 < length v then Err (tlv_error (i + 1) v)
      else (case tlv_segments (i + 1) vs of Inl e \<Rightarrow> Inl e
        | Inr t \<Rightarrow> Inr (tlv_segment (i + 1) v @ t)))"

definition createTLV :: "string list \<Rightarrow> error + string" where
  "createTLV vs = tlv_segments 0 vs"

definition encodeTLVAsBase64 :: "string list \<Rightarrow> error + string" where
  "encodeTLVAsBase64 vs = map_sum id base64_encode (createTLV vs)"

text \<open>A reader of the layout, as a QR scanner does it: the specification of \<open>createTLV\<close>.\<close>

function read_tlv :: "string \<Rightarrow> (nat \<times> string) list option" where
  "read_tlv [] = Some []"
| "read_tlv [c] = None"
| "read_tlv (tag # len # s) =
     (if length s < byte len then None
      else map_option (Cons (byte tag, take (byte len) s)) (read_tlv (drop (byte len) s)))"
  by pat_completeness auto
termination by (relation "measure length") auto

lemma byte_char_of: "n < 256 \<Longrightarrow> byte (char_of n) = n"
  by (simp add: byte_def of_char_of)

lemma read_tlv_segment:
  "tag < 256 \<Longrightarrow> length v \<le> 255 \<Longrightarrow>
    read_tlv (tlv_segment tag v @ s) = map_option (Cons (tag, v)) (read_tlv s)"
  by (simp add: tlv_segment_def byte_char_of)

lemma read_tlv_segments:
  "tlv_segments i vs = Ok t \<Longrightarrow> i + length vs < 256 \<Longrightarrow>
    read_tlv t = Some (zip [i + 1..<i + 1 + length vs] vs)"
proof (induction vs arbitrary: i t)
  case (Cons v vs)
  from Cons.prems obtain u where u: "tlv_segments (i + 1) vs = Ok u" "\<not> 255 < length v"
    "t = tlv_segment (i + 1) v @ u"
    by (auto split: if_splits sum.splits)
  then have "read_tlv u = Some (zip [i + 2..<i + 2 + length vs] vs)"
    using Cons.IH [of "i + 1" u] Cons.prems by simp
  moreover have "[i + 1..<i + 1 + length (v # vs)] = (i + 1) # [i + 2..<i + 2 + length vs]"
    by (subst upt_rec) simp
  ultimately show ?case using u Cons.prems by (simp add: read_tlv_segment)
qed simp

lemma tlv_segments_total: "list_all (\<lambda>v. length v \<le> 255) vs \<Longrightarrow> \<exists>t. tlv_segments i vs = Ok t"
proof (induction vs arbitrary: i)
  case (Cons v vs)
  then obtain t where "tlv_segments (i + 1) vs = Ok t" by auto
  then show ?case using Cons.prems by simp
qed simp

lemma tlv_segments_cap: "tlv_segments i vs = Ok t \<Longrightarrow> list_all (\<lambda>v. length v \<le> 255) vs"
  by (induction vs arbitrary: i t) (auto split: if_splits sum.splits)

end
