(* ===== verification/DateTime.thy ===== *)
theory DateTime
  imports Errors
begin

text \<open>
  Dates (\<open>core/src/utils/datetime.ts\<close>) over the proleptic Gregorian calendar of JavaScript's
  \<open>Date\<close>. A time is an integer number of milliseconds since 1970-01-01T00:00:00Z. Days are
  decomposed into 400-, 100-, 4- and 1-year periods that start on the first of March.
\<close>

section \<open>The calendar\<close>

definition ms_per_day :: int where "ms_per_day = 86400000"

definition days_of_ms :: "int \<Rightarrow> int" where "days_of_ms t = t div ms_per_day"
definition ms_in_day :: "int \<Rightarrow> int" where "ms_in_day t = t mod ms_per_day"

text \<open>Year (from March) and day of that year, counted from 0000-03-01.\<close>

definition century :: "int \<Rightarrow> int" where "century doe = min 3 (doe div 36524)"
definition year_of_4 :: "int \<Rightarrow> int" where "year_of_4 d = min 3 (d div 365)"

definition day_of_century :: "int \<Rightarrow> int" where
  "day_of_century z = z mod 146097 - 36524 * century (z mod 146097)"

definition march_year :: "int \<Rightarrow> int \<times> int" where
  "march_year z =
     (400 * (z div 146097) + 100 * century (z mod 146097) + 4 * (day_of_century z div 1461)
        + year_of_4 (day_of_century z mod 1461),
      day_of_century z mod 1461 - 365 * year_of_4 (day_of_century z mod 1461))"

definition month_index :: "int \<Rightarrow> int" where \<comment> \<open>0 for March\<close>
  "month_index doy = (5 * doy + 2) div 153"

definition civil :: "int \<Rightarrow> int \<times> int \<times> int" where
  "civil days = (case march_year (days + 719468) of (y, doy) \<Rightarrow>
     (let mp = month_index doy; m = (if mp < 10 then mp + 3 else mp - 9)
      in (if m \<le> 2 then y + 1 else y, m, doy - (153 * mp + 2) div 5 + 1)))"

definition days_of_civil :: "int \<Rightarrow> int \<Rightarrow> int \<Rightarrow> int" where
  "days_of_civil y m d = (let y' = (if m \<le> 2 then y - 1 else y); mp = (if m \<le> 2 then m + 9 else m - 3)
     in 365 * y' + y' div 4 - y' div 100 + y' div 400 + (153 * mp + 2) div 5 + d - 1 - 719468)"

definition getUTCFullYear :: "int \<Rightarrow> int" where
  "getUTCFullYear t = fst (civil (days_of_ms t))"

definition getUTCMonth :: "int \<Rightarrow> int" where \<comment> \<open>0 for January\<close>
  "getUTCMonth t = fst (snd (civil (days_of_ms t))) - 1"

definition getUTCDate :: "int \<Rightarrow> int" where
  "getUTCDate t = snd (snd (civil (days_of_ms t)))"

definition pad2 :: "int \<Rightarrow> string" where
  "pad2 n = padStart 2 (CHR ''0'') (int_str n)"

definition iso_year :: "int \<Rightarrow> string" where
  "iso_year y = (if 0 \<le> y \<and> y \<le> 9999 then padStart 4 (CHR ''0'') (int_str y)
     else (if y < 0 then ''-'' else ''+'') @ padStart 6 (CHR ''0'') (int_str (abs y)))"

definition toISOString :: "int \<Rightarrow> string" where
  "toISOString t = (let s = ms_in_day t div 1000 in
     iso_year (getUTCFullYear t) @ ''-'' @ pad2 (getUTCMonth t + 1) @ ''-'' @ pad2 (getUTCDate t)
     @ ''T'' @ pad2 (s div 3600) @ '':'' @ pad2 (s mod 3600 div 60) @ '':'' @ pad2 (s mod 60)
     @ ''.'' @ padStart 3 (CHR ''0'') (int_str (ms_in_day t mod 1000)) @ ''Z'')"

section \<open>The ZATCA formats\<close>

text \<open>
  \<open>input: Date | string\<close>: a \<open>Date\<close> holds a time or is invalid (\<open>None\<close>); a string goes through
  \<open>new Date(s)\<close>, whose parser is the parameter \<open>parse\<close>.
\<close>

datatype date_input = DateObj "int option" | DateStr string

definition toDate :: "(string \<Rightarrow> int option) \<Rightarrow> date_input \<Rightarrow> error + int" where
  "toDate parse i = (case i of
       DateObj (Some t) \<Rightarrow> Ok t
     | DateObj None \<Rightarrow> Err (PlainError ''Invalid date input: Invalid Date'' None)
     | DateStr s \<Rightarrow> (case parse s of Some t \<Rightarrow> Ok t
         | None \<Rightarrow> Err (PlainError (''Invalid date input: '' @ s) None)))"

definition slice :: "nat \<Rightarrow> nat \<Rightarrow> string \<Rightarrow> string" where
  "slice a b s = take (b - a) (drop a s)"

definition formatZatcaDate :: "(string \<Rightarrow> int option) \<Rightarrow> date_input \<Rightarrow> error + string" where
  "formatZatcaDate parse i = map_sum id (\<lambda>t. slice 0 10 (toISOString t)) (toDate parse i)"

definition formatZatcaTime :: "(string \<Rightarrow> int option) \<Rightarrow> date_input \<Rightarrow> error + string" where
  "formatZatcaTime parse i = map_sum id (\<lambda>t. slice 11 19 (toISOString t) @ ''Z'') (toDate parse i)"

definition ensureZatcaTimeZ :: "string \<Rightarrow> string" where
  "ensureZatcaTimeZ time = (if endsWith ''Z'' time then time else time @ ''Z'')"

definition formatZatcaDateTime :: "(string \<Rightarrow> int option) \<Rightarrow> date_input \<Rightarrow> error + string" where
  "formatZatcaDateTime parse i = map_sum id (\<lambda>t. slice 0 19 (toISOString t)) (toDate parse i)"

definition formatSignTimestamp :: "(string \<Rightarrow> int option) \<Rightarrow> date_input \<Rightarrow> error + string" where
  "formatSignTimestamp parse i = map_sum id (\<lambda>s. s @ ''Z'') (formatZatcaDateTime parse i)"

definition extractZatcaDateTime ::
  "(string \<Rightarrow> int option) \<Rightarrow> date_input \<Rightarrow> error + string \<times> string" where
  "extractZatcaDateTime parse i = (case formatZatcaDate parse i of Inl e \<Rightarrow> Inl e
     | Inr d \<Rightarrow> (case formatZatcaTime parse i of Inl e \<Rightarrow> Inl e | Inr t \<Rightarrow> Inr (d, t)))"

section \<open>Lemmas\<close>

lemma century_range: "0 \<le> d \<Longrightarrow> d < 146097 \<Longrightarrow>
    0 \<le> century d \<and> century d \<le> 3 \<and> 0 \<le> d - 36524 * century d \<and> d - 36524 * century d \<le> 36524"
  unfolding century_def min_def by (auto; linarith)

lemma year_of_4_range: "0 \<le> d \<Longrightarrow> d < 1461 \<Longrightarrow>
    0 \<le> year_of_4 d \<and> year_of_4 d \<le> 3 \<and> 0 \<le> d - 365 * year_of_4 d \<and> d - 365 * year_of_4 d \<le> 365"
  unfolding year_of_4_def min_def by (auto; linarith)

lemma day_of_century_range: "0 \<le> day_of_century z \<and> day_of_century z \<le> 36524"
  using century_range [of "z mod 146097"] by (simp add: day_of_century_def)

lemma march_year_doy:
  assumes "march_year z = (y, doy)"
  shows "0 \<le> doy \<and> doy \<le> 365"
  using assms year_of_4_range [of "day_of_century z mod 1461"] by (auto simp: march_year_def)

lemma month_index_range:
  assumes "0 \<le> doy" "doy \<le> 365"
  shows "0 \<le> month_index doy \<and> month_index doy \<le> 11"
  using assms unfolding month_index_def by linarith

lemma civil_unfold:
  assumes "march_year (n + 719468) = (y0, doy)"
  shows "civil n =
     ((if month_index doy < 10 then y0 else y0 + 1),
      (if month_index doy < 10 then month_index doy + 3 else month_index doy - 9),
      doy - (153 * month_index doy + 2) div 5 + 1)"
  using month_index_range [of doy] march_year_doy [OF assms] by (simp add: civil_def assms Let_def)

lemma civil_ranges:
  assumes "civil n = (y, m, d)"
  shows "1 \<le> m \<and> m \<le> 12 \<and> 1 \<le> d \<and> d \<le> 31"
proof -
  obtain y0 doy where my: "march_year (n + 719468) = (y0, doy)"
    by (cases "march_year (n + 719468)")
  have mp: "0 \<le> month_index doy" "month_index doy \<le> 11"
    using month_index_range march_year_doy [OF my] by auto
  have "153 * month_index doy \<le> 5 * doy + 2" "5 * doy + 2 < 153 * month_index doy + 153"
    unfolding month_index_def by linarith+
  then have "1 \<le> doy - (153 * month_index doy + 2) div 5 + 1"
    "doy - (153 * month_index doy + 2) div 5 + 1 \<le> 31" by linarith+
  then show ?thesis using assms mp by (auto simp: civil_unfold [OF my] split: if_splits)
qed

lemma march_year_days:
  assumes "march_year z = (y, doy)"
  shows "365 * y + y div 4 - y div 100 + y div 400 + doy = z"
proof -
  define c where "c = century (z mod 146097)"
  define q where "q = day_of_century z div 1461"
  define yy where "yy = year_of_4 (day_of_century z mod 1461)"
  have c: "0 \<le> c" "c \<le> 3" using century_range [of "z mod 146097"] by (simp_all add: c_def)
  have yy: "0 \<le> yy" "yy \<le> 3" using year_of_4_range [of "day_of_century z mod 1461"] by (simp_all add: yy_def)
  have q: "0 \<le> q" "q \<le> 24" using day_of_century_range [of z] unfolding q_def by linarith+
  have y: "y = 400 * (z div 146097) + 100 * c + 4 * q + yy"
    and doy: "doy = day_of_century z mod 1461 - 365 * yy"
    using assms by (simp_all add: march_year_def c_def q_def yy_def)
  have "y div 4 = 100 * (z div 146097) + 25 * c + q" using y yy by linarith
  moreover have "y div 100 = 4 * (z div 146097) + c" using y yy q by linarith
  moreover have "y div 400 = z div 146097" using y yy q c by linarith
  moreover have "day_of_century z = 1461 * q + day_of_century z mod 1461"
    by (simp add: q_def)
  moreover have "z = 146097 * (z div 146097) + 36524 * c + day_of_century z"
    by (simp add: day_of_century_def c_def)
  ultimately show ?thesis using y doy by linarith
qed

lemma days_of_civil_civil:
  assumes "civil n = (y, m, d)"
  shows "days_of_civil y m d = n"
proof -
  obtain y0 doy where my: "march_year (n + 719468) = (y0, doy)"
    by (cases "march_year (n + 719468)")
  have mp: "0 \<le> month_index doy" "month_index doy \<le> 11"
    using month_index_range march_year_doy [OF my] by auto
  note c = assms [unfolded civil_unfold [OF my]]
  show ?thesis
  proof (cases "month_index doy < 10")
    case True
    then show ?thesis using c mp march_year_days [OF my] by (auto simp: days_of_civil_def)
  next
    case False
    then show ?thesis using c mp march_year_days [OF my] by (auto simp: days_of_civil_def)
  qed
qed

lemma civil_inj: "civil a = civil b \<Longrightarrow> a = b"
  by (metis days_of_civil_civil prod_cases3)

lemma ensureZatcaTimeZ_ends: "endsWith ''Z'' (ensureZatcaTimeZ t)"
  by (auto simp: ensureZatcaTimeZ_def endsWith_def)

lemma ensureZatcaTimeZ_idem: "ensureZatcaTimeZ (ensureZatcaTimeZ t) = ensureZatcaTimeZ t"
  using ensureZatcaTimeZ_ends [of t] by (simp add: ensureZatcaTimeZ_def)

section \<open>Widths\<close>

lemma nat_str_width: "n < 10 ^ Suc k \<Longrightarrow> length (nat_str n) \<le> Suc k"
proof (induction k arbitrary: n)
  case 0
  then show ?case by (simp add: nat_str.simps [of n])
next
  case (Suc k)
  show ?case
  proof (cases "n < 10")
    case True
    then show ?thesis by (simp add: nat_str.simps [of n])
  next
    case False
    have "n div 10 < 10 ^ Suc k" using Suc.prems by (simp add: less_mult_imp_div_less)
    then show ?thesis using Suc.IH [of "n div 10"] False by (simp add: nat_str.simps [of n])
  qed
qed

lemma padStart_width: "0 \<le> i \<Longrightarrow> i < 10 ^ Suc k \<Longrightarrow> length (padStart (Suc k) c (int_str i)) = Suc k"
proof -
  assume "0 \<le> i" "i < 10 ^ Suc k"
  then have "nat i < 10 ^ Suc k" by (metis nat_less_iff of_nat_numeral of_nat_power)
  then show ?thesis using nat_str_width [of "nat i" k] \<open>0 \<le> i\<close> by (simp add: padStart_def int_str_def)
qed

lemma pad2_width: "0 \<le> i \<Longrightarrow> i < 100 \<Longrightarrow> length (pad2 i) = 2"
  using padStart_width [of i 1] by (simp add: pad2_def numeral_2_eq_2 [symmetric])

lemma iso_year_width: "0 \<le> y \<Longrightarrow> y \<le> 9999 \<Longrightarrow> length (iso_year y) = 4"
  using padStart_width [of y 3] by (simp add: iso_year_def)

lemma toISOString_parts:
  assumes "0 \<le> getUTCFullYear t" "getUTCFullYear t \<le> 9999"
  shows "\<exists>y m d h mi s u. toISOString t = y @ ''-'' @ m @ ''-'' @ d @ ''T'' @ h @ '':'' @ mi @ '':'' @ s @ ''.'' @ u @ ''Z''
    \<and> length y = 4 \<and> length m = 2 \<and> length d = 2 \<and> length h = 2 \<and> length mi = 2 \<and> length s = 2"
proof -
  obtain y m d where c: "civil (days_of_ms t) = (y, m, d)" by (cases "civil (days_of_ms t)")
  have r: "0 \<le> getUTCMonth t + 1" "getUTCMonth t + 1 < 100" "0 \<le> getUTCDate t" "getUTCDate t < 100"
    using civil_ranges [OF c] by (simp_all add: getUTCMonth_def getUTCDate_def c)
  define s where "s = ms_in_day t div 1000"
  have s: "0 \<le> s" "s < 86400" by (simp_all add: s_def ms_in_day_def ms_per_day_def)
  then have h: "0 \<le> s div 3600" "s div 3600 < 100" "0 \<le> s mod 3600 div 60" "s mod 3600 div 60 < 100"
    "0 \<le> s mod 60" "s mod 60 < 100"
    using pos_mod_bound [of 3600 s] pos_mod_sign [of 3600 s] pos_mod_bound [of 60 s] pos_mod_sign [of 60 s]
    by linarith+
  have w: "length (pad2 (s div 3600)) = 2" "length (pad2 (s mod 3600 div 60)) = 2" "length (pad2 (s mod 60)) = 2"
    using h by (simp_all only: pad2_width)
  show ?thesis
    by (intro exI conjI)
      (rule toISOString_def [unfolded Let_def, folded s_def], simp_all add: iso_year_width assms pad2_width r w [unfolded s_def])
qed

end
