(* ===== verification/Builders.thy ===== *)
theory Builders
  imports TaxArithmetic Signing
begin

text \<open>
  The invoice builders (\<open>core/src/invoices/base.ts\<close>, the six Phase 2 builders, the two Phase 1
  builders) and the party fragments (\<open>core/src/issue/build-parties.ts\<close>). The abstract class is a
  record of its overridden methods; each builder is one value of it.
\<close>

section \<open>Parties\<close>

definition optional_prop :: "string \<Rightarrow> string option \<Rightarrow> (string \<times> jsval) list" where
  "optional_prop k v = (case v of None \<Rightarrow> [] | Some s \<Rightarrow> [(k, JStr s)])"

definition address_xml :: "PartyAddress \<Rightarrow> jsval" where
  "address_xml a = JObj
     ([(''cbc:StreetName'', JStr (addr_streetName a)), (''cbc:BuildingNumber'', JStr (addr_buildingNumber a))]
      @ optional_prop ''cbc:PlotIdentification'' (addr_plotIdentification a)
      @ optional_prop ''cbc:CitySubdivisionName'' (addr_citySubdivision a)
      @ [(''cbc:CityName'', JStr (addr_cityName a)), (''cbc:PostalZone'', JStr (addr_postalZone a)),
         (''cac:Country'', JObj [(''cbc:IdentificationCode'', JStr (addr_countryCode a))])])"

definition buildBuyerInfoXml :: "BuyerInfo \<Rightarrow> jsval" where
  "buildBuyerInfoXml b = JObj [(''cac:Party'', JObj
     ([(''cac:PartyIdentification'', JObj [(''cbc:ID'', JObj
          [(''@_schemeID'', JStr (buyer_identityScheme b)), (''#text'', JStr (buyer_identityNumber b))])])]
      @ (case buyer_address b of None \<Rightarrow> [] | Some a \<Rightarrow> [(''cac:PostalAddress'', address_xml a)])
      @ (case buyer_vatNumber b of None \<Rightarrow> []
         | Some v \<Rightarrow> [(''cac:PartyTaxScheme'', JObj [(''cbc:CompanyID'', JStr v), (''cac:TaxScheme'', vat_scheme)])])
      @ [(''cac:PartyLegalEntity'', JObj [(''cbc:RegistrationName'', JStr (buyer_registrationName b))])]))]"

record SellerSummary =
  sum_vatNumber :: string
  sum_registrationName :: string
  sum_streetName :: string
  sum_buildingNumber :: string
  sum_plotIdentification :: string
  sum_cityName :: string
  sum_citySubdivision :: string
  sum_postalZone :: string
  sum_countryCode :: string
  sum_identityType :: string
  sum_identityNumber :: string

definition buildSellerSummary :: "EGSUnitInfo \<Rightarrow> SellerSummary" where
  "buildSellerSummary e = (let l = egs_location e in
     \<lparr>sum_vatNumber = egs_vatNumber e, sum_registrationName = egs_vatName e,
      sum_streetName = loc_street l, sum_buildingNumber = loc_building l,
      sum_plotIdentification = loc_plotIdentification l, sum_cityName = loc_cityName l,
      sum_citySubdivision = loc_citySubdivision l, sum_postalZone = loc_postalZone l,
      sum_countryCode = ''SA'', sum_identityType = ''CRN'', sum_identityNumber = egs_crnNumber e\<rparr>)"

section \<open>The Phase 2 builders\<close>

record Builder =
  templateFn :: "InvoiceInput \<Rightarrow> string"
  buildLineItemTotals :: "ZATCAInvoiceLineItem \<Rightarrow> LineItemTotals"
  buildTaxTotal :: "ZATCAInvoiceLineItem list \<Rightarrow> jsval list"
  buildLegalMonetaryTotal :: "num64 \<Rightarrow> num64 \<Rightarrow> jsval"
  includeInvoiceQuantityFraction :: bool
  includePriceBaseQuantity :: bool
  allowanceChargeAtLineTop :: bool
  formatPriceAmountText :: bool
  invoiceTypeCode :: string
  isSimplified :: bool
  isCreditOrDebitNote :: bool

definition invoice_builder :: "(InvoiceInput \<Rightarrow> string) \<Rightarrow> string \<Rightarrow> bool \<Rightarrow> bool \<Rightarrow> Builder" where
  "invoice_builder template code simplified note =
     \<lparr>templateFn = template, buildLineItemTotals = buildInvoiceLineItemTotals,
      buildTaxTotal = buildInvoiceTaxTotal, buildLegalMonetaryTotal = buildInvoiceLegalMonetaryTotal,
      includeInvoiceQuantityFraction = False, includePriceBaseQuantity = False,
      allowanceChargeAtLineTop = False, formatPriceAmountText = False,
      invoiceTypeCode = code, isSimplified = simplified, isCreditOrDebitNote = note\<rparr>"

definition debit_note_builder :: "(InvoiceInput \<Rightarrow> string) \<Rightarrow> bool \<Rightarrow> Builder" where
  "debit_note_builder template simplified =
     \<lparr>templateFn = template,
      buildLineItemTotals = (\<lambda>l. buildDebitNoteLineItemTotals l (\<not> simplified)),
      buildTaxTotal = buildDebitNoteTaxTotal, buildLegalMonetaryTotal = buildDebitNoteLegalMonetaryTotal,
      includeInvoiceQuantityFraction = True, includePriceBaseQuantity = True,
      allowanceChargeAtLineTop = True, formatPriceAmountText = True,
      invoiceTypeCode = ''383'', isSimplified = simplified, isCreditOrDebitNote = True\<rparr>"

definition SimplifiedTaxInvoiceBuilder :: Builder where
  "SimplifiedTaxInvoiceBuilder = invoice_builder populateSimplifiedTaxInvoiceTemplate ''388'' True False"
definition StandardTaxInvoiceBuilder :: Builder where
  "StandardTaxInvoiceBuilder = invoice_builder populateStandardTaxInvoiceTemplate ''388'' False False"
definition SimplifiedCreditNoteBuilder :: Builder where
  "SimplifiedCreditNoteBuilder = invoice_builder populateSimplifiedCreditNoteTemplate ''381'' True True"
definition StandardCreditNoteBuilder :: Builder where
  "StandardCreditNoteBuilder = invoice_builder populateStandardCreditNoteTemplate ''381'' False True"
definition SimplifiedDebitNoteBuilder :: Builder where
  "SimplifiedDebitNoteBuilder = debit_note_builder populateSimplifiedDebitNoteTemplate True"
definition StandardDebitNoteBuilder :: Builder where
  "StandardDebitNoteBuilder = debit_note_builder populateStandardDebitNoteTemplate False"

definition normalizeInput :: "InvoiceInput \<Rightarrow> InvoiceInput" where
  "normalizeInput input = input\<lparr>issueTime := ensureZatcaTimeZ (issueTime input)\<rparr>"

definition price_xml :: "Builder \<Rightarrow> ZATCAInvoiceLineItem \<Rightarrow> LineItemTotals \<Rightarrow> jsval" where
  "price_xml b l t = JObj
     ([(''cbc:PriceAmount'', amount (if formatPriceAmountText b
          then JStr (toFixedNoRounding (taxExclusivePrice l) 2) else JNum (taxExclusivePrice l)))]
      @ (if includePriceBaseQuantity b
         then [(''cbc:BaseQuantity'', JObj [(''@_unitCode'', JStr ''PCE''), (''#text'', JStr ''1.00'')])] else [])
      @ (if \<not> allowanceChargeAtLineTop b
         then [(''cac:AllowanceCharge'', JArr (cacAllowanceCharges t))] else []))"

definition assembleLineItemXml :: "Builder \<Rightarrow> ZATCAInvoiceLineItem \<Rightarrow> LineItemTotals \<Rightarrow> jsval" where
  "assembleLineItemXml b l t = JObj
     ([(''cbc:ID'', JStr (item_id l)),
       (''cbc:InvoicedQuantity'', JObj [(''@_unitCode'', JStr ''PCE''),
          (''#text'', if includeInvoiceQuantityFraction b
             then JStr (toFixedNoRounding (item_quantity l) 2) else JNum (item_quantity l))]),
       (''cbc:LineExtensionAmount'', money (lineItemTotalTaxExclusive t)),
       (''cac:TaxTotal'', cacTaxTotal t),
       (''cac:Item'', JObj [(''cbc:Name'', JStr (item_name l)),
          (''cac:ClassifiedTaxCategory'', JArr (cacClassifiedTaxCategories t))]),
       (''cac:Price'', price_xml b l t)]
      @ (if allowanceChargeAtLineTop b \<and> cacAllowanceCharges t \<noteq> []
         then [(''cac:AllowanceCharge'', JArr (cacAllowanceCharges t))] else []))"

definition injectBuyerParty :: "InvoiceInput \<Rightarrow> jsval \<Rightarrow> jsval" where
  "injectBuyerParty input doc = (case buyerInfo input of None \<Rightarrow> doc
     | Some b \<Rightarrow> snd (doc_set doc ''Invoice/cac:AccountingCustomerParty'' True (buildBuyerInfoXml b)))"

text \<open>The document totals: the truncated line totals summed in order, then rounded to two decimals.\<close>

definition sum_lines :: "(LineItemTotals \<Rightarrow> num64) \<Rightarrow> Builder \<Rightarrow> ZATCAInvoiceLineItem list \<Rightarrow> num64" where
  "sum_lines f b ls = parseFloat (toFixed
     (foldl (\<lambda>a l. add64 a (trunc2 (f (buildLineItemTotals b l)))) zero64 ls) 2)"

definition payment_means :: "ZATCAInvoiceCancelation \<Rightarrow> jsval" where
  "payment_means c = JObj [(''cbc:PaymentMeansCode'', JStr (paymentMethod c)),
     (''cbc:InstructionNote'', JStr (cancelation_reason c))]"

definition append_each :: "string \<Rightarrow> jsval list \<Rightarrow> jsval \<Rightarrow> jsval" where
  "append_each path xs doc = foldl (\<lambda>d x. snd (doc_set d path False x)) doc xs"

text \<open>The document before it is signed; \<open>build\<close> and \<open>buildUnsignedDocument\<close> share these steps.\<close>

definition buildUnsignedDocument :: "crypto_lib \<Rightarrow> Builder \<Rightarrow> InvoiceInput \<Rightarrow> jsval" where
  "buildUnsignedDocument lib b input =
     (let ls = lineItems input;
          d0 = newXMLDocument lib (templateFn b input);
          d1 = injectBuyerParty input d0;
          d2 = (case cancelation input of None \<Rightarrow> d1
             | Some c \<Rightarrow> snd (doc_set d1 ''Invoice/cac:PaymentMeans'' False (payment_means c)));
          d3 = append_each ''Invoice/cac:TaxTotal'' (buildTaxTotal b ls) d2;
          d4 = snd (doc_set d3 ''Invoice/cac:LegalMonetaryTotal'' True
             (buildLegalMonetaryTotal b (sum_lines lineItemTotalTaxExclusive b ls)
                (sum_lines lineItemTotalTaxes b ls)))
      in append_each ''Invoice/cac:InvoiceLine''
           (map (\<lambda>l. assembleLineItemXml b l (buildLineItemTotals b l)) ls) d4)"

record BuiltInvoice =
  built_invoiceXml :: string
  built_signedXml :: string
  built_invoiceHash :: string
  built_qrCode :: string

definition build :: "crypto_lib \<Rightarrow> int \<Rightarrow> Builder \<Rightarrow> InvoiceInput \<Rightarrow> string \<Rightarrow> string \<Rightarrow> error + BuiltInvoice" where
  "build lib now b raw certificate private_key =
     (let doc = buildUnsignedDocument lib b (normalizeInput raw) in
      case generateSignedXMLString lib now doc certificate private_key of
        Inl _ \<Rightarrow> Err (ZatcaSigningError ''Failed to sign invoice XML in BaseInvoiceBuilder.build().'')
      | Inr sx \<Rightarrow> Ok
          \<lparr>built_invoiceXml = docString lib doc, built_signedXml = signed_invoice_string sx,
           built_invoiceHash = signed_invoice_hash sx, built_qrCode = signed_qr sx\<rparr>)"

section \<open>The Phase 1 builders\<close>

definition phase1_line_total :: "ZATCAInvoiceLineItem \<Rightarrow> num64" where
  "phase1_line_total l = mul64 (taxExclusivePrice l) (item_quantity l)"

definition computeTotals :: "InvoiceInput \<Rightarrow> num64 \<times> num64 \<times> num64" where
  "computeTotals input =
     (let subtotal = foldl (\<lambda>a l. add64 a (phase1_line_total l)) zero64 (lineItems input);
          vat = foldl (\<lambda>a l. add64 a (div64 (mul64 (phase1_line_total l) (vatPercent l)) hundred64))
             zero64 (lineItems input)
      in (subtotal, vat, add64 subtotal vat))"

definition phase1_line_xml :: "nat \<Rightarrow> ZATCAInvoiceLineItem \<Rightarrow> string" where
  \<open>phase1_line_xml i l = ''
  <cac:InvoiceLine>
    <cbc:ID>''
     @ nat_str (Suc i)
     @ ''</cbc:ID>
    <cbc:InvoicedQuantity unitCode="PCE">''
     @ num_str (item_quantity l)
     @ ''</cbc:InvoicedQuantity>
    <cbc:LineExtensionAmount currencyID="SAR">''
     @ toFixed (phase1_line_total l) 2
     @ ''</cbc:LineExtensionAmount>
    <cac:Item>
      <cbc:Name>''
     @ item_name l
     @ ''</cbc:Name>
    </cac:Item>
    <cac:Price>
      <cbc:PriceAmount currencyID="SAR">''
     @ toFixed (taxExclusivePrice l) 2
     @ ''</cbc:PriceAmount>
    </cac:Price>
  </cac:InvoiceLine>''\<close>

definition phase1_lines_xml :: "InvoiceInput \<Rightarrow> string" where
  "phase1_lines_xml input = concat (map (\<lambda>(i, l). phase1_line_xml i l)
     (zip [0..<length (lineItems input)] (lineItems input)))"

definition phase1_buyer :: "InvoiceInput \<Rightarrow> string" where
  "phase1_buyer input = (case buyerName input of None \<Rightarrow> ''Customer'' | Some n \<Rightarrow> n)"

definition phase1_invoice_xml :: "InvoiceInput \<Rightarrow> string" where
  \<open>phase1_invoice_xml input = (case computeTotals input of (subtotal, vat, whole) \<Rightarrow>
     (let seller = inv_egsInfo input; loc = egs_location seller; buyer = phase1_buyer input;
          lines_xml = phase1_lines_xml input in
     ''<?xml version="1.0" encoding="UTF-8"?>
<Invoice xmlns="urn:oasis:names:specification:ubl:schema:xsd:Invoice-2" xmlns:cac="urn:oasis:names:specification:ubl:schema:xsd:CommonAggregateComponents-2" xmlns:cbc="urn:oasis:names:specification:ubl:schema:xsd:CommonBasicComponents-2">
  <cbc:ID>''
     @ invoiceSerialNumber input
     @ ''</cbc:ID>
  <cbc:IssueDate>''
     @ issueDate input
     @ ''</cbc:IssueDate>
  <cbc:IssueTime>''
     @ issueTime input
     @ ''</cbc:IssueTime>
  <cbc:InvoiceTypeCode name="0100000">388</cbc:InvoiceTypeCode>
  <cbc:DocumentCurrencyCode>SAR</cbc:DocumentCurrencyCode>
  <cbc:TaxCurrencyCode>SAR</cbc:TaxCurrencyCode>

  <cac:AccountingSupplierParty>
    <cac:Party>
      <cac:PartyLegalEntity>
        <cbc:RegistrationName>''
     @ egs_vatName seller
     @ ''</cbc:RegistrationName>
      </cac:PartyLegalEntity>
      <cac:PartyTaxScheme>
        <cbc:CompanyID>''
     @ egs_vatNumber seller
     @ ''</cbc:CompanyID>
        <cac:TaxScheme>
          <cbc:ID>VAT</cbc:ID>
        </cac:TaxScheme>
      </cac:PartyTaxScheme>
      <cac:PostalAddress>
        <cbc:StreetName>''
     @ loc_street loc
     @ ''</cbc:StreetName>
        <cbc:BuildingNumber>''
     @ loc_building loc
     @ ''</cbc:BuildingNumber>
        <cbc:CityName>''
     @ loc_cityName loc
     @ ''</cbc:CityName>
        <cbc:PostalZone>''
     @ loc_postalZone loc
     @ ''</cbc:PostalZone>
        <cac:Country>
          <cbc:IdentificationCode>SA</cbc:IdentificationCode>
        </cac:Country>
      </cac:PostalAddress>
    </cac:Party>
  </cac:AccountingSupplierParty>

  <cac:AccountingCustomerParty>
    <cac:Party>
      <cac:PartyLegalEntity>
        <cbc:RegistrationName>''
     @ buyer
     @ ''</cbc:RegistrationName>
      </cac:PartyLegalEntity>
    </cac:Party>
  </cac:AccountingCustomerParty>

  <cac:TaxTotal>
    <cbc:TaxAmount currencyID="SAR">''
     @ toFixed vat 2
     @ ''</cbc:TaxAmount>
  </cac:TaxTotal>

  <cac:LegalMonetaryTotal>
    <cbc:LineExtensionAmount currencyID="SAR">''
     @ toFixed subtotal 2
     @ ''</cbc:LineExtensionAmount>
    <cbc:TaxExclusiveAmount currencyID="SAR">''
     @ toFixed subtotal 2
     @ ''</cbc:TaxExclusiveAmount>
    <cbc:TaxInclusiveAmount currencyID="SAR">''
     @ toFixed whole 2
     @ ''</cbc:TaxInclusiveAmount>
    <cbc:PayableAmount currencyID="SAR">''
     @ toFixed whole 2
     @ ''</cbc:PayableAmount>
  </cac:LegalMonetaryTotal>
''
     @ lines_xml
     @ ''
</Invoice>''))\<close>

definition canceled_number :: "InvoiceInput \<Rightarrow> string" where
  "canceled_number input = (case cancelation input of None \<Rightarrow> []
     | Some c \<Rightarrow> num_str (canceledInvoiceNumber c))"

definition phase1_credit_note_xml :: "InvoiceInput \<Rightarrow> string" where
  \<open>phase1_credit_note_xml input = (case computeTotals input of (subtotal, vat, whole) \<Rightarrow>
     (let seller = inv_egsInfo input; loc = egs_location seller; buyer = phase1_buyer input;
          lines_xml = phase1_lines_xml input; original = canceled_number input in
     ''<?xml version="1.0" encoding="UTF-8"?>
<Invoice xmlns="urn:oasis:names:specification:ubl:schema:xsd:Invoice-2" xmlns:cac="urn:oasis:names:specification:ubl:schema:xsd:CommonAggregateComponents-2" xmlns:cbc="urn:oasis:names:specification:ubl:schema:xsd:CommonBasicComponents-2">
  <cbc:ID>''
     @ invoiceSerialNumber input
     @ ''</cbc:ID>
  <cbc:IssueDate>''
     @ issueDate input
     @ ''</cbc:IssueDate>
  <cbc:IssueTime>''
     @ issueTime input
     @ ''</cbc:IssueTime>
  <cbc:InvoiceTypeCode name="0100000">381</cbc:InvoiceTypeCode>
  <cbc:DocumentCurrencyCode>SAR</cbc:DocumentCurrencyCode>
  <cbc:TaxCurrencyCode>SAR</cbc:TaxCurrencyCode>

  <cac:BillingReference>
    <cac:InvoiceDocumentReference>
      <cbc:ID>''
     @ original
     @ ''</cbc:ID>
    </cac:InvoiceDocumentReference>
  </cac:BillingReference>

  <cac:AccountingSupplierParty>
    <cac:Party>
      <cac:PartyLegalEntity>
        <cbc:RegistrationName>''
     @ egs_vatName seller
     @ ''</cbc:RegistrationName>
      </cac:PartyLegalEntity>
      <cac:PartyTaxScheme>
        <cbc:CompanyID>''
     @ egs_vatNumber seller
     @ ''</cbc:CompanyID>
        <cac:TaxScheme>
          <cbc:ID>VAT</cbc:ID>
        </cac:TaxScheme>
      </cac:PartyTaxScheme>
      <cac:PostalAddress>
        <cbc:StreetName>''
     @ loc_street loc
     @ ''</cbc:StreetName>
        <cbc:BuildingNumber>''
     @ loc_building loc
     @ ''</cbc:BuildingNumber>
        <cbc:CityName>''
     @ loc_cityName loc
     @ ''</cbc:CityName>
        <cbc:PostalZone>''
     @ loc_postalZone loc
     @ ''</cbc:PostalZone>
        <cac:Country>
          <cbc:IdentificationCode>SA</cbc:IdentificationCode>
        </cac:Country>
      </cac:PostalAddress>
    </cac:Party>
  </cac:AccountingSupplierParty>

  <cac:AccountingCustomerParty>
    <cac:Party>
      <cac:PartyLegalEntity>
        <cbc:RegistrationName>''
     @ buyer
     @ ''</cbc:RegistrationName>
      </cac:PartyLegalEntity>
    </cac:Party>
  </cac:AccountingCustomerParty>

  <cac:TaxTotal>
    <cbc:TaxAmount currencyID="SAR">''
     @ toFixed vat 2
     @ ''</cbc:TaxAmount>
  </cac:TaxTotal>

  <cac:LegalMonetaryTotal>
    <cbc:LineExtensionAmount currencyID="SAR">''
     @ toFixed subtotal 2
     @ ''</cbc:LineExtensionAmount>
    <cbc:TaxExclusiveAmount currencyID="SAR">''
     @ toFixed subtotal 2
     @ ''</cbc:TaxExclusiveAmount>
    <cbc:TaxInclusiveAmount currencyID="SAR">''
     @ toFixed whole 2
     @ ''</cbc:TaxInclusiveAmount>
    <cbc:PayableAmount currencyID="SAR">''
     @ toFixed whole 2
     @ ''</cbc:PayableAmount>
  </cac:LegalMonetaryTotal>
''
     @ lines_xml
     @ ''
</Invoice>''))\<close>

record BuiltPhase1Invoice =
  built1_invoiceXml :: string
  built1_qrCode :: string

definition build_phase1 :: "crypto_lib \<Rightarrow> string \<Rightarrow> error + BuiltPhase1Invoice" where
  "build_phase1 lib xml = (case generatePhase1QR (newXMLDocument lib xml) of
     Inl e \<Rightarrow> Inl e | Inr qr \<Rightarrow> Ok \<lparr>built1_invoiceXml = xml, built1_qrCode = qr\<rparr>)"

definition Phase1InvoiceBuilder_build :: "crypto_lib \<Rightarrow> InvoiceInput \<Rightarrow> error + BuiltPhase1Invoice" where
  "Phase1InvoiceBuilder_build lib input = build_phase1 lib (phase1_invoice_xml (normalizeInput input))"

definition Phase1CreditNoteBuilder_build :: "crypto_lib \<Rightarrow> InvoiceInput \<Rightarrow> error + BuiltPhase1Invoice" where
  "Phase1CreditNoteBuilder_build lib input =
     build_phase1 lib (phase1_credit_note_xml (normalizeInput input))"

end
