(* ===== verification/Storage.thy ===== *)
theory Storage
  imports Types DateTime
begin

text \<open>
  The storage interface of the core package (\<open>core/src/types/storage.ts\<close>) and two of its
  implementations: the reference adapter (\<open>storage-memory/src/adapter.ts\<close>) and the private one
  of the compliance runner (\<open>core/src/compliance/_internal-memory-storage.ts\<close>). The interface is
  a record of operations over a state; its contract is the locale \<open>storage_adapter\<close>, under which
  the clients' lemmas are proved, and both adapters are interpretations of it. The per-row mutex
  of the reference adapter makes each operation one step.
\<close>

section \<open>The interface\<close>

record 's StorageAdapter =
  incrementCounter :: "TenantScope \<Rightarrow> ('s, int \<times> string) eff"
  getPreviousHash :: "TenantScope \<Rightarrow> InvoiceKind option \<Rightarrow> ('s, string) eff"
  recordInvoice :: "TenantScope \<Rightarrow> InvoiceRecord \<Rightarrow> ('s, unit) eff"
  loadInvoice :: "TenantScope \<Rightarrow> string \<Rightarrow> ('s, InvoiceRecord option) eff"
  updateInvoiceStatus :: "TenantScope \<Rightarrow> string \<Rightarrow> InvoiceStatus \<Rightarrow> ('s, unit) eff"

definition unknown_invoice :: "string \<Rightarrow> error" where
  "unknown_invoice i = ZatcaStorageError (''updateInvoiceStatus called for unknown invoice '' @ i @ ''.'')"

text \<open>
  \<open>counter\<close>, \<open>head\<close> and \<open>row\<close> are what a client can observe of the state: the sequence last handed
  out, the hash the next invoice of a kind is chained to, and the stored invoice. The laws are
  stated for scopes whose parts hold no colon.
\<close>

definition good_scope :: "TenantScope \<Rightarrow> bool" where
  "good_scope sc = (plain_scope sc \<and> CHR '':'' \<notin> set (scope_egsUuid sc))"

locale storage_adapter =
  fixes ops :: "'s StorageAdapter"
    and counter :: "TenantScope \<Rightarrow> 's \<Rightarrow> int"
    and head :: "TenantScope \<Rightarrow> InvoiceKind \<Rightarrow> 's \<Rightarrow> string"
    and row :: "TenantScope \<Rightarrow> string \<Rightarrow> 's \<Rightarrow> InvoiceRecord option"
  assumes increment: "\<exists>serial s'. incrementCounter ops sc s = (Ok (counter sc s + 1, serial), s')"
    and increment_counter: "good_scope sc \<Longrightarrow> good_scope sc' \<Longrightarrow>
      incrementCounter ops sc s = (z, s') \<Longrightarrow>
      counter sc' s' = (if sc' = sc then counter sc s + 1 else counter sc' s)"
    and increment_frame: "incrementCounter ops sc s = (z, s') \<Longrightarrow>
      head sc' k s' = head sc' k s \<and> row sc' i s' = row sc' i s"
    and previous: "getPreviousHash ops sc (Some k) s = (Ok (head sc k s), s)"
    and record_new: "good_scope sc \<Longrightarrow> row sc (rec_invoiceId r) s = None \<Longrightarrow>
      \<exists>s'. recordInvoice ops sc r s = (Ok (), s')"
    and record_row: "good_scope sc \<Longrightarrow> good_scope sc' \<Longrightarrow> row sc (rec_invoiceId r) s = None \<Longrightarrow>
      recordInvoice ops sc r s = (Ok (), s') \<Longrightarrow>
      row sc' i s' = (if sc' = sc \<and> i = rec_invoiceId r then Some r else row sc' i s)"
    and record_head: "good_scope sc \<Longrightarrow> row sc (rec_invoiceId r) s = None \<Longrightarrow>
      recordInvoice ops sc r s = (Ok (), s') \<Longrightarrow> head sc (rec_kind r) s' = rec_invoiceHash r"
    and record_head_frame: "good_scope sc \<Longrightarrow> good_scope sc' \<Longrightarrow> sc' \<noteq> sc \<Longrightarrow>
      recordInvoice ops sc r s = (x, s') \<Longrightarrow> head sc' k s' = head sc' k s"
    and record_counter: "recordInvoice ops sc r s = (x, s') \<Longrightarrow> counter sc' s' = counter sc' s"
    and load: "loadInvoice ops sc i s = (Ok (row sc i s), s)"
    and update_unknown: "row sc i s = None \<Longrightarrow>
      updateInvoiceStatus ops sc i st s = (Err (unknown_invoice i), s)"
    and update_known: "row sc i s = Some r \<Longrightarrow> \<exists>s'. updateInvoiceStatus ops sc i st s = (Ok (), s')"
    and update_row: "good_scope sc \<Longrightarrow> good_scope sc' \<Longrightarrow> row sc i s = Some r \<Longrightarrow>
      updateInvoiceStatus ops sc i st s = (x, s') \<Longrightarrow>
      row sc' j s' = (if sc' = sc \<and> j = i then Some (r\<lparr>rec_status := st\<rparr>) else row sc' j s)"
    and update_frame: "updateInvoiceStatus ops sc i st s = (x, s') \<Longrightarrow>
      counter sc' s' = counter sc' s \<and> head sc' k s' = head sc' k s"
begin

lemma increment_obtain:
  obtains serial s' where "incrementCounter ops sc s = (Ok (counter sc s + 1, serial), s')"
  using increment by blast

lemma record_then_load:
  assumes "good_scope sc" "row sc (rec_invoiceId r) s = None" "recordInvoice ops sc r s = (Ok (), s')"
  shows "loadInvoice ops sc (rec_invoiceId r) s' = (Ok (Some r), s')"
  using assms by (simp add: load record_row)

lemma record_then_chain:
  assumes "good_scope sc" "row sc (rec_invoiceId r) s = None" "recordInvoice ops sc r s = (Ok (), s')"
  shows "getPreviousHash ops sc (Some (rec_kind r)) s' = (Ok (rec_invoiceHash r), s')"
  using assms by (simp add: previous record_head)

lemma update_then_load:
  assumes "good_scope sc" "row sc i s = Some r" "updateInvoiceStatus ops sc i st s = (Ok (), s')"
  shows "loadInvoice ops sc i s' = (Ok (Some (r\<lparr>rec_status := st\<rparr>)), s')"
  using assms by (simp add: load update_row)

end

section \<open>The reference adapter\<close>

text \<open>The chain heads of a scope: one per kind, and \<open>None\<close> for the key \<open>"__any__"\<close>.\<close>

record ScopeCell =
  cell_records :: "(string, InvoiceRecord) jsmap"
  cell_chainHead :: "(InvoiceKind option, string) jsmap"

record memory_state =
  mem_counters :: "(string, int) jsmap"
  mem_scopes :: "(string, ScopeCell) jsmap"

definition memory_empty :: memory_state where
  "memory_empty = \<lparr>mem_counters = [], mem_scopes = []\<rparr>"

type_synonym number_formatter = "TenantScope \<Rightarrow> int \<Rightarrow> string \<Rightarrow> int \<Rightarrow> int \<Rightarrow> string"

definition defaultFormatter :: number_formatter where
  "defaultFormatter scope sequence yearMonth year month =
     int_str year @ pad2 month @ padStart 6 (CHR ''0'') (int_str sequence)"

definition yearMonthFor :: "int \<Rightarrow> string \<times> int \<times> int" where
  "yearMonthFor date = (let year = getUTCFullYear date; month = getUTCMonth date + 1
     in (int_str year @ pad2 month, year, month))"

definition counterKey :: "TenantScope \<Rightarrow> string \<Rightarrow> string" where
  "counterKey scope yearMonth = scopeKey scope @ '':'' @ yearMonth"

definition counter_value :: "string \<Rightarrow> memory_state \<Rightarrow> int" where
  "counter_value k s = (case mget (mem_counters s) k of None \<Rightarrow> 0 | Some n \<Rightarrow> n)"

definition mem_incrementCounter ::
  "number_formatter \<Rightarrow> int \<Rightarrow> TenantScope \<Rightarrow> (memory_state, int \<times> string) eff" where
  "mem_incrementCounter fmt now scope s = (case yearMonthFor now of (yearMonth, year, month) \<Rightarrow>
     (let n = counter_value (counterKey scope yearMonth) s + 1
      in (Ok (n, fmt scope n yearMonth year month),
          s\<lparr>mem_counters := mset_to (counterKey scope yearMonth) n (mem_counters s)\<rparr>)))"

definition mem_getPreviousHash ::
  "TenantScope \<Rightarrow> InvoiceKind option \<Rightarrow> (memory_state, string) eff" where
  "mem_getPreviousHash scope kind s = (case mget (mem_scopes s) (scopeKey scope) of
       None \<Rightarrow> (Ok ZATCA_BASE_INVOICE_HASH, s)
     | Some cell \<Rightarrow> (case mget (cell_chainHead cell) kind of
         None \<Rightarrow> (Ok ZATCA_BASE_INVOICE_HASH, s)
       | Some h \<Rightarrow> (Ok h, s)))"

definition empty_cell :: ScopeCell where
  "empty_cell = \<lparr>cell_records = [], cell_chainHead = []\<rparr>"

definition getOrCreateScope :: "TenantScope \<Rightarrow> memory_state \<Rightarrow> ScopeCell" where
  "getOrCreateScope scope s = (case mget (mem_scopes s) (scopeKey scope) of
     None \<Rightarrow> empty_cell | Some cell \<Rightarrow> cell)"

definition put_cell :: "TenantScope \<Rightarrow> ScopeCell \<Rightarrow> memory_state \<Rightarrow> memory_state" where
  "put_cell scope cell s = s\<lparr>mem_scopes := mset_to (scopeKey scope) cell (mem_scopes s)\<rparr>"

definition results_json :: "jsval option \<Rightarrow> string option" where
  "results_json v = (case v of None \<Rightarrow> None | Some x \<Rightarrow> json_of x)"

definition recordsEqual :: "InvoiceRecord \<Rightarrow> InvoiceRecord \<Rightarrow> bool" where
  "recordsEqual a b =
     (rec_invoiceId a = rec_invoiceId b \<and> rec_kind a = rec_kind b \<and> rec_serial a = rec_serial b \<and>
      rec_counterNumber a = rec_counterNumber b \<and> rec_uuid a = rec_uuid b \<and>
      rec_invoiceHash a = rec_invoiceHash b \<and>
      rec_previousInvoiceHash a = rec_previousInvoiceHash b \<and>
      rec_signedXml a = rec_signedXml b \<and> rec_qrBase64 a = rec_qrBase64 b \<and>
      rec_status a = rec_status b \<and> rec_issuedAt a = rec_issuedAt b \<and>
      rec_clearanceNumber a = rec_clearanceNumber b \<and>
      results_json (rec_validationResults a) = results_json (rec_validationResults b))"

text \<open>The scope's cell is created before the record is looked at, also when the call throws.\<close>

definition mem_recordInvoice :: "TenantScope \<Rightarrow> InvoiceRecord \<Rightarrow> (memory_state, unit) eff" where
  "mem_recordInvoice scope r s = (let cell = getOrCreateScope scope s; s1 = put_cell scope cell s in
     (case mget (cell_records cell) (rec_invoiceId r) of
        Some existing \<Rightarrow>
          (if \<not> recordsEqual existing r
           then (Err (ZatcaStorageError (''recordInvoice('' @ rec_invoiceId r
                   @ '') called twice with conflicting payloads.'')), s1)
           else (Ok (), s1))
      | None \<Rightarrow> (Ok (), put_cell scope
          \<lparr>cell_records = mset_to (rec_invoiceId r) r (cell_records cell),
           cell_chainHead = mset_to (Some (rec_kind r)) (rec_invoiceHash r)
             (mset_to None (rec_invoiceHash r) (cell_chainHead cell))\<rparr> s)))"

definition mem_loadInvoice :: "TenantScope \<Rightarrow> string \<Rightarrow> (memory_state, InvoiceRecord option) eff" where
  "mem_loadInvoice scope invoiceId s = (case mget (mem_scopes s) (scopeKey scope) of
       None \<Rightarrow> (Ok None, s)
     | Some cell \<Rightarrow> (Ok (mget (cell_records cell) invoiceId), s))"

definition mem_updateInvoiceStatus ::
  "TenantScope \<Rightarrow> string \<Rightarrow> InvoiceStatus \<Rightarrow> (memory_state, unit) eff" where
  "mem_updateInvoiceStatus scope invoiceId status s =
     (case mget (mem_scopes s) (scopeKey scope) of
        None \<Rightarrow> (Err (unknown_invoice invoiceId), s)
      | Some cell \<Rightarrow> (case mget (cell_records cell) invoiceId of
          None \<Rightarrow> (Err (unknown_invoice invoiceId), s)
        | Some existing \<Rightarrow> (Ok (), put_cell scope (cell\<lparr>cell_records :=
            mset_to invoiceId (existing\<lparr>rec_status := status\<rparr>) (cell_records cell)\<rparr>) s)))"

text \<open>
  \<open>createMemoryStorageAdapter(options)\<close> at a moment: \<open>now\<close> is what the clock reads during the
  calls, so a client that issues over time uses the adapter of each moment on one state.
\<close>

definition createMemoryStorageAdapter ::
  "number_formatter option \<Rightarrow> int \<Rightarrow> memory_state StorageAdapter" where
  "createMemoryStorageAdapter fmt now =
     \<lparr>incrementCounter = mem_incrementCounter (case fmt of None \<Rightarrow> defaultFormatter | Some f \<Rightarrow> f) now,
      getPreviousHash = mem_getPreviousHash, recordInvoice = mem_recordInvoice,
      loadInvoice = mem_loadInvoice, updateInvoiceStatus = mem_updateInvoiceStatus\<rparr>"

section \<open>The adapter of the compliance runner\<close>

record internal_state =
  int_counters :: "(string, int) jsmap"
  int_previousHash :: "(string, string) jsmap"
  int_records :: "(string, InvoiceRecord) jsmap"

definition recordKey :: "TenantScope \<Rightarrow> string \<Rightarrow> string" where
  "recordKey scope invoiceId = scopeKey scope @ '':'' @ invoiceId"

definition int_incrementCounter :: "TenantScope \<Rightarrow> (internal_state, int \<times> string) eff" where
  "int_incrementCounter scope s =
     (let n = (case mget (int_counters s) (scopeKey scope) of None \<Rightarrow> 0 | Some m \<Rightarrow> m) + 1
      in (Ok (n, ''INV-'' @ padStart 4 (CHR ''0'') (int_str n)),
          s\<lparr>int_counters := mset_to (scopeKey scope) n (int_counters s)\<rparr>))"

definition int_getPreviousHash ::
  "TenantScope \<Rightarrow> InvoiceKind option \<Rightarrow> (internal_state, string) eff" where
  "int_getPreviousHash scope kind s =
     (Ok (case mget (int_previousHash s) (scopeKey scope) of
        None \<Rightarrow> ZATCA_BASE_INVOICE_HASH | Some h \<Rightarrow> h), s)"

definition int_recordInvoice :: "TenantScope \<Rightarrow> InvoiceRecord \<Rightarrow> (internal_state, unit) eff" where
  "int_recordInvoice scope r s =
     (Ok (), s\<lparr>int_records := mset_to (recordKey scope (rec_invoiceId r)) r (int_records s),
       int_previousHash := mset_to (scopeKey scope) (rec_invoiceHash r) (int_previousHash s)\<rparr>)"

definition int_loadInvoice :: "TenantScope \<Rightarrow> string \<Rightarrow> (internal_state, InvoiceRecord option) eff" where
  "int_loadInvoice scope invoiceId s = (Ok (mget (int_records s) (recordKey scope invoiceId)), s)"

definition int_updateInvoiceStatus ::
  "TenantScope \<Rightarrow> string \<Rightarrow> InvoiceStatus \<Rightarrow> (internal_state, unit) eff" where
  "int_updateInvoiceStatus scope invoiceId status s =
     (case mget (int_records s) (recordKey scope invoiceId) of
        None \<Rightarrow> (Err (unknown_invoice invoiceId), s)
      | Some existing \<Rightarrow> (Ok (), s\<lparr>int_records :=
          mset_to (recordKey scope invoiceId) (existing\<lparr>rec_status := status\<rparr>) (int_records s)\<rparr>))"

definition createInternalMemoryStorage :: "internal_state StorageAdapter" where
  "createInternalMemoryStorage =
     \<lparr>incrementCounter = int_incrementCounter, getPreviousHash = int_getPreviousHash,
      recordInvoice = int_recordInvoice, loadInvoice = int_loadInvoice,
      updateInvoiceStatus = int_updateInvoiceStatus\<rparr>"

definition internal_empty :: internal_state where
  "internal_empty = \<lparr>int_counters = [], int_previousHash = [], int_records = []\<rparr>"

section \<open>Both satisfy the contract\<close>

definition mem_counter :: "int \<Rightarrow> TenantScope \<Rightarrow> memory_state \<Rightarrow> int" where
  "mem_counter now sc s = counter_value (counterKey sc (fst (yearMonthFor now))) s"

definition mem_head :: "TenantScope \<Rightarrow> InvoiceKind \<Rightarrow> memory_state \<Rightarrow> string" where
  "mem_head sc k s = (case mget (cell_chainHead (getOrCreateScope sc s)) (Some k) of
     None \<Rightarrow> ZATCA_BASE_INVOICE_HASH | Some h \<Rightarrow> h)"

definition mem_row :: "TenantScope \<Rightarrow> string \<Rightarrow> memory_state \<Rightarrow> InvoiceRecord option" where
  "mem_row sc i s = mget (cell_records (getOrCreateScope sc s)) i"

definition int_counter :: "TenantScope \<Rightarrow> internal_state \<Rightarrow> int" where
  "int_counter sc s = (case mget (int_counters s) (scopeKey sc) of None \<Rightarrow> 0 | Some m \<Rightarrow> m)"

definition int_head :: "TenantScope \<Rightarrow> InvoiceKind \<Rightarrow> internal_state \<Rightarrow> string" where
  "int_head sc k s = (case mget (int_previousHash s) (scopeKey sc) of
     None \<Rightarrow> ZATCA_BASE_INVOICE_HASH | Some h \<Rightarrow> h)"

definition int_row :: "TenantScope \<Rightarrow> string \<Rightarrow> internal_state \<Rightarrow> InvoiceRecord option" where
  "int_row sc i s = mget (int_records s) (recordKey sc i)"

lemmas scope_cell_defs = getOrCreateScope_def put_cell_def empty_cell_def
lemmas mem_view_defs = mem_counter_def mem_head_def mem_row_def counter_value_def
lemmas mem_op_defs = mem_incrementCounter_def mem_getPreviousHash_def mem_recordInvoice_def
  mem_loadInvoice_def mem_updateInvoiceStatus_def createMemoryStorageAdapter_def
lemmas int_defs = int_incrementCounter_def int_getPreviousHash_def int_recordInvoice_def
  int_loadInvoice_def int_updateInvoiceStatus_def createInternalMemoryStorage_def
  int_counter_def int_head_def int_row_def

lemma good_plain: "good_scope sc \<Longrightarrow> plain_scope sc"
  by (simp add: good_scope_def)

lemma scopeKey_eq: "good_scope a \<Longrightarrow> good_scope b \<Longrightarrow> scopeKey a = scopeKey b \<longleftrightarrow> a = b"
  using scopeKey_inj good_plain by blast

lemma key_tail_inj:
  assumes "good_scope a" "good_scope b" "scopeKey a @ '':'' @ x = scopeKey b @ '':'' @ y"
  shows "a = b \<and> x = y"
proof -
  have v: "scope_vatNumber a = scope_vatNumber b \<and>
      scope_egsUuid a @ CHR '':'' # x = scope_egsUuid b @ CHR '':'' # y"
    using assms append_colon_inj [of "scope_vatNumber a" "scope_vatNumber b"
        "scope_egsUuid a @ CHR '':'' # x" "scope_egsUuid b @ CHR '':'' # y"]
    by (simp add: scopeKey_def good_scope_def plain_scope_def)
  with assms append_colon_inj [of "scope_egsUuid a" "scope_egsUuid b" x y] show ?thesis
    by (simp add: good_scope_def)
qed

lemma counterKey_eq:
  "good_scope a \<Longrightarrow> good_scope b \<Longrightarrow> counterKey a m = counterKey b n \<longleftrightarrow> a = b \<and> m = n"
  using key_tail_inj [of a b m n] by (auto simp: counterKey_def)

lemma recordKey_eq:
  "good_scope a \<Longrightarrow> good_scope b \<Longrightarrow> recordKey a i = recordKey b j \<longleftrightarrow> a = b \<and> i = j"
  using key_tail_inj [of a b i j] by (auto simp: recordKey_def)

lemma getOrCreate_put_cell:
  "good_scope a \<Longrightarrow> good_scope b \<Longrightarrow>
    getOrCreateScope a (put_cell b c s) = (if a = b then c else getOrCreateScope a s)"
  by (simp add: scope_cell_defs scopeKey_eq)

lemma getOrCreate_put_key:
  "getOrCreateScope a (put_cell b c s) = (if scopeKey a = scopeKey b then c else getOrCreateScope a s)"
  by (simp add: scope_cell_defs)

lemma getOrCreate_cong: "scopeKey a = scopeKey b \<Longrightarrow> getOrCreateScope a s = getOrCreateScope b s"
  by (simp add: scope_cell_defs)

lemma getOrCreate_put_same [simp]: "getOrCreateScope a (put_cell a c s) = c"
  by (simp add: scope_cell_defs)

lemma counters_put_cell [simp]: "mem_counters (put_cell b c s) = mem_counters s"
  by (simp add: put_cell_def)

lemma mem_loadInvoice_row: "mem_loadInvoice sc i s = (Ok (mem_row sc i s), s)"
  by (auto simp: mem_loadInvoice_def mem_row_def scope_cell_defs split: option.splits)

lemma mem_getPreviousHash_head: "mem_getPreviousHash sc (Some k) s = (Ok (mem_head sc k s), s)"
  by (auto simp: mem_getPreviousHash_def mem_head_def scope_cell_defs split: option.splits)

lemma mem_update_eq:
  "mem_updateInvoiceStatus sc i st s = (case mem_row sc i s of
       None \<Rightarrow> (Err (unknown_invoice i), s)
     | Some r \<Rightarrow> (Ok (), put_cell sc ((getOrCreateScope sc s)\<lparr>cell_records :=
         mset_to i (r\<lparr>rec_status := st\<rparr>) (cell_records (getOrCreateScope sc s))\<rparr>) s))"
  by (auto simp: mem_updateInvoiceStatus_def mem_row_def getOrCreateScope_def empty_cell_def
      split: option.splits)

interpretation memory: storage_adapter "createMemoryStorageAdapter fmt now" "mem_counter now" mem_head mem_row
proof unfold_locales
  fix sc sc' s s' k i z
  show "\<exists>serial s'. incrementCounter (createMemoryStorageAdapter fmt now) sc s
      = (Ok (mem_counter now sc s + 1, serial), s')"
    by (auto simp: mem_op_defs mem_view_defs Let_def split: prod.split)
  assume "good_scope sc" "good_scope sc'"
    and "incrementCounter (createMemoryStorageAdapter fmt now) sc s = (z, s')"
  then show "mem_counter now sc' s' = (if sc' = sc then mem_counter now sc s + 1 else mem_counter now sc' s)"
    by (auto simp: mem_op_defs mem_view_defs counterKey_eq Let_def split: prod.splits)
next
  fix sc sc' s s' k i z
  assume "incrementCounter (createMemoryStorageAdapter fmt now) sc s = (z, s')"
  then show "mem_head sc' k s' = mem_head sc' k s \<and> mem_row sc' i s' = mem_row sc' i s"
    by (auto simp: mem_op_defs mem_head_def mem_row_def getOrCreateScope_def Let_def split: prod.splits)
next
  fix sc k s
  show "getPreviousHash (createMemoryStorageAdapter fmt now) sc (Some k) s = (Ok (mem_head sc k s), s)"
    by (simp add: createMemoryStorageAdapter_def mem_getPreviousHash_head)
next
  fix sc s and r :: InvoiceRecord
  assume "mem_row sc (rec_invoiceId r) s = None"
  then show "\<exists>s'. recordInvoice (createMemoryStorageAdapter fmt now) sc r s = (Ok (), s')"
    by (simp add: createMemoryStorageAdapter_def mem_recordInvoice_def mem_row_def Let_def)
next
  fix sc sc' s s' i and r :: InvoiceRecord
  assume "good_scope sc" "good_scope sc'" "mem_row sc (rec_invoiceId r) s = None"
    "recordInvoice (createMemoryStorageAdapter fmt now) sc r s = (Ok (), s')"
  then show "mem_row sc' i s' = (if sc' = sc \<and> i = rec_invoiceId r then Some r else mem_row sc' i s)"
    by (auto simp: createMemoryStorageAdapter_def mem_recordInvoice_def mem_row_def getOrCreate_put_cell Let_def)
next
  fix sc s s' and r :: InvoiceRecord
  assume "mem_row sc (rec_invoiceId r) s = None"
    "recordInvoice (createMemoryStorageAdapter fmt now) sc r s = (Ok (), s')"
  then show "mem_head sc (rec_kind r) s' = rec_invoiceHash r"
    by (auto simp: createMemoryStorageAdapter_def mem_recordInvoice_def mem_row_def mem_head_def Let_def)
next
  fix sc sc' k s s' x and r :: InvoiceRecord
  assume "good_scope sc" "good_scope sc'" "sc' \<noteq> sc"
    "recordInvoice (createMemoryStorageAdapter fmt now) sc r s = (x, s')"
  then show "mem_head sc' k s' = mem_head sc' k s"
    by (auto simp: createMemoryStorageAdapter_def mem_recordInvoice_def mem_head_def
        getOrCreate_put_cell Let_def split: option.splits if_splits)
next
  fix sc sc' s s' x and r :: InvoiceRecord
  assume "recordInvoice (createMemoryStorageAdapter fmt now) sc r s = (x, s')"
  then show "mem_counter now sc' s' = mem_counter now sc' s"
    by (auto simp: createMemoryStorageAdapter_def mem_recordInvoice_def mem_view_defs Let_def
        split: option.splits if_splits)
next
  fix sc i s
  show "loadInvoice (createMemoryStorageAdapter fmt now) sc i s = (Ok (mem_row sc i s), s)"
    by (simp add: createMemoryStorageAdapter_def mem_loadInvoice_row)
next
  fix sc i st s
  assume "mem_row sc i s = None"
  then show "updateInvoiceStatus (createMemoryStorageAdapter fmt now) sc i st s = (Err (unknown_invoice i), s)"
    by (simp add: createMemoryStorageAdapter_def mem_update_eq)
next
  fix sc i st s and r :: InvoiceRecord
  assume "mem_row sc i s = Some r"
  then show "\<exists>s'. updateInvoiceStatus (createMemoryStorageAdapter fmt now) sc i st s = (Ok (), s')"
    by (simp add: createMemoryStorageAdapter_def mem_update_eq)
next
  fix sc sc' i j st s s' x and r :: InvoiceRecord
  assume "good_scope sc" "good_scope sc'" and r: "mem_row sc i s = Some r"
    and "updateInvoiceStatus (createMemoryStorageAdapter fmt now) sc i st s = (x, s')"
  then show "mem_row sc' j s' = (if sc' = sc \<and> j = i then Some (r\<lparr>rec_status := st\<rparr>) else mem_row sc' j s)"
    by (auto simp: createMemoryStorageAdapter_def mem_update_eq mem_row_def getOrCreate_put_cell)
next
  fix sc sc' i st s s' k x
  assume "updateInvoiceStatus (createMemoryStorageAdapter fmt now) sc i st s = (x, s')"
  then show "mem_counter now sc' s' = mem_counter now sc' s \<and> mem_head sc' k s' = mem_head sc' k s"
    by (cases "mem_row sc i s"; cases "scopeKey sc' = scopeKey sc")
      (auto simp: createMemoryStorageAdapter_def mem_update_eq mem_counter_def counter_value_def
        mem_head_def getOrCreate_put_key getOrCreate_cong [of sc' sc])
qed

interpretation internal: storage_adapter createInternalMemoryStorage int_counter int_head int_row
  by unfold_locales
    (auto simp: int_defs scopeKey_eq recordKey_eq Let_def split: option.splits)

text \<open>A retry with an equal record succeeds and changes no row, head or counter.\<close>

lemma recordsEqual_refl: "recordsEqual r r"
  by (simp add: recordsEqual_def)

lemma mem_record_retry:
  assumes "mem_row sc (rec_invoiceId r) s = Some r"
  shows "fst (mem_recordInvoice sc r s) = Ok ()"
    and "mem_row sc i (snd (mem_recordInvoice sc r s)) = mem_row sc i s"
    and "mem_head sc k (snd (mem_recordInvoice sc r s)) = mem_head sc k s"
  using assms by (auto simp: mem_recordInvoice_def mem_row_def mem_head_def recordsEqual_refl Let_def)

lemma mem_record_conflict:
  assumes "mem_row sc (rec_invoiceId r) s = Some old" "\<not> recordsEqual old r"
  shows "fst (mem_recordInvoice sc r s) = Err (ZatcaStorageError (''recordInvoice('' @ rec_invoiceId r
      @ '') called twice with conflicting payloads.''))"
    and "mem_row sc i (snd (mem_recordInvoice sc r s)) = mem_row sc i s"
    and "mem_head sc k (snd (mem_recordInvoice sc r s)) = mem_head sc k s"
  using assms by (auto simp: mem_recordInvoice_def mem_row_def mem_head_def Let_def)

text \<open>The sequence of a scope is counted per month of the clock.\<close>

lemma mem_counter_other_month:
  assumes "good_scope sc" "fst (yearMonthFor now) \<noteq> fst (yearMonthFor now')"
    "mem_incrementCounter fmt now sc s = (z, s')"
  shows "mem_counter now' sc s' = mem_counter now' sc s"
  using assms by (auto simp: mem_op_defs mem_view_defs counterKey_eq Let_def split: prod.splits)

end
