(* ===== verification/Issue.thy ===== *)
theory Issue
  imports Builders Storage
begin

text \<open>
  Issuance (\<open>core/src/issue/\<close>): the eight issuers, one per invoice kind, and the dispatcher over
  them. An issuer runs on the state of a storage adapter; the clock (\<open>now\<close>) and the fresh UUID
  that replaces a missing \<open>invoiceId\<close> are arguments.
\<close>

section \<open>The issuers\<close>

record Signing_keys =
  key_certificate :: string
  key_privateKey :: string

definition assertScope :: "EGSUnitInfo \<Rightarrow> TenantScope \<Rightarrow> error + unit" where
  "assertScope e sc =
     (if egs_uuid e \<noteq> scope_egsUuid sc then Err (ZatcaValidationError
        (''egsInfo.uuid ('' @ egs_uuid e @ '') does not match scope.egsUuid ('' @ scope_egsUuid sc @ '').''))
      else if egs_vatNumber e \<noteq> scope_vatNumber sc then Err (ZatcaValidationError
        (''egsInfo.vatNumber ('' @ egs_vatNumber e @ '') does not match scope.vatNumber (''
           @ scope_vatNumber sc @ '').''))
      else Ok ())"

record IssuedInvoice =
  issued_invoiceXml :: string
  issued_signedXml :: string
  issued_invoiceHash :: string
  issued_qrCode :: string
  issued_sequence :: int
  issued_invoiceNumber :: string

record IssuedPhase1Invoice =
  issued1_invoiceXml :: string
  issued1_qrCode :: string
  issued1_sequence :: int
  issued1_invoiceNumber :: string

text \<open>\<open>invoiceId ?? randomUUID()\<close> and the clock.\<close>

record Issue_env =
  env_invoiceId :: "string option"
  env_randomUUID :: string
  env_now :: int

definition chosen_id :: "Issue_env \<Rightarrow> string" where
  "chosen_id env = (case env_invoiceId env of None \<Rightarrow> env_randomUUID env | Some i \<Rightarrow> i)"

definition full_input :: "InvoiceKind \<Rightarrow> InvoiceInput \<Rightarrow> EGSUnitInfo \<Rightarrow> int \<Rightarrow> string \<Rightarrow> string \<Rightarrow> InvoiceInput" where
  "full_input kind input egs sequence serial previous = input
     \<lparr>inv_kind := kind, inv_egsInfo := egs, invoiceCounterNumber := sequence,
      invoiceSerialNumber := serial, inv_previousInvoiceHash := previous\<rparr>"

definition phase2_record :: "InvoiceKind \<Rightarrow> Issue_env \<Rightarrow> EGSUnitInfo \<Rightarrow> int \<Rightarrow> string \<Rightarrow> string \<Rightarrow> BuiltInvoice \<Rightarrow> InvoiceRecord" where
  "phase2_record kind env egs sequence serial previous b =
     \<lparr>rec_invoiceId = chosen_id env, rec_kind = kind, rec_serial = serial,
      rec_counterNumber = sequence, rec_uuid = egs_uuid egs, rec_invoiceHash = built_invoiceHash b,
      rec_previousInvoiceHash = previous, rec_signedXml = built_signedXml b,
      rec_qrBase64 = built_qrCode b, rec_issuedAt = env_now env, rec_status = Pending,
      rec_clearanceNumber = None, rec_validationResults = None\<rparr>"

text \<open>
  The six Phase 2 issuers have one body; they differ in the kind and the builder. \<open>lib\<close> is the
  crypto library, \<open>ops\<close> the adapter.
\<close>

definition issue_phase2 ::
  "crypto_lib \<Rightarrow> 's StorageAdapter \<Rightarrow> InvoiceKind \<Rightarrow> Builder \<Rightarrow> Issue_env \<Rightarrow> InvoiceInput \<Rightarrow> EGSUnitInfo \<Rightarrow>
   TenantScope \<Rightarrow> Signing_keys \<Rightarrow> ('s, IssuedInvoice) eff" where
  "issue_phase2 lib ops kind b env input egs sc keys =
     andThen (of_result (assertScope egs sc)) (\<lambda>_.
     andThen (incrementCounter ops sc) (\<lambda>(sequence, serial).
     andThen (getPreviousHash ops sc (Some kind)) (\<lambda>previous.
     andThen (of_result (build lib (env_now env) b (full_input kind input egs sequence serial previous)
               (key_certificate keys) (key_privateKey keys))) (\<lambda>built.
     andThen (recordInvoice ops sc (phase2_record kind env egs sequence serial previous built)) (\<lambda>_.
     ret \<lparr>issued_invoiceXml = built_invoiceXml built, issued_signedXml = built_signedXml built,
          issued_invoiceHash = built_invoiceHash built, issued_qrCode = built_qrCode built,
          issued_sequence = sequence, issued_invoiceNumber = serial\<rparr>)))))"

definition issueSimplifiedTaxInvoice where
  "issueSimplifiedTaxInvoice lib ops = issue_phase2 lib ops Simplified_tax_invoice SimplifiedTaxInvoiceBuilder"
definition issueStandardTaxInvoice where
  "issueStandardTaxInvoice lib ops = issue_phase2 lib ops Standard_tax_invoice StandardTaxInvoiceBuilder"
definition issueSimplifiedCreditNote where
  "issueSimplifiedCreditNote lib ops = issue_phase2 lib ops Simplified_credit_note SimplifiedCreditNoteBuilder"
definition issueStandardCreditNote where
  "issueStandardCreditNote lib ops = issue_phase2 lib ops Standard_credit_note StandardCreditNoteBuilder"
definition issueSimplifiedDebitNote where
  "issueSimplifiedDebitNote lib ops = issue_phase2 lib ops Simplified_debit_note SimplifiedDebitNoteBuilder"
definition issueStandardDebitNote where
  "issueStandardDebitNote lib ops = issue_phase2 lib ops Standard_debit_note StandardDebitNoteBuilder"

definition phase1_record :: "InvoiceKind \<Rightarrow> Issue_env \<Rightarrow> EGSUnitInfo \<Rightarrow> int \<Rightarrow> string \<Rightarrow> BuiltPhase1Invoice \<Rightarrow> InvoiceRecord" where
  "phase1_record kind env egs sequence serial b =
     \<lparr>rec_invoiceId = chosen_id env, rec_kind = kind, rec_serial = serial,
      rec_counterNumber = sequence, rec_uuid = egs_uuid egs, rec_invoiceHash = ZATCA_BASE_INVOICE_HASH,
      rec_previousInvoiceHash = ZATCA_BASE_INVOICE_HASH, rec_signedXml = built1_invoiceXml b,
      rec_qrBase64 = built1_qrCode b, rec_issuedAt = env_now env, rec_status = Pending,
      rec_clearanceNumber = None, rec_validationResults = None\<rparr>"

definition issue_phase1 ::
  "(InvoiceInput \<Rightarrow> error + BuiltPhase1Invoice) \<Rightarrow> 's StorageAdapter \<Rightarrow> InvoiceKind \<Rightarrow> Issue_env \<Rightarrow>
   InvoiceInput \<Rightarrow> EGSUnitInfo \<Rightarrow> TenantScope \<Rightarrow> ('s, IssuedPhase1Invoice) eff" where
  "issue_phase1 builder ops kind env input egs sc =
     andThen (of_result (assertScope egs sc)) (\<lambda>_.
     andThen (incrementCounter ops sc) (\<lambda>(sequence, serial).
     andThen (of_result (builder (full_input kind input egs sequence serial ZATCA_BASE_INVOICE_HASH))) (\<lambda>built.
     andThen (recordInvoice ops sc (phase1_record kind env egs sequence serial built)) (\<lambda>_.
     ret \<lparr>issued1_invoiceXml = built1_invoiceXml built, issued1_qrCode = built1_qrCode built,
          issued1_sequence = sequence, issued1_invoiceNumber = serial\<rparr>))))"

definition issuePhase1Invoice where
  "issuePhase1Invoice lib ops = issue_phase1 (Phase1InvoiceBuilder_build lib) ops Phase1_invoice"
definition issuePhase1CreditNote where
  "issuePhase1CreditNote lib ops = issue_phase1 (Phase1CreditNoteBuilder_build lib) ops Phase1_credit_note"

section \<open>Dispatch\<close>

datatype issued = Issued2 IssuedInvoice | Issued1 IssuedPhase1Invoice

definition requireSigning :: "InvoiceKind \<Rightarrow> Signing_keys option \<Rightarrow> error + Signing_keys" where
  "requireSigning kind keys = (case keys of
       None \<Rightarrow> Err (ZatcaValidationError (''Phase 2 invoice kind '' @ [CHR 0x22] @ kind_str kind @ [CHR 0x22]
                @ '' requires signing.certificate + signing.privateKey.''))
     | Some k \<Rightarrow> Ok k)"

definition map_act :: "('a \<Rightarrow> 'b) \<Rightarrow> ('s, 'a) eff \<Rightarrow> ('s, 'b) eff" where
  "map_act f m = andThen m (\<lambda>a. ret (f a))"

text \<open>
  The issuers overwrite the storage-owned fields of the input, so stripping them first
  (\<open>stripStorageFields\<close>) leaves nothing to model. The dispatcher passes no \<open>invoiceId\<close>.
\<close>

definition dispatch_env :: "Issue_env \<Rightarrow> Issue_env" where
  "dispatch_env env = env\<lparr>env_invoiceId := None\<rparr>"

lemma chosen_dispatch [simp]: "chosen_id (dispatch_env env) = env_randomUUID env"
  by (simp add: chosen_id_def dispatch_env_def)

definition dispatch2 where
  "dispatch2 issuer env input sc keys =
     andThen (of_result (requireSigning (inv_kind input) keys)) (\<lambda>k.
       map_act Issued2 (issuer (dispatch_env env) input (inv_egsInfo input) sc k))"

definition issueInvoice ::
  "crypto_lib \<Rightarrow> 's StorageAdapter \<Rightarrow> Issue_env \<Rightarrow> InvoiceInput \<Rightarrow> TenantScope \<Rightarrow> Signing_keys option \<Rightarrow>
   ('s, issued) eff" where
  "issueInvoice lib ops env input sc keys = (case inv_kind input of
       Simplified_tax_invoice \<Rightarrow> dispatch2 (issueSimplifiedTaxInvoice lib ops) env input sc keys
     | Standard_tax_invoice \<Rightarrow> dispatch2 (issueStandardTaxInvoice lib ops) env input sc keys
     | Simplified_credit_note \<Rightarrow> dispatch2 (issueSimplifiedCreditNote lib ops) env input sc keys
     | Standard_credit_note \<Rightarrow> dispatch2 (issueStandardCreditNote lib ops) env input sc keys
     | Simplified_debit_note \<Rightarrow> dispatch2 (issueSimplifiedDebitNote lib ops) env input sc keys
     | Standard_debit_note \<Rightarrow> dispatch2 (issueStandardDebitNote lib ops) env input sc keys
     | Phase1_invoice \<Rightarrow> map_act Issued1 (issuePhase1Invoice lib ops (dispatch_env env) input (inv_egsInfo input) sc)
     | Phase1_credit_note \<Rightarrow>
         map_act Issued1 (issuePhase1CreditNote lib ops (dispatch_env env) input (inv_egsInfo input) sc))"

text \<open>What a caller reads of either result; \<open>IssuedInvoice\<close> has no \<open>invoiceId\<close>.\<close>

fun issued_number :: "issued \<Rightarrow> string" where
  "issued_number (Issued2 i) = issued_invoiceNumber i"
| "issued_number (Issued1 i) = issued1_invoiceNumber i"

fun issued_seq :: "issued \<Rightarrow> int" where
  "issued_seq (Issued2 i) = issued_sequence i"
| "issued_seq (Issued1 i) = issued1_sequence i"

text \<open>The builder of a Phase 2 kind.\<close>

fun builder_of :: "InvoiceKind \<Rightarrow> Builder" where
  "builder_of Simplified_tax_invoice = SimplifiedTaxInvoiceBuilder"
| "builder_of Standard_tax_invoice = StandardTaxInvoiceBuilder"
| "builder_of Simplified_credit_note = SimplifiedCreditNoteBuilder"
| "builder_of Standard_credit_note = StandardCreditNoteBuilder"
| "builder_of Simplified_debit_note = SimplifiedDebitNoteBuilder"
| "builder_of Standard_debit_note = StandardDebitNoteBuilder"
| "builder_of _ = SimplifiedTaxInvoiceBuilder"

lemmas issuer_defs = issueSimplifiedTaxInvoice_def issueStandardTaxInvoice_def
  issueSimplifiedCreditNote_def issueStandardCreditNote_def issueSimplifiedDebitNote_def
  issueStandardDebitNote_def

lemma issueInvoice_phase2:
  "\<not> phase1_kind (inv_kind input) \<Longrightarrow> issueInvoice lib ops env input sc keys =
     andThen (of_result (requireSigning (inv_kind input) keys)) (\<lambda>k. map_act Issued2
       (issue_phase2 lib ops (inv_kind input) (builder_of (inv_kind input)) (dispatch_env env) input (inv_egsInfo input) sc k))"
  by (cases "inv_kind input") (simp_all add: phase1_kind_def issueInvoice_def dispatch2_def issuer_defs)

lemma issueInvoice_phase1:
  "phase1_kind (inv_kind input) \<Longrightarrow> \<exists>B. issueInvoice lib ops env input sc keys =
     map_act Issued1 (issue_phase1 B ops (inv_kind input) (dispatch_env env) input (inv_egsInfo input) sc)"
  by (auto simp: phase1_kind_def issueInvoice_def issuePhase1Invoice_def issuePhase1CreditNote_def)

section \<open>Issuance over any adapter\<close>

context storage_adapter
begin

lemma issue_phase2_ok:
  assumes "issue_phase2 lib ops kind b env input egs sc keys s = (Ok out, s')"
  obtains serial s1 built where
    "assertScope egs sc = Ok ()"
    "incrementCounter ops sc s = (Ok (counter sc s + 1, serial), s1)"
    "build lib (env_now env) b (full_input kind input egs (counter sc s + 1) serial (head sc kind s))
       (key_certificate keys) (key_privateKey keys) = Ok built"
    "recordInvoice ops sc (phase2_record kind env egs (counter sc s + 1) serial (head sc kind s) built) s1 = (Ok (), s')"
    "out = \<lparr>issued_invoiceXml = built_invoiceXml built, issued_signedXml = built_signedXml built,
       issued_invoiceHash = built_invoiceHash built, issued_qrCode = built_qrCode built,
       issued_sequence = counter sc s + 1, issued_invoiceNumber = serial\<rparr>"
proof -
  obtain serial s1 where inc: "incrementCounter ops sc s = (Ok (counter sc s + 1, serial), s1)"
    by (rule increment_obtain)
  have hd: "head sc kind s1 = head sc kind s" using increment_frame [OF inc] by blast
  from assms that show ?thesis
    by (auto simp: issue_phase2_def andThen_run inc previous hd split: sum.splits prod.splits)
qed

text \<open>
  A successful issuance of a new invoice: the sequence is the next one, the invoice is chained to
  the head of its kind, becomes the head, and is stored as pending; other scopes are untouched.
\<close>

lemma issue_phase2_spec:
  assumes run: "issue_phase2 lib ops kind b env input egs sc keys s = (Ok out, s')"
    and sc: "good_scope sc" and fresh: "row sc (chosen_id env) s = None"
  shows "issued_sequence out = counter sc s + 1"
    and "counter sc s' = counter sc s + 1"
    and "head sc kind s' = issued_invoiceHash out"
    and "\<exists>r. row sc (chosen_id env) s' = Some r \<and> rec_status r = Pending \<and> rec_kind r = kind \<and>
       rec_previousInvoiceHash r = head sc kind s \<and> rec_invoiceHash r = issued_invoiceHash out \<and>
       rec_counterNumber r = counter sc s + 1 \<and> rec_serial r = issued_invoiceNumber out \<and>
       rec_signedXml r = issued_signedXml out"
    and "i \<noteq> chosen_id env \<Longrightarrow> row sc i s' = row sc i s"
    and "good_scope sc' \<Longrightarrow> sc' \<noteq> sc \<Longrightarrow> counter sc' s' = counter sc' s \<and> head sc' k s' = head sc' k s \<and>
       row sc' i s' = row sc' i s"
proof -
  obtain serial s1 built where
    inc: "incrementCounter ops sc s = (Ok (counter sc s + 1, serial), s1)" and
    rec: "recordInvoice ops sc (phase2_record kind env egs (counter sc s + 1) serial (head sc kind s) built) s1
      = (Ok (), s')" and
    out: "out = \<lparr>issued_invoiceXml = built_invoiceXml built, issued_signedXml = built_signedXml built,
       issued_invoiceHash = built_invoiceHash built, issued_qrCode = built_qrCode built,
       issued_sequence = counter sc s + 1, issued_invoiceNumber = serial\<rparr>"
    using run by (rule issue_phase2_ok)
  let ?r = "phase2_record kind env egs (counter sc s + 1) serial (head sc kind s) built"
  note fr = increment_frame [OF inc]
  have id: "rec_invoiceId ?r = chosen_id env" and knd: "rec_kind ?r = kind"
    by (simp_all add: phase2_record_def)
  have new: "row sc (rec_invoiceId ?r) s1 = None" using fresh fr id by simp
  show "issued_sequence out = counter sc s + 1" by (simp add: out)
  show "counter sc s' = counter sc s + 1"
    using record_counter [OF rec] increment_counter [OF sc sc inc] by simp
  show "head sc kind s' = issued_invoiceHash out"
    using record_head [OF sc new rec] by (simp add: knd out phase2_record_def)
  have rw: "good_scope q \<Longrightarrow> row q j s' = (if q = sc \<and> j = chosen_id env then Some ?r else row q j s)" for q j
    using record_row [OF sc _ new rec] fr id by simp
  show "\<exists>r. row sc (chosen_id env) s' = Some r \<and> rec_status r = Pending \<and> rec_kind r = kind \<and>
       rec_previousInvoiceHash r = head sc kind s \<and> rec_invoiceHash r = issued_invoiceHash out \<and>
       rec_counterNumber r = counter sc s + 1 \<and> rec_serial r = issued_invoiceNumber out \<and>
       rec_signedXml r = issued_signedXml out"
    using rw [OF sc] by (simp add: phase2_record_def out)
  show "i \<noteq> chosen_id env \<Longrightarrow> row sc i s' = row sc i s" using rw [OF sc] by simp
  assume o: "good_scope sc'" "sc' \<noteq> sc"
  show "counter sc' s' = counter sc' s \<and> head sc' k s' = head sc' k s \<and> row sc' i s' = row sc' i s"
    using o rw [OF o(1)] record_counter [OF rec] increment_counter [OF sc o(1) inc]
      record_head_frame [OF sc o rec] fr by simp
qed

text \<open>
  A failing issuance stores nothing and leaves every chain head; the sequence may be consumed.
\<close>

lemma issue_phase2_error:
  assumes run: "issue_phase2 lib ops kind b env input egs sc keys s = (Err e, s')"
    and sc: "good_scope sc" and fresh: "row sc (chosen_id env) s = None"
  shows "row sc' i s' = row sc' i s \<and> head sc' k s' = head sc' k s \<and>
    counter sc s \<le> counter sc s' \<and> counter sc s' \<le> counter sc s + 1"
proof -
  obtain serial s1 where inc: "incrementCounter ops sc s = (Ok (counter sc s + 1, serial), s1)"
    by (rule increment_obtain)
  have hd: "head sc kind s1 = head sc kind s" using increment_frame [OF inc] by blast
  have rec: "\<exists>s2. recordInvoice ops sc r s1 = (Ok (), s2)" if "rec_invoiceId r = chosen_id env" for r
    using record_new [OF sc, of r s1] fresh increment_frame [OF inc] that by simp
  show ?thesis
  proof (cases "assertScope egs sc")
    case (Inl x)
    then show ?thesis using run by (auto simp: issue_phase2_def andThen_run)
  next
    case (Inr u)
    show ?thesis
    proof (cases "build lib (env_now env) b (full_input kind input egs (counter sc s + 1) serial (head sc kind s))
        (key_certificate keys) (key_privateKey keys)")
      case (Inl x)
      then have "s' = s1" using run Inr by (simp add: issue_phase2_def andThen_run inc previous hd)
      then show ?thesis using increment_frame [OF inc] increment_counter [OF sc sc inc] by simp
    next
      case (Inr built)
      then show ?thesis using run \<open>assertScope egs sc = Inr u\<close>
          rec [of "phase2_record kind env egs (counter sc s + 1) serial (head sc kind s) built"]
        by (auto simp: issue_phase2_def andThen_run inc previous hd phase2_record_def)
    qed
  qed
qed

text \<open>Another scope is untouched, whatever the outcome.\<close>

lemma issue_phase2_frame:
  assumes run: "issue_phase2 lib ops kind b env input egs sc keys s = (r, s')"
    and sc: "good_scope sc" "good_scope sc'" "sc' \<noteq> sc" and fresh: "row sc (chosen_id env) s = None"
  shows "counter sc' s' = counter sc' s \<and> head sc' k s' = head sc' k s \<and> row sc' i s' = row sc' i s"
proof (cases r)
  case (Inr out)
  then show ?thesis using issue_phase2_spec(6) [of lib kind b env input egs sc keys s out s'] assms by simp
next
  case (Inl e)
  obtain serial s1 where inc: "incrementCounter ops sc s = (Ok (counter sc s + 1, serial), s1)"
    by (rule increment_obtain)
  have c1: "counter sc' s1 = counter sc' s" using increment_counter [OF sc(1,2) inc] sc(3) by simp
  have "counter sc' s' = counter sc' s"
  proof (cases "assertScope egs sc")
    case (Inl x)
    then show ?thesis using run by (auto simp: issue_phase2_def andThen_run)
  next
    case (Inr u)
    then show ?thesis using run c1
      by (auto simp: issue_phase2_def andThen_run inc previous record_counter split: sum.splits prod.splits
          dest: record_counter)
  qed
  then show ?thesis
    using issue_phase2_error [of lib kind b env input egs sc keys s e s'] run Inl sc(1) fresh by simp
qed

text \<open>With a matching scope, an issuance of a new id returns or throws exactly as the build does.\<close>

lemma issue_phase2_result:
  assumes "assertScope egs sc = Ok ()" "good_scope sc" "row sc (chosen_id env) s = None"
  shows "\<exists>serial. map_sum id built_invoiceHash (build lib (env_now env) b
      (full_input kind input egs (counter sc s + 1) serial (head sc kind s))
      (key_certificate keys) (key_privateKey keys))
    = map_sum id issued_invoiceHash (fst (issue_phase2 lib ops kind b env input egs sc keys s))"
proof -
  obtain serial s1 where inc: "incrementCounter ops sc s = (Ok (counter sc s + 1, serial), s1)"
    by (rule increment_obtain)
  have hd: "head sc kind s1 = head sc kind s" using increment_frame [OF inc] by blast
  have rec: "\<exists>s2. recordInvoice ops sc r s1 = (Ok (), s2)" if "rec_invoiceId r = chosen_id env" for r
    using record_new [OF assms(2), of r s1] assms(3) increment_frame [OF inc] that by simp
  show ?thesis
  proof (rule exI [of _ serial], cases "build lib (env_now env) b (full_input kind input egs (counter sc s + 1)
      serial (head sc kind s)) (key_certificate keys) (key_privateKey keys)")
    case (Inl e)
    then show "map_sum id built_invoiceHash (build lib (env_now env) b (full_input kind input egs (counter sc s + 1)
      serial (head sc kind s)) (key_certificate keys) (key_privateKey keys))
      = map_sum id issued_invoiceHash (fst (issue_phase2 lib ops kind b env input egs sc keys s))"
      by (simp add: issue_phase2_def andThen_run assms(1) inc previous hd)
  next
    case (Inr built)
    obtain s2 where "recordInvoice ops sc (phase2_record kind env egs (counter sc s + 1) serial (head sc kind s) built) s1
        = (Ok (), s2)"
      using rec [of "phase2_record kind env egs (counter sc s + 1) serial (head sc kind s) built"]
      by (auto simp: phase2_record_def)
    then show "map_sum id built_invoiceHash (build lib (env_now env) b (full_input kind input egs (counter sc s + 1)
      serial (head sc kind s)) (key_certificate keys) (key_privateKey keys))
      = map_sum id issued_invoiceHash (fst (issue_phase2 lib ops kind b env input egs sc keys s))"
      using Inr by (simp add: issue_phase2_def andThen_run assms(1) inc previous hd)
  qed
qed

text \<open>Two issuances of one kind after each other: consecutive numbers, linked hashes.\<close>

lemma issue_chain:
  assumes "issue_phase2 lib ops kind b env input egs sc keys s = (Ok out, s1)"
    and "issue_phase2 lib ops kind b' env' input' egs' sc keys' s1 = (Ok out', s2)"
    and "good_scope sc" "row sc (chosen_id env) s = None" "row sc (chosen_id env') s1 = None"
  shows "issued_sequence out' = issued_sequence out + 1"
    and "\<exists>r. row sc (chosen_id env') s2 = Some r \<and> rec_previousInvoiceHash r = issued_invoiceHash out"
proof -
  note a = issue_phase2_spec [OF assms(1,3,4)] and b = issue_phase2_spec [OF assms(2,3,5)]
  show "issued_sequence out' = issued_sequence out + 1" using a(1,2) b(1) by simp
  show "\<exists>r. row sc (chosen_id env') s2 = Some r \<and> rec_previousInvoiceHash r = issued_invoiceHash out"
    using a(3) b(4) by auto
qed

end

section \<open>A run of issuances\<close>

text \<open>
  Jobs of one kind issued one after the other, each with its environment, input and EGS unit; a
  job that fails does not stop the next one. The result pairs each job's id with its outcome.
\<close>

fun issue_run :: "crypto_lib \<Rightarrow> 's StorageAdapter \<Rightarrow> InvoiceKind \<Rightarrow> TenantScope \<Rightarrow> Signing_keys
    \<Rightarrow> (Issue_env \<times> InvoiceInput) list \<Rightarrow> 's \<Rightarrow> (string \<times> (error + IssuedInvoice)) list \<times> 's" where
  "issue_run lib ops kind sc keys [] s = ([], s)"
| "issue_run lib ops kind sc keys ((env, input) # jobs) s =
     (case issue_phase2 lib ops kind (builder_of kind) env input (inv_egsInfo input) sc keys s of
        (r, s') \<Rightarrow> (case issue_run lib ops kind sc keys jobs s' of
          (rs, s'') \<Rightarrow> ((chosen_id env, r) # rs, s'')))"

definition job_ids :: "(Issue_env \<times> InvoiceInput) list \<Rightarrow> string list" where
  "job_ids jobs = map (\<lambda>(env, _). chosen_id env) jobs"

fun successes :: "(string \<times> (error + IssuedInvoice)) list \<Rightarrow> (string \<times> IssuedInvoice) list" where
  "successes [] = []"
| "successes ((i, Inl e) # rs) = successes rs"
| "successes ((i, Inr out) # rs) = (i, out) # successes rs"

text \<open>The stored records of the issued invoices form a hash chain from \<open>h\<close>, with growing numbers.\<close>

fun hash_chain :: "string \<Rightarrow> int \<Rightarrow> (string \<Rightarrow> InvoiceRecord option) \<Rightarrow> (string \<times> IssuedInvoice) list \<Rightarrow> bool" where
  "hash_chain h n rows [] = True"
| "hash_chain h n rows ((i, out) # outs) =
     ((case rows i of None \<Rightarrow> False
       | Some r \<Rightarrow> rec_previousInvoiceHash r = h \<and> rec_invoiceHash r = issued_invoiceHash out \<and>
           rec_counterNumber r = issued_sequence out \<and> rec_status r = Pending) \<and>
      n < issued_sequence out \<and> hash_chain (issued_invoiceHash out) (issued_sequence out) rows outs)"

lemma job_ids_simps [simp]:
  "job_ids [] = []" "job_ids ((env, input) # jobs) = chosen_id env # job_ids jobs"
  by (simp_all add: job_ids_def)

lemma hash_chain_weaken: "hash_chain h n rows outs \<Longrightarrow> m \<le> n \<Longrightarrow> hash_chain h m rows outs"
  by (induction h n rows outs rule: hash_chain.induct) auto

context storage_adapter
begin

lemma issue_run_keeps:
  "issue_run lib ops kind sc keys jobs s = (rs, s') \<Longrightarrow> good_scope sc \<Longrightarrow>
    \<forall>i \<in> set (job_ids jobs). row sc i s = None \<Longrightarrow> distinct (job_ids jobs) \<Longrightarrow>
    i \<notin> set (job_ids jobs) \<Longrightarrow> row sc i s' = row sc i s"
proof (induction jobs arbitrary: s rs)
  case (Cons job jobs)
  obtain env input where job: "job = (env, input)" by (cases job)
  obtain r s1 where one: "issue_phase2 lib ops kind (builder_of kind) env input (inv_egsInfo input) sc keys s = (r, s1)"
    by fastforce
  obtain rs1 where rest: "issue_run lib ops kind sc keys jobs s1 = (rs1, s')"
    using Cons.prems(1) by (auto simp: job one split: prod.splits)
  have fresh: "row sc (chosen_id env) s = None" using Cons.prems(3) by (simp add: job)
  have "row sc j s1 = row sc j s" if "j \<noteq> chosen_id env" for j
    using issue_phase2_spec(5) [of lib kind _ env input _ sc keys s _ s1 j]
      issue_phase2_error [of lib kind _ env input _ sc keys s _ s1 sc j] one fresh Cons.prems(2) that
    by (cases r) blast+
  moreover from this have "\<forall>i \<in> set (job_ids jobs). row sc i s1 = None"
    using Cons.prems(3,4) by (metis job job_ids_simps(2) distinct.simps(2) list.set_intros(2))
  ultimately show ?case
    using Cons.IH [OF rest Cons.prems(2)] Cons.prems(4,5) by (simp add: job)
qed simp

lemma issue_run_chain:
  "issue_run lib ops kind sc keys jobs s = (rs, s') \<Longrightarrow> good_scope sc \<Longrightarrow>
    \<forall>i \<in> set (job_ids jobs). row sc i s = None \<Longrightarrow> distinct (job_ids jobs) \<Longrightarrow>
    hash_chain (head sc kind s) (counter sc s) (\<lambda>i. row sc i s') (successes rs)"
proof (induction jobs arbitrary: s rs)
  case (Cons job jobs)
  obtain env input where job: "job = (env, input)" by (cases job)
  obtain r s1 where one: "issue_phase2 lib ops kind (builder_of kind) env input (inv_egsInfo input) sc keys s = (r, s1)"
    by fastforce
  obtain rs1 where rest: "issue_run lib ops kind sc keys jobs s1 = (rs1, s')"
    and rs: "rs = (chosen_id env, r) # rs1"
    using Cons.prems(1) by (auto simp: job one split: prod.splits)
  have fresh: "row sc (chosen_id env) s = None" and new: "chosen_id env \<notin> set (job_ids jobs)"
    using Cons.prems(3,4) by (auto simp: job)
  note err = issue_phase2_error [of lib kind _ env input _ sc keys s _ s1 sc _ kind, OF _ Cons.prems(2) fresh]
  note ok = issue_phase2_spec [of lib kind _ env input _ sc keys s _ s1, OF _ Cons.prems(2) fresh]
  have "row sc j s1 = row sc j s" if "j \<noteq> chosen_id env" for j
    using ok(5) [of _ _ _ j] err [of _ _ _ j] one that by (cases r) blast+
  then have left: "\<forall>i \<in> set (job_ids jobs). row sc i s1 = None"
    using Cons.prems(3) new by (metis job job_ids_simps(2) list.set_intros(2))
  have dist: "distinct (job_ids jobs)" using Cons.prems(4) by (simp add: job)
  note IH = Cons.IH [OF rest Cons.prems(2) left dist]
  note keep = issue_run_keeps [OF rest Cons.prems(2) left dist new]
  show ?case
  proof (cases r)
    case (Inl e)
    then show ?thesis using IH err one hash_chain_weaken by (simp add: rs)
  next
    case (Inr out)
    note spec = ok [OF one [unfolded Inr]]
    obtain rec where "row sc (chosen_id env) s1 = Some rec" "rec_status rec = Pending"
        "rec_previousInvoiceHash rec = head sc kind s" "rec_invoiceHash rec = issued_invoiceHash out"
        "rec_counterNumber rec = counter sc s + 1"
      using spec(4) by blast
    then show ?thesis using IH keep spec(1-3) by (simp add: rs Inr)
  qed
qed simp

end

end
