(* ===== verification/Tenants.thy ===== *)
theory Tenants
  imports Types "HOL-Library.Word" "HOL-Library.Multiset"
begin

text \<open>
  Tenants of the server (\<open>server/src/tenants/types.ts\<close>, \<open>store.ts\<close>) and the in-memory tenant store
  (\<open>registry-memory.ts\<close>). The contract that onboarding and the routes rely on is the locale
  \<open>tenant_store\<close>; the memory store is an interpretation. \<open>now\<close> is the store's clock at the call.
\<close>

unbundle bit_operations_syntax

section \<open>Data\<close>

datatype TenantState = Created | Onboarding | Production_ready | Failed | Revoked

fun tenant_state_str :: "TenantState \<Rightarrow> string" where
  "tenant_state_str Created = ''created''"
| "tenant_state_str Onboarding = ''onboarding''"
| "tenant_state_str Production_ready = ''production-ready''"
| "tenant_state_str Failed = ''failed''"
| "tenant_state_str Revoked = ''revoked''"

record TenantLocation =
  t_cityName :: string
  t_citySubdivision :: string
  t_street :: string
  t_plotIdentification :: string
  t_building :: string
  t_postalZone :: string

datatype scenario_status = ScenarioPending | ScenarioPassed | ScenarioFailed

record OnboardingProgress =
  scenarios :: "(string, scenario_status) jsmap"
  lastError :: "string option"

record TenantRecord =
  tenantRef :: string
  t_vatNumber :: string
  t_egsUuid :: string
  t_vatName :: string
  t_crn :: string
  t_branchName :: string
  t_branchIndustry :: "string option"
  t_location :: TenantLocation
  t_environment :: Environment
  t_state :: TenantState
  onboardingProgress :: OnboardingProgress
  productionCertificateExpiresAt :: "int option"
  callbackUrl :: "string option"
  claimedBy :: "string option"
  claimExpiresAt :: "int option"
  t_label :: "string option"
  createdAt :: int
  updatedAt :: int
  deletedAt :: "int option"

record CreateTenantInput =
  new_tenantRef :: "string option"
  new_vatNumber :: string
  new_egsUuid :: string
  new_vatName :: string
  new_crn :: string
  new_branchName :: string
  new_branchIndustry :: "string option"
  new_location :: TenantLocation
  new_environment :: Environment
  new_label :: "string option"
  new_callbackUrl :: "string option"

record PatchableTenantFields =
  patch_vatName :: "string option"
  patch_branchName :: "string option"
  patch_branchIndustry :: "string option"
  patch_location :: "TenantLocation option"
  patch_label :: "string option"
  patch_callbackUrl :: "string option"

record TenantListFilter =
  filter_state :: "TenantState option"
  filter_environment :: "Environment option"
  expiringWithinDays :: "int option"
  includeDeleted :: bool

record SetStateOptions =
  expectedFrom :: "TenantState option"
  opt_claimedBy :: "string option"
  opt_claimExpiresAt :: "int option"
  opt_lastError :: "string option"

definition no_options :: SetStateOptions where
  "no_options = \<lparr>expectedFrom = None, opt_claimedBy = None, opt_claimExpiresAt = None, opt_lastError = None\<rparr>"

definition toTenantScope :: "TenantRecord \<Rightarrow> TenantScope" where
  "toTenantScope r = \<lparr>scope_vatNumber = t_vatNumber r, scope_egsUuid = t_egsUuid r\<rparr>"

section \<open>References\<close>

text \<open>
  \<open>base32Encode\<close> works on JavaScript's 32-bit integers. The accumulator keeps the bits it has
  emitted; they are shifted out of the word.
\<close>

definition BASE32 :: string where
  "BASE32 = ''ABCDEFGHIJKLMNOPQRSTUVWXYZ234567''"

definition base32_char :: "32 word \<Rightarrow> char" where
  "base32_char w = BASE32 ! unat (w AND 0x1f)"

fun emit5 :: "32 word \<Rightarrow> nat \<Rightarrow> string \<times> nat" where
  "emit5 v n = (if n < 5 then ([], n)
     else (case emit5 v (n - 5) of (s, m) \<Rightarrow> (base32_char (drop_bit (n - 5) v) # s, m)))"

declare emit5.simps [simp del]

fun base32_loop :: "32 word \<Rightarrow> nat \<Rightarrow> 8 word list \<Rightarrow> string" where
  "base32_loop v n [] = (if 0 < n then [base32_char (push_bit (5 - n) v)] else [])"
| "base32_loop v n (b # bs) = (let v' = (push_bit 8 v) OR ucast b in
     case emit5 v' (n + 8) of (s, m) \<Rightarrow> s @ base32_loop v' m bs)"

definition base32Encode :: "8 word list \<Rightarrow> string" where
  "base32Encode bs = base32_loop 0 0 bs"

definition generateTenantRef :: "8 word list \<Rightarrow> string" where
  "generateTenantRef random10 = toLowerCase (base32Encode random10)"

section \<open>The memory tenant store\<close>

type_synonym tenant_rows = "(string, TenantRecord) jsmap"

definition unknown_tenant :: "string \<Rightarrow> error" where
  "unknown_tenant ref = ZatcaRegistryError (''Unknown tenant '' @ quoted ref @ ''.'') (Some Not_found)"

definition visible :: "string \<Rightarrow> tenant_rows \<Rightarrow> TenantRecord option" where
  "visible ref m = (case mget m ref of None \<Rightarrow> None
     | Some r \<Rightarrow> if deletedAt r \<noteq> None then None else Some r)"

definition requireRecord :: "string \<Rightarrow> tenant_rows \<Rightarrow> error + TenantRecord" where
  "requireRecord ref m = (case visible ref m of None \<Rightarrow> Err (unknown_tenant ref) | Some r \<Rightarrow> Ok r)"

definition new_record :: "int \<Rightarrow> string \<Rightarrow> CreateTenantInput \<Rightarrow> TenantRecord" where
  "new_record now ref i =
     \<lparr>tenantRef = ref, t_vatNumber = new_vatNumber i, t_egsUuid = new_egsUuid i,
      t_vatName = new_vatName i, t_crn = new_crn i, t_branchName = new_branchName i,
      t_branchIndustry = new_branchIndustry i, t_location = new_location i,
      t_environment = new_environment i, t_state = Created,
      onboardingProgress = \<lparr>scenarios = [], lastError = None\<rparr>,
      productionCertificateExpiresAt = None, callbackUrl = new_callbackUrl i,
      claimedBy = None, claimExpiresAt = None, t_label = new_label i,
      createdAt = now, updatedAt = now, deletedAt = None\<rparr>"

definition tenant_create ::
  "int \<Rightarrow> 8 word list \<Rightarrow> CreateTenantInput \<Rightarrow> (tenant_rows, TenantRecord) eff" where
  "tenant_create now random10 i m =
     (let ref = (case new_tenantRef i of None \<Rightarrow> generateTenantRef random10 | Some t \<Rightarrow> t) in
      if mget m ref \<noteq> None
      then (Err (ZatcaRegistryError (''Tenant '' @ quoted ref @ '' already exists.'') (Some Conflict)), m)
      else (Ok (new_record now ref i), mset_to ref (new_record now ref i) m))"

definition tenant_get :: "string \<Rightarrow> (tenant_rows, TenantRecord option) eff" where
  "tenant_get ref m = (Ok (visible ref m), m)"

definition list_matches :: "int \<Rightarrow> TenantListFilter \<Rightarrow> TenantRecord \<Rightarrow> bool" where
  "list_matches now f r =
     ((deletedAt r = None \<or> includeDeleted f) \<and>
      (case filter_state f of None \<Rightarrow> True | Some s \<Rightarrow> t_state r = s) \<and>
      (case filter_environment f of None \<Rightarrow> True | Some e \<Rightarrow> t_environment r = e) \<and>
      (case expiringWithinDays f of None \<Rightarrow> True
       | Some d \<Rightarrow> (case productionCertificateExpiresAt r of None \<Rightarrow> False
           | Some x \<Rightarrow> x \<le> now + d * 86400000)))"

text \<open>\<open>localeCompare\<close> is the comparison of the runtime's locale.\<close>

definition tenant_order :: "(string \<Rightarrow> string \<Rightarrow> int) \<Rightarrow> TenantRecord \<Rightarrow> TenantRecord \<Rightarrow> int" where
  "tenant_order localeCompare a b = (let dt = createdAt a - createdAt b in
     if dt \<noteq> 0 then dt else localeCompare (tenantRef a) (tenantRef b))"

definition tenant_list ::
  "(string \<Rightarrow> string \<Rightarrow> int) \<Rightarrow> int \<Rightarrow> TenantListFilter \<Rightarrow> (tenant_rows, TenantRecord list) eff" where
  "tenant_list localeCompare now f m =
     (Ok (js_sort (tenant_order localeCompare) (filter (list_matches now f) (map snd m))), m)"

definition or_keep :: "'a option \<Rightarrow> 'a option \<Rightarrow> 'a option" where
  "or_keep o1 d = (case o1 of None \<Rightarrow> d | Some x \<Rightarrow> Some x)"

definition patched :: "int \<Rightarrow> PatchableTenantFields \<Rightarrow> TenantRecord \<Rightarrow> TenantRecord" where
  "patched now p r = r
     \<lparr>t_vatName := or_else (patch_vatName p) (t_vatName r),
      t_branchName := or_else (patch_branchName p) (t_branchName r),
      t_branchIndustry := or_keep (patch_branchIndustry p) (t_branchIndustry r),
      t_location := or_else (patch_location p) (t_location r),
      t_label := or_keep (patch_label p) (t_label r),
      callbackUrl := or_keep (patch_callbackUrl p) (callbackUrl r),
      updatedAt := now\<rparr>"

text \<open>Every update of an existing record has this form.\<close>

definition update_record ::
  "string \<Rightarrow> (TenantRecord \<Rightarrow> error + TenantRecord) \<Rightarrow> (tenant_rows, TenantRecord) eff" where
  "update_record ref f m = (case requireRecord ref m of
       Inl e \<Rightarrow> (Err e, m)
     | Inr r \<Rightarrow> (case f r of Inl e \<Rightarrow> (Err e, m) | Inr r' \<Rightarrow> (Ok r', mset_to ref r' m)))"

definition tenant_patch :: "int \<Rightarrow> string \<Rightarrow> PatchableTenantFields \<Rightarrow> (tenant_rows, TenantRecord) eff" where
  "tenant_patch now ref p = update_record ref (\<lambda>r. Ok (patched now p r))"

definition lockNotHeld :: "int \<Rightarrow> TenantRecord \<Rightarrow> bool" where
  "lockNotHeld now r = (t_state r = Onboarding \<and>
     (case claimExpiresAt r of None \<Rightarrow> True | Some t \<Rightarrow> t \<le> now))"

definition transition_allowed :: "int \<Rightarrow> TenantRecord \<Rightarrow> SetStateOptions \<Rightarrow> bool" where
  "transition_allowed now r o1 = (case expectedFrom o1 of None \<Rightarrow> True
     | Some from \<Rightarrow> (t_state r = from \<and> from \<noteq> Onboarding) \<or> lockNotHeld now r)"

definition transitioned :: "int \<Rightarrow> TenantState \<Rightarrow> SetStateOptions \<Rightarrow> TenantRecord \<Rightarrow> TenantRecord" where
  "transitioned now next_state o1 r = r
     \<lparr>t_state := next_state, updatedAt := now,
      claimExpiresAt := opt_claimExpiresAt o1, claimedBy := opt_claimedBy o1,
      onboardingProgress := (case opt_lastError o1 of None \<Rightarrow> onboardingProgress r
         | Some e \<Rightarrow> (onboardingProgress r)\<lparr>lastError := Some e\<rparr>)\<rparr>"

definition transition_conflict :: "string \<Rightarrow> TenantRecord \<Rightarrow> SetStateOptions \<Rightarrow> error" where
  "transition_conflict ref r o1 = ZatcaRegistryError (''Cannot transition tenant '' @ quoted ref
     @ '' from '' @ quoted (tenant_state_str (t_state r)) @ '' (expected ''
     @ quoted (case expectedFrom o1 of None \<Rightarrow> [] | Some f \<Rightarrow> tenant_state_str f) @ '').'') (Some Conflict)"

definition tenant_setState ::
  "int \<Rightarrow> string \<Rightarrow> TenantState \<Rightarrow> SetStateOptions \<Rightarrow> (tenant_rows, TenantRecord) eff" where
  "tenant_setState now ref next_state o1 = update_record ref (\<lambda>r.
     if transition_allowed now r o1 then Ok (transitioned now next_state o1 r)
     else Err (transition_conflict ref r o1))"

definition with_progress :: "int \<Rightarrow> string \<Rightarrow> bool \<Rightarrow> TenantRecord \<Rightarrow> TenantRecord" where
  "with_progress now scenario passed r = r
     \<lparr>onboardingProgress := (onboardingProgress r)\<lparr>scenarios :=
        mset_to scenario (if passed then ScenarioPassed else ScenarioFailed)
          (scenarios (onboardingProgress r))\<rparr>,
      updatedAt := now\<rparr>"

definition to_unit :: "('s, 'a) eff \<Rightarrow> ('s, unit) eff" where
  "to_unit m = andThen m (\<lambda>_. ret ())"

definition tenant_recordOnboardingProgress :: "int \<Rightarrow> string \<Rightarrow> string \<Rightarrow> bool \<Rightarrow> (tenant_rows, unit) eff" where
  "tenant_recordOnboardingProgress now ref scenario passed =
     to_unit (update_record ref (\<lambda>r. Ok (with_progress now scenario passed r)))"

definition tenant_setProductionExpiry :: "int \<Rightarrow> string \<Rightarrow> int \<Rightarrow> (tenant_rows, unit) eff" where
  "tenant_setProductionExpiry now ref expiresAt =
     to_unit (update_record ref
       (\<lambda>r. Ok (r\<lparr>productionCertificateExpiresAt := Some expiresAt, updatedAt := now\<rparr>)))"

definition tenant_softDelete :: "int \<Rightarrow> string \<Rightarrow> (tenant_rows, unit) eff" where
  "tenant_softDelete now ref m = (case mget m ref of
       None \<Rightarrow> (Err (unknown_tenant ref), m)
     | Some r \<Rightarrow> (if deletedAt r \<noteq> None
         then (Err (ZatcaRegistryError (''Tenant '' @ quoted ref @ '' is already deleted.'') (Some Conflict)), m)
         else (Ok (), mset_to ref (r\<lparr>t_state := Revoked, deletedAt := Some now, updatedAt := now\<rparr>) m)))"

section \<open>The interface\<close>

record 's TenantStore =
  ts_get :: "string \<Rightarrow> ('s, TenantRecord option) eff"
  ts_setState :: "string \<Rightarrow> TenantState \<Rightarrow> SetStateOptions \<Rightarrow> ('s, TenantRecord) eff"
  ts_recordOnboardingProgress :: "string \<Rightarrow> string \<Rightarrow> bool \<Rightarrow> ('s, unit) eff"
  ts_setProductionExpiry :: "string \<Rightarrow> int \<Rightarrow> ('s, unit) eff"

definition memory_tenants :: "int \<Rightarrow> tenant_rows TenantStore" where
  "memory_tenants now = \<lparr>ts_get = tenant_get, ts_setState = tenant_setState now,
     ts_recordOnboardingProgress = tenant_recordOnboardingProgress now,
     ts_setProductionExpiry = tenant_setProductionExpiry now\<rparr>"

text \<open>
  A database may give the scenarios of a progress back in another order; nothing reads the order. The
  view of a record is the record up to it.
\<close>

type_synonym tenant_view = "TenantRecord \<times> (string \<Rightarrow> scenario_status option)"

definition tenant_view :: "TenantRecord \<Rightarrow> tenant_view" where
  "tenant_view r = (r\<lparr>onboardingProgress := \<lparr>scenarios = [], lastError = lastError (onboardingProgress r)\<rparr>\<rparr>,
     mget (scenarios (onboardingProgress r)))"

lemma tenant_view_fields:
  assumes "tenant_view a = tenant_view b"
  shows "tenantRef a = tenantRef b" "t_state a = t_state b" "claimExpiresAt a = claimExpiresAt b"
    "claimedBy a = claimedBy b" "deletedAt a = deletedAt b" "createdAt a = createdAt b" "t_environment a = t_environment b"
    "productionCertificateExpiresAt a = productionCertificateExpiresAt b"
    "lastError (onboardingProgress a) = lastError (onboardingProgress b)"
    "mget (scenarios (onboardingProgress a)) = mget (scenarios (onboardingProgress b))"
  using assms by (cases a; cases b; simp add: tenant_view_def)+

text \<open>
  The laws of the operations onboarding uses. \<open>seen\<close> is the live (not deleted) record of a
  reference, \<open>valid\<close> what the store keeps of its state; an update of one reference leaves the others
  alone.
\<close>

locale tenant_store =
  fixes ops :: "int \<Rightarrow> 's TenantStore"
    and seen :: "string \<Rightarrow> 's \<Rightarrow> TenantRecord option"
    and valid :: "'s \<Rightarrow> bool"
  assumes get_seen: "valid s \<Longrightarrow> ts_get (ops now) ref s = (Ok (seen ref s), s)"
    and set_valid: "valid s \<Longrightarrow> valid (snd (ts_setState (ops now) ref st o1 s))"
    and set_unknown: "valid s \<Longrightarrow> seen ref s = None \<Longrightarrow>
      ts_setState (ops now) ref st o1 s = (Err (unknown_tenant ref), s)"
    and set_conflict: "valid s \<Longrightarrow> seen ref s = Some r \<Longrightarrow> \<not> transition_allowed now r o1 \<Longrightarrow>
      ts_setState (ops now) ref st o1 s = (Err (transition_conflict ref r o1), s)"
    and set_allowed: "valid s \<Longrightarrow> seen ref s = Some r \<Longrightarrow> transition_allowed now r o1 \<Longrightarrow>
      \<exists>r' s'. ts_setState (ops now) ref st o1 s = (Ok r', s') \<and> seen ref s' = Some r' \<and>
        tenant_view r' = tenant_view (transitioned now st o1 r)"
    and set_frame: "valid s \<Longrightarrow> ref' \<noteq> ref \<Longrightarrow> ts_setState (ops now) ref st o1 s = (x, s') \<Longrightarrow>
      seen ref' s' = seen ref' s"
    and progress_valid: "valid s \<Longrightarrow> valid (snd (ts_recordOnboardingProgress (ops now) ref sc b s))"
    and progress_unknown: "valid s \<Longrightarrow> seen ref s = None \<Longrightarrow>
      ts_recordOnboardingProgress (ops now) ref sc b s = (Err (unknown_tenant ref), s)"
    and progress_seen: "valid s \<Longrightarrow> seen ref s = Some r \<Longrightarrow>
      \<exists>r' s'. ts_recordOnboardingProgress (ops now) ref sc b s = (Ok (), s') \<and> seen ref s' = Some r' \<and>
        tenant_view r' = tenant_view (with_progress now sc b r)"
    and expiry_valid: "valid s \<Longrightarrow> valid (snd (ts_setProductionExpiry (ops now) ref t s))"
    and expiry_unknown: "valid s \<Longrightarrow> seen ref s = None \<Longrightarrow>
      ts_setProductionExpiry (ops now) ref t s = (Err (unknown_tenant ref), s)"
    and expiry_seen: "valid s \<Longrightarrow> seen ref s = Some r \<Longrightarrow>
      \<exists>s'. ts_setProductionExpiry (ops now) ref t s = (Ok (), s') \<and>
        seen ref s' = Some (r\<lparr>productionCertificateExpiresAt := Some t, updatedAt := now\<rparr>)"
begin

text \<open>A held claim: nobody's guarded transition gets past it before it expires.\<close>

definition claim_held :: "int \<Rightarrow> string \<Rightarrow> 's \<Rightarrow> bool" where
  "claim_held now ref s = (\<exists>r t. seen ref s = Some r \<and> t_state r = Onboarding \<and>
     claimExpiresAt r = Some t \<and> now < t)"

lemma held_blocks:
  assumes "valid s" "claim_held now ref s" "expectedFrom o1 = Some from"
  shows "\<exists>e. ts_setState (ops now) ref st o1 s = (Err e, s)"
proof -
  obtain r t where r: "seen ref s = Some r" "t_state r = Onboarding" "claimExpiresAt r = Some t" "now < t"
    using assms(2) unfolding claim_held_def by blast
  then have "\<not> transition_allowed now r o1"
    using assms(3) by (auto simp: transition_allowed_def lockNotHeld_def)
  then show ?thesis using r set_conflict [OF assms(1)] by blast
qed

lemma claim_makes_held:
  assumes "valid s" "ts_setState (ops now) ref Onboarding o1 s = (Ok r, s')" "opt_claimExpiresAt o1 = Some t" "now' < t"
  shows "claim_held now' ref s'"
proof (cases "seen ref s")
  case None
  then show ?thesis using assms set_unknown by simp
next
  case (Some r0)
  have al: "transition_allowed now r0 o1"
    using assms set_conflict [OF assms(1) Some] by (cases "transition_allowed now r0 o1") auto
  then have "seen ref s' = Some r" "tenant_view r = tenant_view (transitioned now Onboarding o1 r0)"
    using set_allowed [OF assms(1) Some al, of Onboarding] assms(2) by auto
  then show ?thesis using tenant_view_fields(2,3) [of r "transitioned now Onboarding o1 r0"] assms(3,4)
    by (simp add: claim_held_def transitioned_def)
qed

text \<open>Two guarded transitions of one tenant: while the first one's claim runs, the second fails.\<close>

lemma claim_excludes:
  assumes "valid s" "ts_setState (ops now) ref Onboarding o1 s = (Ok r, s')" "opt_claimExpiresAt o1 = Some t" "now' < t"
    "expectedFrom o2 = Some from"
  shows "\<exists>e. ts_setState (ops now') ref st o2 s' = (Err e, s')"
  using held_blocks [OF _ claim_makes_held [OF assms(1-4)] assms(5)] set_valid [OF assms(1), of now ref Onboarding o1] assms(2)
  by simp

end

lemma requireRecord_simps [simp]:
  "visible ref m = None \<Longrightarrow> requireRecord ref m = Err (unknown_tenant ref)"
  "visible ref m = Some r \<Longrightarrow> requireRecord ref m = Ok r"
  by (simp_all add: requireRecord_def)

lemma visible_mset: "visible ref' (mset_to ref r m) =
    (if ref' = ref then (if deletedAt r \<noteq> None then None else Some r) else visible ref' m)"
  by (simp add: visible_def)

lemma visible_live: "visible ref m = Some r \<Longrightarrow> deletedAt r = None"
  by (auto simp: visible_def split: option.splits if_splits)

lemma transitioned_live [simp]: "deletedAt (transitioned now st o1 r) = deletedAt r"
  by (simp add: transitioned_def)

lemma with_progress_live [simp]: "deletedAt (with_progress now sc b r) = deletedAt r"
  by (simp add: with_progress_def)

lemmas tenant_op_defs = memory_tenants_def tenant_get_def tenant_setState_def update_record_def
  tenant_recordOnboardingProgress_def tenant_setProductionExpiry_def to_unit_def

interpretation memory_tenant: tenant_store memory_tenants visible "\<lambda>_. True"
  by unfold_locales
    (auto simp: tenant_op_defs visible_mset andThen_run dest: visible_live split: option.splits if_splits sum.splits)

end
