(* ===== verification/Vault.thy ===== *)
theory Vault
  imports Encoding
begin

text \<open>
  Secrets at rest: the ciphers (\<open>server/src/crypto/cipher.ts\<close>, \<open>noop-cipher.ts\<close>,
  \<open>aes-gcm-cipher.ts\<close>) and the credential vault (\<open>tenants/credential-vault.ts\<close>, the vault of
  \<open>registry-memory.ts\<close>). The contract of a cipher is the locale \<open>secret_cipher\<close>. AES-256-GCM itself
  is OpenSSL's: a pair of functions that the cipher takes.
\<close>

section \<open>Ciphers\<close>

record CipherEnvelope =
  kid :: string
  alg :: string
  iv_b64 :: string
  ct_b64 :: string
  tag_b64 :: string

text \<open>\<open>encrypt\<close> takes the random bytes it draws as its first argument.\<close>

record SecretCipher =
  encrypt :: "string \<Rightarrow> string \<Rightarrow> CipherEnvelope"
  decrypt :: "CipherEnvelope \<Rightarrow> error + string"

text \<open>
  What the vault needs: one cipher reads what another, or the same, has written. \<open>good_random\<close> is
  what the writer's random source delivers.
\<close>

locale cipher_pair =
  fixes writer reader :: SecretCipher and good_random :: "string \<Rightarrow> bool"
  assumes decrypt_encrypt: "good_random rnd \<Longrightarrow> decrypt reader (encrypt writer rnd pt) = Ok pt"

locale secret_cipher = cipher_pair cipher cipher good_random for cipher good_random

definition createNoopCipher :: "string option \<Rightarrow> bool \<Rightarrow> error + SecretCipher" where
  "createNoopCipher node_env acknowledgeUnsafe =
     (if node_env \<noteq> Some ''development'' \<and> \<not> acknowledgeUnsafe
      then Err (ZatcaCipherError (''createNoopCipher refuses to run outside NODE_ENV=development ''
        @ ''without acknowledgeUnsafe=true. Use createAesGcmCipher in production.''))
      else Ok
       \<lparr>encrypt = (\<lambda>_ pt. \<lparr>kid = ''noop'', alg = ''noop'', iv_b64 = [], ct_b64 = base64_encode pt, tag_b64 = []\<rparr>),
        decrypt = (\<lambda>e. if alg e \<noteq> ''noop''
           then Err (ZatcaCipherError (''Envelope alg '' @ quoted (alg e) @ '' is not handled by the noop cipher.''))
           else Ok (base64_decode (ct_b64 e)))\<rparr>)"

record MasterKey =
  mk_kid :: string
  mk_key :: string

record aes_lib =
  aes_encrypt :: "string \<Rightarrow> string \<Rightarrow> string \<Rightarrow> string \<times> string" \<comment> \<open>key, iv, text: ciphertext and tag\<close>
  aes_decrypt :: "string \<Rightarrow> string \<Rightarrow> string \<Rightarrow> string \<Rightarrow> string option" \<comment> \<open>key, iv, ciphertext, tag\<close>

fun load_keyring :: "MasterKey list \<Rightarrow> (string, string) jsmap \<Rightarrow> error + (string, string) jsmap" where
  "load_keyring [] m = Ok m"
| "load_keyring (e # es) m =
     (if mget m (mk_kid e) \<noteq> None
      then Err (ZatcaCipherError (''Duplicate kid '' @ quoted (mk_kid e) @ '' in master key-ring.''))
      else if length (mk_key e) \<noteq> 32
      then Err (ZatcaCipherError (''Master key '' @ quoted (mk_kid e) @ '' must be 32 bytes; got ''
             @ nat_str (length (mk_key e)) @ ''.''))
      else load_keyring es (mset_to (mk_kid e) (mk_key e) m))"

definition ALG :: string where "ALG = ''aes-256-gcm''"

definition aes_encrypt_with :: "aes_lib \<Rightarrow> string \<Rightarrow> string \<Rightarrow> string \<Rightarrow> string \<Rightarrow> CipherEnvelope" where
  "aes_encrypt_with aes active_kid key iv pt = (case aes_encrypt aes key iv pt of (ct, tag) \<Rightarrow>
     \<lparr>kid = active_kid, alg = ALG, iv_b64 = base64_encode iv, ct_b64 = base64_encode ct,
      tag_b64 = base64_encode tag\<rparr>)"

definition aes_decrypt_with :: "aes_lib \<Rightarrow> (string, string) jsmap \<Rightarrow> CipherEnvelope \<Rightarrow> error + string" where
  "aes_decrypt_with aes byKid e =
     (if alg e \<noteq> ALG
      then Err (ZatcaCipherError (''Envelope alg '' @ quoted (alg e) @ '' is not handled by aes-256-gcm cipher.''))
      else (case mget byKid (kid e) of
        None \<Rightarrow> Err (ZatcaCipherError (''Envelope references unknown kid '' @ quoted (kid e)
            @ ''. Has the key been rotated out of the ring?''))
      | Some key \<Rightarrow>
         (let iv = base64_decode (iv_b64 e); tag = base64_decode (tag_b64 e) in
          if length iv \<noteq> 12 then Err (ZatcaCipherError (''Envelope iv must be 12 bytes; got ''
               @ nat_str (length iv) @ ''.''))
          else if length tag \<noteq> 16 then Err (ZatcaCipherError (''Envelope tag must be 16 bytes; got ''
               @ nat_str (length tag) @ ''.''))
          else (case aes_decrypt aes key iv (base64_decode (ct_b64 e)) tag of
             None \<Rightarrow> Err (ZatcaCipherError (''AES-GCM decrypt failed for kid '' @ quoted (kid e) @ '' ''
               @ em_dash @ '' auth tag mismatch or corrupt ciphertext.''))
           | Some pt \<Rightarrow> Ok pt))))"

definition createAesGcmCipher :: "aes_lib \<Rightarrow> MasterKey list \<Rightarrow> string \<Rightarrow> error + SecretCipher" where
  "createAesGcmCipher aes keyring active_kid =
     (if keyring = [] then Err (ZatcaCipherError
        ''AES-GCM cipher requires at least one master key in the ring.'')
      else (case load_keyring keyring [] of Inl e \<Rightarrow> Inl e
        | Inr byKid \<Rightarrow> (case mget byKid active_kid of
            None \<Rightarrow> Err (ZatcaCipherError (''activeKid '' @ quoted active_kid
                @ '' is not present in the master key-ring.''))
          | Some key \<Rightarrow> Ok \<lparr>encrypt = aes_encrypt_with aes active_kid key,
              decrypt = aes_decrypt_with aes byKid\<rparr>)))"

section \<open>The vault\<close>

record 'a Material =
  m_privateKey :: 'a
  m_productionCertificate :: 'a
  m_productionBinarySecurityToken :: 'a
  m_productionApiSecret :: 'a
  m_complianceCertificate :: "'a option"
  m_complianceBinarySecurityToken :: "'a option"
  m_complianceApiSecret :: "'a option"

type_synonym SignerMaterial = "string Material"
type_synonym EncryptedSignerMaterial = "CipherEnvelope Material"
type_synonym vault_rows = "(string, EncryptedSignerMaterial) jsmap"

text \<open>\<open>rnd\<close> gives the random bytes of each of the seven encryptions.\<close>

definition seal :: "SecretCipher \<Rightarrow> (nat \<Rightarrow> string) \<Rightarrow> SignerMaterial \<Rightarrow> EncryptedSignerMaterial" where
  "seal c rnd m =
     \<lparr>m_privateKey = encrypt c (rnd 0) (m_privateKey m),
      m_productionCertificate = encrypt c (rnd 1) (m_productionCertificate m),
      m_productionBinarySecurityToken = encrypt c (rnd 2) (m_productionBinarySecurityToken m),
      m_productionApiSecret = encrypt c (rnd 3) (m_productionApiSecret m),
      m_complianceCertificate = map_option (encrypt c (rnd 4)) (m_complianceCertificate m),
      m_complianceBinarySecurityToken = map_option (encrypt c (rnd 5)) (m_complianceBinarySecurityToken m),
      m_complianceApiSecret = map_option (encrypt c (rnd 6)) (m_complianceApiSecret m)\<rparr>"

definition vault_put :: "SecretCipher \<Rightarrow> (nat \<Rightarrow> string) \<Rightarrow> string \<Rightarrow> SignerMaterial \<Rightarrow> vault_rows \<Rightarrow> vault_rows" where
  "vault_put c rnd ref m rows = mset_to ref (seal c rnd m) rows"

definition decryptOptional :: "SecretCipher \<Rightarrow> CipherEnvelope option \<Rightarrow> error + string option" where
  "decryptOptional c e = (case e of None \<Rightarrow> Ok None | Some x \<Rightarrow> map_sum id Some (decrypt c x))"

definition unseal :: "SecretCipher \<Rightarrow> EncryptedSignerMaterial \<Rightarrow> error + SignerMaterial" where
  "unseal c r =
     (case decryptOptional c (m_complianceCertificate r) of Inl e \<Rightarrow> Inl e | Inr cc \<Rightarrow>
     (case decryptOptional c (m_complianceBinarySecurityToken r) of Inl e \<Rightarrow> Inl e | Inr cb \<Rightarrow>
     (case decryptOptional c (m_complianceApiSecret r) of Inl e \<Rightarrow> Inl e | Inr cs \<Rightarrow>
     (case decrypt c (m_privateKey r) of Inl e \<Rightarrow> Inl e | Inr pk \<Rightarrow>
     (case decrypt c (m_productionCertificate r) of Inl e \<Rightarrow> Inl e | Inr pc \<Rightarrow>
     (case decrypt c (m_productionBinarySecurityToken r) of Inl e \<Rightarrow> Inl e | Inr pb \<Rightarrow>
     (case decrypt c (m_productionApiSecret r) of Inl e \<Rightarrow> Inl e | Inr ps \<Rightarrow>
       Ok \<lparr>m_privateKey = pk, m_productionCertificate = pc, m_productionBinarySecurityToken = pb,
           m_productionApiSecret = ps, m_complianceCertificate = cc,
           m_complianceBinarySecurityToken = cb, m_complianceApiSecret = cs\<rparr>)))))))"

definition vault_error :: "string \<Rightarrow> error \<Rightarrow> error" where
  "vault_error ref e = (case e of ZatcaCipherError _ \<Rightarrow> e
     | _ \<Rightarrow> ZatcaCipherError (''Vault decrypt failed for tenant '' @ quoted ref @ ''.''))"

definition vault_get :: "SecretCipher \<Rightarrow> string \<Rightarrow> vault_rows \<Rightarrow> error + SignerMaterial option" where
  "vault_get c ref rows = (case mget rows ref of None \<Rightarrow> Ok None
     | Some r \<Rightarrow> map_sum (vault_error ref) Some (unseal c r))"

definition vault_delete :: "string \<Rightarrow> vault_rows \<Rightarrow> vault_rows" where
  "vault_delete ref rows = mdelete ref rows"

context cipher_pair
begin

lemma decryptOptional_encrypt:
  "good_random rnd \<Longrightarrow> decryptOptional reader (map_option (encrypt writer rnd) v) = Ok v"
  by (cases v) (simp_all add: decryptOptional_def decrypt_encrypt)

lemma unseal_seal: "\<forall>i. good_random (rnd i) \<Longrightarrow> unseal reader (seal writer rnd m) = Ok m"
  by (simp add: unseal_def seal_def decryptOptional_encrypt decrypt_encrypt)

lemma vault_roundtrip:
  "\<forall>i. good_random (rnd i) \<Longrightarrow> vault_get reader ref (vault_put writer rnd ref m rows) = Ok (Some m)"
  by (simp add: vault_get_def vault_put_def unseal_seal)

end

lemma vault_put_frame: "ref' \<noteq> ref \<Longrightarrow> vault_get c ref' (vault_put c' rnd ref m rows) = vault_get c ref' rows"
  by (simp add: vault_get_def vault_put_def)

definition noop_cipher :: SecretCipher where
  "noop_cipher =
     \<lparr>encrypt = (\<lambda>_ pt. \<lparr>kid = ''noop'', alg = ''noop'', iv_b64 = [], ct_b64 = base64_encode pt, tag_b64 = []\<rparr>),
      decrypt = (\<lambda>e. if alg e \<noteq> ''noop''
         then Err (ZatcaCipherError (''Envelope alg '' @ quoted (alg e) @ '' is not handled by the noop cipher.''))
         else Ok (base64_decode (ct_b64 e)))\<rparr>"

lemma createNoopCipher_ok: "createNoopCipher env ack = Ok c \<Longrightarrow> c = noop_cipher"
  by (auto simp: createNoopCipher_def noop_cipher_def split: if_splits)

interpretation noop: secret_cipher noop_cipher "\<lambda>_. True"
  by unfold_locales (simp add: noop_cipher_def base64_roundtrip)

section \<open>The key ring\<close>

lemma load_keyring_keys:
  "load_keyring es m = Ok m' \<Longrightarrow> (\<forall>k v. mget m k = Some v \<longrightarrow> length v = 32) \<Longrightarrow>
    mget m' k = Some v \<Longrightarrow> length v = 32"
proof (induction es m rule: load_keyring.induct)
  case (2 e es m)
  then show ?case by (auto split: if_splits)
qed auto

lemma load_keyring_mono:
  "load_keyring es m = Ok m' \<Longrightarrow> mget m k = Some v \<Longrightarrow> mget m' k = Some v"
proof (induction es m rule: load_keyring.induct)
  case (2 e es m)
  then show ?case by (cases "k = mk_kid e") (auto split: if_splits)
qed simp

lemma load_keyring_mem:
  "load_keyring es m = Ok m' \<Longrightarrow> e \<in> set es \<Longrightarrow> mget m' (mk_kid e) = Some (mk_key e)"
proof (induction es m rule: load_keyring.induct)
  case (2 e' es m)
  then show ?case by (auto split: if_splits intro: load_keyring_mono)
qed simp

text \<open>
  What the cipher relies on of AES-GCM: decryption under the same key and iv inverts encryption,
  and the tag is 16 bytes.
\<close>

definition gcm_correct :: "aes_lib \<Rightarrow> bool" where
  "gcm_correct aes = (\<forall>key iv pt ct tag. length key = 32 \<longrightarrow> length iv = 12 \<longrightarrow>
     aes_encrypt aes key iv pt = (ct, tag) \<longrightarrow> length tag = 16 \<and> aes_decrypt aes key iv ct tag = Some pt)"

lemma aes_decrypt_any_ring:
  assumes "gcm_correct aes" "mget byKid k = Some key" "length key = 32" "length iv = 12"
  shows "aes_decrypt_with aes byKid (aes_encrypt_with aes k key iv pt) = Ok pt"
proof -
  obtain ct tag where e: "aes_encrypt aes key iv pt = (ct, tag)" by (cases "aes_encrypt aes key iv pt")
  then have "length tag = 16" "aes_decrypt aes key iv ct tag = Some pt"
    using assms unfolding gcm_correct_def by blast+
  then show ?thesis using assms e by (simp add: aes_decrypt_with_def aes_encrypt_with_def base64_roundtrip Let_def)
qed

lemma createAesGcmCipher_ok:
  assumes "createAesGcmCipher aes ring active = Ok c"
  obtains byKid key where "load_keyring ring [] = Ok byKid" "mget byKid active = Some key" "length key = 32"
    "encrypt c = aes_encrypt_with aes active key" "decrypt c = aes_decrypt_with aes byKid"
proof -
  from assms obtain byKid key where r: "load_keyring ring [] = Ok byKid" "mget byKid active = Some key"
    "c = \<lparr>encrypt = aes_encrypt_with aes active key, decrypt = aes_decrypt_with aes byKid\<rparr>"
    by (auto simp: createAesGcmCipher_def split: if_splits sum.splits option.splits)
  moreover from r have "length key = 32" using load_keyring_keys [OF r(1), of active key] by simp
  ultimately show ?thesis using that by simp
qed

text \<open>A ring maps exactly the keys it lists.\<close>

lemma load_keyring_from:
  "load_keyring es m = Ok m' \<Longrightarrow> mget m' k = Some v \<Longrightarrow>
    mget m k = Some v \<or> (\<exists>e \<in> set es. mk_kid e = k \<and> mk_key e = v)"
proof (induction es m rule: load_keyring.induct)
  case (2 e es m)
  then show ?case by (cases "k = mk_kid e") (auto split: if_splits)
qed auto

text \<open>
  Rotation: a cipher whose ring still holds every key of an older ring reads what the older cipher
  wrote, whichever of the keys is active now.
\<close>

lemma rotated_cipher_pair:
  assumes "gcm_correct aes" "createAesGcmCipher aes ring active = Ok c"
    "createAesGcmCipher aes ring' active' = Ok c'" "set ring \<subseteq> set ring'"
  shows "cipher_pair c c' (\<lambda>iv. length iv = 12)"
proof
  fix iv pt :: string assume iv: "length iv = 12"
  from assms(2) obtain byKid key where a: "load_keyring ring [] = Ok byKid" "mget byKid active = Some key"
      "length key = 32" "encrypt c = aes_encrypt_with aes active key" "decrypt c = aes_decrypt_with aes byKid"
    by (rule createAesGcmCipher_ok)
  from assms(3) obtain byKid' key' where b: "load_keyring ring' [] = Ok byKid'" "mget byKid' active' = Some key'"
      "length key' = 32" "encrypt c' = aes_encrypt_with aes active' key'" "decrypt c' = aes_decrypt_with aes byKid'"
    by (rule createAesGcmCipher_ok)
  obtain e where "e \<in> set ring" "mk_kid e = active" "mk_key e = key"
    using load_keyring_from [OF a(1,2)] by auto
  then have "mget byKid' active = Some key" using load_keyring_mem [OF b(1), of e] assms(4) by auto
  then show "decrypt c' (encrypt c iv pt) = Ok pt"
    using aes_decrypt_any_ring [OF assms(1) _ a(3) iv] by (simp add: a b)
qed

end
