(* ===== verification/AuditLog.thy ===== *)
theory AuditLog
  imports Tenants
begin

text \<open>
  The audit trail (\<open>server/src/audit/log.ts\<close>) and what may enter it (\<open>audit/redact.ts\<close>). A payload is a
  JSON value; the branches of \<open>walk\<close> for buffers, dates, maps and cyclic objects have no JSON value.
\<close>

section \<open>Redaction\<close>

definition SENSITIVE_KEYS :: "string list" where
  "SENSITIVE_KEYS =
     [''privatekey'', ''private_key'', ''apisecret'', ''api_secret'', ''complianceapisecret'',
      ''productionapisecret'', ''binarysecuritytoken'', ''binary_security_token'',
      ''compliancebinarysecuritytoken'', ''productionbinarysecuritytoken'', ''apikey'', ''api_key'',
      ''otp'', ''authorization'', ''token'', ''bearer'', ''masterkey'', ''master_key'', ''masterkeys'',
      ''csr'', ''csid'', ''pem'', ''pemcertificate'', ''compliancecsidvalue'', ''productioncsidvalue'',
      ''signature'', ''signaturevalue'', ''signedxml'', ''password'', ''secret'']"

definition contains :: "string \<Rightarrow> string \<Rightarrow> bool" where
  "contains p s = (indexOf p s \<noteq> None)"

definition isSensitiveKey :: "string \<Rightarrow> bool" where
  "isSensitiveKey key = (let k = toLowerCase key in
     k \<in> set SENSITIVE_KEYS \<or> contains ''secret'' k \<or> contains ''token'' k \<or> contains ''password'' k)"

definition REDACTED :: string where "REDACTED = ''[REDACTED]''"

function redactSecrets :: "jsval \<Rightarrow> jsval" where
  "redactSecrets (JArr xs) = JArr (map redactSecrets xs)"
| "redactSecrets (JObj ps) =
     JObj (map (\<lambda>(k, v). (k, if isSensitiveKey k then JStr REDACTED else redactSecrets v)) ps)"
| "redactSecrets JUndef = JUndef"
| "redactSecrets JNull = JNull"
| "redactSecrets (JBool b) = JBool b"
| "redactSecrets (JNum x) = JNum x"
| "redactSecrets (JStr s) = JStr s"
  by pat_completeness auto
termination
  by (relation "measure size") (auto simp: less_Suc_eq_le intro: size_list_estimation')

text \<open>No sensitive key, at any depth, has another value than the mark.\<close>

function clean :: "jsval \<Rightarrow> bool" where
  "clean (JArr xs) = list_all clean xs"
| "clean (JObj ps) = list_all (\<lambda>(k, v). if isSensitiveKey k then v = JStr REDACTED else clean v) ps"
| "clean JUndef = True"
| "clean JNull = True"
| "clean (JBool b) = True"
| "clean (JNum x) = True"
| "clean (JStr s) = True"
  by pat_completeness auto
termination
  by (relation "measure size") (auto simp: less_Suc_eq_le intro: size_list_estimation')

lemma redact_clean: "clean (redactSecrets v)"
  by (induction v rule: redactSecrets.induct) (auto simp: list_all_iff)

lemma redact_idem: "clean v \<Longrightarrow> redactSecrets v = v"
proof (induction v rule: redactSecrets.induct)
  case (1 xs)
  then show ?case by (simp add: list_all_iff map_idI)
next
  case (2 ps)
  then show ?case by (auto simp: list_all_iff intro!: map_idI split: if_splits)
qed auto

section \<open>The log\<close>

datatype AuditActor = Admin string | TenantActor string string | System

fun actor_type :: "AuditActor \<Rightarrow> string" where
  "actor_type (Admin _) = ''admin''"
| "actor_type (TenantActor _ _) = ''tenant''"
| "actor_type System = ''system''"

record AuditEntryInput =
  a_actor :: AuditActor
  a_tenantRef :: "string option"
  a_action :: string
  a_targetId :: "string option"
  a_result_ok :: bool \<comment> \<open>\<open>result\<close> is \<open>ok\<close>\<close>
  a_zatcaRequestId :: "string option"
  a_requestId :: "string option"
  a_payload :: "jsval option"

record AuditEntry =
  e_id :: string
  e_at :: int
  e_input :: AuditEntryInput

definition MAX_AUDIT_PAYLOAD_BYTES :: nat where
  "MAX_AUDIT_PAYLOAD_BYTES = 16 * 1024"

definition payload_size :: "jsval \<Rightarrow> nat" where
  "payload_size v = length (case json_of v of None \<Rightarrow> [] | Some s \<Rightarrow> s)"

definition capAuditPayload :: "nat \<Rightarrow> jsval option \<Rightarrow> jsval option" where
  "capAuditPayload maxBytes p = (case p of None \<Rightarrow> None
     | Some v \<Rightarrow> if payload_size v \<le> maxBytes then Some v
         else Some (JObj [(''_truncated'', JBool True),
           (''originalBytes'', JNum (num_of_nat (payload_size v))),
           (''maxBytes'', JNum (num_of_nat maxBytes)),
           (''note'', JStr (''Audit payload exceeded the configured size cap and was dropped. ''
              @ ''See server log for context.''))]))"

text \<open>\<open>randomUUID()\<close> and the clock are the first two arguments.\<close>

definition audit_write :: "string \<Rightarrow> int \<Rightarrow> AuditEntryInput \<Rightarrow> AuditEntry list \<Rightarrow> AuditEntry \<times> AuditEntry list" where
  "audit_write uuid now i rows =
     (let e = \<lparr>e_id = uuid, e_at = now,
            e_input = i\<lparr>a_payload := capAuditPayload MAX_AUDIT_PAYLOAD_BYTES (a_payload i)\<rparr>\<rparr>
      in (e, rows @ [e]))"

record AuditListFilter =
  f_tenantRef :: "string option"
  f_action :: "string option"
  f_actorType :: "string option"
  f_since :: "int option"
  f_until :: "int option"
  f_result_ok :: "bool option"
  f_limit :: "nat option"

definition audit_matches :: "AuditListFilter \<Rightarrow> AuditEntry \<Rightarrow> bool" where
  "audit_matches f e = (let i = e_input e in
     (case f_tenantRef f of None \<Rightarrow> True | Some t \<Rightarrow> a_tenantRef i = Some t) \<and>
     (case f_action f of None \<Rightarrow> True | Some a \<Rightarrow> a_action i = a) \<and>
     (case f_actorType f of None \<Rightarrow> True | Some a \<Rightarrow> actor_type (a_actor i) = a) \<and>
     (case f_result_ok f of None \<Rightarrow> True | Some b \<Rightarrow> a_result_ok i = b) \<and>
     (case f_since f of None \<Rightarrow> True | Some t \<Rightarrow> t \<le> e_at e) \<and>
     (case f_until f of None \<Rightarrow> True | Some t \<Rightarrow> e_at e \<le> t))"

definition audit_list :: "AuditListFilter \<Rightarrow> AuditEntry list \<Rightarrow> AuditEntry list" where
  "audit_list f rows = take (case f_limit f of None \<Rightarrow> 100 | Some n \<Rightarrow> n)
     (js_sort (\<lambda>a b. e_at b - e_at a) (filter (audit_matches f) (rev rows)))"

lemma capAuditPayload_small: "payload_size v \<le> n \<Longrightarrow> capAuditPayload n (Some v) = Some v"
  by (simp add: capAuditPayload_def)

end
