(* ===== verification/Onboarding.thy ===== *)
theory Onboarding
  imports Tenants Vault AuditLog DateTime
begin

text \<open>
  The onboarding run of the server (\<open>server/src/onboarding/run.ts\<close>) over the memory registry, the
  vault and the audit log. The call to ZATCA in the middle (\<open>onboardFn\<close>) is awaited, so a run is two
  atomic parts with progress events between them: \<open>acquire\<close> (lines 209 to 274) and \<open>finish\<close>
  (lines 295 to 397). \<open>runOnboarding\<close> is their sequence; the transition system below interleaves
  the parts of several runs.
\<close>

record world =
  w_tenants :: tenant_rows
  w_vault :: vault_rows
  w_audit :: "AuditEntry list"

text \<open>An operation of one store, run on the world.\<close>

definition on_tenants :: "(tenant_rows, 'a) eff \<Rightarrow> (world, 'a) eff" where
  "on_tenants m w = (case m (w_tenants w) of (r, t) \<Rightarrow> (r, w\<lparr>w_tenants := t\<rparr>))"

definition put_vault :: "SecretCipher \<Rightarrow> (nat \<Rightarrow> string) \<Rightarrow> string \<Rightarrow> SignerMaterial \<Rightarrow> (world, unit) eff" where
  "put_vault c rnd ref m w = (Ok (), w\<lparr>w_vault := vault_put c rnd ref m (w_vault w)\<rparr>)"

definition write_audit :: "string \<Rightarrow> int \<Rightarrow> AuditEntryInput \<Rightarrow> (world, unit) eff" where
  "write_audit uuid now i w = (Ok (), w\<lparr>w_audit := snd (audit_write uuid now i (w_audit w))\<rparr>)"

definition DEFAULT_LOCK_TTL_MS :: int where "DEFAULT_LOCK_TTL_MS = 180000"

record RunOnboardingArgs =
  run_tenantRef :: string
  run_otp :: string
  run_solutionName :: string
  run_environment :: Environment
  run_instanceId :: string
  run_actor :: AuditActor
  run_egsCustomId :: "string option"
  run_egsModel :: "string option"
  run_lockTtlMs :: "int option"
  run_auditAction :: "string option"

definition buildEgsInfo :: "TenantRecord \<Rightarrow> string option \<Rightarrow> string option \<Rightarrow> EGSUnitInfo" where
  "buildEgsInfo r customId model = (let l = t_location r in
     \<lparr>egs_uuid = t_egsUuid r,
      egs_customId = or_else customId (tenantRef r @ ''-pos-01''),
      egs_model = or_else model ''ZATCA Standalone Server'',
      egs_crnNumber = t_crn r, egs_vatName = t_vatName r, egs_vatNumber = t_vatNumber r,
      egs_branchName = t_branchName r, egs_branchIndustry = or_else (t_branchIndustry r) ''Retail'',
      egs_location = \<lparr>loc_cityName = t_cityName l, loc_citySubdivision = t_citySubdivision l,
        loc_street = t_street l, loc_plotIdentification = t_plotIdentification l,
        loc_building = t_building l, loc_postalZone = t_postalZone l\<rparr>,
      egs_certificate = None\<rparr>)"

section \<open>Acquiring the lock\<close>

definition already_onboarding :: "string \<Rightarrow> TenantRecord \<Rightarrow> int \<Rightarrow> error" where
  "already_onboarding ref r t = ZatcaServerError (''Tenant '' @ quoted ref
     @ '' is already onboarding (claimed by '' @ quoted (or_else (claimedBy r) ''unknown'')
     @ '', lock expires '' @ toISOString t @ '').'') (Some 409)"

definition cannot_onboard :: "string \<Rightarrow> TenantRecord option \<Rightarrow> error" where
  "cannot_onboard ref r = ZatcaServerError (''Tenant '' @ quoted ref @ '' cannot be onboarded from state ''
     @ quoted (case r of None \<Rightarrow> ''unknown'' | Some x \<Rightarrow> tenant_state_str (t_state x)) @ ''.'') (Some 409)"

definition is_registry_error :: "error \<Rightarrow> bool" where
  "is_registry_error e = (case e of ZatcaRegistryError _ _ \<Rightarrow> True | _ \<Rightarrow> False)"

definition claim_options :: "RunOnboardingArgs \<Rightarrow> int \<Rightarrow> TenantState \<Rightarrow> SetStateOptions" where
  "claim_options args expires from = \<lparr>expectedFrom = Some from, opt_claimedBy = Some (run_instanceId args),
     opt_claimExpiresAt = Some expires, opt_lastError = None\<rparr>"

text \<open>The loop over the states the lock may be taken from; a registry error means: try the next.\<close>

fun try_states :: "int \<Rightarrow> RunOnboardingArgs \<Rightarrow> int \<Rightarrow> TenantState list \<Rightarrow> (tenant_rows, bool) eff" where
  "try_states now args expires [] = ret False"
| "try_states now args expires (from # fs) = tryCatch
     (andThen (tenant_setState now (run_tenantRef args) Onboarding (claim_options args expires from))
        (\<lambda>_. ret True))
     (\<lambda>e. if is_registry_error e then try_states now args expires fs else raise e)"

definition onboardable :: "TenantState list" where
  "onboardable = [Created, Failed, Production_ready, Onboarding]"

definition lock_until :: "RunOnboardingArgs \<Rightarrow> int \<Rightarrow> int" where
  "lock_until args now = now + or_else (run_lockTtlMs args) DEFAULT_LOCK_TTL_MS"

definition held_by :: "int \<Rightarrow> TenantRecord \<Rightarrow> int option" where
  "held_by now r = (if t_state r = Onboarding
     then (case claimExpiresAt r of None \<Rightarrow> None | Some t \<Rightarrow> if now < t then Some t else None) else None)"

definition acquire :: "int \<Rightarrow> RunOnboardingArgs \<Rightarrow> (tenant_rows, EGSUnitInfo) eff" where
  "acquire now args = andThen (tenant_get (run_tenantRef args)) (\<lambda>existing.
     case existing of None \<Rightarrow> raise (unknown_tenant (run_tenantRef args))
     | Some r \<Rightarrow> (case held_by now r of
         Some t \<Rightarrow> raise (already_onboarding (run_tenantRef args) r t)
       | None \<Rightarrow> andThen (try_states now args (lock_until args now) onboardable) (\<lambda>acquired.
           if acquired then ret (buildEgsInfo r (run_egsCustomId args) (run_egsModel args))
           else andThen (tenant_get (run_tenantRef args))
                  (\<lambda>fresh. raise (cannot_onboard (run_tenantRef args) fresh)))))"

section \<open>Finishing\<close>

record OnboardingResult =
  r_privateKey :: string
  r_complianceCertificate :: string
  r_complianceBinarySecurityToken :: string
  r_complianceApiSecret :: string
  r_complianceRequestId :: string
  r_productionCertificate :: string
  r_productionBinarySecurityToken :: string
  r_productionApiSecret :: string
  r_productionRequestId :: string
  r_tests_passed :: bool \<comment> \<open>\<open>complianceTestReport.overallStatus\<close> is \<open>passed\<close>\<close>

definition material_of :: "OnboardingResult \<Rightarrow> SignerMaterial" where
  "material_of r = \<lparr>m_privateKey = r_privateKey r, m_productionCertificate = r_productionCertificate r,
     m_productionBinarySecurityToken = r_productionBinarySecurityToken r,
     m_productionApiSecret = r_productionApiSecret r,
     m_complianceCertificate = Some (r_complianceCertificate r),
     m_complianceBinarySecurityToken = Some (r_complianceBinarySecurityToken r),
     m_complianceApiSecret = Some (r_complianceApiSecret r)\<rparr>"

text \<open>
  What the environment supplies to a finishing run: the cipher and its random bytes, the clock, a
  UUID, and \<open>getExpiry\<close> (\<open>None\<close> when it throws).
\<close>

record finish_env =
  fe_cipher :: SecretCipher
  fe_random :: "nat \<Rightarrow> string"
  fe_now :: int
  fe_uuid :: string
  fe_getExpiry :: "string \<Rightarrow> int option"

definition run_action :: "RunOnboardingArgs \<Rightarrow> string" where
  "run_action args = or_else (run_auditAction args) ''tenant.onboarded''"

definition audit_ok :: "RunOnboardingArgs \<Rightarrow> OnboardingResult \<Rightarrow> int \<Rightarrow> AuditEntryInput" where
  "audit_ok args r expiry = \<lparr>a_actor = run_actor args, a_tenantRef = Some (run_tenantRef args),
     a_action = run_action args, a_targetId = Some (run_tenantRef args), a_result_ok = True,
     a_zatcaRequestId = None, a_requestId = None,
     a_payload = Some (redactSecrets (JObj
       [(''environment'', JStr (env_str (run_environment args))),
        (''solutionName'', JStr (run_solutionName args)),
        (''complianceRequestId'', JStr (r_complianceRequestId r)),
        (''productionRequestId'', JStr (r_productionRequestId r)),
        (''productionCertificateExpiresAt'', JStr (toISOString expiry))]))\<rparr>"

definition audit_failed :: "RunOnboardingArgs \<Rightarrow> string \<Rightarrow> AuditEntryInput" where
  "audit_failed args msg = \<lparr>a_actor = run_actor args, a_tenantRef = Some (run_tenantRef args),
     a_action = run_action args, a_targetId = Some (run_tenantRef args), a_result_ok = False,
     a_zatcaRequestId = None, a_requestId = None,
     a_payload = Some (redactSecrets (JObj
       [(''environment'', JStr (env_str (run_environment args))),
        (''solutionName'', JStr (run_solutionName args)), (''error'', JStr msg)]))\<rparr>"

record RunOnboardingResult =
  res_tenantRef :: string
  res_state :: TenantState
  res_tests_passed :: bool
  res_expiresAt :: int
  res_productionRequestId :: string

text \<open>The unit of work: vault, expiry, state and audit row, in this order.\<close>

definition promote :: "finish_env \<Rightarrow> RunOnboardingArgs \<Rightarrow> OnboardingResult \<Rightarrow> int \<Rightarrow> (world, TenantRecord) eff" where
  "promote fe args r expiry =
     andThen (put_vault (fe_cipher fe) (fe_random fe) (run_tenantRef args) (material_of r)) (\<lambda>_.
     andThen (on_tenants (tenant_setProductionExpiry (fe_now fe) (run_tenantRef args) expiry)) (\<lambda>_.
     andThen (on_tenants (tenant_setState (fe_now fe) (run_tenantRef args) Production_ready no_options)) (\<lambda>promoted.
     andThen (write_audit (fe_uuid fe) (fe_now fe) (audit_ok args r expiry)) (\<lambda>_.
     ret promoted))))"

definition compliance_failed :: "string \<Rightarrow> error" where
  "compliance_failed ref = ZatcaServerError (''Compliance tests failed for tenant '' @ quoted ref @ ''.'') (Some 422)"

definition expiry_unreadable :: "string \<Rightarrow> error" where
  "expiry_unreadable ref = ZatcaServerError
     (''Onboarding succeeded but production certificate expiry could not be parsed for '' @ quoted ref @ ''.'') None"

text \<open>\<open>uow\<close> is \<open>withUnitOfWork\<close>: it may run its body as it is, or undo it when it throws.\<close>

type_synonym unit_of_work = "(world, TenantRecord) eff \<Rightarrow> (world, TenantRecord) eff"

definition pass_through :: unit_of_work where "pass_through m = m"

definition transactional :: unit_of_work where
  "transactional m w = (case m w of (Inl e, _) \<Rightarrow> (Inl e, w) | (Inr a, w') \<Rightarrow> (Inr a, w'))"

definition complete :: "unit_of_work \<Rightarrow> finish_env \<Rightarrow> RunOnboardingArgs \<Rightarrow> error + OnboardingResult \<Rightarrow>
    (world, RunOnboardingResult) eff" where
  "complete uow fe args outcome = andThen (of_result outcome) (\<lambda>r.
     if \<not> r_tests_passed r then raise (compliance_failed (run_tenantRef args))
     else (case fe_getExpiry fe (r_productionCertificate r) of
         None \<Rightarrow> raise (expiry_unreadable (run_tenantRef args))
       | Some expiry \<Rightarrow> andThen (uow (promote fe args r expiry)) (\<lambda>final.
           ret \<lparr>res_tenantRef = run_tenantRef args, res_state = t_state final,
                res_tests_passed = r_tests_passed r, res_expiresAt = expiry,
                res_productionRequestId = r_productionRequestId r\<rparr>)))"

definition ignore_error :: "('s, 'a) eff \<Rightarrow> ('s, unit) eff" where
  "ignore_error m = tryCatch (to_unit m) (\<lambda>_. ret ())"

definition failure_options :: "string \<Rightarrow> SetStateOptions" where
  "failure_options msg = no_options\<lparr>opt_lastError := Some msg\<rparr>"

definition finish :: "unit_of_work \<Rightarrow> finish_env \<Rightarrow> RunOnboardingArgs \<Rightarrow> error + OnboardingResult \<Rightarrow>
    (world, RunOnboardingResult) eff" where
  "finish uow fe args outcome = tryCatch (complete uow fe args outcome) (\<lambda>e.
     andThen (ignore_error (on_tenants (tenant_setState (fe_now fe) (run_tenantRef args) Failed
                (failure_options (err_message e))))) (\<lambda>_.
     andThen (ignore_error (write_audit (fe_uuid fe) (fe_now fe) (audit_failed args (err_message e)))) (\<lambda>_.
     raise e)))"

text \<open>
  A progress event; the core package swallows what the callback throws, so the event never fails
  the run.
\<close>

definition progress_event :: "int \<Rightarrow> RunOnboardingArgs \<Rightarrow> string \<times> bool \<Rightarrow> (world, unit) eff" where
  "progress_event now args ev = ignore_error
     (on_tenants (tenant_recordOnboardingProgress now (run_tenantRef args) (fst ev) (snd ev)))"

fun progress_events :: "int \<Rightarrow> RunOnboardingArgs \<Rightarrow> (string \<times> bool) list \<Rightarrow> (world, unit) eff" where
  "progress_events now args [] = ret ()"
| "progress_events now args (ev # evs) =
     andThen (progress_event now args ev) (\<lambda>_. progress_events now args evs)"

text \<open>\<open>onboardFn\<close> is given the unit's data; it reports its events and ends with a result or a throw.\<close>

definition runOnboarding ::
  "unit_of_work \<Rightarrow> int \<Rightarrow> finish_env \<Rightarrow> (EGSUnitInfo \<Rightarrow> (string \<times> bool) list \<times> (error + OnboardingResult)) \<Rightarrow>
   RunOnboardingArgs \<Rightarrow> (world, RunOnboardingResult) eff" where
  "runOnboarding uow now fe onboardFn args =
     andThen (on_tenants (acquire now args)) (\<lambda>egs.
       case onboardFn egs of (events, outcome) \<Rightarrow>
       andThen (progress_events now args events) (\<lambda>_. finish uow fe args outcome))"

section \<open>Acquisition lemmas\<close>

lemma setState_cases:
  "tenant_setState now ref st o1 m = (case visible ref m of
       None \<Rightarrow> (Err (unknown_tenant ref), m)
     | Some r \<Rightarrow> if transition_allowed now r o1
         then (Ok (transitioned now st o1 r), mset_to ref (transitioned now st o1 r) m)
         else (Err (transition_conflict ref r o1), m))"
  by (simp add: tenant_setState_def update_record_def requireRecord_def split: option.split)

lemma registry_errors [simp]:
  "is_registry_error (unknown_tenant ref)" "is_registry_error (transition_conflict ref r o1)"
  by (simp_all add: is_registry_error_def unknown_tenant_def transition_conflict_def)

definition claimed :: "int \<Rightarrow> RunOnboardingArgs \<Rightarrow> TenantRecord \<Rightarrow> TenantRecord" where
  "claimed now args r = transitioned now Onboarding (claim_options args (lock_until args now) Created) r"

lemma transitioned_claim:
  "transitioned now Onboarding (claim_options args t from) r = transitioned now Onboarding (claim_options args t from') r"
  by (simp add: transitioned_def claim_options_def)

lemma try_states_eq:
  assumes v: "visible (run_tenantRef args) m = Some r"
  shows "try_states now args t fs m =
    (if \<exists>f \<in> set fs. transition_allowed now r (claim_options args t f)
     then (Ok True, mset_to (run_tenantRef args) (transitioned now Onboarding (claim_options args t Created) r) m)
     else (Ok False, m))"
proof (induction fs)
  case (Cons f fs)
  then show ?case
    by (auto simp: tryCatch_run andThen_run setState_cases v transitioned_claim [of now args t f r Created])
qed simp

text \<open>\<open>acquire\<close> as one case distinction: the lock is taken from every live state that is not held.\<close>

lemma acquire_eq:
  "acquire now args m = (case visible (run_tenantRef args) m of
       None \<Rightarrow> (Err (unknown_tenant (run_tenantRef args)), m)
     | Some r \<Rightarrow> (case held_by now r of
         Some t \<Rightarrow> (Err (already_onboarding (run_tenantRef args) r t), m)
       | None \<Rightarrow> if t_state r = Revoked then (Err (cannot_onboard (run_tenantRef args) (Some r)), m)
           else (Ok (buildEgsInfo r (run_egsCustomId args) (run_egsModel args)),
                 mset_to (run_tenantRef args) (claimed now args r) m)))"
proof (cases "visible (run_tenantRef args) m")
  case None
  then show ?thesis by (simp add: acquire_def andThen_run tenant_get_def)
next
  case (Some r)
  show ?thesis
  proof (cases "held_by now r")
    case (Some t)
    then show ?thesis using \<open>visible _ m = Some r\<close> by (simp add: acquire_def andThen_run tenant_get_def)
  next
    case None
    have "(\<exists>f \<in> set onboardable. transition_allowed now r (claim_options args (lock_until args now) f)) \<longleftrightarrow>
        t_state r \<noteq> Revoked"
      using None by (cases "t_state r")
        (auto simp: onboardable_def transition_allowed_def claim_options_def lockNotHeld_def held_by_def
          split: option.splits if_splits)
    then show ?thesis using None \<open>visible _ m = Some r\<close>
      by (simp add: acquire_def andThen_run tenant_get_def try_states_eq claimed_def)
  qed
qed

lemma claimed_simps [simp]:
  "t_state (claimed now args r) = Onboarding" "claimedBy (claimed now args r) = Some (run_instanceId args)"
  "claimExpiresAt (claimed now args r) = Some (lock_until args now)" "deletedAt (claimed now args r) = deletedAt r"
  by (simp_all add: claimed_def transitioned_def claim_options_def)

lemma acquire_ok:
  assumes "acquire now args m = (Ok egs, m')"
  obtains r where "visible (run_tenantRef args) m = Some r" "held_by now r = None" "t_state r \<noteq> Revoked"
    "m' = mset_to (run_tenantRef args) (claimed now args r) m"
    "egs = buildEgsInfo r (run_egsCustomId args) (run_egsModel args)"
  using assms by (auto simp: acquire_eq split: option.splits if_splits)

lemma acquire_excludes:
  assumes "acquire now args m = (Ok egs, m')" "run_tenantRef args' = run_tenantRef args"
    "now' < lock_until args now"
  shows "\<exists>e. acquire now' args' m' = (Err e, m')"
proof -
  obtain r where r: "visible (run_tenantRef args) m = Some r"
    "m' = mset_to (run_tenantRef args) (claimed now args r) m"
    using assms(1) by (rule acquire_ok)
  then have "visible (run_tenantRef args) m' = Some (claimed now args r)"
    using visible_live [OF r(1)] by (simp add: visible_mset)
  then show ?thesis using assms(2,3) by (simp add: acquire_eq held_by_def)
qed

lemma acquire_after_expiry:
  assumes "acquire now args m = (Ok egs, m')" "run_tenantRef args' = run_tenantRef args"
    "lock_until args now \<le> now'"
  shows "\<exists>egs' m''. acquire now' args' m' = (Ok egs', m'')"
proof -
  obtain r where r: "visible (run_tenantRef args) m = Some r"
    "m' = mset_to (run_tenantRef args) (claimed now args r) m"
    using assms(1) by (rule acquire_ok)
  then have "visible (run_tenantRef args) m' = Some (claimed now args r)"
    using visible_live [OF r(1)] by (simp add: visible_mset)
  then show ?thesis using assms(2,3) by (simp add: acquire_eq held_by_def)
qed

section \<open>Finishing lemmas\<close>

lemma setProductionExpiry_cases:
  "tenant_setProductionExpiry now ref t m = (case visible ref m of
       None \<Rightarrow> (Err (unknown_tenant ref), m)
     | Some r \<Rightarrow> (Ok (), mset_to ref (r\<lparr>productionCertificateExpiresAt := Some t, updatedAt := now\<rparr>) m))"
  by (simp add: tenant_setProductionExpiry_def to_unit_def andThen_run update_record_def requireRecord_def
      split: option.split)

definition promoted :: "int \<Rightarrow> int \<Rightarrow> TenantRecord \<Rightarrow> TenantRecord" where
  "promoted now expiry r = r\<lparr>productionCertificateExpiresAt := Some expiry, t_state := Production_ready,
     updatedAt := now, claimExpiresAt := None, claimedBy := None\<rparr>"

lemma promoted_live [simp]: "deletedAt (promoted now t r) = deletedAt r"
  by (simp add: promoted_def)

lemma update_update [simp]: "mset_to k a (mset_to k b m) = mset_to k a m"
  by (induction m) auto

lemma promote_live:
  assumes "visible (run_tenantRef args) (w_tenants w) = Some r"
  shows "promote fe args res expiry w = (Ok (promoted (fe_now fe) expiry r),
     \<lparr>w_tenants = mset_to (run_tenantRef args) (promoted (fe_now fe) expiry r) (w_tenants w),
      w_vault = vault_put (fe_cipher fe) (fe_random fe) (run_tenantRef args) (material_of res) (w_vault w),
      w_audit = snd (audit_write (fe_uuid fe) (fe_now fe) (audit_ok args res expiry) (w_audit w))\<rparr>)"
proof -
  have al: "transition_allowed (fe_now fe) r' no_options" for r'
    by (simp add: transition_allowed_def no_options_def)
  have "transitioned (fe_now fe) Production_ready no_options
      (r\<lparr>productionCertificateExpiresAt := Some expiry, updatedAt := fe_now fe\<rparr>) = promoted (fe_now fe) expiry r"
    by (simp add: transitioned_def promoted_def no_options_def)
  then show ?thesis using assms visible_live [OF assms]
    by (simp add: promote_def andThen_run put_vault_def on_tenants_def setProductionExpiry_cases
        setState_cases visible_mset al write_audit_def)
qed

lemma promote_gone:
  assumes "visible (run_tenantRef args) (w_tenants w) = None"
  shows "promote fe args res expiry w = (Err (unknown_tenant (run_tenantRef args)),
     w\<lparr>w_vault := vault_put (fe_cipher fe) (fe_random fe) (run_tenantRef args) (material_of res) (w_vault w)\<rparr>)"
  using assms by (simp add: promote_def andThen_run put_vault_def on_tenants_def setProductionExpiry_cases)

definition failed_record :: "int \<Rightarrow> string \<Rightarrow> TenantRecord \<Rightarrow> TenantRecord" where
  "failed_record now msg r = transitioned now Failed (failure_options msg) r"

lemma failed_record_simps [simp]:
  "t_state (failed_record now msg r) = Failed" "claimedBy (failed_record now msg r) = None"
  "claimExpiresAt (failed_record now msg r) = None" "deletedAt (failed_record now msg r) = deletedAt r"
  "lastError (onboardingProgress (failed_record now msg r)) = Some msg"
  by (simp_all add: failed_record_def transitioned_def failure_options_def no_options_def)

definition fail_tenant :: "int \<Rightarrow> string \<Rightarrow> string \<Rightarrow> tenant_rows \<Rightarrow> tenant_rows" where
  "fail_tenant now ref msg m = (case visible ref m of None \<Rightarrow> m
     | Some r \<Rightarrow> mset_to ref (failed_record now msg r) m)"

definition failed_world :: "finish_env \<Rightarrow> RunOnboardingArgs \<Rightarrow> error \<Rightarrow> world \<Rightarrow> world" where
  "failed_world fe args e w =
     w\<lparr>w_tenants := fail_tenant (fe_now fe) (run_tenantRef args) (err_message e) (w_tenants w),
       w_audit := snd (audit_write (fe_uuid fe) (fe_now fe) (audit_failed args (err_message e)) (w_audit w))\<rparr>"

lemma ignore_fail:
  "ignore_error (on_tenants (tenant_setState now ref Failed (failure_options msg))) w =
    (Ok (), w\<lparr>w_tenants := fail_tenant now ref msg (w_tenants w)\<rparr>)"
proof -
  have "transition_allowed now r (failure_options msg)" for r
    by (simp add: transition_allowed_def failure_options_def no_options_def)
  then show ?thesis
    by (simp add: ignore_error_def to_unit_def tryCatch_run andThen_run on_tenants_def setState_cases
        fail_tenant_def failed_record_def split: option.split)
qed

lemma ignore_audit:
  "ignore_error (write_audit uuid now i) w = (Ok (), w\<lparr>w_audit := snd (audit_write uuid now i (w_audit w))\<rparr>)"
  by (simp add: ignore_error_def to_unit_def tryCatch_run andThen_run write_audit_def)

text \<open>Every throw of the completing part ends in \<open>failed\<close> and in one audit row, and is rethrown.\<close>

lemma finish_error:
  assumes "complete uow fe args outcome w = (Err e, w1)"
  shows "finish uow fe args outcome w = (Err e, failed_world fe args e w1)"
  using assms by (simp add: finish_def tryCatch_run andThen_run ignore_fail ignore_audit failed_world_def)

lemma finish_ok:
  assumes "complete uow fe args outcome w = (Ok r, w1)"
  shows "finish uow fe args outcome w = (Ok r, w1)"
  using assms by (simp add: finish_def tryCatch_run)

text \<open>The units of work that the lemmas below allow: identity on success, identity or undo on a throw.\<close>

definition sound_uow :: "unit_of_work \<Rightarrow> bool" where
  "sound_uow uow = (uow = pass_through \<or> uow = transactional)"

lemma complete_cases:
  assumes "sound_uow uow"
  shows "complete uow fe args outcome w = (case outcome of
       Inl e \<Rightarrow> (Err e, w)
     | Inr r \<Rightarrow> if \<not> r_tests_passed r then (Err (compliance_failed (run_tenantRef args)), w)
         else (case fe_getExpiry fe (r_productionCertificate r) of
           None \<Rightarrow> (Err (expiry_unreadable (run_tenantRef args)), w)
         | Some t \<Rightarrow> (case visible (run_tenantRef args) (w_tenants w) of
             None \<Rightarrow> (Err (unknown_tenant (run_tenantRef args)),
               if uow = transactional then w
               else snd (promote fe args r t w))
           | Some rec \<Rightarrow> (Ok \<lparr>res_tenantRef = run_tenantRef args, res_state = Production_ready,
                res_tests_passed = True, res_expiresAt = t, res_productionRequestId = r_productionRequestId r\<rparr>,
               snd (promote fe args r t w)))))"
  using assms
  by (auto simp: complete_def andThen_run sound_uow_def pass_through_def transactional_def promote_gone
      promote_live promoted_def split: sum.split option.split if_split)

lemma audit_write_append: "snd (audit_write uuid now i rows) = rows @ [fst (audit_write uuid now i rows)]"
  by (simp add: audit_write_def Let_def)

end
