(* ===== verification/Examples.thy ===== *)
theory Examples
  imports Issue Onboarding "HOL-Library.Code_Target_Numeral"
begin

text \<open>
  A concrete environment: a crypto library whose parser returns one document and whose digests and
  signatures are fixed strings, an EGS unit, an input and a scope. The properties with hypotheses
  are applied to it.
\<close>

section \<open>A library and an input\<close>

definition demo_party :: jsval where
  "demo_party = JObj [(''cac:Party'', JObj [
     (''cac:PartyLegalEntity'', JObj [(''cbc:RegistrationName'', JStr ''Acme'')]),
     (''cac:PartyTaxScheme'', JObj [(''cbc:CompanyID'', JStr ''300000000000003'')])])]"

definition demo_doc :: jsval where
  "demo_doc = JObj [(''Invoice'', JObj [
     (''cbc:IssueDate'', JStr ''2024-01-15''), (''cbc:IssueTime'', JStr ''10:00:00Z''),
     (''cbc:InvoiceTypeCode'', JObj [(''#text'', JStr ''388''), (''@_name'', JStr ''0200000'')]),
     (''cac:AccountingSupplierParty'', demo_party)])]"

definition demo_lib :: crypto_lib where
  "demo_lib = \<lparr>parseXml = (\<lambda>_. demo_doc), buildXml = (\<lambda>_. ''<Invoice/>''), canonicalize = Some,
     sha256 = (\<lambda>_. ''h''), ecdsaSign = (\<lambda>_ _. Some ''sig''), x509Fields = (\<lambda>_. Some (''CN=ca'', ''1a'')),
     x509Raw = (\<lambda>_. Some (''pub'', ''cs'')), parseDate = (\<lambda>_. Some 0)\<rparr>"

definition demo_egs :: EGSUnitInfo where
  "demo_egs = \<lparr>egs_uuid = ''u1'', egs_customId = ''c'', egs_model = ''m'', egs_crnNumber = ''1010'',
     egs_vatName = ''Acme'', egs_vatNumber = ''300000000000003'', egs_branchName = ''b'',
     egs_branchIndustry = ''Retail'', egs_location = \<lparr>loc_cityName = ''Riyadh'', loc_citySubdivision = ''w'',
       loc_street = ''s'', loc_plotIdentification = ''1'', loc_building = ''2'', loc_postalZone = ''3''\<rparr>,
     egs_certificate = None\<rparr>"

definition demo_input :: InvoiceInput where
  "demo_input = \<lparr>inv_kind = Simplified_tax_invoice, inv_egsInfo = demo_egs, invoiceCounterNumber = 0,
     invoiceSerialNumber = [], issueDate = ''2024-01-15'', issueTime = ''10:00:00'',
     inv_previousInvoiceHash = [], lineItems = [], cancelation = None, buyerName = None, buyerInfo = None\<rparr>"

definition demo_env :: "string \<Rightarrow> Issue_env" where
  "demo_env i = \<lparr>env_invoiceId = Some i, env_randomUUID = i, env_now = 0\<rparr>"

definition demo_scope :: TenantScope where
  "demo_scope = \<lparr>scope_vatNumber = ''300000000000003'', scope_egsUuid = ''u1''\<rparr>"

definition demo_keys :: Signing_keys where
  "demo_keys = \<lparr>key_certificate = ''c'', key_privateKey = ''k''\<rparr>"

section \<open>Its builds\<close>

lemma demo_parse: "s \<noteq> [] \<Longrightarrow> newXMLDocument demo_lib s = demo_doc"
  by (simp add: newXMLDocument_def doc_new_def demo_lib_def demo_doc_def)

lemma demo_string: "docString demo_lib d = ''<Invoice/>''"
proof -
  have "doc_toString (\<lambda>_. ''<Invoice/>'') False JUndef = ''<Invoice/>''" by code_simp
  then show ?thesis by (simp add: docString_def demo_lib_def doc_toString_def Let_def)
qed

definition demo_signed_doc :: jsval where
  "demo_signed_doc = snd (doc_set (append_each ''Invoice/cac:TaxTotal'' (buildInvoiceTaxTotal []) demo_doc)
     ''Invoice/cac:LegalMonetaryTotal'' True (buildInvoiceLegalMonetaryTotal zero64 zero64))"

lemma demo_unsigned:
  assumes "templateFn b input \<noteq> []" "lineItems input = []" "cancelation input = None" "buyerInfo input = None"
    "buildTaxTotal b = buildInvoiceTaxTotal" "buildLegalMonetaryTotal b = buildInvoiceLegalMonetaryTotal"
  shows "buildUnsignedDocument demo_lib b input = demo_signed_doc"
proof -
  have z: "sum_lines f b [] = zero64" for f
  proof -
    have "parseFloat (toFixed zero64 2) = zero64" by (simp add: zero64_def num_eval)
    then show ?thesis by (simp add: sum_lines_def)
  qed
  have n: "append_each p [] d = d" for p d by (simp add: append_each_def)
  show ?thesis using assms
    by (simp add: buildUnsignedDocument_def demo_parse injectBuyerParty_def z n demo_signed_doc_def Let_def)
qed

lemma demo_totals:
  "toFixedNoRounding zero64 2 = ''0.00''" "parseFloat (toFixed (add64 zero64 zero64) 2) = zero64"
  "parseFloat (toFixed zero64 2) = zero64" "num_str zero64 = ''0''"
  by (simp_all add: zero64_def num_eval tax_defs)

definition demo_amount :: "jsval \<Rightarrow> jsval" where
  "demo_amount t = JObj [(''@_currencyID'', JStr ''SAR''), (''#text'', t)]"

definition demo_final_doc :: jsval where
  "demo_final_doc = JObj [(''Invoice'', JObj [
     (''cbc:IssueDate'', JStr ''2024-01-15''), (''cbc:IssueTime'', JStr ''10:00:00Z''),
     (''cbc:InvoiceTypeCode'', JObj [(''#text'', JStr ''388''), (''@_name'', JStr ''0200000'')]),
     (''cac:AccountingSupplierParty'', demo_party),
     (''cac:TaxTotal'', JArr [
        JObj [(''cbc:TaxAmount'', demo_amount (JStr ''0.00'')), (''cac:TaxSubtotal'', JArr [])],
        JObj [(''cbc:TaxAmount'', demo_amount (JStr ''0.00''))]]),
     (''cac:LegalMonetaryTotal'', JObj [(''cbc:LineExtensionAmount'', demo_amount (JStr ''0.00'')),
        (''cbc:TaxExclusiveAmount'', demo_amount (JStr ''0.00'')),
        (''cbc:TaxInclusiveAmount'', demo_amount (JNum zero64)),
        (''cbc:AllowanceTotalAmount'', demo_amount (JNum zero64)),
        (''cbc:PrepaidAmount'', demo_amount (JNum zero64)),
        (''cbc:PayableAmount'', demo_amount (JNum zero64))])])]"

lemma demo_signed_doc_eq: "demo_signed_doc = demo_final_doc" 
  by (simp add: demo_signed_doc_def append_each_def buildInvoiceTaxTotal_def buildInvoiceLegalMonetaryTotal_def document_tax_sum_def
   Let_def demo_totals money_def amount_def trunc2_def) code_simp
lemma demo_hash: "getInvoiceHash demo_lib d = Ok ''aA==''"
proof -
  have "base64_encode ''h'' = ''aA==''" by code_simp
  then show ?thesis by (simp add: getInvoiceHash_def getPureInvoiceString_def demo_string demo_lib_def)
qed
lemma demo_fields: "qr_fields demo_final_doc = Ok [''Acme'', ''300000000000003'', ''2024-01-15T10:00:00Z'', ''0'', ''0.00'']" by code_simp
lemma demo_certificate: "extractCertificateInfo demo_lib ''c'' = Ok \<lparr>info_hash = ''Njg='', info_issuer=''CN=ca'', info_serial_number=''26'', info_public_key=''pub'',info_signature=''cs''\<rparr>" by code_simp
lemma demo_signature: "createInvoiceDigitalSignature demo_lib ''aA=='' ''k'' = Ok ''c2ln''" 
proof -
  have "base64_encode ''sig'' = ''c2ln''" by code_simp
  then show ?thesis by (simp add: createInvoiceDigitalSignature_def demo_lib_def)
qed
lemma demo_qr: "encodeTLVAsBase64 [''Acme'', ''300000000000003'', ''2024-01-15T10:00:00Z'', ''0'', ''0.00'', ''aA=='', ''c2ln'', ''pub'', ''cs'']
 = Ok ''AQRBY21lAg8zMDAwMDAwMDAwMDAwMDMDFDIwMjQtMDEtMTVUMTA6MDA6MDBaBAEwBQQwLjAwBgRhQT09BwRjMmxuCANwdWIJAmNz''" by code_simp

lemma demo_timestamp: "formatSignTimestamp (parseDate demo_lib) (issue_datetime demo_final_doc now)
    = Ok ''1970-01-01T00:00:00Z''"
proof -
  have "doc_get demo_final_doc ''Invoice/cbc:IssueDate'' None = Some [JStr ''2024-01-15'']"
    "doc_get demo_final_doc ''Invoice/cbc:IssueTime'' None = Some [JStr ''10:00:00Z'']" by code_simp+
  moreover have "formatSignTimestamp (\<lambda>_. Some 0) (DateStr ''2024-01-15T10:00:00Z'') = Ok ''1970-01-01T00:00:00Z''"
    by (simp add: formatSignTimestamp_def formatZatcaDateTime_def toDate_def) code_simp
  ultimately show ?thesis by (simp add: issue_datetime_def demo_lib_def)
qed

definition demo_built :: BuiltInvoice where
  "demo_built = \<lparr>built_invoiceXml = ''<Invoice/>'', built_signedXml = ''<Invoice/>'',
     built_invoiceHash = ''aA=='',
     built_qrCode = ''AQRBY21lAg8zMDAwMDAwMDAwMDAwMDMDFDIwMjQtMDEtMTVUMTA6MDA6MDBaBAEwBQQwLjAwBgRhQT09BwRjMmxuCANwdWIJAmNz''\<rparr>"

lemma demo_embed: "embed_signature demo_lib d e q = ''<Invoice/>''"
proof -
  have "signedPropertiesIndentationFix ''<Invoice/>'' = ''<Invoice/>''" by code_simp
  then show ?thesis by (simp add: embed_signature_def demo_string)
qed

lemma demo_unsigned_doc:
  "buildUnsignedDocument demo_lib SimplifiedTaxInvoiceBuilder
     (normalizeInput (full_input Simplified_tax_invoice demo_input demo_egs n serial prev)) = demo_final_doc"
  unfolding demo_signed_doc_eq [symmetric]
  by (rule demo_unsigned) (simp_all add: SimplifiedTaxInvoiceBuilder_def invoice_builder_def
    populated_nonempty normalizeInput_def full_input_def demo_input_def)

lemma demo_build:
  "build demo_lib now SimplifiedTaxInvoiceBuilder
     (full_input Simplified_tax_invoice demo_input demo_egs n serial prev) ''c'' ''k'' = Ok demo_built"
  by (simp add: build_def generateSignedXMLString_def demo_unsigned_doc demo_hash demo_certificate demo_signature
    generatePhase2QR_def demo_fields demo_qr demo_timestamp demo_embed demo_string demo_built_def)

text \<open>The adapter in the state it starts in, and after the first issuance.\<close>

lemma demo_scope_good: "good_scope demo_scope"
  by code_simp

lemma demo_assert: "assertScope demo_egs demo_scope = Ok ()"
  by (simp add: assertScope_def demo_egs_def demo_scope_def)

lemma demo_keys_simps [simp]: "key_certificate demo_keys = ''c''" "key_privateKey demo_keys = ''k''"
  by (simp_all add: demo_keys_def)

lemma demo_env_simps [simp]: "chosen_id (demo_env i) = i" "env_randomUUID (demo_env i) = i" "env_now (demo_env i) = 0"
  by (simp_all add: demo_env_def chosen_id_def)

lemma demo_empty_row [simp]: "mem_row sc i memory_empty = None"
  by (simp add: mem_row_def memory_empty_def scope_cell_defs)

lemma demo_issue:
  assumes "mem_row demo_scope i s = None"
  shows "\<exists>out s'. issue_phase2 demo_lib (createMemoryStorageAdapter fmt now) Simplified_tax_invoice
     SimplifiedTaxInvoiceBuilder (demo_env i) demo_input demo_egs demo_scope demo_keys s = (Ok out, s')"
proof -
  let ?r = "issue_phase2 demo_lib (createMemoryStorageAdapter fmt now) Simplified_tax_invoice
     SimplifiedTaxInvoiceBuilder (demo_env i) demo_input demo_egs demo_scope demo_keys s"
  have "map_sum id issued_invoiceHash (fst ?r) = Ok ''aA==''"
    using memory.issue_phase2_result [where env = "demo_env i" and lib = demo_lib and b = SimplifiedTaxInvoiceBuilder
        and fmt = fmt and now = now and kind = Simplified_tax_invoice and input = demo_input and keys = demo_keys,
        OF demo_assert demo_scope_good] assms
    by (simp add: demo_build demo_built_def)
  then show ?thesis by (cases ?r; cases "fst ?r") auto
qed

definition demo_jobs :: "(Issue_env \<times> InvoiceInput) list" where
  "demo_jobs = [(demo_env ''a'', demo_input), (demo_env ''b'', demo_input)]"

lemma demo_run: "length (successes (fst (issue_run demo_lib (createMemoryStorageAdapter fmt now)
    Simplified_tax_invoice demo_scope demo_keys demo_jobs memory_empty))) = 2"
proof -
  have egs: "inv_egsInfo demo_input = demo_egs" by (simp add: demo_input_def)
  obtain o1 s1 where one: "issue_phase2 demo_lib (createMemoryStorageAdapter fmt now) Simplified_tax_invoice
     SimplifiedTaxInvoiceBuilder (demo_env ''a'') demo_input demo_egs demo_scope demo_keys memory_empty = (Ok o1, s1)"
    using demo_issue [of "''a''" memory_empty fmt now] by auto
  have "mem_row demo_scope ''b'' s1 = None"
    using memory.issue_phase2_spec(5) [OF one demo_scope_good, of "''b''"] by simp
  then obtain o2 s2 where "issue_phase2 demo_lib (createMemoryStorageAdapter fmt now) Simplified_tax_invoice
     SimplifiedTaxInvoiceBuilder (demo_env ''b'') demo_input demo_egs demo_scope demo_keys s1 = (Ok o2, s2)"
    using demo_issue by blast
  then show ?thesis by (simp add: demo_jobs_def egs one)
qed

end
