(* ===== verification/InvoiceProperties.thy ===== *)
theory InvoiceProperties
  imports Examples
begin

text \<open>
  The properties of the invoice core: issuance over the storage adapters, the hash chain, the QR
  code and the signed parts, the templates, the amounts and the dates. Each is stated over the
  model's definitions; the laws of the locales reach it through their interpretations.
\<close>

section \<open>Issuance\<close>

text \<open>
  C1: \<open>issueInvoice\<close> of a Phase 2 kind over the reference adapter. When it returns, the invoice has
  the next sequence number, is chained to the last invoice of its kind, is the new head of that
  chain and is stored as pending under the fresh id; when it throws, no record and no chain head
  has changed and at most one sequence number is consumed.
\<close>

theorem issue_over_memory:
  assumes "\<not> phase1_kind (inv_kind input)" "good_scope sc" "mem_row sc (env_randomUUID env) s = None"
  shows "case issueInvoice lib (createMemoryStorageAdapter fmt now) env input sc keys s of
      (Inr (Issued2 out), s') \<Rightarrow>
        issued_sequence out = mem_counter now sc s + 1 \<and> mem_counter now sc s' = mem_counter now sc s + 1 \<and>
        mem_head sc (inv_kind input) s' = issued_invoiceHash out \<and>
        (case mem_row sc (env_randomUUID env) s' of None \<Rightarrow> False
         | Some r \<Rightarrow> rec_status r = Pending \<and> rec_kind r = inv_kind input \<and>
             rec_previousInvoiceHash r = mem_head sc (inv_kind input) s \<and>
             rec_invoiceHash r = issued_invoiceHash out \<and> rec_serial r = issued_invoiceNumber out \<and>
             rec_counterNumber r = issued_sequence out \<and> rec_signedXml r = issued_signedXml out)
    | (Inr (Issued1 out), s') \<Rightarrow> False
    | (Inl e, s') \<Rightarrow> (\<forall>i. mem_row sc i s' = mem_row sc i s) \<and> (\<forall>k. mem_head sc k s' = mem_head sc k s) \<and>
        mem_counter now sc s \<le> mem_counter now sc s' \<and> mem_counter now sc s' \<le> mem_counter now sc s + 1"
proof (cases keys)
  case None
  then show ?thesis using assms(1)
    by (simp add: issueInvoice_phase2 requireSigning_def andThen_run)
next
  case (Some k)
  let ?ops = "createMemoryStorageAdapter fmt now"
  let ?b = "builder_of (inv_kind input)"
  have fresh: "mem_row sc (chosen_id (dispatch_env env)) s = None" using assms(3) by simp
  have run: "issueInvoice lib ?ops env input sc keys s
      = map_act Issued2 (issue_phase2 lib ?ops (inv_kind input) ?b (dispatch_env env) input (inv_egsInfo input) sc k) s"
    using assms(1) by (simp add: issueInvoice_phase2 requireSigning_def Some andThen_run)
  obtain r s' where one: "issue_phase2 lib ?ops (inv_kind input) ?b (dispatch_env env) input (inv_egsInfo input) sc k s
      = (r, s')" by fastforce
  show ?thesis
  proof (cases r)
    case (Inl e)
    then show ?thesis
      using memory.issue_phase2_error [of lib fmt now _ ?b _ input _ sc k s e s' sc, OF _ assms(2) fresh] one
      by (simp add: run map_act_def andThen_run)
  next
    case (Inr out)
    note ok = memory.issue_phase2_spec [of lib fmt now _ ?b _ input _ sc k s out s', OF _ assms(2) fresh]
    show ?thesis using ok(1-4) one Inr by (fastforce simp: run map_act_def andThen_run)
  qed
qed

theorem issue_over_memory_witness:
  "case issueInvoice demo_lib (createMemoryStorageAdapter None 0) (demo_env ''a'') demo_input demo_scope
      (Some demo_keys) memory_empty of
      (Inr (Issued2 out), s') \<Rightarrow> issued_sequence out = mem_counter 0 demo_scope memory_empty + 1
    | (Inr (Issued1 out), s') \<Rightarrow> False | (Inl e, s') \<Rightarrow> True"
proof -
  have "\<not> phase1_kind (inv_kind demo_input)" by (simp add: demo_input_def phase1_kind_def)
  then show ?thesis
    using issue_over_memory [where input = demo_input and sc = demo_scope and env = "demo_env ''a''"
        and s = memory_empty and lib = demo_lib and fmt = None and now = 0 and keys = "Some demo_keys"]
      demo_scope_good by (simp split: prod.splits sum.splits issued.splits)
qed



text \<open>
  C3: issuing a fresh id for the scope that the EGS unit belongs to returns exactly when the build
  of the invoice returns, with the invoice hash the build computed, and throws the build's error
  otherwise: the storage steps around the build never make it fail.
\<close>

theorem issuance_returns:
  assumes "assertScope egs sc = Ok ()" "good_scope sc" "mem_row sc (chosen_id env) s = None"
  shows "\<exists>serial. map_sum id built_invoiceHash (build lib (env_now env) b
      (full_input kind input egs (mem_counter now sc s + 1) serial (mem_head sc kind s))
      (key_certificate keys) (key_privateKey keys))
    = map_sum id issued_invoiceHash (fst (issue_phase2 lib (createMemoryStorageAdapter fmt now) kind b env input
        egs sc keys s))"
  using assms by (rule memory.issue_phase2_result)

theorem issuance_returns_witness:
  "\<exists>out s'. issue_phase2 demo_lib (createMemoryStorageAdapter None 0) Simplified_tax_invoice
     SimplifiedTaxInvoiceBuilder (demo_env ''a'') demo_input demo_egs demo_scope demo_keys memory_empty = (Ok out, s')"
proof -
  let ?r = "issue_phase2 demo_lib (createMemoryStorageAdapter None 0) Simplified_tax_invoice
     SimplifiedTaxInvoiceBuilder (demo_env ''a'') demo_input demo_egs demo_scope demo_keys memory_empty"
  have "map_sum id issued_invoiceHash (fst ?r) = Ok ''aA==''"
    using issuance_returns [where env = "demo_env ''a''" and lib = demo_lib and b = SimplifiedTaxInvoiceBuilder
        and fmt = None and now = 0 and kind = Simplified_tax_invoice and input = demo_input and keys = demo_keys
        and s = memory_empty, OF demo_assert demo_scope_good]
    by (simp add: demo_build demo_built_def)
  then show ?thesis by (cases ?r; cases "fst ?r") auto
qed

text \<open>
  C4: tenants are isolated. Issuing for one scope changes no counter, chain head or record of
  another scope, whether it returns or throws.
\<close>

theorem issuance_isolates_scopes:
  assumes "good_scope sc" "good_scope sc'" "sc' \<noteq> sc" "mem_row sc (chosen_id env) s = None"
  shows "case issue_phase2 lib (createMemoryStorageAdapter fmt now) kind b env input egs sc keys s of (r, s') \<Rightarrow>
    mem_counter now sc' s' = mem_counter now sc' s \<and> mem_head sc' k s' = mem_head sc' k s \<and>
    mem_row sc' i s' = mem_row sc' i s"
  using memory.issue_phase2_frame [of lib fmt now kind b env input egs sc keys s] assms
  by (simp split: prod.split)

theorem issuance_isolates_scopes_witness:
  "case issue_phase2 demo_lib (createMemoryStorageAdapter None 0) Simplified_tax_invoice SimplifiedTaxInvoiceBuilder
      (demo_env ''a'') demo_input demo_egs demo_scope demo_keys memory_empty of (r, s') \<Rightarrow>
    mem_row \<lparr>scope_vatNumber = ''310000000000003'', scope_egsUuid = ''u1''\<rparr> ''a'' s' = None"
proof -
  have "good_scope \<lparr>scope_vatNumber = ''310000000000003'', scope_egsUuid = ''u1''\<rparr>" by code_simp
  moreover have "\<lparr>scope_vatNumber = ''310000000000003'', scope_egsUuid = ''u1''\<rparr> \<noteq> demo_scope"
    by (simp add: demo_scope_def)
  ultimately show ?thesis
    using issuance_isolates_scopes [where sc = demo_scope and env = "demo_env ''a''" and s = memory_empty
        and lib = demo_lib and fmt = None and now = 0 and kind = Simplified_tax_invoice and keys = demo_keys
        and b = SimplifiedTaxInvoiceBuilder and input = demo_input and egs = demo_egs
        and sc' = "\<lparr>scope_vatNumber = ''310000000000003'', scope_egsUuid = ''u1''\<rparr>" and i = "''a''"
        and k = Simplified_tax_invoice]
      demo_scope_good by (simp split: prod.splits)
qed

section \<open>QR codes and signed content\<close>

text \<open>
  C5: the QR code of a built Phase 2 invoice, decoded from base64 and read as TLV, holds exactly
  the tags 1 to 9: the five fields read from the document, its invoice hash, a signature over that
  hash with the given key, and the certificate's public key and signature.
\<close>

theorem built_qr_reads:
  assumes "build lib now b input certificate private_key = Ok built"
  shows "case (qr_fields (buildUnsignedDocument lib b (normalizeInput input)), extractCertificateInfo lib certificate) of
      (Inr vs, Inr info) \<Rightarrow>
        getInvoiceHash lib (buildUnsignedDocument lib b (normalizeInput input)) = Ok (built_invoiceHash built) \<and>
        (\<exists>sig. createInvoiceDigitalSignature lib (built_invoiceHash built) private_key = Ok sig \<and>
          read_tlv (base64_decode (built_qrCode built)) = Some (zip [1..<10] (vs @ [built_invoiceHash built, sig,
            info_public_key info, info_signature info])))
    | _ \<Rightarrow> False"
proof -
  let ?doc = "buildUnsignedDocument lib b (normalizeInput input)"
  obtain sx where sx: "generateSignedXMLString lib now ?doc certificate private_key = Ok sx"
    "built_invoiceHash built = signed_invoice_hash sx" "built_qrCode built = signed_qr sx"
    using assms by (auto simp: build_def Let_def split: sum.splits)
  then obtain info sig where p: "getInvoiceHash lib ?doc = Ok (signed_invoice_hash sx)"
    "extractCertificateInfo lib certificate = Ok info"
    "createInvoiceDigitalSignature lib (signed_invoice_hash sx) private_key = Ok sig"
    "generatePhase2QR \<lparr>qr_invoice = ?doc, qr_invoiceHash = signed_invoice_hash sx, qr_digitalSignature = sig,
       qr_publicKey = info_public_key info, qr_certificateSignature = info_signature info\<rparr> = Ok (signed_qr sx)"
    by (auto simp: generateSignedXMLString_def split: sum.splits)
  from p(4) show ?thesis
    by (rule phase2_qr_reads) (simp add: p sx)
qed

theorem built_qr_reads_witness:
  "\<exists>sig. read_tlv (base64_decode (built_qrCode demo_built)) = Some (zip [1..<10]
     [''Acme'', ''300000000000003'', ''2024-01-15T10:00:00Z'', ''0'', ''0.00'', ''aA=='', sig, ''pub'', ''cs''])"
  using built_qr_reads [OF demo_build [of 0 1 "[]" "[]"]] demo_unsigned_doc [of 1 "[]" "[]"]
  by (auto simp: demo_fields demo_certificate demo_built_def)

text \<open>
  C6: a QR code is produced exactly when the five fields are in the document and no value is longer
  than the 255 bytes that a TLV length can say; nothing is truncated.
\<close>

theorem phase2_qr_produced_iff:
  "(\<exists>qr. generatePhase2QR p = Ok qr) = (case qr_fields (qr_invoice p) of Inl e \<Rightarrow> False
     | Inr vs \<Rightarrow> list_all (\<lambda>v. length v \<le> 255) (vs @ [qr_invoiceHash p, qr_digitalSignature p,
         qr_publicKey p, qr_certificateSignature p]))"
  by (cases "qr_fields (qr_invoice p)") (simp_all only: generatePhase2QR_def sum.case encodeTLV_ok_iff simp_thms ex_simps, auto)


section \<open>Templates\<close>

text \<open>The tokens of a template that a chain of replacements leaves.\<close>

definition left_tokens :: "(string \<times> string) list \<Rightarrow> piece list \<Rightarrow> string list" where
  "left_tokens rs ps = filter (\<lambda>t. assign rs t = None) (tokens ps)"

lemma assign_None: "assign rs t = None \<longleftrightarrow> t \<notin> set (map fst rs)"
  by (simp add: assign_def map_of_eq_None_iff)

lemma left_tokens_fst: "left_tokens rs ps = filter (\<lambda>t. \<not> List.member (map fst rs) t) (tokens ps)"
  unfolding left_tokens_def by (rule filter_cong) (simp_all add: assign_None)

lemma left_templates:
  "filter (\<lambda>t. \<not> List.member (common_tokens @ [''SET_BUYER_INFO'']) t) (tokens SIMPLIFIED_TAX_INVOICE)
    = [''SET_UBL_EXTENSIONS_STRING'', ''SET_QR_CODE_DATA'']"
  "filter (\<lambda>t. \<not> List.member common_tokens t) (tokens STANDARD_TEMPLATE)
    = [''SET_UBL_EXTENSIONS_STRING'', ''SET_QR_CODE_DATA'']"
  "filter (\<lambda>t. \<not> List.member common_tokens t) (tokens SIMPLIFIED_NOTE_TEMPLATE)
    = [''SET_UBL_EXTENSIONS_STRING'', ''SET_QR_CODE_DATA'']"
  by code_simp+

lemma left_tokens_all:
  "left_tokens (common_values dflt input @ [(''SET_BUYER_INFO'', v)]) SIMPLIFIED_TAX_INVOICE
    = [''SET_UBL_EXTENSIONS_STRING'', ''SET_QR_CODE_DATA'']"
  "left_tokens (common_values dflt input) STANDARD_TEMPLATE = [''SET_UBL_EXTENSIONS_STRING'', ''SET_QR_CODE_DATA'']"
  "left_tokens (common_values dflt input) SIMPLIFIED_NOTE_TEMPLATE
    = [''SET_UBL_EXTENSIONS_STRING'', ''SET_QR_CODE_DATA'']"
  unfolding left_tokens_fst map_append list.map fst_conv common_values_tokens by (rule left_templates)+

text \<open>
  C8: populating a template gives the template with each of its tokens replaced by the input's
  value, whatever order the replacements run in, as long as no value holds \<open>$\<close> or a token; only
  the two tokens that signing fills are left.
\<close>

theorem templates_populated:
  assumes "plain_values (common_values ''388'' input)" "plain_values (common_values ''383'' input)"
    "plain_values [(''SET_BUYER_INFO'', buyer_fragment input)]"
  shows "populateSimplifiedTaxInvoiceTemplate input = fill (assign (common_values ''388'' input
        @ [(''SET_BUYER_INFO'', buyer_fragment input)])) SIMPLIFIED_TAX_INVOICE \<and>
    populateStandardTaxInvoiceTemplate input = fill (assign (common_values ''388'' input)) STANDARD_TEMPLATE \<and>
    populateSimplifiedCreditNoteTemplate input = fill (assign (common_values ''388'' input)) SIMPLIFIED_NOTE_TEMPLATE \<and>
    populateStandardCreditNoteTemplate input = fill (assign (common_values ''388'' input)) STANDARD_TEMPLATE \<and>
    populateSimplifiedDebitNoteTemplate input = fill (assign (common_values ''383'' input)) SIMPLIFIED_NOTE_TEMPLATE \<and>
    populateStandardDebitNoteTemplate input = fill (assign (common_values ''383'' input)) STANDARD_TEMPLATE \<and>
    left_tokens (common_values ''388'' input @ [(''SET_BUYER_INFO'', buyer_fragment input)]) SIMPLIFIED_TAX_INVOICE
      = [''SET_UBL_EXTENSIONS_STRING'', ''SET_QR_CODE_DATA''] \<and>
    left_tokens (common_values ''388'' input) STANDARD_TEMPLATE = [''SET_UBL_EXTENSIONS_STRING'', ''SET_QR_CODE_DATA''] \<and>
    left_tokens (common_values ''383'' input) SIMPLIFIED_NOTE_TEMPLATE
      = [''SET_UBL_EXTENSIONS_STRING'', ''SET_QR_CODE_DATA'']"
  using assms populate_simplified_tax [of input]
  by (simp add: left_tokens_all populate_defs populate_standard populate_simplified_note plain_values_def)

lemma demo_plain: "plain_values (common_values dflt demo_input) \<longleftrightarrow> plain_value dflt"
proof -
  have "int_str 0 = ''0''" by (simp add: int_str_def num_eval)
  then show ?thesis
    by (simp add: plain_values_def plain_value_def common_values_def demo_input_def demo_egs_def
        invoice_type_def billing_reference_def startsWith_def)
qed

theorem templates_populated_witness:
  "populateStandardTaxInvoiceTemplate demo_input = fill (assign (common_values ''388'' demo_input)) STANDARD_TEMPLATE"
proof -
  have a: "plain_values (common_values ''388'' demo_input)" "plain_values (common_values ''383'' demo_input)"
    by (simp_all add: demo_plain plain_value_def startsWith_def)
  have b: "plain_values [(''SET_BUYER_INFO'', buyer_fragment demo_input)]"
    by (simp add: plain_values_def plain_value_def buyer_fragment_def demo_input_def)
  show ?thesis using templates_populated [OF a b] by blast
qed

lemma order_butlast: "order_ok (tokens STANDARD_TEMPLATE) [] (butlast common_tokens)"
  by code_simp

lemma left_butlast: "filter (\<lambda>t. \<not> List.member (butlast common_tokens) t) (tokens STANDARD_TEMPLATE)
    = [''SET_UBL_EXTENSIONS_STRING'', ''SET_QR_CODE_DATA'', ''SET_VAT_NAME'']"
  by code_simp

definition dollar_input :: InvoiceInput where
  "dollar_input = demo_input\<lparr>inv_egsInfo := demo_egs\<lparr>egs_vatName := ''$&''\<rparr>\<rparr>"

text \<open>
  \<open>String.replace\<close> reads \<open>$&\<close> in a replacement as the matched text. A seller whose VAT name
  is \<open>$&\<close> gets a document in which the token \<open>SET_VAT_NAME\<close> is left in place of the name.
\<close>

theorem dollar_name_leaves_token:
  assumes "egs_vatName (inv_egsInfo input) = ''$&''" "plain_values (butlast (common_values ''388'' input))"
  shows "populateStandardTaxInvoiceTemplate input = fill (assign (butlast (common_values ''388'' input))) STANDARD_TEMPLATE \<and>
    left_tokens (butlast (common_values ''388'' input)) STANDARD_TEMPLATE
      = [''SET_UBL_EXTENSIONS_STRING'', ''SET_QR_CODE_DATA'', ''SET_VAT_NAME'']"
proof -
  let ?rs = "butlast (common_values ''388'' input)"
  have split: "common_values ''388'' input = ?rs @ [(''SET_VAT_NAME'', ''$&'')]"
    using assms(1) by (simp add: common_values_def Let_def)
  have toks: "map fst ?rs = butlast common_tokens"
    by (simp add: map_butlast common_values_tokens)
  have "replace_seq ?rs (render STANDARD_TEMPLATE) = fill (assign ?rs) STANDARD_TEMPLATE"
    by (rule populate_fill)
      (use assms(2) in \<open>simp_all only: good_templates distinct_tokens toks order_butlast plain_values_def\<close>)
  moreover have "populateStandardTaxInvoiceTemplate input = js_replace ''SET_VAT_NAME'' ''$&'' (replace_seq ?rs (render STANDARD_TEMPLATE))"
    unfolding populateStandardTaxInvoiceTemplate_def by (subst split) (simp add: replace_seq_def)
  moreover have "left_tokens ?rs STANDARD_TEMPLATE = [''SET_UBL_EXTENSIONS_STRING'', ''SET_QR_CODE_DATA'', ''SET_VAT_NAME'']"
    unfolding left_tokens_fst toks by (rule left_butlast)
  ultimately show ?thesis by (simp add: js_replace_amp)
qed

theorem dollar_name_leaves_token_witness:
  "left_tokens (butlast (common_values ''388'' dollar_input)) STANDARD_TEMPLATE
      = [''SET_UBL_EXTENSIONS_STRING'', ''SET_QR_CODE_DATA'', ''SET_VAT_NAME''] \<and>
   populateStandardTaxInvoiceTemplate dollar_input
      = fill (assign (butlast (common_values ''388'' dollar_input))) STANDARD_TEMPLATE"
proof -
  have n: "egs_vatName (inv_egsInfo dollar_input) = ''$&''" by (simp add: dollar_input_def)
  have "int_str 0 = ''0''" by (simp add: int_str_def num_eval)
  then have "plain_values (butlast (common_values ''388'' dollar_input))"
    by (simp add: plain_values_def plain_value_def common_values_def dollar_input_def demo_input_def demo_egs_def
        invoice_type_def billing_reference_def startsWith_def)
  then show ?thesis using dollar_name_leaves_token [OF n] by blast
qed

section \<open>Amounts\<close>

text \<open>
  C9: every amount that \<open>toFixedNoRounding\<close> formats is a decimal with exactly two digits after
  the point, also for \<open>NaN\<close>, infinities and numbers that print with an exponent.
\<close>

theorem amounts_have_two_decimals: "fixed_shape 2 (toFixedNoRounding x 2)"
  by (rule toFixedNoRounding_shape)

text \<open>
  \<open>toFixedNoRounding\<close> reads the digits before an exponent as the number: a ten-millionth
  becomes \<open>1.00\<close>, and the rounding error of \<open>0.1 * 3 - 0.3\<close> becomes \<open>5.55\<close>. Amounts that
  binary64 stores just below a cent lose the cent: \<open>0.29 * 100\<close> is \<open>28.99\<close>.
\<close>

theorem exponent_amounts_are_wrong:
  "toFixedNoRounding (dec 1 7) 2 = ''1.00'' \<and>
   toFixedNoRounding (sub64 (mul64 (dec 1 1) (num_of_nat 3)) (dec 3 1)) 2 = ''5.55'' \<and>
   toFixedNoRounding (mul64 (dec 29 2) (num_of_nat 100)) 2 = ''28.99''"
proof (intro conjI)
  show "toFixedNoRounding (dec 1 7) 2 = ''1.00''"
    by (simp add: num_eval tax_defs)
  show "toFixedNoRounding (sub64 (mul64 (dec 1 1) (num_of_nat 3)) (dec 3 1)) 2 = ''5.55''"
    by (simp add: num_eval tax_defs)
  show "toFixedNoRounding (mul64 (dec 29 2) (num_of_nat 100)) 2 = ''28.99''"
    by (simp add: num_eval tax_defs)
qed

definition odd_cent :: ZATCAInvoiceLineItem where
  "odd_cent = \<lparr>item_id = ''1'', item_name = ''a'', item_quantity = num_of_nat 1,
     taxExclusivePrice = dec 10067 3, otherTaxes = None, discounts = None, vatPercent = num_of_nat 15\<rparr>"

lemma odd_taxable: "taxable_amount odd_cent = dec 10067 3"
  by (simp add: odd_cent_def num_eval tax_defs)

lemma odd_vat: "toFixedNoRounding (percent_of (num_of_nat 15) (dec 10067 3)) 2 = ''1.51''"
  by (simp add: num_eval tax_defs)

lemma odd_subtotal: "line_subtotal odd_cent = dec 1006 2"
proof -
  have "trunc2 (dec 10067 3) = dec 1006 2" by (simp add: num_eval tax_defs)
  then show ?thesis by (simp add: line_subtotal_def odd_taxable)
qed

lemma odd_line: "toFixedNoRounding (lineItemTotalTaxes (buildInvoiceLineItemTotals odd_cent)) 2 = ''1.50''"
proof -
  have "toFixedNoRounding (div64 (mul64 (dec 1006 2) (num_of_nat 15)) hundred64) 2 = ''1.50''"
    by (simp add: num_eval tax_defs)
  moreover have "trunc2 zero64 = zero64" by (simp add: num_eval tax_defs)
  moreover have "trunc2 (add64 zero64 (parseFloat ''1.50'')) = dec 150 2" by (simp add: num_eval tax_defs)
  moreover have "toFixedNoRounding (dec 150 2) 2 = ''1.50''" by (simp add: num_eval tax_defs)
  ultimately show ?thesis
    by (simp add: buildInvoiceLineItemTotals_def odd_subtotal line_vat_def Let_def)
       (simp add: odd_cent_def taxes_of_def trunc2_def)
qed

text \<open>
  The document's tax total is computed from untruncated amounts, the lines' taxes from
  truncated ones. For one unit at 10.067 with 15 percent VAT the line says 1.50 and the document
  1.51, so the document's \<open>TaxTotal\<close> is not the sum of its lines.
\<close>

theorem tax_total_differs_from_lines:
  "toFixedNoRounding (lineItemTotalTaxes (buildInvoiceLineItemTotals odd_cent)) 2 = ''1.50'' \<and>
   jget (jget (hd (buildInvoiceTaxTotal [odd_cent])) ''cbc:TaxAmount'') ''#text'' = JStr ''1.51''"
proof -
  have "document_tax_sum [odd_cent] = dec 151 2"
    by (simp add: document_tax_sum_def add_line_taxes_def line_percents_def odd_taxable trunc2_def)
      (simp add: odd_cent_def taxes_of_def odd_vat, simp add: num_eval zero64_def)
  moreover have "parseFloat (toFixed (dec 151 2) 2) = dec 151 2" by (simp add: num_eval)
  moreover have "toFixedNoRounding (dec 151 2) 2 = ''1.51''" by (simp add: num_eval tax_defs)
  ultimately show ?thesis using odd_line
    by (simp add: buildInvoiceTaxTotal_def jget_def [of "JObj _"] money_def amount_def)
qed

definition text_of :: "jsval \<Rightarrow> string \<Rightarrow> jsval" where
  "text_of v tag = jget (jget v tag) ''#text''"

definition two_decimals :: "jsval \<Rightarrow> bool" where
  "two_decimals v = (case v of JStr s \<Rightarrow> fixed_shape 2 s | _ \<Rightarrow> False)"

lemma money_text [simp]: "jget (money x) ''#text'' = JStr (toFixedNoRounding x 2)"
  by (simp add: money_def amount_def jget_def)

text \<open>
  The tax totals of an invoice are two elements with one and the same two-decimal amount; the
  first lists, in order, one subtotal per line for its VAT and one per other tax, each with
  two-decimal amounts.
\<close>

theorem tax_total_layout:
  "\<exists>tot subs. map (\<lambda>v. text_of v ''cbc:TaxAmount'') (buildInvoiceTaxTotal ls) = [JStr tot, JStr tot] \<and> fixed_shape 2 tot \<and>
    jget (hd (buildInvoiceTaxTotal ls)) ''cac:TaxSubtotal'' = JArr subs \<and>
    length subs = length ls + sum_list (map (\<lambda>l. length (taxes_of l)) ls) \<and>
    list_all (\<lambda>v. two_decimals (text_of v ''cbc:TaxableAmount'') \<and> two_decimals (text_of v ''cbc:TaxAmount'')) subs"
proof -
  let ?tot = "toFixedNoRounding (parseFloat (toFixed (document_tax_sum ls) 2)) 2"
  let ?subs = "concat (map line_tax_subtotals ls)"
  have "length ?subs = length ls + sum_list (map (\<lambda>l. length (taxes_of l)) ls)"
    by (induction ls) (simp_all add: line_tax_subtotals_def line_percents_def)
  moreover have "list_all (\<lambda>v. two_decimals (text_of v ''cbc:TaxableAmount'') \<and> two_decimals (text_of v ''cbc:TaxAmount'')) ?subs"
    by (induction ls) (auto simp: line_tax_subtotals_def tax_subtotal_def text_of_def two_decimals_def
        jget_def [of "JObj _"] toFixedNoRounding_shape list_all_iff)
  ultimately show ?thesis
    by (intro exI [of _ ?tot] exI [of _ ?subs])
      (simp add: buildInvoiceTaxTotal_def text_of_def Let_def jget_def [of "JObj _"] toFixedNoRounding_shape)
qed

section \<open>Storage\<close>


text \<open>
  \<open>updateInvoiceStatus\<close> changes the status of one record and nothing else; an unknown id is
  an error that changes nothing. The adapter's counters and chain heads are never touched.
\<close>

theorem update_status_only:
  assumes "good_scope sc" "good_scope sc'"
  shows "case mem_updateInvoiceStatus sc i st s of (x, s') \<Rightarrow>
    mem_counter now sc' s' = mem_counter now sc' s \<and> mem_head sc' k s' = mem_head sc' k s \<and>
    (case mem_row sc i s of
       None \<Rightarrow> x = Err (unknown_invoice i) \<and> s' = s
     | Some r \<Rightarrow> x = Ok () \<and> mem_row sc' j s' = (if sc' = sc \<and> j = i then Some (r\<lparr>rec_status := st\<rparr>) else mem_row sc' j s))"
proof -
  let ?ops = "createMemoryStorageAdapter None now"
  obtain x s' where run: "mem_updateInvoiceStatus sc i st s = (x, s')" by fastforce
  then have up: "updateInvoiceStatus ?ops sc i st s = (x, s')" by (simp add: createMemoryStorageAdapter_def)
  note fr = memory.update_frame [OF up]
  show ?thesis
  proof (cases "mem_row sc i s")
    case None
    then show ?thesis using memory.update_unknown [OF None, of None now st] up by (simp add: run)
  next
    case (Some r)
    then show ?thesis using memory.update_row [OF assms Some up] memory.update_known [OF Some, of None now st] up fr
      by (auto simp: run)
  qed
qed

theorem update_status_only_witness:
  "case mem_updateInvoiceStatus demo_scope ''nobody'' Accepted memory_empty of (x, s') \<Rightarrow>
    x = Err (unknown_invoice ''nobody'') \<and> s' = memory_empty"
  using update_status_only [of demo_scope demo_scope, where s = memory_empty and i = "''nobody''" and st = Accepted
      and now = 0 and k = Simplified_tax_invoice and j = "''nobody''"] demo_scope_good
  by (simp split: prod.splits)

text \<open>
  The sequence counter of the reference adapter starts again at 1 in every calendar month, so
  the numbers of one EGS unit are not strictly increasing, against what the storage port promises.
\<close>

theorem counter_restarts_each_month:
  assumes "good_scope sc" "fst (yearMonthFor now) \<noteq> fst (yearMonthFor now')"
  shows "case mem_incrementCounter fmt now sc memory_empty of (r, s) \<Rightarrow>
    map_sum id fst r = Ok 1 \<and> map_sum id fst (fst (mem_incrementCounter fmt now' sc s)) = Ok 1"
  using assms
  by (auto simp: mem_incrementCounter_def memory_empty_def counter_value_def counterKey_eq Let_def split: prod.splits)

theorem counter_restarts_each_month_witness:
  "case mem_incrementCounter defaultFormatter 0 demo_scope memory_empty of (r, s) \<Rightarrow>
    map_sum id fst r = Ok 1 \<and> map_sum id fst (fst (mem_incrementCounter defaultFormatter 5000000000 demo_scope s)) = Ok 1"
proof -
  have "fst (yearMonthFor 0) \<noteq> fst (yearMonthFor 5000000000)" by code_simp
  then show ?thesis by (rule counter_restarts_each_month [OF demo_scope_good])
qed

text \<open>
  The hash that \<open>getPreviousHash\<close> returns for the first invoice of a scope is not accepted by
  the library's own guard for invoice hashes, which asks for 44 characters; it has 88.
\<close>

theorem first_previous_hash_rejected:
  "mem_getPreviousHash sc (Some kind) memory_empty = (Ok ZATCA_BASE_INVOICE_HASH, memory_empty) \<and>
   \<not> isInvoiceHash ZATCA_BASE_INVOICE_HASH \<and> length ZATCA_BASE_INVOICE_HASH = 88 \<and>
   \<not> is_ok (asInvoiceHash ZATCA_BASE_INVOICE_HASH)"
proof -
  have "\<not> isInvoiceHash ZATCA_BASE_INVOICE_HASH" "length ZATCA_BASE_INVOICE_HASH = 88" by code_simp+
  then show ?thesis by (simp add: mem_getPreviousHash_def memory_empty_def asInvoiceHash_def)
qed

section \<open>Dates\<close>

text \<open>
  The UTC fields of a time stamp are a calendar date: month 1 to 12, day 1 to 31, and counting
  the days up to that date (leap years by the Gregorian rule) gives back the day of the time stamp,
  so no two days print the same date.
\<close>

theorem utc_fields_round_trip:
  "days_of_civil (getUTCFullYear t) (getUTCMonth t + 1) (getUTCDate t) = days_of_ms t \<and>
   getUTCMonth t \<in> {0..11} \<and> getUTCDate t \<in> {1..31}"
proof -
  obtain y m d where c: "civil (days_of_ms t) = (y, m, d)" by (cases "civil (days_of_ms t)")
  show ?thesis using days_of_civil_civil [OF c] civil_ranges [OF c]
    by (simp add: getUTCFullYear_def getUTCMonth_def getUTCDate_def c)
qed

text \<open>
  For years of four digits the ZATCA formats fit together: a date of 10 characters, a time of
  9 that ends in \<open>Z\<close>, and the signing time stamp is the date, \<open>T\<close> and the time.
\<close>

theorem zatca_formats_fit:
  assumes "toDate parse i = Ok t" "0 \<le> getUTCFullYear t" "getUTCFullYear t \<le> 9999"
  shows "case extractZatcaDateTime parse i of Inl e \<Rightarrow> False | Inr (d, z) \<Rightarrow>
    length d = 10 \<and> length z = 9 \<and> endsWith ''Z'' z \<and> formatSignTimestamp parse i = Ok (d @ ''T'' @ z)"
proof -
  obtain y m d h mi s u where iso: "toISOString t = y @ ''-'' @ m @ ''-'' @ d @ ''T'' @ h @ '':'' @ mi @ '':'' @ s @ ''.'' @ u @ ''Z''"
    and "length y = 4" "length m = 2" "length d = 2" "length h = 2" "length mi = 2" "length s = 2"
    using toISOString_parts [OF assms(2,3)] by blast
  then show ?thesis
    by (simp add: extractZatcaDateTime_def formatZatcaDate_def formatZatcaTime_def formatSignTimestamp_def
        formatZatcaDateTime_def assms(1) DateTime.slice_def iso endsWith_def)
qed

theorem zatca_formats_fit_witness:
  "case extractZatcaDateTime (\<lambda>_. None) (DateObj (Some 0)) of Inl e \<Rightarrow> False | Inr (d, z) \<Rightarrow>
    formatSignTimestamp (\<lambda>_. None) (DateObj (Some 0)) = Ok (d @ ''T'' @ z)"
proof -
  have "getUTCFullYear 0 = 1970" by code_simp
  then show ?thesis using zatca_formats_fit [of "\<lambda>_. None" "DateObj (Some 0)" 0]
    by (simp add: toDate_def split: sum.splits prod.splits)
qed

end
