(* ===== verification/ApiKeys.thy ===== *)
theory ApiKeys
  imports Tenants Encoding
begin

text \<open>
  Tenant API keys (\<open>tenants/api-key-store.ts\<close>, the key store of \<open>registry-memory.ts\<close>) and the bearer
  checks in front of them (\<open>auth/tenant-bearer.ts\<close>, \<open>auth/admin-keys.ts\<close>). \<open>scrypt\<close> and SHA-256
  are native: functions the definitions take; random bytes are arguments.
\<close>

section \<open>Tokens\<close>

definition is_ref_char :: "char \<Rightarrow> bool" where
  "is_ref_char c = (is_lower c \<or> is_digit c \<or> c = CHR ''-'')"

definition is_base32_char :: "char \<Rightarrow> bool" where
  "is_base32_char c = (c \<in> set BASE32)"

text \<open>\<open>/^zts_(live|test)_([a-z0-9-]+)_([A-Z2-7]{32})$/\<close>: environment, tenant and tail.\<close>

definition parse_ref :: "string \<Rightarrow> (string \<times> string) option" where
  "parse_ref s = (let ref = takeWhile is_ref_char s; rest = dropWhile is_ref_char s in
     if ref \<noteq> [] \<and> length rest = 33 \<and> hd rest = CHR ''_'' \<and> list_all is_base32_char (tl rest)
     then Some (ref, tl rest) else None)"

definition parseToken :: "string \<Rightarrow> (string \<times> string \<times> string) option" where
  "parseToken token =
     (if startsWith ''zts_live_'' token then map_option (Pair ''live'') (parse_ref (drop 9 token))
      else if startsWith ''zts_test_'' token then map_option (Pair ''test'') (parse_ref (drop 9 token))
      else None)"

definition token_of :: "string \<Rightarrow> string \<Rightarrow> string \<Rightarrow> string" where
  "token_of env ref tail = ''zts_'' @ env @ ''_'' @ ref @ ''_'' @ tail"

section \<open>The key store\<close>

record ApiKeyRow =
  row_tokenId :: string
  row_tenantRef :: string
  row_hash :: string
  row_salt :: string
  row_label :: string
  row_last4 :: string
  row_createdAt :: int
  row_lastUsedAt :: "int option"
  row_revokedAt :: "int option"

type_synonym key_rows = "(string, ApiKeyRow) jsmap"

record IssuedApiKey =
  token :: string
  tokenId :: string

record ResolvedApiKey =
  resolved_tenantRef :: string
  resolved_tokenId :: string

text \<open>\<open>scrypt password salt\<close> is the 32-byte key.\<close>

record issue_random =
  random20 :: "8 word list"
  random10 :: "8 word list"
  random_salt :: string

definition key_tail :: "issue_random \<Rightarrow> string" where
  "key_tail rnd = take 32 (base32Encode (random20 rnd))"

definition key_issue ::
  "(string \<Rightarrow> string \<Rightarrow> string) \<Rightarrow> string \<Rightarrow> int \<Rightarrow> issue_random \<Rightarrow> string \<Rightarrow> string \<Rightarrow> key_rows \<Rightarrow> IssuedApiKey \<times> key_rows" where
  "key_issue scrypt env now rnd ref label rows =
     (let tail = key_tail rnd; tok = token_of env ref tail;
          i = toLowerCase (base32Encode (random10 rnd))
      in (\<lparr>token = tok, tokenId = i\<rparr>,
          mset_to i \<lparr>row_tokenId = i, row_tenantRef = ref, row_hash = scrypt tok (random_salt rnd),
             row_salt = random_salt rnd, row_label = label, row_last4 = drop (length tail - 4) tail,
             row_createdAt = now, row_lastUsedAt = None, row_revokedAt = None\<rparr> rows))"

definition key_matches :: "(string \<Rightarrow> string \<Rightarrow> string) \<Rightarrow> string \<Rightarrow> string \<Rightarrow> ApiKeyRow \<Rightarrow> bool" where
  "key_matches scrypt ref tok r = (row_revokedAt r = None \<and> row_tenantRef r = ref \<and>
     scrypt tok (row_salt r) = row_hash r)"

text \<open>The loop over the rows: the first match is stamped and returned.\<close>

fun resolve_rows ::
  "(ApiKeyRow \<Rightarrow> bool) \<Rightarrow> int \<Rightarrow> key_rows \<Rightarrow> ResolvedApiKey option \<times> key_rows" where
  "resolve_rows p now [] = (None, [])"
| "resolve_rows p now ((k, r) # rows) =
     (if p r then (Some \<lparr>resolved_tenantRef = row_tenantRef r, resolved_tokenId = row_tokenId r\<rparr>,
                   (k, r\<lparr>row_lastUsedAt := Some now\<rparr>) # rows)
      else (case resolve_rows p now rows of (res, rows') \<Rightarrow> (res, (k, r) # rows')))"

definition key_resolve ::
  "(string \<Rightarrow> string \<Rightarrow> string) \<Rightarrow> string \<Rightarrow> int \<Rightarrow> string \<Rightarrow> key_rows \<Rightarrow> ResolvedApiKey option \<times> key_rows" where
  "key_resolve scrypt env now tok rows = (case parseToken tok of
       None \<Rightarrow> (None, rows)
     | Some (e, ref, tail) \<Rightarrow> if e \<noteq> env then (None, rows)
         else resolve_rows (key_matches scrypt ref tok) now rows)"

definition key_revoke :: "int \<Rightarrow> string \<Rightarrow> string \<Rightarrow> key_rows \<Rightarrow> bool \<times> key_rows" where
  "key_revoke now ref i rows = (case mget rows i of
       None \<Rightarrow> (False, rows)
     | Some r \<Rightarrow> if row_tenantRef r \<noteq> ref then (False, rows)
         else if row_revokedAt r \<noteq> None then (False, rows)
         else (True, mset_to i (r\<lparr>row_revokedAt := Some now\<rparr>) rows))"

record ApiKeyListEntry =
  entry_tokenId :: string
  entry_tenantRef :: string
  entry_label :: string
  entry_last4 :: string
  entry_createdAt :: int
  entry_lastUsedAt :: "int option"
  entry_revokedAt :: "int option"

definition list_entry :: "ApiKeyRow \<Rightarrow> ApiKeyListEntry" where
  "list_entry r = \<lparr>entry_tokenId = row_tokenId r, entry_tenantRef = row_tenantRef r,
     entry_label = row_label r, entry_last4 = row_last4 r, entry_createdAt = row_createdAt r,
     entry_lastUsedAt = row_lastUsedAt r, entry_revokedAt = row_revokedAt r\<rparr>"

definition key_list :: "string \<Rightarrow> key_rows \<Rightarrow> ApiKeyListEntry list" where
  "key_list ref rows = js_sort (\<lambda>a b. entry_createdAt a - entry_createdAt b)
     (map list_entry (filter (\<lambda>r. row_tenantRef r = ref) (map snd rows)))"

definition key_revokeAllForTenant :: "int \<Rightarrow> string \<Rightarrow> key_rows \<Rightarrow> key_rows" where
  "key_revokeAllForTenant now ref rows = map (\<lambda>(k, r).
     (k, if row_tenantRef r = ref \<and> row_revokedAt r = None then r\<lparr>row_revokedAt := Some now\<rparr> else r)) rows"

section \<open>Bearer headers\<close>

text \<open>\<open>/^Bearer\s+(\S.*)$/i\<close> on the trimmed header; \<open>.\<close> stops at a line break, so there must be none.\<close>

definition is_line_break :: "char \<Rightarrow> bool" where
  "is_line_break c = (c = CHR 0x0A \<or> c = CHR 0x0D)"

definition extractBearer :: "string \<Rightarrow> string option" where
  "extractBearer header = (let t = trim header; rest = drop 6 t; v = dropWhile is_space rest in
     if toLowerCase (take 6 t) = ''bearer'' \<and> rest \<noteq> v \<and> v \<noteq> [] \<and> list_all (\<lambda>c. \<not> is_line_break c) v
     then Some (trim v) else None)"

definition tenant_verify ::
  "(string \<Rightarrow> string \<Rightarrow> string) \<Rightarrow> string \<Rightarrow> int \<Rightarrow> string option \<Rightarrow> string \<Rightarrow> (key_rows, ResolvedApiKey) eff" where
  "tenant_verify scrypt env now header expected rows =
     (case header of None \<Rightarrow> (Err (ZatcaAuthError ''Missing Authorization header.'' 401), rows)
      | Some h \<Rightarrow> if h = [] then (Err (ZatcaAuthError ''Missing Authorization header.'' 401), rows)
        else (case extractBearer h of
            None \<Rightarrow> (Err (ZatcaAuthError (''Authorization header must be of the form ''
                @ quoted ''Bearer <token>'' @ ''.'') 401), rows)
          | Some b \<Rightarrow> (case key_resolve scrypt env now b rows of
              (None, rows') \<Rightarrow> (Err (ZatcaAuthError ''Invalid or revoked API key.'' 401), rows')
            | (Some k, rows') \<Rightarrow>
                if resolved_tenantRef k \<noteq> expected
                then (Err (ZatcaAuthError ''Invalid or revoked API key.'' 401), rows')
                else (Ok k, rows'))))"

section \<open>Admin keys\<close>

record AdminKeyEntry =
  admin_label :: string
  admin_key :: string

definition plain_server_error :: "string \<Rightarrow> error" where
  "plain_server_error m = ZatcaServerError m None"

fun parse_admin_entries :: "string list \<Rightarrow> string list \<Rightarrow> error + AdminKeyEntry list" where
  "parse_admin_entries [] seen = Ok []"
| "parse_admin_entries (e # es) seen = (case indexOf '':'' e of
       None \<Rightarrow> Err (plain_server_error (''Admin key entry '' @ quoted e @ '' must be of the form '' @ quoted ''label:key'' @ ''.''))
     | Some idx \<Rightarrow>
        if idx = 0 \<or> idx = length e - 1
        then Err (plain_server_error (''Admin key entry '' @ quoted e @ '' must be of the form '' @ quoted ''label:key'' @ ''.''))
        else (let label = trim (take idx e); key = trim (drop (Suc idx) e) in
          if label = [] then Err (plain_server_error (''Admin key entry '' @ quoted e @ '' has an empty label.''))
          else if length key < 32 then Err (plain_server_error (''Admin key for label '' @ quoted label
              @ '' is too short ('' @ nat_str (length key) @ '' chars; need 32+).''))
          else if List.member seen label then Err (plain_server_error (''Duplicate admin label '' @ quoted label @ ''.''))
          else (case parse_admin_entries es (label # seen) of Inl x \<Rightarrow> Inl x
            | Inr rest \<Rightarrow> Ok (\<lparr>admin_label = label, admin_key = key\<rparr> # rest))))"

definition parseAdminKeys :: "string \<Rightarrow> error + AdminKeyEntry list" where
  "parseAdminKeys raw = (let entries = filter (\<lambda>s. s \<noteq> []) (map trim (split_on (CHR '','') raw)) in
     if entries = [] then Err (plain_server_error
        ''Admin keys are required. Set ZATCA_SERVER_ADMIN_KEYS=label:key[,label:key...].'')
     else parse_admin_entries entries [])"

text \<open>Every key is compared, by its digest; the last match wins.\<close>

definition admin_verify :: "(string \<Rightarrow> string) \<Rightarrow> AdminKeyEntry list \<Rightarrow> string \<Rightarrow> string option" where
  "admin_verify sha256 entries presented =
     foldl (\<lambda>m e. if sha256 presented = sha256 (admin_key e) then Some (admin_label e) else m) None entries"

definition admin_verifyHeader :: "(string \<Rightarrow> string) \<Rightarrow> AdminKeyEntry list \<Rightarrow> string option \<Rightarrow> error + string" where
  "admin_verifyHeader sha256 entries header =
     (case header of None \<Rightarrow> Err (ZatcaAuthError ''Missing Authorization header.'' 401)
      | Some h \<Rightarrow> if h = [] then Err (ZatcaAuthError ''Missing Authorization header.'' 401)
        else (case extractBearer h of
            None \<Rightarrow> Err (ZatcaAuthError (''Authorization header must be of the form ''
                @ quoted ''Bearer <key>'' @ ''.'') 401)
          | Some b \<Rightarrow> (case admin_verify sha256 entries b of
              None \<Rightarrow> Err (ZatcaAuthError ''Unknown admin key.'' 401)
            | Some l \<Rightarrow> Ok l)))"

section \<open>Lemmas\<close>

lemma emit5_shape: "length (fst (emit5 v n)) = n div 5 \<and> snd (emit5 v n) = n mod 5"
proof (induction v n rule: emit5.induct)
  case (1 v n)
  show ?case
  proof (cases "n < 5")
    case True
    then show ?thesis by (simp add: emit5.simps)
  next
    case False
    then show ?thesis using 1
      by (cases "emit5 v (n - 5)") (simp add: emit5.simps [of v n] le_div_geq le_mod_geq)
  qed
qed

lemma BASE32_length: "length BASE32 = 32"
  by (simp add: BASE32_def)

lemma base32_char_in: "is_base32_char (base32_char w)"
proof -
  have "unat (w AND 0x1f) < 32"
    using word_and_le1 [of w "0x1f"] by (simp add: word_le_nat_alt)
  then show ?thesis by (simp add: is_base32_char_def base32_char_def BASE32_length)
qed

lemma emit5_chars: "list_all is_base32_char (fst (emit5 v n))"
proof (induction v n rule: emit5.induct)
  case (1 v n)
  then show ?case by (cases "emit5 v (n - 5)") (simp add: emit5.simps [of v n] base32_char_in)
qed

lemma base32_loop_chars: "list_all is_base32_char (base32_loop v n bs)"
proof (induction v n bs rule: base32_loop.induct)
  case (2 v n b bs)
  then show ?case using emit5_chars by (auto simp: Let_def split: prod.split) (metis fst_conv)
qed (simp add: base32_char_in)

lemma base32_loop_length: "n < 5 \<Longrightarrow> length (base32_loop v n bs) = (n + 8 * length bs + 4) div 5"
proof (induction v n bs rule: base32_loop.induct)
  case (1 v n)
  then show ?case by auto
next
  case (2 v n b bs)
  define v' where "v' = push_bit 8 v OR ucast b"
  obtain s m where e: "emit5 v' (n + 8) = (s, m)" by (cases "emit5 v' (n + 8)")
  have sm: "length s = (n + 8) div 5" "m = (n + 8) mod 5" using emit5_shape [of v' "n + 8"] e by simp_all
  have "length (base32_loop v' m bs) = (m + 8 * length bs + 4) div 5"
    using 2 e sm by (simp add: v'_def)
  then have "length (base32_loop v n (b # bs)) = (n + 8) div 5 + ((n + 8) mod 5 + 8 * length bs + 4) div 5"
    using e sm by (simp add: v'_def [symmetric] Let_def)
  also have "\<dots> = ((n + 8) mod 5 + 8 * length bs + 4 + 5 * ((n + 8) div 5)) div 5"
    by (subst div_mult_self2) simp_all
  also have "(n + 8) mod 5 + 8 * length bs + 4 + 5 * ((n + 8) div 5) = n + 8 * length (b # bs) + 4"
    using mod_mult_div_eq [of "n + 8" 5] by (simp del: mod_mult_div_eq)
  finally show ?case .
qed

lemma key_tail_ok:
  assumes "length (random20 rnd) = 20"
  shows "length (key_tail rnd) = 32" "list_all is_base32_char (key_tail rnd)"
  using assms base32_loop_length [of 0 0 "random20 rnd"] base32_loop_chars [of 0 0 "random20 rnd"]
  by (simp_all add: key_tail_def base32Encode_def)

text \<open>A token of the store's environment parses back into its parts.\<close>

lemma under_not_ref: "\<not> is_ref_char (CHR ''_'')"
  by (simp add: is_ref_char_def is_lower_def is_digit_def)

lemma parse_ref_token:
  assumes "ref \<noteq> []" "list_all is_ref_char ref" "length tail = 32" "list_all is_base32_char tail"
  shows "parse_ref (ref @ ''_'' @ tail) = Some (ref, tail)"
proof -
  have "takeWhile is_ref_char (ref @ ''_'' @ tail) = ref"
    using assms(2) under_not_ref by (subst takeWhile_append2) (auto simp: list_all_iff)
  moreover have "dropWhile is_ref_char (ref @ ''_'' @ tail) = ''_'' @ tail"
    using assms(2) under_not_ref by (subst dropWhile_append2) (auto simp: list_all_iff)
  ultimately show ?thesis using assms by (simp add: parse_ref_def Let_def)
qed

lemma parseToken_token:
  assumes "env = ''live'' \<or> env = ''test''"
    "ref \<noteq> []" "list_all is_ref_char ref" "length tail = 32" "list_all is_base32_char tail"
  shows "parseToken (token_of env ref tail) = Some (env, ref, tail)"
  using assms parse_ref_token [OF assms(2-5)] by (auto simp: parseToken_def token_of_def startsWith_def)

lemma resolve_rows_some:
  "resolve_rows p now rows = (Some k, rows') \<Longrightarrow>
    \<exists>i r. (i, r) \<in> set rows \<and> p r \<and> k = \<lparr>resolved_tenantRef = row_tenantRef r, resolved_tokenId = row_tokenId r\<rparr>"
proof (induction p now rows arbitrary: rows' rule: resolve_rows.induct)
  case (2 p now k r rows)
  then show ?case by (auto split: if_splits prod.splits)
qed simp

lemma resolve_rows_none: "fst (resolve_rows p now rows) = None \<longleftrightarrow> (\<forall>(i, r) \<in> set rows. \<not> p r)"
  by (induction p now rows rule: resolve_rows.induct) (auto split: prod.split)

text \<open>Rows carry their own key, and resolving keeps everything but the time of last use.\<close>

definition keys_ok :: "key_rows \<Rightarrow> bool" where
  "keys_ok rows = (map_ok rows \<and> (\<forall>(i, r) \<in> set rows. row_tokenId r = i))"

definition same_but_use :: "ApiKeyRow \<Rightarrow> ApiKeyRow \<Rightarrow> bool" where
  "same_but_use a b = (a\<lparr>row_lastUsedAt := None\<rparr> = b\<lparr>row_lastUsedAt := None\<rparr>)"

lemma resolve_rows_keys: "map fst (snd (resolve_rows p now rows)) = map fst rows"
  by (induction p now rows rule: resolve_rows.induct) (auto split: prod.split)

lemma resolve_rows_same: "list_all2 (\<lambda>(i, a) (j, b). i = j \<and> same_but_use a b) rows (snd (resolve_rows p now rows))"
proof (induction p now rows rule: resolve_rows.induct)
  case (2 p now k r rows)
  have "list_all2 (\<lambda>(i, a) (j, b). i = j \<and> same_but_use a b) rows rows"
    by (rule list_all2_refl) (auto simp: same_but_use_def)
  then show ?case using 2 by (auto simp: same_but_use_def split: prod.split)
qed simp

lemma same_but_use_simps:
  "same_but_use a b \<Longrightarrow> row_revokedAt a = row_revokedAt b \<and> row_tokenId a = row_tokenId b \<and>
    row_tenantRef a = row_tenantRef b \<and> row_hash a = row_hash b \<and> row_salt a = row_salt b"
  by (cases a; cases b) (auto simp: same_but_use_def)

lemma resolve_rows_mget:
  "mget rows i = Some r \<Longrightarrow>
    \<exists>r'. mget (snd (resolve_rows p now rows)) i = Some r' \<and> same_but_use r r'"
proof (induction p now rows rule: resolve_rows.induct)
  case (2 p now k r rows)
  then show ?case by (cases "resolve_rows p now rows") (auto simp: same_but_use_def)
qed simp

lemma last_match_label:
  "foldl (\<lambda>m e. if p e then Some (admin_label e) else m) m0 es = Some l \<Longrightarrow> m0 = Some l \<or> l \<in> admin_label ` set es"
proof (induction es arbitrary: m0)
  case (Cons e es)
  then show ?case using Cons.IH [of "if p e then Some (admin_label e) else m0"] by (cases "p e") auto
qed simp

lemma admin_verify_label: "admin_verify digest es presented = Some l \<Longrightarrow> l \<in> admin_label ` set es"
  using last_match_label unfolding admin_verify_def by fastforce

lemma revoked_all:
  assumes "(j, r) \<in> set (key_revokeAllForTenant now ref rows)" "row_tenantRef r = ref"
  shows "row_revokedAt r \<noteq> None"
proof -
  obtain b where "r = (if row_tenantRef b = ref \<and> row_revokedAt b = None then b\<lparr>row_revokedAt := Some now\<rparr> else b)"
    using assms(1) by (auto simp: key_revokeAllForTenant_def)
  then show ?thesis using assms(2)
    by (cases "row_tenantRef b = ref \<and> row_revokedAt b = None") (simp_all only: if_True if_False, simp_all)
qed

lemma no_key_left:
  assumes "\<forall>(j, r) \<in> set rows. row_tenantRef r = ref \<longrightarrow> row_revokedAt r \<noteq> None"
  shows "\<not> is_ok (fst (tenant_verify scrypt env now header ref rows))"
proof -
  have "resolved_tenantRef k \<noteq> ref" if res: "key_resolve scrypt env now b rows = (Some k, rows')" for b k rows'
  proof -
    obtain tr where "resolve_rows (key_matches scrypt tr b) now rows = (Some k, rows')"
      using res by (auto simp: key_resolve_def split: option.splits prod.splits if_splits)
    then obtain j r where "(j, r) \<in> set rows" "key_matches scrypt tr b r"
      "k = \<lparr>resolved_tenantRef = row_tenantRef r, resolved_tokenId = row_tokenId r\<rparr>"
      using resolve_rows_some by metis
    then show ?thesis using assms by (auto simp: key_matches_def)
  qed
  then show ?thesis by (auto simp: tenant_verify_def split: option.splits if_splits prod.splits)
qed

end
