(* ===== verification/Semaphore.thy ===== *)
theory Semaphore
  imports Errors
begin

text \<open>
  The counting semaphore that caps concurrent onboarding requests
  (\<open>server/src/middleware/semaphore.ts\<close>). The closure variables are the state: \<open>sem_count\<close> is
  \<open>count\<close>, and \<open>sem_released\<close> holds the \<open>released\<close> flag of each release function handed out, in
  the order of the acquisitions; a release function is its position in that list.
\<close>

record sem =
  sem_count :: int
  sem_capacity :: int
  sem_released :: "bool list"

text \<open>\<open>Number.isFinite(c) && c > 0 && Number.isInteger(c)\<close>, and the integer it then is.\<close>

fun positive_integer :: "num64 \<Rightarrow> int option" where
  "positive_integer (Fin False m e) =
     (if m = 0 then None
      else if 0 \<le> e then Some (int (m * 2 ^ nat e))
      else if m mod 2 ^ nat (- e) = 0 then Some (int (m div 2 ^ nat (- e))) else None)"
| "positive_integer _ = None"

definition createSemaphore :: "num64 \<Rightarrow> error + sem" where
  "createSemaphore capacity = (case positive_integer capacity of
       None \<Rightarrow> Err (PlainError (''Semaphore capacity must be a positive integer; got ''
                 @ num_str capacity @ ''.'') None)
     | Some n \<Rightarrow> Ok \<lparr>sem_count = 0, sem_capacity = n, sem_released = []\<rparr>)"

definition tryAcquire :: "sem \<Rightarrow> nat option \<times> sem" where
  "tryAcquire s = (if sem_capacity s \<le> sem_count s then (None, s)
     else (Some (length (sem_released s)),
           s\<lparr>sem_count := sem_count s + 1, sem_released := sem_released s @ [False]\<rparr>))"

definition release :: "nat \<Rightarrow> sem \<Rightarrow> sem" where
  "release i s = (if length (sem_released s) \<le> i \<or> sem_released s ! i then s
     else s\<lparr>sem_released := (sem_released s)[i := True], sem_count := sem_count s - 1\<rparr>)"

definition inFlight :: "sem \<Rightarrow> int" where
  "inFlight s = sem_count s"

section \<open>Histories\<close>

datatype sem_op = Acquire | Release nat

fun sem_step :: "sem_op \<Rightarrow> sem \<Rightarrow> sem" where
  "sem_step Acquire s = snd (tryAcquire s)"
| "sem_step (Release i) s = release i s"

definition sem_run :: "sem_op list \<Rightarrow> sem \<Rightarrow> sem" where
  "sem_run ops s = fold sem_step ops s"

text \<open>The count is the number of release functions that were not called yet.\<close>

definition held :: "sem \<Rightarrow> nat" where
  "held s = length (filter Not (sem_released s))"

definition sem_ok :: "sem \<Rightarrow> bool" where
  "sem_ok s = (sem_count s = int (held s) \<and> sem_count s \<le> sem_capacity s)"

lemma filter_update_False:
  "i < length xs \<Longrightarrow> \<not> xs ! i \<Longrightarrow>
    length (filter Not xs) = Suc (length (filter Not (xs[i := True])))"
proof (induction xs arbitrary: i)
  case (Cons x xs)
  then show ?case by (cases i) auto
qed simp

lemma tryAcquire_ok: "sem_ok s \<Longrightarrow> sem_ok (snd (tryAcquire s))"
  by (simp add: sem_ok_def tryAcquire_def held_def)

lemma release_ok: "sem_ok s \<Longrightarrow> sem_ok (release i s)"
  using filter_update_False [of i "sem_released s"]
  by (auto simp: sem_ok_def release_def held_def)

lemma sem_step_ok: "sem_ok s \<Longrightarrow> sem_ok (sem_step op s)"
  by (cases op) (simp_all add: tryAcquire_ok release_ok)

lemma sem_run_ok: "sem_ok s \<Longrightarrow> sem_ok (sem_run ops s)"
  by (induction ops arbitrary: s) (simp_all add: sem_run_def sem_step_ok)

lemma sem_step_capacity: "sem_capacity (sem_step op s) = sem_capacity s"
  by (cases op) (simp_all add: tryAcquire_def release_def)

lemma sem_run_capacity: "sem_capacity (sem_run ops s) = sem_capacity s"
  by (induction ops arbitrary: s) (simp_all add: sem_run_def sem_step_capacity)

lemma positive_integer_pos: "positive_integer c = Some n \<Longrightarrow> 0 < n"
proof (induction c rule: positive_integer.induct)
  case (1 m e)
  show ?case
  proof (cases "0 \<le> e")
    case True
    then show ?thesis using 1 by (auto split: if_splits)
  next
    case False
    let ?d = "2 ^ nat (- e) :: nat"
    have "0 < m div ?d" if "m \<noteq> 0" "m mod ?d = 0"
      using that by (metis bot_nat_0.not_eq_extremum div_mult_mod_eq add_0_right mult_0)
    then show ?thesis using 1 False by (auto split: if_splits)
  qed
qed auto

lemma createSemaphore_ok: "createSemaphore c = Ok s \<Longrightarrow> sem_ok s \<and> 0 < sem_capacity s \<and> held s = 0"
  by (auto simp: createSemaphore_def sem_ok_def held_def split: option.splits
      dest: positive_integer_pos)

lemma release_twice: "release i (release i s) = release i s"
  by (auto simp: release_def)

end
