(* ===== verification/Idempotency.thy ===== *)
theory Idempotency
  imports Errors
begin

text \<open>
  The idempotency protocol of the mutating routes (\<open>server/src/middleware/idempotency.ts\<close>): the
  in-memory store with its in-flight and committed entries, the cache key, and the interface the
  routes rely on as a locale. The clock is an argument: \<open>now\<close> is \<open>Date.now()\<close> at the call.
\<close>

section \<open>The store\<close>

record CachedResponse =
  cr_statusCode :: int
  cr_headers :: "(string \<times> string) list"
  cr_body :: string

datatype begin_result = Claimed | In_flight | Replay CachedResponse

datatype idem_entry = InFlight int | Committed CachedResponse int

fun entry_expiresAt :: "idem_entry \<Rightarrow> int" where
  "entry_expiresAt (InFlight t) = t"
| "entry_expiresAt (Committed _ t) = t"

type_synonym idem_entries = "(string, idem_entry) jsmap"

text \<open>\<open>readFresh\<close> drops an expired entry when it meets one.\<close>

definition readFresh :: "int \<Rightarrow> string \<Rightarrow> idem_entries \<Rightarrow> idem_entry option \<times> idem_entries" where
  "readFresh now k m = (case mget m k of
       None \<Rightarrow> (None, m)
     | Some e \<Rightarrow> if entry_expiresAt e \<le> now then (None, mdelete k m) else (Some e, m))"

definition idem_begin :: "int \<Rightarrow> string \<Rightarrow> int \<Rightarrow> idem_entries \<Rightarrow> begin_result \<times> idem_entries" where
  "idem_begin now k ttl m = (case readFresh now k m of (existing, m1) \<Rightarrow>
     (case existing of
        None \<Rightarrow> (Claimed, mset_to k (InFlight (now + ttl)) m1)
      | Some (InFlight _) \<Rightarrow> (In_flight, m1)
      | Some (Committed r _) \<Rightarrow> (Replay r, m1)))"

definition idem_commit ::
  "int \<Rightarrow> string \<Rightarrow> CachedResponse \<Rightarrow> int \<Rightarrow> (idem_entries, unit) eff" where
  "idem_commit now k r ttl m = (case mget m k of
       None \<Rightarrow> (Err (PlainError (''IdempotencyStore.commit called for unclaimed key '' @ quoted k
                 @ '' '' @ em_dash @ '' missing a prior begin(). This is a programming error in the caller.'') None), m)
     | Some _ \<Rightarrow> (Ok (), mset_to k (Committed r (now + ttl)) m))"

definition idem_release :: "string \<Rightarrow> idem_entries \<Rightarrow> idem_entries" where
  "idem_release k m = mdelete k m"

text \<open>\<open>sha256_b64url\<close> is the digest of the presented key in base64url, from \<open>node:crypto\<close>.\<close>

definition buildIdempotencyCacheKey ::
  "(string \<Rightarrow> string) \<Rightarrow> string option \<Rightarrow> string \<Rightarrow> string \<Rightarrow> string" where
  "buildIdempotencyCacheKey sha256_b64url tenantRef route presentedKey =
     ''idem:'' @ (case tenantRef of None \<Rightarrow> ''_admin_'' | Some t \<Rightarrow> t) @ '':'' @ route @ '':''
       @ take 32 (sha256_b64url presentedKey)"

definition DEFAULT_IDEMPOTENCY_TTL_MS :: int where
  "DEFAULT_IDEMPOTENCY_TTL_MS = 24 * 60 * 60 * 1000"

section \<open>The interface\<close>

text \<open>
  What the routes rely on. \<open>live now k s\<close> is the state of the key: nothing, an in-flight claim or
  a committed response, at time \<open>now\<close>.
\<close>

datatype slot = Free | Busy | Done CachedResponse

locale idempotency_store =
  fixes live :: "int \<Rightarrow> string \<Rightarrow> 's \<Rightarrow> slot"
    and begin_op :: "int \<Rightarrow> string \<Rightarrow> int \<Rightarrow> 's \<Rightarrow> begin_result \<times> 's"
    and commit_op :: "int \<Rightarrow> string \<Rightarrow> CachedResponse \<Rightarrow> int \<Rightarrow> ('s, unit) eff"
    and release_op :: "string \<Rightarrow> 's \<Rightarrow> 's"
  assumes begin_free: "live now k s = Free \<Longrightarrow> fst (begin_op now k ttl s) = Claimed"
    and begin_busy: "live now k s = Busy \<Longrightarrow> fst (begin_op now k ttl s) = In_flight"
    and begin_done: "live now k s = Done r \<Longrightarrow> fst (begin_op now k ttl s) = Replay r"
    and begin_claims: "fst (begin_op now k ttl s) = Claimed \<Longrightarrow> t < now + ttl \<Longrightarrow>
      live t k (snd (begin_op now k ttl s)) = Busy"
    and begin_frame: "k' \<noteq> k \<Longrightarrow> live t k' (snd (begin_op now k ttl s)) = live t k' s"
    and begin_keeps: "live now k s \<noteq> Free \<Longrightarrow> snd (begin_op now k ttl s) = s"
    and commit_live: "live now k s \<noteq> Free \<Longrightarrow> t < now' + ttl \<Longrightarrow>
      fst (commit_op now' k r ttl s) = Ok () \<and> live t k (snd (commit_op now' k r ttl s)) = Done r"
    and commit_frame: "k' \<noteq> k \<Longrightarrow> live t k' (snd (commit_op now k r ttl s)) = live t k' s"
    and release_live: "live t k' (release_op k s) = (if k' = k then Free else live t k' s)"
begin

lemma second_begin_blocked:
  assumes "fst (begin_op now k ttl s) = Claimed" "t < now + ttl"
  shows "fst (begin_op t k ttl' (snd (begin_op now k ttl s))) = In_flight"
  using assms by (intro begin_busy begin_claims)

lemma commit_then_replay:
  assumes claim: "fst (begin_op now k ttl s) = Claimed" and before: "now' < now + ttl"
    and t: "t < now' + ttl'"
  shows "fst (begin_op t k ttl'' (snd (commit_op now' k r ttl' (snd (begin_op now k ttl s))))) = Replay r"
proof -
  have "live now' k (snd (begin_op now k ttl s)) \<noteq> Free"
    using begin_claims [OF claim before] by simp
  then show ?thesis using t by (intro begin_done) (simp add: commit_live)
qed

lemma release_then_claim: "fst (begin_op t k ttl (release_op k s)) = Claimed"
  by (rule begin_free) (simp add: release_live)

lemma begin_other_key:
  assumes "k' \<noteq> k"
  shows "fst (begin_op t k' ttl' (snd (begin_op now k ttl s))) = fst (begin_op t k' ttl' s)"
proof (cases "live t k' s")
  case Free
  then show ?thesis using begin_frame [OF assms] by (simp add: begin_free)
next
  case Busy
  then show ?thesis using begin_frame [OF assms] by (simp add: begin_busy)
next
  case (Done r)
  then show ?thesis using begin_frame [OF assms] by (simp add: begin_done)
qed

end

definition idem_live :: "int \<Rightarrow> string \<Rightarrow> idem_entries \<Rightarrow> slot" where
  "idem_live now k m = (case mget m k of None \<Rightarrow> Free
     | Some e \<Rightarrow> if entry_expiresAt e \<le> now then Free
         else (case e of InFlight _ \<Rightarrow> Busy | Committed r _ \<Rightarrow> Done r))"

lemmas idem_defs = idem_begin_def idem_commit_def idem_release_def idem_live_def readFresh_def

interpretation memory_idem: idempotency_store idem_live idem_begin idem_commit idem_release
  by unfold_locales
    (auto simp: idem_defs split: option.splits idem_entry.splits if_splits)

section \<open>Histories of several callers\<close>

text \<open>
  Calls on one key in the order the store serves them; the list of results shows who claimed it.
\<close>

datatype idem_op = Begin int int | Commit int CachedResponse int | Release

fun idem_step :: "string \<Rightarrow> idem_op \<Rightarrow> idem_entries \<Rightarrow> begin_result option \<times> idem_entries" where
  "idem_step k (Begin now ttl) m = (case idem_begin now k ttl m of (r, m') \<Rightarrow> (Some r, m'))"
| "idem_step k (Commit now r ttl) m = (None, snd (idem_commit now k r ttl m))"
| "idem_step k Release m = (None, idem_release k m)"

fun idem_trace :: "string \<Rightarrow> idem_op list \<Rightarrow> idem_entries \<Rightarrow> begin_result option list" where
  "idem_trace k [] m = []"
| "idem_trace k (op # ops) m = (case idem_step k op m of (r, m') \<Rightarrow> r # idem_trace k ops m')"

text \<open>A history of begins only, with clock readings before the deadline of the first claim.\<close>

fun begins_before :: "int \<Rightarrow> idem_op list \<Rightarrow> bool" where
  "begins_before d [] = True"
| "begins_before d (Begin now ttl # ops) = (now < d \<and> begins_before d ops)"
| "begins_before d (_ # ops) = False"

lemma busy_trace:
  "\<forall>t < d. idem_live t k m = Busy \<Longrightarrow> begins_before d ops \<Longrightarrow>
    set (idem_trace k ops m) \<subseteq> {Some In_flight}"
proof (induction d ops arbitrary: m rule: begins_before.induct)
  case (2 d now ttl ops)
  then have "idem_live now k m = Busy" by simp
  then have "idem_begin now k ttl m = (In_flight, m)"
    using memory_idem.begin_busy [of now k m ttl] memory_idem.begin_keeps [of now k m ttl]
    by (metis prod.collapse slot.distinct(1))
  then show ?case using 2 by simp
qed auto

lemma claim_is_exclusive:
  assumes "fst (idem_begin now k ttl m) = Claimed" "begins_before (now + ttl) ops"
  shows "set (idem_trace k ops (snd (idem_begin now k ttl m))) \<subseteq> {Some In_flight}"
  using assms by (intro busy_trace) (auto intro: memory_idem.begin_claims)

end
