(* ===== verification/Http.thy ===== *)
theory Http
  imports Types Encoding
begin

text \<open>
  The HTTP client of the core package (\<open>core/src/api/http-client.ts\<close>) with its retries, and what
  every call to ZATCA shares: endpoints (\<open>api/endpoints.ts\<close>) and headers (\<open>api/headers.ts\<close>). The
  network is a record of operations on an abstract state: \<open>fetch\<close>, the timer of \<open>sleep\<close>, the
  random source and \<open>JSON.parse\<close>. Debug output is left out.
\<close>

section \<open>The network\<close>

text \<open>What a promise of the runtime may be rejected with: an \<open>Error\<close> (name, message) or not one.\<close>

datatype thrown = Thrown string string | Thrown_other

record http_response =
  resp_status :: int
  resp_headers :: "(string \<times> string) list" \<comment> \<open>names in lower case\<close>
  resp_text :: "thrown + string"

datatype http_method = GET | POST

record http_request =
  rq_method :: http_method
  rq_url :: string
  rq_headers :: "(string, string) jsmap"
  rq_body :: "string option"

text \<open>
  \<open>Math.random()\<close> is a multiple of \<open>2^-53\<close> below 1; \<open>random53\<close> gives the multiplier. A fetch that
  the timer of the attempt aborts rejects with an \<open>AbortError\<close>.
\<close>

record 'n network =
  net_fetch :: "http_request \<Rightarrow> 'n \<Rightarrow> (thrown + http_response) \<times> 'n"
  net_sleep :: "int \<Rightarrow> 'n \<Rightarrow> 'n"
  net_random53 :: "'n \<Rightarrow> nat \<times> 'n"
  net_json :: "string \<Rightarrow> jsval option" \<comment> \<open>\<open>JSON.parse\<close>; \<open>None\<close> when it throws\<close>

section \<open>URLs\<close>

definition hex_upper :: "nat \<Rightarrow> char" where
  "hex_upper n = ''0123456789ABCDEF'' ! n"

definition percent :: "char \<Rightarrow> string" where
  "percent c = [CHR ''%'', hex_upper (byte c div 16), hex_upper (byte c mod 16)]"

definition is_alnum :: "char \<Rightarrow> bool" where
  "is_alnum c = (is_lower c \<or> is_upper c \<or> is_digit c)"

definition uri_unreserved :: "char \<Rightarrow> bool" where
  "uri_unreserved c = (is_alnum c \<or> List.member (''-_.!~*()'' @ sq) c)"

definition encodeURIComponent :: "string \<Rightarrow> string" where
  "encodeURIComponent s = concat (map (\<lambda>c. if uri_unreserved c then [c] else percent c) s)"

text \<open>The serializer of \<open>URLSearchParams\<close>.\<close>

definition form_encode :: "string \<Rightarrow> string" where
  "form_encode s = concat (map (\<lambda>c. if is_alnum c \<or> List.member ''*-._'' c then [c]
     else if c = CHR '' '' then ''+'' else percent c) s)"

definition query_string :: "(string \<times> string) list \<Rightarrow> string" where
  "query_string q = join_with ''&'' (map (\<lambda>(k, v). form_encode k @ ''='' @ form_encode v) q)"

definition buildUrl :: "string \<Rightarrow> string \<Rightarrow> (string \<times> string) list option \<Rightarrow> string" where
  "buildUrl baseUrl path query = (case query of
       None \<Rightarrow> baseUrl @ path
     | Some q \<Rightarrow> if query_string q \<noteq> [] then baseUrl @ path @ ''?'' @ query_string q else baseUrl @ path)"

section \<open>Options and arguments\<close>

record RetryOptions =
  retry_count :: int
  retry_baseMs :: int
  retry_jitterMs :: int

record HttpClientOptions =
  baseUrl :: string
  timeoutMs :: "int option"
  retries :: "RetryOptions option"
  defaultHeaders :: "(string, string) jsmap"

record RequestArgs =
  arg_method :: http_method
  arg_path :: string
  arg_headers :: "(string, string) jsmap"
  arg_body :: jsval
  arg_query :: "(string \<times> string) list option"

definition DEFAULT_TIMEOUT_MS :: int where "DEFAULT_TIMEOUT_MS = 30000"

definition DEFAULT_RETRY :: RetryOptions where
  "DEFAULT_RETRY = \<lparr>retry_count = 3, retry_baseMs = 250, retry_jitterMs = 250\<rparr>"

definition client_retries :: "HttpClientOptions \<Rightarrow> RetryOptions" where
  "client_retries o1 = (case retries o1 of None \<Rightarrow> DEFAULT_RETRY | Some r \<Rightarrow> r)"

definition client_timeout :: "HttpClientOptions \<Rightarrow> int" where
  "client_timeout o1 = (case timeoutMs o1 of None \<Rightarrow> DEFAULT_TIMEOUT_MS | Some t \<Rightarrow> t)"

text \<open>\<open>{ ...a, ...b }\<close> on string records.\<close>

definition spread :: "(string, string) jsmap \<Rightarrow> (string, string) jsmap \<Rightarrow> (string, string) jsmap" where
  "spread a b = foldl (\<lambda>m (k, v). mset_to k v m) a b"

definition make_request :: "HttpClientOptions \<Rightarrow> RequestArgs \<Rightarrow> http_request" where
  "make_request o1 a = \<lparr>rq_method = arg_method a, rq_url = buildUrl (baseUrl o1) (arg_path a) (arg_query a),
     rq_headers = spread (defaultHeaders o1) (arg_headers a), rq_body = json_of (arg_body a)\<rparr>"

section \<open>Reading a response\<close>

definition SUCCESS_STATUSES :: "int list" where "SUCCESS_STATUSES = [200, 202]"

definition readBody :: "(string \<Rightarrow> jsval option) \<Rightarrow> http_response \<Rightarrow> thrown + jsval" where
  "readBody json r = (case resp_text r of Inl t \<Rightarrow> Err t
     | Inr text \<Rightarrow> Ok (if text = [] then JUndef else (case json text of None \<Rightarrow> JStr text | Some v \<Rightarrow> v)))"

definition header_id :: "http_response \<Rightarrow> string option" where
  "header_id r = List.find (\<lambda>v. v \<noteq> []) (List.map_filter (map_of (resp_headers r))
     [''x-request-id'', ''x-requestid'', ''request-id'', ''dxaddress''])"

definition nullish_or :: "jsval \<Rightarrow> jsval \<Rightarrow> jsval" where \<comment> \<open>\<open>a ?? b\<close>\<close>
  "nullish_or a b = (if is_nullish a then b else a)"

definition body_id :: "jsval \<Rightarrow> string option" where
  "body_id parsed = (case nullish_or (jget parsed ''requestID'')
       (nullish_or (jget parsed ''requestId'') (jget parsed ''request_id'')) of
     JStr s \<Rightarrow> Some s | JNum x \<Rightarrow> Some (num_str x) | _ \<Rightarrow> None)"

definition extractRequestId :: "http_response \<Rightarrow> jsval \<Rightarrow> string option" where
  "extractRequestId r parsed = (case header_id r of Some v \<Rightarrow> Some v
     | None \<Rightarrow> if is_object parsed then body_id parsed else None)"

definition extractValidationResults :: "jsval \<Rightarrow> jsval option" where
  "extractValidationResults parsed =
     (case parsed of JObj ps \<Rightarrow> map_of ps ''validationResults'' | _ \<Rightarrow> None)"

section \<open>The request\<close>

text \<open>\<open>Math.floor(random() * jitterMs)\<close>; the product is exact enough that no integer is reached by rounding.\<close>

definition computeBackoffMs :: "nat \<Rightarrow> RetryOptions \<Rightarrow> nat \<Rightarrow> int" where
  "computeBackoffMs attempt r k = retry_baseMs r * 2 ^ attempt + (int k * retry_jitterMs r) div 2 ^ 53"

definition isRetryableError :: "thrown \<Rightarrow> bool" where
  "isRetryableError t = (case t of Thrown name _ \<Rightarrow> name = ''TypeError'' \<or> name = ''AbortError'' | Thrown_other \<Rightarrow> False)"

definition status_failure :: "http_response \<Rightarrow> jsval \<Rightarrow> error" where
  "status_failure r parsed = ZatcaApiError (''ZATCA API request failed with status '' @ int_str (resp_status r))
     (resp_status r) (extractValidationResults parsed) (extractRequestId r parsed)"

definition thrown_failure :: "int \<Rightarrow> thrown \<Rightarrow> error" where
  "thrown_failure timeout t = (case t of
       Thrown name msg \<Rightarrow> if name = ''AbortError''
         then ZatcaApiError (''ZATCA API request timed out after '' @ int_str timeout @ ''ms'') 0 None None
         else ZatcaApiError (''ZATCA API network error: '' @ msg) 0 None None
     | Thrown_other \<Rightarrow> ZatcaApiError ''ZATCA API request failed with unknown error'' 0 None None)"

definition attempts_exhausted :: error where
  "attempts_exhausted = ZatcaApiError ''ZATCA API request failed: retry attempts exhausted'' 0 None None"

text \<open>One pass of the loop ends the request or goes on to the next attempt.\<close>

datatype attempt_result = Finished "error + jsval" | Again

definition caught :: "int \<Rightarrow> bool \<Rightarrow> thrown \<Rightarrow> attempt_result" where
  "caught timeout is_last t = (if \<not> is_last \<and> isRetryableError t then Again
     else Finished (Err (thrown_failure timeout t)))"

definition read_with :: "(string \<Rightarrow> jsval option) \<Rightarrow> int \<Rightarrow> bool \<Rightarrow> http_response \<Rightarrow> (jsval \<Rightarrow> error + jsval) \<Rightarrow> attempt_result" where
  "read_with json timeout is_last r k =
     (case readBody json r of Inl t \<Rightarrow> caught timeout is_last t | Inr v \<Rightarrow> Finished (k v))"

definition judge :: "(string \<Rightarrow> jsval option) \<Rightarrow> int \<Rightarrow> bool \<Rightarrow> thrown + http_response \<Rightarrow> attempt_result" where
  "judge json timeout is_last outcome = (case outcome of
       Inl t \<Rightarrow> caught timeout is_last t
     | Inr r \<Rightarrow> if List.member SUCCESS_STATUSES (resp_status r) then read_with json timeout is_last r Ok
         else if 500 \<le> resp_status r \<and> resp_status r < 600 \<and> \<not> is_last then Again
         else read_with json timeout is_last r (\<lambda>v. Err (status_failure r v)))"

definition backoff :: "'n network \<Rightarrow> RetryOptions \<Rightarrow> nat \<Rightarrow> 'n \<Rightarrow> 'n" where
  "backoff net r attempt n = (case net_random53 net n of (k, n') \<Rightarrow> net_sleep net (computeBackoffMs attempt r k) n')"

fun attempts :: "'n network \<Rightarrow> int \<Rightarrow> RetryOptions \<Rightarrow> http_request \<Rightarrow> nat \<Rightarrow> nat \<Rightarrow> ('n, jsval) eff" where
  "attempts net timeout r rq 0 attempt n = (Err attempts_exhausted, n)"
| "attempts net timeout r rq (Suc left) attempt n = (case net_fetch net rq n of (outcome, n1) \<Rightarrow>
     (case judge (net_json net) timeout (left = 0) outcome of
        Finished res \<Rightarrow> (res, n1)
      | Again \<Rightarrow> attempts net timeout r rq left (Suc attempt) (backoff net r attempt n1)))"

definition request :: "'n network \<Rightarrow> HttpClientOptions \<Rightarrow> RequestArgs \<Rightarrow> ('n, jsval) eff" where
  "request net o1 a = attempts net (client_timeout o1) (client_retries o1) (make_request o1 a)
     (nat (retry_count (client_retries o1) + 1)) 0"

section \<open>Endpoints and headers\<close>

record ZatcaEnvironmentEndpoints =
  ep_base :: string
  ep_compliance :: string
  ep_clearance :: string
  ep_reporting :: string
  ep_complianceCertificate :: string
  ep_csids :: string
  ep_cancelInvoice :: string
  ep_invoiceStatus :: string

definition endpoints_at :: "string \<Rightarrow> ZatcaEnvironmentEndpoints" where
  "endpoints_at base = \<lparr>ep_base = base, ep_compliance = ''/compliance/invoices'',
     ep_clearance = ''/invoices/clearance/single'', ep_reporting = ''/invoices/reporting/single'',
     ep_complianceCertificate = ''/compliance'', ep_csids = ''/production/csids'',
     ep_cancelInvoice = ''/invoices/cancel'', ep_invoiceStatus = ''/invoices/status''\<rparr>"

fun ZATCA_ENDPOINTS :: "Environment \<Rightarrow> ZatcaEnvironmentEndpoints" where
  "ZATCA_ENDPOINTS Sandbox = endpoints_at ''https://gw-fatoora.zatca.gov.sa/e-invoicing/developer-portal''"
| "ZATCA_ENDPOINTS Simulation = endpoints_at ''https://gw-fatoora.zatca.gov.sa/e-invoicing/simulation''"
| "ZATCA_ENDPOINTS Production = endpoints_at ''https://gw-fatoora.zatca.gov.sa/e-invoicing/core''"

definition buildBaseHeaders :: "(string, string) jsmap" where
  "buildBaseHeaders = [(''Accept-Version'', ''V2''), (''Accept-Language'', ''en''),
     (''Content-Type'', ''application/json''), (''Accept'', ''application/json'')]"

definition buildAuthHeaders :: "string \<Rightarrow> string \<Rightarrow> error + (string, string) jsmap" where
  "buildAuthHeaders binarySecurityToken apiSecret =
     (if binarySecurityToken = [] then Err (PlainError ''binarySecurityToken is required to build ZATCA auth headers'' None)
      else if apiSecret = [] then Err (PlainError ''apiSecret is required to build ZATCA auth headers'' None)
      else Ok (spread buildBaseHeaders [(''Authorization'',
        ''Basic '' @ base64_encode (binarySecurityToken @ '':'' @ apiSecret))]))"

definition buildOtpHeaders :: "string \<Rightarrow> error + (string, string) jsmap" where
  "buildOtpHeaders otp =
     (if otp = [] then Err (PlainError ''OTP is required for compliance certificate issuance'' None)
      else Ok (spread buildBaseHeaders [(''OTP'', otp)]))"

definition buildClearanceHeaders :: "string \<Rightarrow> string \<Rightarrow> error + (string, string) jsmap" where
  "buildClearanceHeaders binarySecurityToken apiSecret = (case buildAuthHeaders binarySecurityToken apiSecret of
       Inl e \<Rightarrow> Err e | Inr h \<Rightarrow> Ok (spread h [(''Clearance-Status'', ''1'')]))"

section \<open>A scripted network\<close>

text \<open>
  Every run of the client sees a sequence of outcomes. The scripted network plays a given one and
  writes down what was fetched and how long was slept; \<open>rnd\<close> is the random source.
\<close>

record wire =
  w_script :: "(thrown + http_response) list"
  w_fetched :: "http_request list"
  w_slept :: "int list"

definition wire_fetch :: "http_request \<Rightarrow> wire \<Rightarrow> (thrown + http_response) \<times> wire" where
  "wire_fetch rq w = (case w_script w of
       [] \<Rightarrow> (Inl Thrown_other, w\<lparr>w_fetched := w_fetched w @ [rq]\<rparr>)
     | x # xs \<Rightarrow> (x, w\<lparr>w_script := xs, w_fetched := w_fetched w @ [rq]\<rparr>))"

definition wire_net :: "(string \<Rightarrow> jsval option) \<Rightarrow> (nat \<Rightarrow> nat) \<Rightarrow> wire network" where
  "wire_net json rnd = \<lparr>net_fetch = wire_fetch,
     net_sleep = (\<lambda>ms w. w\<lparr>w_slept := w_slept w @ [ms]\<rparr>),
     net_random53 = (\<lambda>w. (rnd (length (w_slept w)), w)), net_json = json\<rparr>"

definition wire_start :: "(thrown + http_response) list \<Rightarrow> wire" where
  "wire_start script = \<lparr>w_script = script, w_fetched = [], w_slept = []\<rparr>"

definition retried :: "(string \<Rightarrow> jsval option) \<Rightarrow> int \<Rightarrow> nat \<Rightarrow> (thrown + http_response) list \<Rightarrow> nat" where
  "retried json timeout left script = length (takeWhile (\<lambda>x. judge json timeout False x = Again) (take left script))"

definition backoffs :: "RetryOptions \<Rightarrow> (nat \<Rightarrow> nat) \<Rightarrow> nat \<Rightarrow> nat \<Rightarrow> int list" where
  "backoffs r rnd k i = map (\<lambda>j. computeBackoffMs j r (rnd j)) [k..<k + i]"

lemma caught_last: "caught timeout True t = Finished (Err (thrown_failure timeout t))"
  by (simp add: caught_def)

lemma judge_last: "judge json timeout True x \<noteq> Again"
  by (simp add: judge_def read_with_def caught_last split: sum.split)

lemma wire_net_simps [simp]:
  "net_fetch (wire_net json rnd) = wire_fetch" "net_json (wire_net json rnd) = json"
  "backoff (wire_net json rnd) r k w = w\<lparr>w_slept := w_slept w @ [computeBackoffMs k r (rnd (length (w_slept w)))]\<rparr>"
  by (simp_all add: wire_net_def backoff_def)

lemma upt_Suc_left: "[k..<k + Suc i] = k # [Suc k..<Suc k + i]"
  by (simp add: upt_conv_Cons del: upt_Suc)

lemma attempts_script:
  assumes "left < length (w_script w)" "length (w_slept w) = k"
  shows "\<exists>res. judge json timeout (retried json timeout left (w_script w) = left)
      (w_script w ! retried json timeout left (w_script w)) = Finished res \<and>
    attempts (wire_net json rnd) timeout r rq (Suc left) k w = (res,
      \<lparr>w_script = drop (Suc (retried json timeout left (w_script w))) (w_script w),
       w_fetched = w_fetched w @ replicate (Suc (retried json timeout left (w_script w))) rq,
       w_slept = w_slept w @ backoffs r rnd k (retried json timeout left (w_script w))\<rparr>)"
  using assms
proof (induction left arbitrary: w k)
  case 0
  then obtain x xs where s: "w_script w = x # xs" by (cases "w_script w") auto
  obtain res where "judge json timeout True x = Finished res"
    using judge_last by (cases "judge json timeout True x") auto
  then show ?case using s by (simp add: retried_def wire_fetch_def backoffs_def)
next
  case (Suc left)
  then obtain x xs where s: "w_script w = x # xs" by (cases "w_script w") auto
  show ?case
  proof (cases "judge json timeout False x")
    case (Finished res)
    then show ?thesis using s by (simp add: retried_def wire_fetch_def backoffs_def)
  next
    case Again
    let ?w = "\<lparr>w_script = xs, w_fetched = w_fetched w @ [rq], w_slept = w_slept w @ [computeBackoffMs k r (rnd k)]\<rparr>"
    have step: "attempts (wire_net json rnd) timeout r rq (Suc (Suc left)) k w
        = attempts (wire_net json rnd) timeout r rq (Suc left) (Suc k) ?w"
      using Again s Suc.prems by (subst attempts.simps, cases w) (simp add: wire_fetch_def del: attempts.simps)
    have i: "retried json timeout (Suc left) (w_script w) = Suc (retried json timeout left xs)"
      using Again s by (simp add: retried_def)
    have b: "backoffs r rnd k (Suc i) = computeBackoffMs k r (rnd k) # backoffs r rnd (Suc k) i" for i
      unfolding backoffs_def upt_Suc_left by simp
    show ?thesis using Suc.IH [of ?w "Suc k"] Suc.prems
      unfolding step i b using s by (simp del: attempts.simps)
  qed
qed

lemma backoff_bounds:
  assumes "0 \<le> retry_jitterMs r" "k < 2 ^ 53"
  shows "retry_baseMs r * 2 ^ a \<le> computeBackoffMs a r k \<and>
    computeBackoffMs a r k \<le> retry_baseMs r * 2 ^ a + retry_jitterMs r"
proof -
  have "int k * retry_jitterMs r \<le> 2 ^ 53 * retry_jitterMs r"
    using assms by (intro mult_right_mono) auto
  then have "(int k * retry_jitterMs r) div 2 ^ 53 \<le> (2 ^ 53 * retry_jitterMs r) div 2 ^ 53"
    by (rule zdiv_mono1) simp
  moreover have "0 \<le> (int k * retry_jitterMs r) div 2 ^ 53"
    using assms by (simp add: pos_imp_zdiv_nonneg_iff)
  ultimately show ?thesis by (simp add: computeBackoffMs_def)
qed

text \<open>What the client makes of a final outcome.\<close>

lemma judge_success:
  "resp_status r \<in> {200, 202} \<Longrightarrow> resp_text r = Inr t \<Longrightarrow>
    judge json timeout is_last (Inr r) = Finished (Ok (if t = [] then JUndef else
      (case json t of None \<Rightarrow> JStr t | Some v \<Rightarrow> v)))"
  by (auto simp: judge_def read_with_def readBody_def SUCCESS_STATUSES_def)

lemma judge_refused:
  "resp_status r \<notin> {200, 202} \<Longrightarrow> resp_status r \<notin> {500..599} \<or> is_last \<Longrightarrow> resp_text r = Inr t \<Longrightarrow>
    \<exists>v. judge json timeout is_last (Inr r) = Finished (Err (status_failure r v))"
  by (auto simp: judge_def read_with_def readBody_def SUCCESS_STATUSES_def)

section \<open>Credentials in headers\<close>

lemma auth_header_reads:
  assumes "buildAuthHeaders tok secret = Ok h"
  obtains c where "mget h ''Authorization'' = Some (''Basic '' @ c)" "base64_decode c = tok @ '':'' @ secret"
  using assms by (auto simp: buildAuthHeaders_def spread_def base64_roundtrip split: if_splits)

lemma spread_get: "map_ok b \<Longrightarrow> mget (spread a b) k = (case mget b k of None \<Rightarrow> mget a k | Some v \<Rightarrow> Some v)"
proof (induction b arbitrary: a)
  case Nil
  then show ?case by (simp add: spread_def)
next
  case (Cons p b)
  obtain k1 v1 where p: "p = (k1, v1)" by (cases p)
  have ok: "map_ok b" "mget b k1 = None"
    using Cons.prems p by (auto simp: map_ok_def map_of_eq_None_iff)
  have "spread a (p # b) = spread (mset_to k1 v1 a) b" by (simp add: spread_def p)
  then show ?case using Cons.IH [OF ok(1), of "mset_to k1 v1 a"] ok(2) by (auto simp: p split: option.split)
qed

definition is_hex_upper :: "char \<Rightarrow> bool" where
  "is_hex_upper c = List.member ''0123456789ABCDEF'' c"

lemma hex_upper_ok: "n < 16 \<Longrightarrow> is_hex_upper (hex_upper n)"
  unfolding is_hex_upper_def hex_upper_def List.member_iff by (rule nth_mem) simp

lemma encode_safe:
  assumes "c \<in> set (encodeURIComponent s)"
  shows "uri_unreserved c \<or> c = CHR ''%'' \<or> is_hex_upper c"
proof -
  have "byte c div 16 < 16" "byte c mod 16 < 16" for c using byte_less [of c] by auto
  then show ?thesis using assms
    by (auto simp: encodeURIComponent_def percent_def hex_upper_ok split: if_splits)
qed

end
