(* ===== verification/ZatcaApi.thy ===== *)
theory ZatcaApi
  imports Http Signing
begin

text \<open>
  The calls to ZATCA (\<open>core/src/api\<close>): compliance check, clearance or reporting, status, cancellation
  and the two certificate requests. Each guards its parameters, builds its headers and body and
  makes one \<open>request\<close>. The declared response types are not checked by the code: a body is a
  JavaScript value, and a field that the code only interpolates in a header is kept as its text.
\<close>

section \<open>Parameters\<close>

text \<open>\<open>httpOptions\<close>: everything of the client's options but the base URL, which it never overrides.\<close>

record HttpOverrides =
  ov_timeoutMs :: "int option"
  ov_retries :: "RetryOptions option"
  ov_defaultHeaders :: "(string, string) jsmap"

definition no_overrides :: HttpOverrides where
  "no_overrides = \<lparr>ov_timeoutMs = None, ov_retries = None, ov_defaultHeaders = []\<rparr>"

definition clientOptions :: "Environment \<Rightarrow> HttpOverrides \<Rightarrow> HttpClientOptions" where
  "clientOptions env ov = \<lparr>baseUrl = ep_base (ZATCA_ENDPOINTS env), timeoutMs = ov_timeoutMs ov,
     retries = ov_retries ov, defaultHeaders = ov_defaultHeaders ov\<rparr>"

text \<open>\<open>CheckInvoiceComplianceParams\<close> and \<open>SingleInvoiceSubmissionParams\<close> have the same fields.\<close>

record SubmissionParams =
  sub_signedInvoiceXml :: string
  sub_invoiceHash :: string
  sub_egsUuid :: string
  sub_binarySecurityToken :: string
  sub_apiSecret :: string
  sub_environment :: Environment
  sub_httpOptions :: HttpOverrides

record CheckInvoiceStatusParams =
  st_invoiceId :: string
  st_clearanceNumber :: string
  st_binarySecurityToken :: string
  st_apiSecret :: string
  st_environment :: Environment
  st_httpOptions :: HttpOverrides

record CancelInvoiceParams =
  ca_invoiceId :: string
  ca_clearanceNumber :: string
  ca_reason :: string
  ca_binarySecurityToken :: string
  ca_apiSecret :: string
  ca_environment :: Environment
  ca_httpOptions :: HttpOverrides

record IssueComplianceCertificateParams =
  cc_csr :: string
  cc_otp :: string
  cc_environment :: Environment
  cc_httpOptions :: HttpOverrides

record IssueCSIDSParams =
  cs_complianceRequestId :: jsval
  cs_binarySecurityToken :: string
  cs_apiSecret :: string
  cs_environment :: Environment
  cs_httpOptions :: HttpOverrides

text \<open>The two certificate requests have results of the same shape.\<close>

record IssuedCertificateResult =
  ic_issuedCertificate :: string
  ic_binarySecurityToken :: string
  ic_apiSecret :: string
  ic_requestId :: jsval
  ic_dispositionMessage :: jsval

section \<open>Guards\<close>

text \<open>\<open>if (!value) throw new ZatcaApiError("... is required for ...", 0)\<close>, in order.\<close>

definition api_error :: "string \<Rightarrow> error" where
  "api_error m = ZatcaApiError m 0 None None"

fun required :: "(string \<times> bool) list \<Rightarrow> string \<Rightarrow> error + unit" where
  "required [] purpose = Ok ()"
| "required ((name, present) # rest) purpose =
     (if present then required rest purpose else Err (api_error (name @ '' is required '' @ purpose)))"

text \<open>One authenticated call: guards, headers, one request.\<close>

definition api_call :: "'n network \<Rightarrow> Environment \<Rightarrow> HttpOverrides \<Rightarrow> error + (string, string) jsmap \<Rightarrow>
    http_method \<Rightarrow> string \<Rightarrow> jsval \<Rightarrow> (string \<times> string) list option \<Rightarrow> ('n, jsval) eff" where
  "api_call net env ov headers method path body query = (case headers of
       Inl e \<Rightarrow> raise e
     | Inr h \<Rightarrow> request net (clientOptions env ov)
         \<lparr>arg_method = method, arg_path = path, arg_headers = h, arg_body = body, arg_query = query\<rparr>)"

definition guarded :: "error + unit \<Rightarrow> ('n, 'a) eff \<Rightarrow> ('n, 'a) eff" where
  "guarded g m = andThen (of_result g) (\<lambda>_. m)"

definition submission_guard :: "SubmissionParams \<Rightarrow> string \<Rightarrow> error + unit" where
  "submission_guard p purpose = required
     [(''signedInvoiceXml'', sub_signedInvoiceXml p \<noteq> []), (''invoiceHash'', sub_invoiceHash p \<noteq> []),
      (''egsUuid'', sub_egsUuid p \<noteq> []), (''binarySecurityToken'', sub_binarySecurityToken p \<noteq> []),
      (''apiSecret'', sub_apiSecret p \<noteq> [])] purpose"

definition submission_body :: "SubmissionParams \<Rightarrow> jsval" where
  "submission_body p = JObj [(''invoiceHash'', JStr (sub_invoiceHash p)), (''uuid'', JStr (sub_egsUuid p)),
     (''invoice'', JStr (base64_encode (sub_signedInvoiceXml p)))]"

section \<open>Compliance check\<close>

definition checkInvoiceCompliance :: "'n network \<Rightarrow> SubmissionParams \<Rightarrow> ('n, jsval) eff" where
  "checkInvoiceCompliance net p = guarded (submission_guard p ''for compliance check'')
     (api_call net (sub_environment p) (sub_httpOptions p)
        (buildAuthHeaders (sub_binarySecurityToken p) (sub_apiSecret p))
        POST (ep_compliance (ZATCA_ENDPOINTS (sub_environment p))) (submission_body p) None)"

section \<open>Clearance and reporting\<close>

definition type_code_missing :: error where
  "type_code_missing = api_error
     (''Cannot determine invoice type: `InvoiceTypeCode` element missing from signed XML'')"

text \<open>A leaf without attributes is parsed to a string, whose \<open>@_name\<close> is undefined like a missing one.\<close>

definition isSimplifiedInvoice :: "crypto_lib \<Rightarrow> string \<Rightarrow> error + bool" where
  "isSimplifiedInvoice lib xml = (case doc_get (newXMLDocument lib xml) ''Invoice/cbc:InvoiceTypeCode'' None of
       None \<Rightarrow> Err type_code_missing
     | Some [] \<Rightarrow> Err type_code_missing
     | Some (first # _) \<Rightarrow> if \<not> truthy first then Err type_code_missing
         else (case jget first ''@_name'' of
             JStr s \<Rightarrow> Ok (startsWith ''02'' s)
           | _ \<Rightarrow> Err (api_error (''Cannot determine invoice type: `InvoiceTypeCode/@name` attribute missing''))))"

datatype submission_endpoint = Reporting | Clearance

record SingleInvoiceSubmissionResult =
  sr_endpoint :: submission_endpoint \<comment> \<open>\<open>invoiceType\<close> is simplified for \<open>Reporting\<close>\<close>
  sr_response :: jsval

definition singleInvoiceReportingOrClearanceStatus ::
  "crypto_lib \<Rightarrow> 'n network \<Rightarrow> SubmissionParams \<Rightarrow> ('n, SingleInvoiceSubmissionResult) eff" where
  "singleInvoiceReportingOrClearanceStatus lib net p = guarded (submission_guard p ''for invoice submission'')
     (andThen (of_result (isSimplifiedInvoice lib (sub_signedInvoiceXml p))) (\<lambda>simplified.
        let eps = ZATCA_ENDPOINTS (sub_environment p) in
        andThen (api_call net (sub_environment p) (sub_httpOptions p)
            (buildClearanceHeaders (sub_binarySecurityToken p) (sub_apiSecret p))
            POST (if simplified then ep_reporting eps else ep_clearance eps) (submission_body p) None) (\<lambda>response.
        ret \<lparr>sr_endpoint = (if simplified then Reporting else Clearance), sr_response = response\<rparr>)))"

section \<open>Status and cancellation\<close>

definition checkInvoiceStatus :: "'n network \<Rightarrow> CheckInvoiceStatusParams \<Rightarrow> ('n, jsval) eff" where
  "checkInvoiceStatus net p = guarded (required
       [(''invoiceId'', st_invoiceId p \<noteq> []), (''clearanceNumber'', st_clearanceNumber p \<noteq> []),
        (''binarySecurityToken'', st_binarySecurityToken p \<noteq> []), (''apiSecret'', st_apiSecret p \<noteq> [])]
       ''for status lookup'')
     (api_call net (st_environment p) (st_httpOptions p)
        (buildAuthHeaders (st_binarySecurityToken p) (st_apiSecret p)) GET
        (ep_invoiceStatus (ZATCA_ENDPOINTS (st_environment p)) @ ''/'' @ encodeURIComponent (st_invoiceId p))
        JUndef (Some [(''clearanceNumber'', st_clearanceNumber p)]))"

definition cancelInvoice :: "'n network \<Rightarrow> CancelInvoiceParams \<Rightarrow> ('n, jsval) eff" where
  "cancelInvoice net p = guarded (required
       [(''invoiceId'', ca_invoiceId p \<noteq> []), (''clearanceNumber'', ca_clearanceNumber p \<noteq> []),
        (''reason'', ca_reason p \<noteq> []), (''binarySecurityToken'', ca_binarySecurityToken p \<noteq> []),
        (''apiSecret'', ca_apiSecret p \<noteq> [])] ''for cancel'')
     (api_call net (ca_environment p) (ca_httpOptions p)
        (buildAuthHeaders (ca_binarySecurityToken p) (ca_apiSecret p)) POST
        (ep_cancelInvoice (ZATCA_ENDPOINTS (ca_environment p)) @ ''/'' @ encodeURIComponent (ca_invoiceId p))
        (JObj [(''clearanceNumber'', JStr (ca_clearanceNumber p)), (''reason'', JStr (ca_reason p))]) None)"

section \<open>Certificates\<close>

definition undefined_property :: "jsval \<Rightarrow> string \<Rightarrow> error" where
  "undefined_property v p = PlainError (''Cannot read properties of '' @ to_str v @ '' (reading '' @ quoted p @ '')'') None"

definition missing_in :: "string \<Rightarrow> string \<Rightarrow> error" where
  "missing_in what field = api_error (''ZATCA '' @ what @ '' response missing `'' @ field @ ''`'')"

text \<open>
  The checks on the raw response; \<open>wrap\<close> makes the certificate of the decoded token. A token that is
  not a string is refused by \<open>Buffer.from\<close>.
\<close>

definition read_certificate :: "string \<Rightarrow> (string \<Rightarrow> string) \<Rightarrow> jsval \<Rightarrow> error + IssuedCertificateResult" where
  "read_certificate what wrap raw =
     (if is_nullish raw then Err (undefined_property raw ''binarySecurityToken'')
      else if \<not> truthy (jget raw ''binarySecurityToken'') then Err (missing_in what ''binarySecurityToken'')
      else if \<not> truthy (jget raw ''secret'') then Err (missing_in what ''secret'')
      else if \<not> truthy (jget raw ''requestID'') then Err (missing_in what ''requestID'')
      else (case jget raw ''binarySecurityToken'' of
          JStr tok \<Rightarrow> Ok \<lparr>ic_issuedCertificate = wrap (base64_decode tok), ic_binarySecurityToken = tok,
            ic_apiSecret = to_str (jget raw ''secret''), ic_requestId = jget raw ''requestID'',
            ic_dispositionMessage = jget raw ''dispositionMessage''\<rparr>
        | _ \<Rightarrow> Err (PlainError ''The first argument must be of type string'' None)))"

definition wrapCertificatePem :: "string \<Rightarrow> string" where
  "wrapCertificatePem body = ''-----BEGIN CERTIFICATE-----'' @ nl @ body @ nl @ ''-----END CERTIFICATE-----''"

definition issueComplianceCertificate ::
  "'n network \<Rightarrow> IssueComplianceCertificateParams \<Rightarrow> ('n, IssuedCertificateResult) eff" where
  "issueComplianceCertificate net p = guarded (required [(''csr'', cc_csr p \<noteq> []), (''otp'', cc_otp p \<noteq> [])]
       ''to issue a compliance certificate'')
     (andThen (api_call net (cc_environment p) (cc_httpOptions p) (buildOtpHeaders (cc_otp p))
          POST (ep_complianceCertificate (ZATCA_ENDPOINTS (cc_environment p)))
          (JObj [(''csr'', JStr (base64_encode (cc_csr p)))]) None)
        (\<lambda>raw. of_result (read_certificate ''compliance'' wrapCertificatePem raw)))"

definition issueCSIDS :: "'n network \<Rightarrow> IssueCSIDSParams \<Rightarrow> ('n, IssuedCertificateResult) eff" where
  "issueCSIDS net p = guarded (required [(''complianceRequestId'', truthy (cs_complianceRequestId p)),
        (''binarySecurityToken'', cs_binarySecurityToken p \<noteq> []), (''apiSecret'', cs_apiSecret p \<noteq> [])]
       ''for CSID issuance'')
     (andThen (api_call net (cs_environment p) (cs_httpOptions p)
          (buildAuthHeaders (cs_binarySecurityToken p) (cs_apiSecret p))
          POST (ep_csids (ZATCA_ENDPOINTS (cs_environment p)))
          (JObj [(''compliance_request_id'', cs_complianceRequestId p)]) None)
        (\<lambda>raw. of_result (read_certificate ''CSIDS'' (\<lambda>s. s) raw)))"

end
