(* ===== verification/Server.thy ===== *)
theory Server
  imports Issue Onboarding ApiKeys Semaphore Idempotency ZatcaApi
begin

text \<open>
  What the route handlers share: the state they act on, what they are given (\<open>routes/deps.ts\<close>), how
  a reply is made, the idempotency helpers of \<open>routes/tenant-invoices.ts\<close> and
  \<open>routes/admin-onboard.ts\<close> (the two files hold the same helpers), and the error handler of
  \<open>app.ts\<close>. A handler runs as one step; its awaits are not interleaved with other requests.
  Bodies parsed by \<open>zod\<close> are arguments: a result of the parse, or the error it throws.
\<close>

section \<open>State\<close>

datatype metric = InvoicesIssued string string | InvoicesCancelled string | OnboardingTotal string

record ('s, 'n) server =
  sv_world :: world
  sv_keys :: key_rows
  sv_idem :: idem_entries
  sv_storage :: 's
  sv_net :: 'n
  sv_semaphore :: sem
  sv_metrics :: "metric list"

definition lift_act :: "('w \<Rightarrow> 'x) \<Rightarrow> ('x \<Rightarrow> 'w \<Rightarrow> 'w) \<Rightarrow> ('x, 'a) eff \<Rightarrow> ('w, 'a) eff" where
  "lift_act get put m w = (case m (get w) of (r, x) \<Rightarrow> (r, put x w))"

definition on_world :: "(world, 'a) eff \<Rightarrow> (('s, 'n) server, 'a) eff" where
  "on_world = lift_act sv_world (\<lambda>x s. s\<lparr>sv_world := x\<rparr>)"

definition on_keys :: "(key_rows, 'a) eff \<Rightarrow> (('s, 'n) server, 'a) eff" where
  "on_keys = lift_act sv_keys (\<lambda>x s. s\<lparr>sv_keys := x\<rparr>)"

definition on_idem :: "(idem_entries, 'a) eff \<Rightarrow> (('s, 'n) server, 'a) eff" where
  "on_idem = lift_act sv_idem (\<lambda>x s. s\<lparr>sv_idem := x\<rparr>)"

definition on_storage :: "('s, 'a) eff \<Rightarrow> (('s, 'n) server, 'a) eff" where
  "on_storage = lift_act sv_storage (\<lambda>x s. s\<lparr>sv_storage := x\<rparr>)"

definition on_net :: "('n, 'a) eff \<Rightarrow> (('s, 'n) server, 'a) eff" where
  "on_net = lift_act sv_net (\<lambda>x s. s\<lparr>sv_net := x\<rparr>)"

definition tenants_op :: "(tenant_rows, 'a) eff \<Rightarrow> (('s, 'n) server, 'a) eff" where
  "tenants_op m = on_world (on_tenants m)"

text \<open>A total operation that gives a value and the next state.\<close>

definition total :: "('s \<Rightarrow> 'a \<times> 's) \<Rightarrow> ('s, 'a) eff" where
  "total f s = (case f s of (a, s') \<Rightarrow> (Ok a, s'))"

section \<open>Dependencies\<close>

text \<open>
  \<open>withUnitOfWork\<close>: the pass-through of \<open>app.ts\<close> runs the body as it is; a transactional one undoes
  it when it throws.
\<close>

datatype unit_of_work_kind = Pass_through | Transactional

definition withUnitOfWork :: "unit_of_work_kind \<Rightarrow> ('w, 'a) eff \<Rightarrow> ('w, 'a) eff" where
  "withUnitOfWork k m w = (case k of Pass_through \<Rightarrow> m w
     | Transactional \<Rightarrow> (case m w of (Inl e, _) \<Rightarrow> (Inl e, w) | (Inr a, w') \<Rightarrow> (Inr a, w')))"

definition world_uow :: "unit_of_work_kind \<Rightarrow> unit_of_work" where
  "world_uow k = (case k of Pass_through \<Rightarrow> pass_through | Transactional \<Rightarrow> transactional)"

record ('s, 'n) RouteDeps =
  d_lib :: crypto_lib
  d_storage :: "'s StorageAdapter"
  d_net :: "'n network"
  d_cipher :: SecretCipher
  d_withUnitOfWork :: unit_of_work_kind
  d_adminKeys :: "AdminKeyEntry list"
  d_sha256 :: "string \<Rightarrow> string"
  d_sha256_b64url :: "string \<Rightarrow> string"
  d_scrypt :: "string \<Rightarrow> string \<Rightarrow> string"
  d_keyEnvironment :: string
  d_idempotencyWindowMs :: int
  d_onboardingTimeoutMs :: int
  d_instanceId :: string
  d_onboardFn :: "RunOnboardingArgs \<Rightarrow> EGSUnitInfo \<Rightarrow> (string \<times> bool) list \<times> (error + OnboardingResult)"
  d_getExpiry :: "string \<Rightarrow> int option"
  d_metrics :: bool \<comment> \<open>\<open>metrics !== undefined\<close>\<close>

text \<open>What the runtime supplies to one request: the clock at its start and end, ids and random bytes.\<close>

record request_env =
  re_now :: int
  re_done :: int
  re_uuid :: string
  re_issue :: Issue_env
  re_random :: "nat \<Rightarrow> string"
  re_refBytes :: "8 word list"
  re_keyRandom :: issue_random

datatype header_value = Absent | Single string | Repeated

record Req =
  req_authorization :: "string option"
  req_idempotency_key :: header_value

section \<open>Replies\<close>

text \<open>The value a handler sends, before it is serialized.\<close>

datatype reply_body = Sent_json jsval | Sent_text string | Sent_invoice InvoiceRecord | Sent_tenant TenantRecord
  | Sent_tenant_status TenantRecord   | Sent_tenants "TenantRecord list" | Sent_keys "ApiKeyListEntry list" bool | Sent_nothing

record Reply =
  rp_status :: int
  rp_headers :: "(string \<times> string) list"
  rp_body :: reply_body

definition send :: "reply_body \<Rightarrow> Reply" where
  "send b = \<lparr>rp_status = 200, rp_headers = [], rp_body = b\<rparr>"

type_synonym ('s, 'n) handler = "(('s, 'n) server, Reply) eff"

text \<open>\<open>setErrorHandler\<close>: a throw becomes the reply of the error mapper.\<close>

definition error_reply :: "error \<Rightarrow> Reply" where
  "error_reply e = (let m = mapErrorToResponse e in
     \<lparr>rp_status = statusCode m, rp_headers = response_headers m,
      rp_body = Sent_json (JObj [(''error'', JObj
        ([(''name'', JStr (body_name m)), (''message'', JStr (body_message m))]
         @ (case upstreamStatus m of None \<Rightarrow> [] | Some u \<Rightarrow> [(''upstreamStatus'', JNum (num_of_int u))])
         @ (case zatcaRequestId m of None \<Rightarrow> [] | Some r \<Rightarrow> [(''zatcaRequestId'', JStr r)])
         @ (case validationResults m of None \<Rightarrow> [] | Some v \<Rightarrow> [(''validationResults'', v)])))])\<rparr>)"

definition handle :: "('s, 'n) handler \<Rightarrow> ('s, 'n) server \<Rightarrow> Reply \<times> ('s, 'n) server" where
  "handle h s = (case h s of (Inl e, s') \<Rightarrow> (error_reply e, s') | (Inr r, s') \<Rightarrow> (r, s'))"

section \<open>Helpers of the routes\<close>

definition readIdempotencyKey :: "header_value \<Rightarrow> error + string option" where
  "readIdempotencyKey h = (case h of Absent \<Rightarrow> Ok None
     | Repeated \<Rightarrow> Err (ZatcaValidationError ''Idempotency-Key header must not be repeated.'')
     | Single raw \<Rightarrow> (let trimmed = trim raw in
         if trimmed = [] then Ok None
         else if 200 < length trimmed
         then Err (ZatcaValidationError ''Idempotency-Key header is too long (max 200 chars).'')
         else Ok (Some trimmed)))"

definition idempotency_ttl :: "('s, 'n) RouteDeps \<Rightarrow> int" where
  "idempotency_ttl deps = (if 0 < d_idempotencyWindowMs deps then d_idempotencyWindowMs deps
     else DEFAULT_IDEMPOTENCY_TTL_MS)"

datatype idem_outcome = Proceed "string option" | Answered Reply

definition replay_reply :: "CachedResponse \<Rightarrow> Reply" where
  "replay_reply r = \<lparr>rp_status = cr_statusCode r,
     rp_headers = cr_headers r @ [(''x-idempotent-replay'', ''true'')], rp_body = Sent_text (cr_body r)\<rparr>"

definition in_flight_reply :: Reply where
  "in_flight_reply = \<lparr>rp_status = 409, rp_headers = [(''retry-after'', ''30'')],
     rp_body = Sent_json (JObj [(''error'', JObj [(''name'', JStr ''IdempotencyConflict''),
       (''message'', JStr ''An idempotent request with this key is in flight; retry after a short delay.'')])])\<rparr>"

definition beginIdempotency ::
  "('s, 'n) RouteDeps \<Rightarrow> int \<Rightarrow> string option \<Rightarrow> string \<Rightarrow> string \<Rightarrow> (('s, 'n) server, idem_outcome) eff" where
  "beginIdempotency deps now idemKey ref route = (case idemKey of
       None \<Rightarrow> ret (Proceed None)
     | Some k \<Rightarrow> (let cacheKey = buildIdempotencyCacheKey (d_sha256_b64url deps) (Some ref) route k in
         andThen (on_idem (total (idem_begin now cacheKey (idempotency_ttl deps)))) (\<lambda>r. ret (case r of
           Replay resp \<Rightarrow> Answered (replay_reply resp)
         | In_flight \<Rightarrow> Answered in_flight_reply
         | Claimed \<Rightarrow> Proceed (Some cacheKey)))))"

definition commitIdempotency ::
  "('s, 'n) RouteDeps \<Rightarrow> int \<Rightarrow> string option \<Rightarrow> CachedResponse \<Rightarrow> (('s, 'n) server, unit) eff" where
  "commitIdempotency deps now cacheKey resp = (case cacheKey of None \<Rightarrow> ret ()
     | Some k \<Rightarrow> on_idem (idem_commit now k resp (idempotency_ttl deps)))"

definition releaseIdempotency :: "string option \<Rightarrow> (('s, 'n) server, unit) eff" where
  "releaseIdempotency cacheKey = (case cacheKey of None \<Rightarrow> ret ()
     | Some k \<Rightarrow> on_idem (total (\<lambda>m. ((), idem_release k m))))"

text \<open>The work of a route behind its key: released, and the error rethrown, when it throws.\<close>

definition idempotent ::
  "('s, 'n) RouteDeps \<Rightarrow> request_env \<Rightarrow> Req \<Rightarrow> string \<Rightarrow> string \<Rightarrow> (string option \<Rightarrow> ('s, 'n) handler) \<Rightarrow>
   (string option \<Rightarrow> (('s, 'n) server, unit) eff) \<Rightarrow> ('s, 'n) handler" where
  "idempotent deps re req ref route body on_error =
     andThen (of_result (readIdempotencyKey (req_idempotency_key req))) (\<lambda>key.
     andThen (beginIdempotency deps (re_now re) key ref route) (\<lambda>outcome. case outcome of
         Answered r \<Rightarrow> ret r
       | Proceed cacheKey \<Rightarrow> tryCatch (body cacheKey)
           (\<lambda>e. andThen (on_error cacheKey) (\<lambda>_. raise e))))"

definition count :: "('s, 'n) RouteDeps \<Rightarrow> metric \<Rightarrow> (('s, 'n) server, unit) eff" where
  "count deps m s = (Ok (), if d_metrics deps then s\<lparr>sv_metrics := sv_metrics s @ [m]\<rparr> else s)"

definition audit :: "request_env \<Rightarrow> AuditEntryInput \<Rightarrow> (('s, 'n) server, unit) eff" where
  "audit re i = on_world (write_audit (re_uuid re) (re_done re) i)"

definition json_headers :: "(string \<times> string) list" where
  "json_headers = [(''content-type'', ''application/json; charset=utf-8'')]"

definition stringify :: "jsval \<Rightarrow> string" where
  "stringify v = (case json_of v of None \<Rightarrow> ''undefined'' | Some s \<Rightarrow> s)"

definition adminFor :: "('s, 'n) RouteDeps \<Rightarrow> Req \<Rightarrow> error + AuditActor" where
  "adminFor deps req = map_sum id Admin (admin_verifyHeader (d_sha256 deps) (d_adminKeys deps) (req_authorization req))"

section \<open>Laws\<close>

named_theorems server_simps

lemma lift_run [server_simps]:
  "on_world m s = (case m (sv_world s) of (r, x) \<Rightarrow> (r, s\<lparr>sv_world := x\<rparr>))"
  "on_keys m1 s = (case m1 (sv_keys s) of (r, k) \<Rightarrow> (r, s\<lparr>sv_keys := k\<rparr>))"
  "on_idem m2 s = (case m2 (sv_idem s) of (r, i) \<Rightarrow> (r, s\<lparr>sv_idem := i\<rparr>))"
  "on_storage m3 s = (case m3 (sv_storage s) of (r, t) \<Rightarrow> (r, s\<lparr>sv_storage := t\<rparr>))"
  "on_net m4 s = (case m4 (sv_net s) of (r, n) \<Rightarrow> (r, s\<lparr>sv_net := n\<rparr>))"
  by (simp_all add: on_world_def on_keys_def on_idem_def on_storage_def on_net_def lift_act_def)

lemma tenants_op_run [server_simps]: "tenants_op m s = (case m (w_tenants (sv_world s)) of
    (r, t) \<Rightarrow> (r, s\<lparr>sv_world := (sv_world s)\<lparr>w_tenants := t\<rparr>\<rparr>))"
  by (simp add: tenants_op_def lift_run on_tenants_def split: prod.split)

lemma total_run [simp]: "total f s = (case f s of (a, s') \<Rightarrow> (Ok a, s'))"
  by (simp add: total_def)

lemma preserves_semaphore [preserves_intros]:
  "preserves sv_semaphore (on_world m)" "preserves sv_semaphore (on_keys m1)" "preserves sv_semaphore (on_idem m2)"
  "preserves sv_semaphore (on_storage m3)" "preserves sv_semaphore (on_net m4)" "preserves sv_semaphore (tenants_op m5)"
  "preserves sv_semaphore (count deps m6)"
  by (auto simp: preserves_def server_simps count_def split: prod.split)

lemma preserves_idempotent [preserves_intros]:
  assumes "\<And>k. preserves sv_semaphore (body k)" "\<And>k. preserves sv_semaphore (on_error k)"
  shows "preserves sv_semaphore (idempotent deps re req ref route body on_error)"
  unfolding idempotent_def beginIdempotency_def Let_def using assms
  by (auto intro!: preserves_intros split: option.split idem_outcome.split)

end
