(* ===== verification/InvoiceRoutes.thy ===== *)
theory InvoiceRoutes
  imports Server
begin

text \<open>
  The tenant's invoice routes (\<open>server/src/routes/tenant-invoices.ts\<close>): issue and submit, read, cancel,
  status and compliance check. The issue route reads its body's \<open>input\<close> as an \<open>InvoiceInput\<close> without
  checking it, as the code's cast does.
\<close>

section \<open>Authentication\<close>

definition not_ready :: "string \<Rightarrow> TenantState \<Rightarrow> error" where
  "not_ready ref st = ZatcaValidationError (''Tenant '' @ quoted ref
     @ '' is not production-ready (current state: '' @ quoted (tenant_state_str st) @ '').'')"

definition no_material :: "string \<Rightarrow> error" where
  "no_material ref = ZatcaValidationError (''Tenant '' @ quoted ref
     @ '' has no signing material persisted; re-run onboarding.'')"

definition authTenant :: "('s, 'n) RouteDeps \<Rightarrow> request_env \<Rightarrow> Req \<Rightarrow> string \<Rightarrow>
    (('s, 'n) server, AuditActor \<times> TenantRecord \<times> SignerMaterial) eff" where
  "authTenant deps re req ref =
     andThen (on_keys (tenant_verify (d_scrypt deps) (d_keyEnvironment deps) (re_now re) (req_authorization req) ref)) (\<lambda>resolved.
     andThen (tenants_op (tenant_get ref)) (\<lambda>t. case t of
         None \<Rightarrow> raise (unknown_tenant ref)
       | Some tenant \<Rightarrow> if t_state tenant \<noteq> Production_ready then raise (not_ready ref (t_state tenant))
         else andThen (on_world (\<lambda>w. (vault_get (d_cipher deps) ref (w_vault w), w))) (\<lambda>m. case m of
             None \<Rightarrow> raise (no_material ref)
           | Some signing \<Rightarrow> ret (TenantActor (resolved_tenantRef resolved) (resolved_tokenId resolved), tenant, signing))))"

section \<open>Issue\<close>

record IssueBody =
  ib_input :: InvoiceInput
  ib_submit :: bool

definition phase1_submit :: "InvoiceKind \<Rightarrow> error" where
  "phase1_submit kind = ZatcaValidationError (''submit=true is incompatible with Phase 1 invoice kind ''
     @ quoted (kind_str kind) @ ''. Phase 1 invoices have no signed XML to clear/report; pass submit=false ''
     @ ''or use a Phase 2 kind (e.g. '' @ quoted ''simplified-tax-invoice'' @ '').'')"

text \<open>What became of the submission: the status, the response and ZATCA's request id.\<close>

record submission_outcome =
  so_status :: string
  so_response :: jsval
  so_requestId :: "string option"

definition not_submitted :: submission_outcome where
  "not_submitted = \<lparr>so_status = ''pending'', so_response = JNull, so_requestId = None\<rparr>"

definition result_json :: "SingleInvoiceSubmissionResult \<Rightarrow> jsval" where
  "result_json r = (case sr_endpoint r of
       Reporting \<Rightarrow> JObj [(''endpoint'', JStr ''reporting''), (''invoiceType'', JStr ''simplified''), (''response'', sr_response r)]
     | Clearance \<Rightarrow> JObj [(''endpoint'', JStr ''clearance''), (''invoiceType'', JStr ''standard''), (''response'', sr_response r)])"

definition submission_of :: "TenantRecord \<Rightarrow> SignerMaterial \<Rightarrow> string \<Rightarrow> string \<Rightarrow> SubmissionParams" where
  "submission_of tenant signing xml hash = \<lparr>sub_signedInvoiceXml = xml, sub_invoiceHash = hash,
     sub_egsUuid = t_egsUuid tenant, sub_binarySecurityToken = m_productionBinarySecurityToken signing,
     sub_apiSecret = m_productionApiSecret signing, sub_environment = t_environment tenant,
     sub_httpOptions = no_overrides\<rparr>"

text \<open>An API error means that ZATCA rejected the invoice; any other error is rethrown.\<close>

definition submit_invoice :: "('s, 'n) RouteDeps \<Rightarrow> TenantRecord \<Rightarrow> SignerMaterial \<Rightarrow> IssuedInvoice \<Rightarrow>
    (('s, 'n) server, submission_outcome) eff" where
  "submit_invoice deps tenant signing issued = tryCatch
     (andThen (on_net (singleInvoiceReportingOrClearanceStatus (d_lib deps) (d_net deps)
          (submission_of tenant signing (issued_signedXml issued) (issued_invoiceHash issued)))) (\<lambda>r.
        ret \<lparr>so_status = ''accepted'', so_response = result_json r, so_requestId = None\<rparr>))
     (\<lambda>e. case e of
         ZatcaApiError m st results reqId \<Rightarrow> ret \<lparr>so_status = ''rejected'',
           so_response = (case results of None \<Rightarrow> JUndef | Some v \<Rightarrow> v), so_requestId = reqId\<rparr>
       | _ \<Rightarrow> raise e)"

definition outcome_status :: "submission_outcome \<Rightarrow> InvoiceStatus" where
  "outcome_status o1 = (if so_status o1 = ''accepted'' then Accepted
     else if so_status o1 = ''rejected'' then Rejected else Pending)"

text \<open>The submission and the status update, under the invoice number: an issued invoice has no \<open>invoiceId\<close>.\<close>

definition submit_and_mark :: "('s, 'n) RouteDeps \<Rightarrow> TenantRecord \<Rightarrow> SignerMaterial \<Rightarrow> bool \<Rightarrow> issued \<Rightarrow>
    (('s, 'n) server, submission_outcome) eff" where
  "submit_and_mark deps tenant signing submit issued = (case issued of
       Issued2 i \<Rightarrow> if \<not> submit then ret not_submitted
         else andThen (submit_invoice deps tenant signing i) (\<lambda>o1.
              andThen (on_storage (updateInvoiceStatus (d_storage deps) (toTenantScope tenant)
                 (issued_number issued) (outcome_status o1))) (\<lambda>_.
              ret o1))
     | Issued1 i \<Rightarrow> ret not_submitted)"

definition issued_body :: "issued \<Rightarrow> submission_outcome \<Rightarrow> jsval" where
  "issued_body issued o1 = JObj
     [(''invoiceNumber'', JStr (issued_number issued)), (''sequence'', JNum (num_of_int (issued_seq issued))),
      (''invoiceHash'', case issued of Issued2 i \<Rightarrow> JStr (issued_invoiceHash i) | Issued1 _ \<Rightarrow> JUndef),
      (''signedXml'', case issued of Issued2 i \<Rightarrow> JStr (issued_signedXml i) | Issued1 _ \<Rightarrow> JUndef),
      (''qrCode'', case issued of Issued2 i \<Rightarrow> JStr (issued_qrCode i) | Issued1 i \<Rightarrow> JStr (issued1_qrCode i)),
      (''status'', JStr (so_status o1)), (''zatcaResponse'', so_response o1)]"

definition issued_audit :: "AuditActor \<Rightarrow> TenantRecord \<Rightarrow> IssueBody \<Rightarrow> issued \<Rightarrow> submission_outcome \<Rightarrow> AuditEntryInput" where
  "issued_audit actor tenant body issued o1 = \<lparr>a_actor = actor, a_tenantRef = Some (tenantRef tenant),
     a_action = ''invoice.issued'', a_targetId = Some (issued_number issued),
     a_result_ok = (so_status o1 \<noteq> ''rejected''), a_zatcaRequestId = so_requestId o1, a_requestId = None,
     a_payload = Some (redactSecrets (JObj [(''kind'', JStr (kind_str (inv_kind (ib_input body)))),
       (''submitted'', JBool (ib_submit body)), (''status'', JStr (so_status o1))]))\<rparr>"

definition zatca_id_header :: "submission_outcome \<Rightarrow> (string \<times> string) list" where
  "zatca_id_header o1 = (case so_requestId o1 of None \<Rightarrow> [] | Some r \<Rightarrow> [(''X-Zatca-Request-Id'', r)])"

definition signing_keys :: "SignerMaterial \<Rightarrow> Signing_keys" where
  "signing_keys m = \<lparr>key_certificate = m_productionCertificate m, key_privateKey = m_privateKey m\<rparr>"

text \<open>The part of the route that runs with the idempotency key claimed.\<close>

definition issue_work :: "('s, 'n) RouteDeps \<Rightarrow> request_env \<Rightarrow> AuditActor \<Rightarrow> TenantRecord \<Rightarrow> SignerMaterial \<Rightarrow>
    IssueBody \<Rightarrow> string option \<Rightarrow> ('s, 'n) handler" where
  "issue_work deps re actor tenant signing body cacheKey =
     (if ib_submit body \<and> phase1_kind (inv_kind (ib_input body))
      then raise (phase1_submit (inv_kind (ib_input body)))
      else
        andThen (on_storage (issueInvoice (d_lib deps) (d_storage deps) (re_issue re) (ib_input body)
           (toTenantScope tenant) (Some (signing_keys signing)))) (\<lambda>issued.
        andThen (submit_and_mark deps tenant signing (ib_submit body) issued) (\<lambda>o1.
        andThen (count deps (InvoicesIssued (kind_str (inv_kind (ib_input body))) (so_status o1))) (\<lambda>_.
        andThen (audit re (issued_audit actor tenant body issued o1)) (\<lambda>_.
        andThen (commitIdempotency deps (re_done re) cacheKey \<lparr>cr_statusCode = 200,
            cr_headers = json_headers @ zatca_id_header o1, cr_body = stringify (issued_body issued o1)\<rparr>) (\<lambda>_.
        ret ((send (Sent_json (issued_body issued o1)))\<lparr>rp_headers := zatca_id_header o1\<rparr>)))))))"

definition issue_route :: string where
  "issue_route = ''/v1/tenants/:ref/invoices''"

definition post_invoice :: "('s, 'n) RouteDeps \<Rightarrow> request_env \<Rightarrow> Req \<Rightarrow> string \<Rightarrow> error + IssueBody \<Rightarrow> ('s, 'n) handler" where
  "post_invoice deps re req ref parsed =
     andThen (authTenant deps re req ref) (\<lambda>(actor, tenant, signing).
     andThen (of_result parsed) (\<lambda>body.
       idempotent deps re req ref issue_route (issue_work deps re actor tenant signing body) releaseIdempotency))"

section \<open>Read\<close>

definition no_invoice :: "string \<Rightarrow> error" where
  "no_invoice i = ZatcaRegistryError (''Unknown invoice '' @ quoted i @ ''.'') (Some Not_found)"

definition require_invoice :: "('s, 'n) RouteDeps \<Rightarrow> TenantRecord \<Rightarrow> string \<Rightarrow> (('s, 'n) server, InvoiceRecord) eff" where
  "require_invoice deps tenant invoiceId =
     andThen (on_storage (loadInvoice (d_storage deps) (toTenantScope tenant) invoiceId)) (\<lambda>r.
       case r of None \<Rightarrow> raise (no_invoice invoiceId) | Some record \<Rightarrow> ret record)"

definition get_invoice :: "('s, 'n) RouteDeps \<Rightarrow> request_env \<Rightarrow> Req \<Rightarrow> string \<Rightarrow> string \<Rightarrow> ('s, 'n) handler" where
  "get_invoice deps re req ref invoiceId =
     andThen (authTenant deps re req ref) (\<lambda>(actor, tenant, signing).
     andThen (require_invoice deps tenant invoiceId) (\<lambda>r. ret (send (Sent_invoice r))))"

section \<open>Cancel\<close>

record CancelBody =
  cb_reason :: string
  cb_zatcaInvoiceId :: "string option"
  cb_clearanceNumber :: "string option"

definition no_clearance :: "string \<Rightarrow> string \<Rightarrow> error" where
  "no_clearance i hint = ZatcaValidationError (''Invoice '' @ quoted i @ '' has no clearanceNumber on the local record. '' @ hint)"

definition cancel_hint :: string where
  "cancel_hint = ''Provide one in the request body, or cancel a standard invoice that has been cleared by ZATCA.''"

definition cancel_audit :: "AuditActor \<Rightarrow> TenantRecord \<Rightarrow> string \<Rightarrow> string \<Rightarrow> bool \<Rightarrow> string option \<Rightarrow> AuditEntryInput" where
  "cancel_audit actor tenant invoiceId reason ok reqId = \<lparr>a_actor = actor, a_tenantRef = Some (tenantRef tenant),
     a_action = ''invoice.cancelled'', a_targetId = Some invoiceId, a_result_ok = ok,
     a_zatcaRequestId = reqId, a_requestId = None,
     a_payload = Some (redactSecrets (JObj [(''reason'', JStr reason)]))\<rparr>"

definition api_request_id :: "error \<Rightarrow> string option" where
  "api_request_id e = (case e of ZatcaApiError m st v reqId \<Rightarrow> reqId | _ \<Rightarrow> None)"

text \<open>\<open>finally\<close>: counted and audited with the outcome, which is then returned or rethrown.\<close>

definition record_cancel :: "('s, 'n) RouteDeps \<Rightarrow> request_env \<Rightarrow> AuditActor \<Rightarrow> TenantRecord \<Rightarrow> string \<Rightarrow> string \<Rightarrow> bool \<Rightarrow>
    string option \<Rightarrow> (('s, 'n) server, unit) eff" where
  "record_cancel deps re actor tenant invoiceId reason ok reqId =
     andThen (count deps (InvoicesCancelled (if ok then ''ok'' else ''error''))) (\<lambda>_.
       audit re (cancel_audit actor tenant invoiceId reason ok reqId))"

definition cancel_work :: "('s, 'n) RouteDeps \<Rightarrow> TenantRecord \<Rightarrow> SignerMaterial \<Rightarrow> string \<Rightarrow> string \<Rightarrow> string \<Rightarrow> string \<Rightarrow>
    (('s, 'n) server, jsval) eff" where
  "cancel_work deps tenant signing invoiceId zatcaId clearance reason =
     andThen (on_net (cancelInvoice (d_net deps) \<lparr>ca_invoiceId = zatcaId, ca_clearanceNumber = clearance,
        ca_reason = reason, ca_binarySecurityToken = m_productionBinarySecurityToken signing,
        ca_apiSecret = m_productionApiSecret signing, ca_environment = t_environment tenant,
        ca_httpOptions = no_overrides\<rparr>)) (\<lambda>result.
     andThen (on_storage (updateInvoiceStatus (d_storage deps) (toTenantScope tenant) invoiceId Cancelled)) (\<lambda>_.
     ret result))"

definition post_cancel :: "('s, 'n) RouteDeps \<Rightarrow> request_env \<Rightarrow> Req \<Rightarrow> string \<Rightarrow> string \<Rightarrow> error + CancelBody \<Rightarrow> ('s, 'n) handler" where
  "post_cancel deps re req ref invoiceId parsed =
     andThen (authTenant deps re req ref) (\<lambda>(actor, tenant, signing).
     andThen (of_result parsed) (\<lambda>body.
     andThen (require_invoice deps tenant invoiceId) (\<lambda>record.
       case or_keep (cb_clearanceNumber body) (rec_clearanceNumber record) of
         None \<Rightarrow> raise (no_clearance invoiceId cancel_hint)
       | Some clearance \<Rightarrow>
           andThen (tryCatch
             (cancel_work deps tenant signing invoiceId (or_else (cb_zatcaInvoiceId body) (rec_invoiceId record))
                clearance (cb_reason body))
             (\<lambda>e. andThen (record_cancel deps re actor tenant invoiceId (cb_reason body) False (api_request_id e))
                (\<lambda>_. raise e))) (\<lambda>result.
           andThen (record_cancel deps re actor tenant invoiceId (cb_reason body) True None) (\<lambda>_.
           ret (send (Sent_json (JObj [(''status'', JStr ''cancelled''), (''zatcaResponse'', result)]))))))))"

section \<open>Status and compliance\<close>

record StatusQuery =
  sq_zatcaInvoiceId :: "string option"
  sq_clearanceNumber :: "string option"

definition status_hint :: string where
  "status_hint = ''Provide one as a query parameter, or check the status of an invoice that has been cleared by ZATCA.''"

fun status_str :: "InvoiceStatus \<Rightarrow> string" where
  "status_str Pending = ''pending''"
| "status_str Submitted = ''submitted''"
| "status_str Accepted = ''accepted''"
| "status_str Rejected = ''rejected''"
| "status_str Cancelled = ''cancelled''"

definition get_status :: "('s, 'n) RouteDeps \<Rightarrow> request_env \<Rightarrow> Req \<Rightarrow> string \<Rightarrow> string \<Rightarrow> error + StatusQuery \<Rightarrow> ('s, 'n) handler" where
  "get_status deps re req ref invoiceId parsed =
     andThen (authTenant deps re req ref) (\<lambda>(actor, tenant, signing).
     andThen (require_invoice deps tenant invoiceId) (\<lambda>record.
     andThen (of_result parsed) (\<lambda>query.
       case or_keep (sq_clearanceNumber query) (rec_clearanceNumber record) of
         None \<Rightarrow> raise (no_clearance invoiceId status_hint)
       | Some clearance \<Rightarrow>
           andThen (on_net (checkInvoiceStatus (d_net deps)
             \<lparr>st_invoiceId = or_else (sq_zatcaInvoiceId query) (rec_invoiceId record), st_clearanceNumber = clearance,
              st_binarySecurityToken = m_productionBinarySecurityToken signing,
              st_apiSecret = m_productionApiSecret signing, st_environment = t_environment tenant,
              st_httpOptions = no_overrides\<rparr>)) (\<lambda>result.
           ret (send (Sent_json (JObj [(''localStatus'', JStr (status_str (rec_status record))),
             (''zatcaResponse'', result)])))))))"

definition post_check_compliance :: "('s, 'n) RouteDeps \<Rightarrow> request_env \<Rightarrow> Req \<Rightarrow> string \<Rightarrow> string \<Rightarrow> ('s, 'n) handler" where
  "post_check_compliance deps re req ref invoiceId =
     andThen (authTenant deps re req ref) (\<lambda>(actor, tenant, signing).
     andThen (require_invoice deps tenant invoiceId) (\<lambda>record.
     andThen (on_net (checkInvoiceCompliance (d_net deps)
        (submission_of tenant signing (rec_signedXml record) (rec_invoiceHash record)))) (\<lambda>result.
     ret (send (Sent_json result)))))"

section \<open>Laws of the invoice routes\<close>

lemma authTenant_ok:
  assumes "authTenant deps re req ref s = (Ok (actor, tenant, signing), s')"
  obtains k ks where "tenant_verify (d_scrypt deps) (d_keyEnvironment deps) (re_now re) (req_authorization req) ref (sv_keys s)
      = (Ok k, ks)" "visible ref (w_tenants (sv_world s)) = Some tenant" "t_state tenant = Production_ready"
    "vault_get (d_cipher deps) ref (w_vault (sv_world s)) = Ok (Some signing)" "s' = s\<lparr>sv_keys := ks\<rparr>"
    "actor = TenantActor (resolved_tenantRef k) (resolved_tokenId k)"
  using assms
  by (auto simp: authTenant_def andThen_run server_simps tenant_get_def split: prod.splits sum.splits option.splits if_splits)

lemma authTenant_frame:
  assumes "authTenant deps re req ref s = (x, s')"
  obtains ks where "s' = s\<lparr>sv_keys := ks\<rparr>"
  using assms
  by (auto simp: authTenant_def andThen_run server_simps tenant_get_def split: prod.splits sum.splits option.splits if_splits)

lemma authTenant_denied:
  "tenant_verify (d_scrypt deps) (d_keyEnvironment deps) (re_now re) (req_authorization req) ref (sv_keys s) = (Err e, ks) \<Longrightarrow>
    authTenant deps re req ref s = (Err e, s\<lparr>sv_keys := ks\<rparr>)"
  by (simp add: authTenant_def andThen_run server_simps)

lemma submit_invoice_frame:
  assumes "submit_invoice deps tenant signing i s = (x, s')"
  shows "s' = s\<lparr>sv_net := snd (singleInvoiceReportingOrClearanceStatus (d_lib deps) (d_net deps)
    (submission_of tenant signing (issued_signedXml i) (issued_invoiceHash i)) (sv_net s))\<rparr>"
  using assms
  by (auto simp: submit_invoice_def tryCatch_run andThen_run server_simps split: prod.splits sum.splits error.splits)

lemma submit_invoice_ok:
  assumes "singleInvoiceReportingOrClearanceStatus (d_lib deps) (d_net deps)
    (submission_of tenant signing (issued_signedXml i) (issued_invoiceHash i)) (sv_net s) = (Ok r, n)"
  shows "submit_invoice deps tenant signing i s = (Ok \<lparr>so_status = ''accepted'', so_response = result_json r,
    so_requestId = None\<rparr>, s\<lparr>sv_net := n\<rparr>)"
  by (simp add: submit_invoice_def tryCatch_run andThen_run server_simps assms)

lemma submit_invoice_api_error:
  assumes "singleInvoiceReportingOrClearanceStatus (d_lib deps) (d_net deps)
    (submission_of tenant signing (issued_signedXml i) (issued_invoiceHash i)) (sv_net s) = (Err (ZatcaApiError m st v q), n)"
  shows "submit_invoice deps tenant signing i s = (Ok \<lparr>so_status = ''rejected'',
    so_response = (case v of None \<Rightarrow> JUndef | Some x \<Rightarrow> x), so_requestId = q\<rparr>, s\<lparr>sv_net := n\<rparr>)"
  by (simp add: submit_invoice_def tryCatch_run andThen_run server_simps assms)

lemma submit_and_mark_frame:
  assumes "submit_and_mark deps tenant signing b i s = (x, s')"
  shows "sv_world s' = sv_world s \<and> sv_keys s' = sv_keys s \<and> sv_idem s' = sv_idem s \<and> sv_semaphore s' = sv_semaphore s"
  using assms
  by (auto simp: submit_and_mark_def andThen_run server_simps dest!: submit_invoice_frame
      split: prod.splits sum.splits issued.splits if_splits)

text \<open>Work that returns has committed its body under the key.\<close>

lemma issue_work_commits:
  assumes "issue_work deps re actor tenant signing body (Some ck) s = (Ok reply, s')"
  obtains b hs where "rp_body reply = Sent_json b"
    "idem_commit (re_done re) ck \<lparr>cr_statusCode = 200, cr_headers = hs, cr_body = stringify b\<rparr> (idempotency_ttl deps) (sv_idem s)
      = (Ok (), sv_idem s')" "sv_keys s' = sv_keys s"
proof -
  obtain issued s1 o1 s2 s3 s4 where iss: "on_storage (issueInvoice (d_lib deps) (d_storage deps) (re_issue re)
        (ib_input body) (toTenantScope tenant) (Some (signing_keys signing))) s = (Ok issued, s1)"
    and mark: "submit_and_mark deps tenant signing (ib_submit body) issued s1 = (Ok o1, s2)"
    and cnt: "count deps (InvoicesIssued (kind_str (inv_kind (ib_input body))) (so_status o1)) s2 = (Ok (), s3)"
    and aud: "audit re (issued_audit actor tenant body issued o1) s3 = (Ok (), s4)"
    and com: "commitIdempotency deps (re_done re) (Some ck) \<lparr>cr_statusCode = 200,
        cr_headers = json_headers @ zatca_id_header o1, cr_body = stringify (issued_body issued o1)\<rparr> s4 = (Ok (), s')"
    and reply: "reply = (send (Sent_json (issued_body issued o1)))\<lparr>rp_headers := zatca_id_header o1\<rparr>"
    using assms by (auto simp: issue_work_def elim!: andThen_okE split: if_splits)
  have keep: "sv_idem s4 = sv_idem s \<and> sv_keys s4 = sv_keys s"
    using iss cnt aud submit_and_mark_frame [OF mark]
    by (auto simp: count_def audit_def write_audit_def server_simps split: prod.splits)
  show ?thesis using com keep
    by (intro that [of "issued_body issued o1" "json_headers @ zatca_id_header o1"])
      (auto simp: reply send_def commitIdempotency_def server_simps split: prod.splits)
qed

lemma post_invoice_run:
  assumes "authTenant deps re req ref s = (Ok (actor, tenant, signing), s1)"
  shows "post_invoice deps re req ref (Ok body) s =
    idempotent deps re req ref issue_route (issue_work deps re actor tenant signing body) releaseIdempotency s1"
  using assms by (simp add: post_invoice_def andThen_run)

definition cache_key :: "('s, 'n) RouteDeps \<Rightarrow> string \<Rightarrow> string \<Rightarrow> string" where
  "cache_key deps ref k = buildIdempotencyCacheKey (d_sha256_b64url deps) (Some ref) issue_route k"

lemma idempotent_claimed:
  assumes "readIdempotencyKey (req_idempotency_key req) = Ok (Some k)"
    "fst (idem_begin (re_now re) (cache_key deps ref k) (idempotency_ttl deps) (sv_idem s)) = Claimed"
  shows "idempotent deps re req ref issue_route body on_error s =
    tryCatch (body (Some (cache_key deps ref k))) (\<lambda>e. andThen (on_error (Some (cache_key deps ref k))) (\<lambda>_. raise e))
      (s\<lparr>sv_idem := snd (idem_begin (re_now re) (cache_key deps ref k) (idempotency_ttl deps) (sv_idem s))\<rparr>)"
  using assms
  by (cases "idem_begin (re_now re) (cache_key deps ref k) (idempotency_ttl deps) (sv_idem s)")
    (simp add: idempotent_def andThen_run beginIdempotency_def cache_key_def Let_def server_simps)

lemma idempotent_replay:
  assumes "readIdempotencyKey (req_idempotency_key req) = Ok (Some k)"
    "fst (idem_begin (re_now re) (cache_key deps ref k) (idempotency_ttl deps) (sv_idem s)) = Replay r"
  shows "idempotent deps re req ref issue_route body on_error s = (Ok (replay_reply r),
    s\<lparr>sv_idem := snd (idem_begin (re_now re) (cache_key deps ref k) (idempotency_ttl deps) (sv_idem s))\<rparr>)"
  using assms
  by (cases "idem_begin (re_now re) (cache_key deps ref k) (idempotency_ttl deps) (sv_idem s)")
    (simp add: idempotent_def andThen_run beginIdempotency_def cache_key_def Let_def server_simps)

text \<open>The release on the error path frees the key and keeps everything else.\<close>

lemma release_run: "releaseIdempotency (Some ck) s = (Ok (), s\<lparr>sv_idem := idem_release ck (sv_idem s)\<rparr>)"
  by (simp add: releaseIdempotency_def server_simps)

lemma mark_unknown:
  assumes "d_storage deps = createMemoryStorageAdapter fmt now"
    "mem_row (toTenantScope tenant) (issued_invoiceNumber i) (sv_storage s) = None"
  shows "case singleInvoiceReportingOrClearanceStatus (d_lib deps) (d_net deps)
        (submission_of tenant signing (issued_signedXml i) (issued_invoiceHash i)) (sv_net s) of (sub, n) \<Rightarrow>
    \<exists>e. submit_and_mark deps tenant signing True (Issued2 i) s = (Err e, s\<lparr>sv_net := n\<rparr>) \<and>
      (is_ok sub \<longrightarrow> e = unknown_invoice (issued_invoiceNumber i))"
proof -
  obtain x s' where sub: "submit_invoice deps tenant signing i s = (x, s')" by fastforce
  obtain sb n where one: "singleInvoiceReportingOrClearanceStatus (d_lib deps) (d_net deps)
        (submission_of tenant signing (issued_signedXml i) (issued_invoiceHash i)) (sv_net s) = (sb, n)" by fastforce
  have s': "s' = s\<lparr>sv_net := n\<rparr>" using submit_invoice_frame [OF sub] one by simp
  have up: "updateInvoiceStatus (d_storage deps) (toTenantScope tenant) (issued_invoiceNumber i) st (sv_storage s)
      = (Err (unknown_invoice (issued_invoiceNumber i)), sv_storage s)" for st
    using memory.update_unknown [OF assms(2), of fmt now st] by (simp add: assms(1))
  show ?thesis
  proof (cases x)
    case (Inl e)
    then have "\<not> is_ok sb" using sub one submit_invoice_ok [of deps tenant signing i s _ n] by (cases sb) auto
    then show ?thesis using Inl sub s' one by (simp add: submit_and_mark_def andThen_run)
  next
    case (Inr o1)
    then show ?thesis using sub s' one up by (simp add: submit_and_mark_def andThen_run server_simps)
  qed
qed

end
