(* ===== verification/Validation.thy ===== *)
theory Validation
  imports Errors
begin

text \<open>
  The guards and casts of the branded strings (\<open>core/src/validation/vat-number.ts\<close>, \<open>crn.ts\<close>,
  \<open>uuid.ts\<close>). Each regular expression is anchored, so it is a condition on the whole string.
\<close>

definition isVATNumber :: "string \<Rightarrow> bool" where \<comment> \<open>\<open>/^3\d{13}3$/\<close>\<close>
  "isVATNumber s = (length s = 15 \<and> hd s = CHR ''3'' \<and> last s = CHR ''3'' \<and> list_all is_digit s)"

definition asVATNumber :: "string \<Rightarrow> error + string" where
  "asVATNumber s = (if isVATNumber s then Ok s else Err (ZatcaValidationError
     (''Invalid VAT number: '' @ s @ ''. Expected 15 digits starting and ending with 3.'')))"

definition isCommercialRegistrationNumber :: "string \<Rightarrow> bool" where \<comment> \<open>\<open>/^\d{10}$/\<close>\<close>
  "isCommercialRegistrationNumber s = (length s = 10 \<and> list_all is_digit s)"

definition asCommercialRegistrationNumber :: "string \<Rightarrow> error + string" where
  "asCommercialRegistrationNumber s = (if isCommercialRegistrationNumber s then Ok s
     else Err (ZatcaValidationError (''Invalid commercial registration number: '' @ s @ ''. Expected 10 digits.'')))"

definition is_hex :: "char \<Rightarrow> bool" where \<comment> \<open>\<open>[0-9a-f]\<close> under the flag \<open>i\<close>\<close>
  "is_hex c = (is_digit c \<or> List.member ''abcdef'' (to_lower_char c))"

text \<open>Position by position: the four hyphens, the version digit, the variant digit, hexadecimal digits.\<close>

definition uuid_at :: "nat \<Rightarrow> char \<Rightarrow> bool" where
  "uuid_at i c = (if List.member [8, 13, 18, 23] i then c = CHR ''-''
     else if i = 14 then c = CHR ''4''
     else if i = 19 then List.member ''89ab'' (to_lower_char c)
     else is_hex c)"

definition isUuidV4 :: "string \<Rightarrow> bool" where
  "isUuidV4 s = (length s = 36 \<and> list_all (\<lambda>(i, c). uuid_at i c) (zip [0..<36] s))"

definition asInvoiceUUID :: "string \<Rightarrow> error + string" where
  "asInvoiceUUID s = (if isUuidV4 s then Ok s else Err (ZatcaValidationError
     (''Invalid invoice UUID: '' @ s @ ''. Expected UUID v4 (8-4-4-4-12 hex).'')))"

definition asEGSUuid :: "string \<Rightarrow> error + string" where
  "asEGSUuid s = (if isUuidV4 s then Ok s else Err (ZatcaValidationError
     (''Invalid EGS UUID: '' @ s @ ''. Expected UUID v4 (8-4-4-4-12 hex).'')))"

section \<open>What the guards exclude\<close>

text \<open>Scopes, references and cache keys are joined with \<open>:\<close>; no validated string holds one.\<close>

lemma digit_not_colon: "\<not> is_digit (CHR '':'')"
  by (simp add: is_digit_def)

lemma vat_no_colon: "isVATNumber s \<Longrightarrow> CHR '':'' \<notin> set s"
  using digit_not_colon by (auto simp: isVATNumber_def list_all_iff)

lemma uuid_at_not_colon: "\<not> uuid_at i (CHR '':'')"
  by (simp add: uuid_at_def is_hex_def to_lower_char_def is_upper_def is_digit_def)

lemma uuid_no_colon:
  assumes "isUuidV4 s"
  shows "CHR '':'' \<notin> set s"
proof
  assume "CHR '':'' \<in> set s"
  then obtain i where i: "i < length s" "s ! i = CHR '':''" by (auto simp: in_set_conv_nth)
  then have "(i, s ! i) \<in> set (zip [0..<36] s)"
    using assms by (auto simp: isUuidV4_def set_zip intro!: exI [of _ i])
  then show False using assms i(2) uuid_at_not_colon by (auto simp: isUuidV4_def list_all_iff)
qed

end
