(* ===== verification/AdminRoutes.thy ===== *)
theory AdminRoutes
  imports Server Validation
begin

text \<open>
  The admin routes of the server: tenants (\<open>routes/admin-tenants.ts\<close>), API keys
  (\<open>routes/admin-api-keys.ts\<close>) and onboarding (\<open>routes/admin-onboard.ts\<close>). A body is what \<open>zod\<close>
  made of it, or the error of the parse. Socket timeouts are left out.
\<close>

text \<open>Every route of this file starts with the admin check.\<close>

definition as_admin :: "('s, 'n) RouteDeps \<Rightarrow> Req \<Rightarrow> (AuditActor \<Rightarrow> ('s, 'n) handler) \<Rightarrow> ('s, 'n) handler" where
  "as_admin deps req h = andThen (of_result (adminFor deps req)) h"

definition require_tenant :: "string \<Rightarrow> (('s, 'n) server, TenantRecord) eff" where
  "require_tenant ref = andThen (tenants_op (tenant_get ref)) (\<lambda>t.
     case t of None \<Rightarrow> raise (unknown_tenant ref) | Some r \<Rightarrow> ret r)"

definition admin_audit :: "AuditActor \<Rightarrow> string \<Rightarrow> string \<Rightarrow> string \<Rightarrow> jsval option \<Rightarrow> AuditEntryInput" where
  "admin_audit actor ref action target payload = \<lparr>a_actor = actor, a_tenantRef = Some ref, a_action = action,
     a_targetId = Some target, a_result_ok = True, a_zatcaRequestId = None, a_requestId = None,
     a_payload = payload\<rparr>"

definition no_content :: Reply where
  "no_content = \<lparr>rp_status = 204, rp_headers = [], rp_body = Sent_nothing\<rparr>"

section \<open>Tenants\<close>

text \<open>The body has the fields of \<open>CreateTenantInput\<close>, not validated beyond being present.\<close>

definition validated_tenant :: "CreateTenantInput \<Rightarrow> error + CreateTenantInput" where
  "validated_tenant b = (case asVATNumber (new_vatNumber b) of Inl e \<Rightarrow> Err e | Inr _ \<Rightarrow>
     (case asEGSUuid (new_egsUuid b) of Inl e \<Rightarrow> Err e | Inr _ \<Rightarrow>
     (case asCommercialRegistrationNumber (new_crn b) of Inl e \<Rightarrow> Err e | Inr _ \<Rightarrow> Ok b)))"

definition created_payload :: "TenantRecord \<Rightarrow> jsval" where
  "created_payload r = redactSecrets (JObj [(''environment'', JStr (env_str (t_environment r))),
     (''vatNumber'', JStr (t_vatNumber r)), (''egsUuid'', JStr (t_egsUuid r))])"

definition post_tenant :: "('s, 'n) RouteDeps \<Rightarrow> request_env \<Rightarrow> Req \<Rightarrow> error + CreateTenantInput \<Rightarrow> ('s, 'n) handler" where
  "post_tenant deps re req parsed = as_admin deps req (\<lambda>actor.
     andThen (of_result parsed) (\<lambda>body.
     andThen (of_result (validated_tenant body)) (\<lambda>input.
     andThen (withUnitOfWork (d_withUnitOfWork deps)
       (andThen (tenants_op (tenant_create (re_now re) (re_refBytes re) input)) (\<lambda>c.
        andThen (audit re (admin_audit actor (tenantRef c) ''tenant.created'' (tenantRef c) (Some (created_payload c)))) (\<lambda>_.
        ret c)))) (\<lambda>created.
     ret ((send (Sent_tenant created))\<lparr>rp_status := 201\<rparr>)))))"

definition get_tenants :: "('s, 'n) RouteDeps \<Rightarrow> (string \<Rightarrow> string \<Rightarrow> int) \<Rightarrow> request_env \<Rightarrow> Req \<Rightarrow>
    error + TenantListFilter \<Rightarrow> ('s, 'n) handler" where
  "get_tenants deps localeCompare re req parsed = as_admin deps req (\<lambda>_.
     andThen (of_result parsed) (\<lambda>query.
     andThen (tenants_op (tenant_list localeCompare (re_now re) query)) (\<lambda>ts. ret (send (Sent_tenants ts)))))"

definition tenant_not_found :: "string \<Rightarrow> Reply" where
  "tenant_not_found ref = \<lparr>rp_status = 404, rp_headers = [], rp_body = Sent_json (JObj [(''error'', JObj
     [(''name'', JStr ''ZatcaRegistryError''), (''message'', JStr (''Unknown tenant '' @ quoted ref @ ''.''))])])\<rparr>"

definition get_tenant :: "('s, 'n) RouteDeps \<Rightarrow> Req \<Rightarrow> string \<Rightarrow> ('s, 'n) handler" where
  "get_tenant deps req ref = as_admin deps req (\<lambda>_.
     andThen (tenants_op (tenant_get ref)) (\<lambda>t. ret (case t of
       None \<Rightarrow> tenant_not_found ref | Some r \<Rightarrow> send (Sent_tenant r))))"

definition location_json :: "TenantLocation \<Rightarrow> jsval" where
  "location_json l = JObj [(''cityName'', JStr (t_cityName l)), (''citySubdivision'', JStr (t_citySubdivision l)),
     (''street'', JStr (t_street l)), (''plotIdentification'', JStr (t_plotIdentification l)),
     (''building'', JStr (t_building l)), (''postalZone'', JStr (t_postalZone l))]"

definition optional_field :: "string \<Rightarrow> ('a \<Rightarrow> jsval) \<Rightarrow> 'a option \<Rightarrow> (string \<times> jsval) list" where
  "optional_field name f v = (case v of None \<Rightarrow> [] | Some x \<Rightarrow> [(name, f x)])"

definition patch_json :: "PatchableTenantFields \<Rightarrow> jsval" where
  "patch_json p = JObj (optional_field ''vatName'' JStr (patch_vatName p)
     @ optional_field ''branchName'' JStr (patch_branchName p)
     @ optional_field ''branchIndustry'' JStr (patch_branchIndustry p)
     @ optional_field ''location'' location_json (patch_location p)
     @ optional_field ''label'' JStr (patch_label p) @ optional_field ''callbackUrl'' JStr (patch_callbackUrl p))"

definition patch_tenant :: "('s, 'n) RouteDeps \<Rightarrow> request_env \<Rightarrow> Req \<Rightarrow> string \<Rightarrow> error + PatchableTenantFields \<Rightarrow> ('s, 'n) handler" where
  "patch_tenant deps re req ref parsed = as_admin deps req (\<lambda>actor.
     andThen (of_result parsed) (\<lambda>body.
     andThen (withUnitOfWork (d_withUnitOfWork deps)
       (andThen (tenants_op (tenant_patch (re_now re) ref body)) (\<lambda>u.
        andThen (audit re (admin_audit actor (tenantRef u) ''tenant.patched'' (tenantRef u)
          (Some (redactSecrets (patch_json body))))) (\<lambda>_. ret u)))) (\<lambda>updated.
     ret (send (Sent_tenant updated)))))"

definition delete_tenant :: "('s, 'n) RouteDeps \<Rightarrow> request_env \<Rightarrow> Req \<Rightarrow> string \<Rightarrow> ('s, 'n) handler" where
  "delete_tenant deps re req ref = as_admin deps req (\<lambda>actor.
     andThen (withUnitOfWork (d_withUnitOfWork deps)
       (andThen (tenants_op (tenant_softDelete (re_now re) ref)) (\<lambda>_.
        andThen (on_keys (total (\<lambda>k. ((), key_revokeAllForTenant (re_now re) ref k)))) (\<lambda>_.
        audit re (admin_audit actor ref ''tenant.softDeleted'' ref None))))) (\<lambda>_.
     ret no_content))"

section \<open>API keys\<close>

definition issued_key_body :: "IssuedApiKey \<Rightarrow> jsval" where
  "issued_key_body i = JObj [(''token'', JStr (token i)), (''tokenId'', JStr (tokenId i)),
     (''warning'', JStr ''This token is shown only once. Store it securely.'')]"

definition post_api_key :: "('s, 'n) RouteDeps \<Rightarrow> request_env \<Rightarrow> Req \<Rightarrow> string \<Rightarrow> error + string \<Rightarrow> ('s, 'n) handler" where
  "post_api_key deps re req ref parsed = as_admin deps req (\<lambda>actor.
     andThen (of_result parsed) (\<lambda>label.
     andThen (require_tenant ref) (\<lambda>_.
     andThen (withUnitOfWork (d_withUnitOfWork deps)
       (andThen (on_keys (total (key_issue (d_scrypt deps) (d_keyEnvironment deps) (re_now re) (re_keyRandom re) ref label))) (\<lambda>i.
        andThen (audit re (admin_audit actor ref ''apiKey.issued'' (tokenId i)
          (Some (redactSecrets (JObj [(''label'', JStr label)]))))) (\<lambda>_. ret i)))) (\<lambda>issued.
     ret ((send (Sent_json (issued_key_body issued)))\<lparr>rp_status := 201\<rparr>)))))"

definition get_api_keys :: "('s, 'n) RouteDeps \<Rightarrow> Req \<Rightarrow> string \<Rightarrow> string option \<Rightarrow> ('s, 'n) handler" where
  "get_api_keys deps req ref query = as_admin deps req (\<lambda>_.
     andThen (require_tenant ref) (\<lambda>_.
     andThen (on_keys (\<lambda>k. (Ok (key_list ref k), k))) (\<lambda>all_keys.
       let includeRevoked = (query = Some ''true'') in
       ret (send (Sent_keys (if includeRevoked then all_keys
         else filter (\<lambda>k. entry_revokedAt k = None) all_keys) includeRevoked)))))"

definition unknown_api_key :: "string \<Rightarrow> string \<Rightarrow> error" where
  "unknown_api_key ref i = ZatcaRegistryError (''Unknown api key '' @ quoted i @ '' for tenant '' @ quoted ref @ ''.'')
     (Some Not_found)"

definition delete_api_key :: "('s, 'n) RouteDeps \<Rightarrow> request_env \<Rightarrow> Req \<Rightarrow> string \<Rightarrow> string \<Rightarrow> ('s, 'n) handler" where
  "delete_api_key deps re req ref i = as_admin deps req (\<lambda>actor.
     andThen (withUnitOfWork (d_withUnitOfWork deps)
       (andThen (on_keys (total (key_revoke (re_now re) ref i))) (\<lambda>revoked.
          if \<not> revoked then raise (unknown_api_key ref i)
          else audit re (admin_audit actor ref ''apiKey.revoked'' i None)))) (\<lambda>_.
     ret no_content))"

section \<open>Onboarding\<close>

record OnboardBody =
  ob_otp :: string
  ob_solutionName :: string
  ob_environment :: Environment

definition throttled_reply :: "sem \<Rightarrow> Reply" where
  "throttled_reply s = \<lparr>rp_status = 503, rp_headers = [(''retry-after'', ''30'')],
     rp_body = Sent_json (JObj [(''error'', JObj [(''name'', JStr ''OnboardingThrottled''),
       (''message'', JStr (''Server is at its onboarding concurrency cap ('' @ int_str (sem_capacity s)
          @ '' in flight). Retry after a short delay.''))])])\<rparr>"

text \<open>The slot is taken before anything else and given back in every case.\<close>

definition with_slot :: "('s, 'n) RouteDeps \<Rightarrow> ('s, 'n) handler \<Rightarrow> ('s, 'n) handler" where
  "with_slot deps h s = (case tryAcquire (sv_semaphore s) of
       (None, sm) \<Rightarrow> andThen (count deps (OnboardingTotal ''locked'')) (\<lambda>_. ret (throttled_reply sm)) s
     | (Some permit, sm) \<Rightarrow> finally_do h
         (\<lambda>s'. (Ok (), s'\<lparr>sv_semaphore := release permit (sv_semaphore s')\<rparr>)) (s\<lparr>sv_semaphore := sm\<rparr>))"

definition run_args :: "('s, 'n) RouteDeps \<Rightarrow> AuditActor \<Rightarrow> string \<Rightarrow> OnboardBody \<Rightarrow> string option \<Rightarrow> RunOnboardingArgs" where
  "run_args deps actor ref body action = \<lparr>run_tenantRef = ref, run_otp = ob_otp body,
     run_solutionName = ob_solutionName body, run_environment = ob_environment body,
     run_instanceId = d_instanceId deps, run_actor = actor, run_egsCustomId = None, run_egsModel = None,
     run_lockTtlMs = Some (d_onboardingTimeoutMs deps), run_auditAction = action\<rparr>"

definition run_env :: "('s, 'n) RouteDeps \<Rightarrow> request_env \<Rightarrow> finish_env" where
  "run_env deps re = \<lparr>fe_cipher = d_cipher deps, fe_random = re_random re, fe_now = re_done re,
     fe_uuid = re_uuid re, fe_getExpiry = d_getExpiry deps\<rparr>"

definition onboard_body :: "RunOnboardingResult \<Rightarrow> jsval" where
  "onboard_body r = JObj [(''tenantRef'', JStr (res_tenantRef r)), (''state'', JStr (tenant_state_str (res_state r))),
     (''complianceTestStatus'', JStr (if res_tests_passed r then ''passed'' else ''failed'')),
     (''productionCertificateExpiresAt'', JStr (toISOString (res_expiresAt r))),
     (''productionRequestId'', JStr (res_productionRequestId r))]"

definition rotate_body :: "RunOnboardingResult \<Rightarrow> jsval" where
  "rotate_body r = JObj [(''tenantRef'', JStr (res_tenantRef r)), (''state'', JStr (tenant_state_str (res_state r))),
     (''productionCertificateExpiresAt'', JStr (toISOString (res_expiresAt r)))]"

text \<open>The work of both onboarding routes; they differ in the audit action and in the fields returned.\<close>

definition onboard_work :: "('s, 'n) RouteDeps \<Rightarrow> request_env \<Rightarrow> AuditActor \<Rightarrow> string \<Rightarrow> OnboardBody \<Rightarrow> string option \<Rightarrow>
    (RunOnboardingResult \<Rightarrow> jsval) \<Rightarrow> string option \<Rightarrow> ('s, 'n) handler" where
  "onboard_work deps re actor ref body action shape cacheKey =
     andThen (require_tenant ref) (\<lambda>_.
     let args = run_args deps actor ref body action in
     andThen (on_world (runOnboarding (world_uow (d_withUnitOfWork deps)) (re_now re) (run_env deps re)
        (d_onboardFn deps args) args)) (\<lambda>result.
     andThen (count deps (OnboardingTotal ''succeeded'')) (\<lambda>_.
     andThen (commitIdempotency deps (re_done re) cacheKey \<lparr>cr_statusCode = 200, cr_headers = json_headers,
        cr_body = stringify (shape result)\<rparr>) (\<lambda>_.
     ret (send (Sent_json (shape result)))))))"

definition onboarding_route :: "('s, 'n) RouteDeps \<Rightarrow> request_env \<Rightarrow> Req \<Rightarrow> string \<Rightarrow> error + OnboardBody \<Rightarrow> string \<Rightarrow>
    string option \<Rightarrow> (RunOnboardingResult \<Rightarrow> jsval) \<Rightarrow> ('s, 'n) handler" where
  "onboarding_route deps re req ref parsed route action shape = with_slot deps (as_admin deps req (\<lambda>actor.
     andThen (of_result parsed) (\<lambda>body.
       idempotent deps re req ref route (onboard_work deps re actor ref body action shape)
         (\<lambda>cacheKey. andThen (count deps (OnboardingTotal ''failed'')) (\<lambda>_. releaseIdempotency cacheKey)))))"

definition post_onboard :: "('s, 'n) RouteDeps \<Rightarrow> request_env \<Rightarrow> Req \<Rightarrow> string \<Rightarrow> error + OnboardBody \<Rightarrow> ('s, 'n) handler" where
  "post_onboard deps re req ref parsed =
     onboarding_route deps re req ref parsed ''/v1/tenants/:ref/onboard'' None onboard_body"

definition post_rotate :: "('s, 'n) RouteDeps \<Rightarrow> request_env \<Rightarrow> Req \<Rightarrow> string \<Rightarrow> error + OnboardBody \<Rightarrow> ('s, 'n) handler" where
  "post_rotate deps re req ref parsed =
     onboarding_route deps re req ref parsed ''/v1/tenants/:ref/credentials/rotate''
       (Some ''tenant.credentialsRotated'') rotate_body"

definition get_tenant_status :: "('s, 'n) RouteDeps \<Rightarrow> Req \<Rightarrow> string \<Rightarrow> ('s, 'n) handler" where
  "get_tenant_status deps req ref = as_admin deps req (\<lambda>_.
     andThen (require_tenant ref) (\<lambda>r. ret (send (Sent_tenant_status r))))"

section \<open>Unlock\<close>

definition not_onboarding :: "string \<Rightarrow> error" where
  "not_onboarding ref = ZatcaValidationError (''Tenant '' @ quoted ref @ '' is not in a stale-onboarding state ''
     @ em_dash @ '' refusing to unlock.'')"

definition claim_active :: "string \<Rightarrow> int \<Rightarrow> error" where
  "claim_active ref t = ZatcaValidationError (''Tenant '' @ quoted ref
     @ '' has an active onboarding claim that expires '' @ toISOString t @ '' '' @ em_dash @ '' pass {''
     @ [CHR 0x22] @ ''force'' @ [CHR 0x22] @ '':true} to release early.'')"

definition unlock_message :: "bool \<Rightarrow> string" where
  "unlock_message force = (if force then ''Onboarding claim force-released by admin.''
     else ''Onboarding claim manually released by admin.'')"

definition release_claim :: "('s, 'n) RouteDeps \<Rightarrow> request_env \<Rightarrow> AuditActor \<Rightarrow> string \<Rightarrow> bool \<Rightarrow> (('s, 'n) server, TenantRecord) eff" where
  "release_claim deps re actor ref force = withUnitOfWork (d_withUnitOfWork deps)
     (andThen (tenants_op (tenant_setState (re_now re) ref Failed (failure_options (unlock_message force)))) (\<lambda>u.
      andThen (audit re (admin_audit actor ref ''tenant.unlocked'' ref (Some (JObj [(''force'', JBool force)])))) (\<lambda>_.
      ret u)))"

definition post_unlock :: "('s, 'n) RouteDeps \<Rightarrow> request_env \<Rightarrow> Req \<Rightarrow> string \<Rightarrow> error + bool \<Rightarrow> ('s, 'n) handler" where
  "post_unlock deps re req ref parsed = as_admin deps req (\<lambda>actor.
     andThen (of_result parsed) (\<lambda>force.
     andThen (require_tenant ref) (\<lambda>record.
       if t_state record \<noteq> Onboarding then raise (not_onboarding ref)
       else (case held_by (re_now re) record of
           Some t \<Rightarrow> if \<not> force then raise (claim_active ref t)
             else andThen (release_claim deps re actor ref force) (\<lambda>u. ret (send (Sent_json (JObj
               [(''tenantRef'', JStr (tenantRef u)), (''state'', JStr (tenant_state_str (t_state u)))]))))
         | None \<Rightarrow> andThen (release_claim deps re actor ref force) (\<lambda>u. ret (send (Sent_json (JObj
               [(''tenantRef'', JStr (tenantRef u)), (''state'', JStr (tenant_state_str (t_state u)))]))))))))"

section \<open>Slots\<close>

lemma onboard_work_slots: "preserves sv_semaphore (onboard_work deps re actor ref body action shape k)"
  unfolding onboard_work_def require_tenant_def commitIdempotency_def Let_def
  by (auto intro!: preserves_intros split: option.split)

text \<open>The handler inside the slot never touches the semaphore.\<close>

lemma inner_slots: "preserves sv_semaphore (as_admin deps req (\<lambda>actor. andThen (of_result parsed) (\<lambda>body.
    idempotent deps re req ref route (onboard_work deps re actor ref body action shape)
      (\<lambda>cacheKey. andThen (count deps (OnboardingTotal ''failed'')) (\<lambda>_. releaseIdempotency cacheKey)))))"
  unfolding as_admin_def releaseIdempotency_def
  by (auto intro!: preserves_intros onboard_work_slots split: option.split)

end
