(* ===== verification/ServerExamples.thy ===== *)
theory ServerExamples
  imports Examples InvoiceRoutes AdminRoutes
begin

text \<open>
  A server with one onboarded tenant, \<open>t1\<close>, one API key of it and one admin key, over the memory
  storage and a scripted network. The properties of the routes are applied to it.
\<close>

definition demo_material :: SignerMaterial where
  "demo_material = \<lparr>m_privateKey = ''k'', m_productionCertificate = ''c'', m_productionBinarySecurityToken = ''t'',
     m_productionApiSecret = ''s'', m_complianceCertificate = None, m_complianceBinarySecurityToken = Some ''b'',
     m_complianceApiSecret = None\<rparr>"

definition demo_cipher :: SecretCipher where
  "demo_cipher = (case createNoopCipher (Some ''development'') False of Inr c \<Rightarrow> c)"

definition demo_admin_key :: string where
  "demo_admin_key = replicate 32 (CHR ''k'')"

definition demo_deps :: "(memory_state, wire) RouteDeps" where
  "demo_deps = \<lparr>d_lib = demo_lib, d_storage = createMemoryStorageAdapter None 0,
     d_net = wire_net (\<lambda>_. None) (\<lambda>_. 0), d_cipher = demo_cipher, d_withUnitOfWork = Pass_through,
     d_adminKeys = [\<lparr>admin_label = ''root'', admin_key = demo_admin_key\<rparr>], d_sha256 = (\<lambda>s. s),
     d_sha256_b64url = (\<lambda>s. s), d_scrypt = (\<lambda>tok salt. tok), d_keyEnvironment = ''live'',
     d_idempotencyWindowMs = 1000, d_onboardingTimeoutMs = 180000, d_instanceId = ''i1'',
     d_onboardFn = (\<lambda>_ _. ([], Err (ZatcaOnboardingError ''offline''))), d_getExpiry = (\<lambda>_. Some 0),
     d_metrics = False\<rparr>"

definition demo_tenant :: TenantRecord where
  "demo_tenant = \<lparr>tenantRef = ''t1'', t_vatNumber = ''300000000000003'', t_egsUuid = ''u1'', t_vatName = ''Acme'',
     t_crn = ''1010'', t_branchName = ''b'', t_branchIndustry = None,
     t_location = \<lparr>t_cityName = ''Riyadh'', t_citySubdivision = ''w'', t_street = ''s'',
       t_plotIdentification = ''1'', t_building = ''2'', t_postalZone = ''3''\<rparr>,
     t_environment = Sandbox, t_state = Production_ready,
     onboardingProgress = \<lparr>scenarios = [], lastError = None\<rparr>, productionCertificateExpiresAt = None,
     callbackUrl = None, claimedBy = None, claimExpiresAt = None, t_label = None, createdAt = 0, updatedAt = 0,
     deletedAt = None\<rparr>"

definition demo_token :: string where
  "demo_token = token_of ''live'' ''t1'' (replicate 32 (CHR ''A''))"

definition demo_key_row :: ApiKeyRow where
  "demo_key_row = \<lparr>row_tokenId = ''id'', row_tenantRef = ''t1'', row_hash = demo_token, row_salt = [],
     row_label = ''l'', row_last4 = ''AAAA'', row_createdAt = 0, row_lastUsedAt = None, row_revokedAt = None\<rparr>"

definition demo_server :: "(thrown + http_response) list \<Rightarrow> (memory_state, wire) server" where
  "demo_server script = \<lparr>sv_world = \<lparr>w_tenants = [(''t1'', demo_tenant)],
       w_vault = vault_put demo_cipher (\<lambda>_. []) ''t1'' demo_material [], w_audit = []\<rparr>,
     sv_keys = [(''id'', demo_key_row)], sv_idem = [], sv_storage = memory_empty, sv_net = wire_start script,
     sv_semaphore = \<lparr>sem_count = 0, sem_capacity = 1, sem_released = []\<rparr>, sv_metrics = []\<rparr>"

definition demo_re :: "int \<Rightarrow> request_env" where
  "demo_re t = \<lparr>re_now = t, re_done = t + 5, re_uuid = ''a1'', re_issue = demo_env ''a'', re_random = (\<lambda>_. []),
     re_refBytes = [], re_keyRandom = \<lparr>random20 = replicate 20 0, random10 = replicate 10 0, random_salt = []\<rparr>\<rparr>"

definition demo_req :: Req where
  "demo_req = \<lparr>req_authorization = Some (''Bearer '' @ demo_token), req_idempotency_key = Single ''key''\<rparr>"

definition demo_accepted :: http_response where
  "demo_accepted = \<lparr>resp_status = 200, resp_headers = [], resp_text = Inr ''{}''\<rparr>"

section \<open>Its requests\<close>

lemma demo_key_use: "key_resolve (\<lambda>tok salt. tok) ''live'' t demo_token [(''id'', demo_key_row\<lparr>row_lastUsedAt := u\<rparr>)]
    = (Some \<lparr>resolved_tenantRef = ''t1'', resolved_tokenId = ''id''\<rparr>, [(''id'', demo_key_row\<lparr>row_lastUsedAt := Some t\<rparr>)])"
proof -
  have "parseToken demo_token = Some (''live'', ''t1'', replicate 32 (CHR ''A''))" by code_simp
  then show ?thesis by (simp add: key_resolve_def key_matches_def demo_key_row_def)
qed

lemma demo_verify: "tenant_verify (\<lambda>tok salt. tok) ''live'' t (Some (''Bearer '' @ demo_token)) ''t1''
      [(''id'', demo_key_row\<lparr>row_lastUsedAt := u\<rparr>)]
    = (Ok \<lparr>resolved_tenantRef = ''t1'', resolved_tokenId = ''id''\<rparr>, [(''id'', demo_key_row\<lparr>row_lastUsedAt := Some t\<rparr>)])"
proof -
  have "extractBearer (''Bearer '' @ demo_token) = Some demo_token" by code_simp
  then show ?thesis by (simp add: tenant_verify_def demo_key_use)
qed

lemma demo_vault: "vault_get demo_cipher ''t1'' (vault_put demo_cipher rnd ''t1'' demo_material []) = Ok (Some demo_material)"
  by (simp add: vault_get_def vault_put_def seal_def unseal_def decryptOptional_def demo_cipher_def createNoopCipher_def
      base64_roundtrip demo_material_def del: base64_encode.simps)

lemma demo_signing: "signing_keys demo_material = demo_keys"
  by (simp add: signing_keys_def demo_material_def demo_keys_def)

lemma demo_tenant_scope: "toTenantScope demo_tenant = demo_scope"
  by (simp add: toTenantScope_def demo_tenant_def demo_scope_def)

text \<open>The tenant's own token authenticates, also after earlier requests.\<close>

lemma demo_auth:
  assumes "w_tenants (sv_world s) = [(''t1'', demo_tenant)]"
    "w_vault (sv_world s) = vault_put demo_cipher (\<lambda>_. []) ''t1'' demo_material []"
    "sv_keys s = [(''id'', demo_key_row\<lparr>row_lastUsedAt := u\<rparr>)]"
  shows "authTenant demo_deps (demo_re t) demo_req ''t1'' s = (Ok (TenantActor ''t1'' ''id'', demo_tenant, demo_material),
    s\<lparr>sv_keys := [(''id'', demo_key_row\<lparr>row_lastUsedAt := Some t\<rparr>)]\<rparr>)"
  using assms
  by (simp add: authTenant_def andThen_run server_simps demo_deps_def demo_re_def demo_req_def demo_verify [simplified] tenant_get_def
      visible_def demo_server_def demo_tenant_def demo_vault)

definition demo_body :: "bool \<Rightarrow> IssueBody" where
  "demo_body submit = \<lparr>ib_input = demo_input, ib_submit = submit\<rparr>"

lemma demo_egs_input [simp]: "inv_egsInfo demo_input = demo_egs" "inv_kind demo_input = Simplified_tax_invoice"
  by (simp_all add: demo_input_def)

lemma demo_serial: "incrementCounter (createMemoryStorageAdapter None 0) demo_scope memory_empty = (x, s)
    \<Longrightarrow> map_sum id snd x = Ok ''197001000001''"
proof -
  have "map_sum id snd (fst (mem_incrementCounter defaultFormatter 0 demo_scope memory_empty)) = Ok ''197001000001''"
    by code_simp
  then show "incrementCounter (createMemoryStorageAdapter None 0) demo_scope memory_empty = (x, s) \<Longrightarrow> ?thesis"
    by (simp add: createMemoryStorageAdapter_def)
qed

text \<open>The invoice the demo server issues: its number, and the only record it leaves.\<close>

lemma demo_first_invoice:
  "\<exists>i st. issueInvoice demo_lib (createMemoryStorageAdapter None 0) (demo_env ''a'') demo_input demo_scope
      (Some demo_keys) memory_empty = (Ok (Issued2 i), st) \<and> issued_invoiceNumber i = ''197001000001'' \<and>
    issued_signedXml i = ''<Invoice/>'' \<and> issued_invoiceHash i = ''aA=='' \<and>
    mem_row demo_scope ''197001000001'' st = None"
proof -
  have env: "dispatch_env (demo_env ''a'') = \<lparr>env_invoiceId = None, env_randomUUID = ''a'', env_now = 0\<rparr>"
    by (simp add: dispatch_env_def demo_env_def)
  have id: "chosen_id (dispatch_env (demo_env ''a'')) = ''a''" by simp
  let ?r = "issue_phase2 demo_lib (createMemoryStorageAdapter None 0) Simplified_tax_invoice
     SimplifiedTaxInvoiceBuilder (dispatch_env (demo_env ''a'')) demo_input demo_egs demo_scope demo_keys memory_empty"
  have "map_sum id issued_invoiceHash (fst ?r) = Ok ''aA==''"
    using memory.issue_phase2_result [where env = "dispatch_env (demo_env ''a'')" and lib = demo_lib
        and b = SimplifiedTaxInvoiceBuilder and fmt = None and now = 0 and kind = Simplified_tax_invoice
        and input = demo_input and keys = demo_keys and s = memory_empty, OF demo_assert demo_scope_good]
    by (simp add: demo_build demo_built_def)
  then obtain i st where run: "?r = (Ok i, st)" by (cases ?r; cases "fst ?r") auto
  have none: "mem_row demo_scope ''197001000001'' st = None"
    using memory.issue_phase2_spec(5) [OF run demo_scope_good, of "''197001000001''"] by simp
  have "issued_invoiceNumber i = ''197001000001'' \<and> issued_signedXml i = ''<Invoice/>'' \<and> issued_invoiceHash i = ''aA==''"
    using run by (rule memory.issue_phase2_ok) (auto dest!: demo_serial simp: demo_build demo_built_def)
  then show ?thesis using run none
    by (intro exI [of _ i] exI [of _ st])
      (simp add: issueInvoice_def dispatch2_def issueSimplifiedTaxInvoice_def requireSigning_def map_act_def andThen_run)
qed

lemma demo_submission:
  "fst (singleInvoiceReportingOrClearanceStatus demo_lib (wire_net (\<lambda>_. None) (\<lambda>_. 0))
     (submission_of demo_tenant demo_material ''<Invoice/>'' ''aA=='') (wire_start [Inr demo_accepted]))
   = Ok \<lparr>sr_endpoint = Reporting, sr_response = JStr ''{}''\<rparr>"
  by code_simp

lemma demo_first_request:
  "\<exists>b st. post_invoice demo_deps (demo_re 0) demo_req ''t1'' (Ok (demo_body False)) (demo_server []) =
    (Ok (send (Sent_json b)), st) \<and> w_tenants (sv_world st) = [(''t1'', demo_tenant)] \<and>
    w_vault (sv_world st) = vault_put demo_cipher (\<lambda>_. []) ''t1'' demo_material [] \<and>
    sv_keys st = [(''id'', demo_key_row\<lparr>row_lastUsedAt := Some 0\<rparr>)]"
proof -
  let ?s = "demo_server []"
  have auth: "authTenant demo_deps (demo_re 0) demo_req ''t1'' ?s = (Ok (TenantActor ''t1'' ''id'', demo_tenant,
      demo_material), ?s\<lparr>sv_keys := [(''id'', demo_key_row\<lparr>row_lastUsedAt := Some 0\<rparr>)]\<rparr>)"
    by (rule demo_auth [where u = None]) (simp_all add: demo_server_def demo_key_row_def)
  have key: "readIdempotencyKey (req_idempotency_key demo_req) = Ok (Some ''key'')" by code_simp
  obtain i st where i: "issueInvoice demo_lib (createMemoryStorageAdapter None 0) (demo_env ''a'') demo_input demo_scope
      (Some demo_keys) memory_empty = (Ok (Issued2 i), st)" using demo_first_invoice by blast
  have claim: "idem_begin 0 ck ttl [] = (Claimed, [(ck, InFlight ttl)])" for ck ttl
    by (simp add: idem_begin_def readFresh_def)
  show ?thesis
    using i by (subst post_invoice_run [OF auth], subst idempotent_claimed [OF key])
      (simp_all add: demo_re_def demo_server_def claim issue_work_def andThen_run tryCatch_run server_simps
        demo_deps_def demo_body_def demo_signing demo_tenant_scope submit_and_mark_def count_def audit_def
        write_audit_def commitIdempotency_def idem_commit_def not_submitted_def zatca_id_header_def send_def)
qed

end
