(* ===== verification/ServerProperties.thy ===== *)
theory ServerProperties
  imports ServerExamples
begin

text \<open>
  The properties of the server around the library: error responses, concurrency limits, idempotency
  keys, the credential vault, redaction and the audit log.
\<close>

section \<open>Errors\<close>

text \<open>
  C11: every error the server maps becomes an HTTP error status from 400 to 599 with the error's
  message, and 401 and 403 come only from the server's own authentication: an upstream 401 or 403
  is reported as 502, so a caller never takes ZATCA's refusal for its own.
\<close>

theorem error_response_status:
  assumes "hint_ok e"
  shows "statusCode (mapErrorToResponse e) \<in> {400..599} \<and>
    body_message (mapErrorToResponse e) = err_message e \<and>
    (case e of ZatcaApiError m upstream results reqId \<Rightarrow> statusCode (mapErrorToResponse e) \<notin> {401, 403} \<and>
        upstreamStatus (mapErrorToResponse e) = Some upstream \<and>
        (upstream \<in> {400, 402} \<union> {404..428} \<union> {430..599} \<longrightarrow> statusCode (mapErrorToResponse e) = upstream)
     | _ \<Rightarrow> True)"
  using status_range [OF assms] message_kept [of e]
  by (cases e) (auto simp: apiErrorResponse_def remapUpstream_def)

theorem error_response_status_witness:
  "statusCode (mapErrorToResponse (ZatcaApiError ''m'' 401 None None)) \<in> {400..599} \<and>
    statusCode (mapErrorToResponse (ZatcaApiError ''m'' 401 None None)) \<notin> {401, 403}"
  using error_response_status [of "ZatcaApiError ''m'' 401 None None"] by simp

section \<open>Concurrency limits and idempotency\<close>

text \<open>
  C12: after any sequence of acquisitions and of calls of release functions, repeated and unknown
  ones included, a semaphore counts exactly the permits that are out, never more than its capacity
  and never fewer than none; a permit is refused exactly when all are out.
\<close>

theorem semaphore_counts_permits:
  assumes "createSemaphore c = Ok s0"
  shows "case sem_run ops s0 of s \<Rightarrow> inFlight s = int (held s) \<and> inFlight s \<le> sem_capacity s0 \<and>
    (fst (tryAcquire s) = None) = (int (held s) = sem_capacity s0)"
proof -
  have "sem_ok (sem_run ops s0)" using createSemaphore_ok [OF assms] sem_run_ok by blast
  then show ?thesis
    by (auto simp: sem_ok_def inFlight_def tryAcquire_def sem_run_capacity)
qed

theorem semaphore_counts_permits_witness:
  "\<exists>s0. createSemaphore (num_of_nat 2) = Ok s0 \<and>
    inFlight (sem_run [Acquire, Acquire, Acquire, sem_op.Release 0, sem_op.Release 0] s0) = 1"
proof -
  have c: "createSemaphore (num_of_nat 2) = Ok \<lparr>sem_count = 0, sem_capacity = 2, sem_released = []\<rparr>"
    by (simp add: createSemaphore_def num_eval)
  have "held (sem_run [Acquire, Acquire, Acquire, sem_op.Release 0, sem_op.Release 0]
      \<lparr>sem_count = 0, sem_capacity = 2, sem_released = []\<rparr>) = 1" by code_simp
  then show ?thesis
    using semaphore_counts_permits [OF c, of "[Acquire, Acquire, Acquire, sem_op.Release 0, sem_op.Release 0]"] c by simp
qed



definition demo_response :: CachedResponse where
  "demo_response = \<lparr>cr_statusCode = 201, cr_headers = [], cr_body = ''{}''\<rparr>"

text \<open>
  A response committed under a claimed key is replayed, unchanged, to every begin on the key
  until its own deadline, whatever happens to other keys in between; a released key can be claimed
  again at once.
\<close>

theorem idempotency_replays:
  assumes "fst (idem_begin now k ttl m) = Claimed" "now' < now + ttl" "t < now' + ttl'" "k' \<noteq> k"
  shows "fst (idem_begin t k ttl'' (snd (idem_begin u k' ttl3
      (snd (idem_commit now' k r ttl' (snd (idem_begin now k ttl m))))))) = Replay r \<and>
    fst (idem_begin t k ttl'' (idem_release k (snd (idem_begin now k ttl m)))) = Claimed"
  using memory_idem.commit_then_replay [OF assms(1-3)] memory_idem.begin_other_key [OF assms(4) [symmetric]]
    memory_idem.release_then_claim by simp

theorem idempotency_replays_witness:
  "fst (idem_begin 9 ''k'' 10 (snd (idem_begin 3 ''j'' 10 (snd (idem_commit 2 ''k'' demo_response 10
      (snd (idem_begin 0 ''k'' 10 []))))))) = Replay demo_response"
  using idempotency_replays [of 0 "''k''" 10 "[]" 2 9 10 "''j''" 10 3 10 demo_response]
  by (simp add: idem_begin_def readFresh_def)

section \<open>Secrets\<close>

definition demo_aes :: aes_lib where
  "demo_aes = \<lparr>aes_encrypt = (\<lambda>key iv pt. (pt, replicate 16 (CHR ''t''))),
     aes_decrypt = (\<lambda>key iv ct tag. Some ct)\<rparr>"

definition demo_key :: "char \<Rightarrow> MasterKey" where
  "demo_key c = \<lparr>mk_kid = [c], mk_key = replicate 32 c\<rparr>"

text \<open>
  C14: credentials survive key rotation. What the vault stored under one master key ring it returns,
  field by field, under any later ring that still holds the old keys, whichever key is then active.
\<close>

theorem vault_survives_rotation:
  assumes "gcm_correct aes" "createAesGcmCipher aes ring active = Ok c"
    "createAesGcmCipher aes ring' active' = Ok c'" "set ring \<subseteq> set ring'" "\<forall>i. length (rnd i) = 12"
  shows "vault_get c' ref (vault_put c rnd ref m rows) = Ok (Some m)"
  using cipher_pair.vault_roundtrip [OF rotated_cipher_pair [OF assms(1-4)]] assms(5) by simp

theorem vault_survives_rotation_witness:
  "\<exists>c c'. createAesGcmCipher demo_aes [demo_key (CHR ''a'')] ''a'' = Ok c \<and>
    createAesGcmCipher demo_aes [demo_key (CHR ''b''), demo_key (CHR ''a'')] ''b'' = Ok c' \<and>
    vault_get c' ''t'' (vault_put c (\<lambda>_. replicate 12 (CHR ''r'')) ''t'' demo_material []) = Ok (Some demo_material)"
proof -
  have g: "gcm_correct demo_aes" by (simp add: gcm_correct_def demo_aes_def)
  obtain c where c: "createAesGcmCipher demo_aes [demo_key (CHR ''a'')] ''a'' = Ok c"
    by (simp add: createAesGcmCipher_def demo_key_def)
  obtain c' where c': "createAesGcmCipher demo_aes [demo_key (CHR ''b''), demo_key (CHR ''a'')] ''b'' = Ok c'"
    by (simp add: createAesGcmCipher_def demo_key_def)
  show ?thesis using vault_survives_rotation [OF g c c'] c c' by simp
qed

section \<open>Audit\<close>

text \<open>
  C15: redaction leaves no value under a sensitive key at any depth, and redacting twice is
  redacting once.
\<close>

theorem redaction_complete: "clean (redactSecrets v) \<and> redactSecrets (redactSecrets v) = redactSecrets v"
  by (simp add: redact_clean redact_idem)

text \<open>
  Listing the audit log returns entries that were written and that pass the filter, the
  newest first, at most as many as asked for (100 by default), and all of them when they are no
  more than that.
\<close>

theorem audit_list_sound:
  "case audit_list f rows of es \<Rightarrow>
    sorted_wrt (\<lambda>a b. e_at b \<le> e_at a) es \<and> set es \<subseteq> set (filter (audit_matches f) rows) \<and>
    length es = min (case f_limit f of None \<Rightarrow> 100 | Some n \<Rightarrow> n) (length (filter (audit_matches f) rows)) \<and>
    mset es \<subseteq># mset (filter (audit_matches f) rows)"
proof -
  let ?s = "js_sort (\<lambda>a b. e_at b - e_at a) (filter (audit_matches f) (rev rows))"
  have s: "sorted_wrt (\<lambda>a b. e_at b \<le> e_at a) ?s"
    using sorted_js_sort [where key = "\<lambda>e. - e_at e" and xs = "filter (audit_matches f) (rev rows)"]
    by (simp add: algebra_simps)
  have m: "mset ?s = mset (filter (audit_matches f) rows)"
    by (simp add: mset_js_sort rev_filter [symmetric])
  then have "set ?s = set (filter (audit_matches f) rows)" "length ?s = length (filter (audit_matches f) rows)"
    using mset_eq_setD mset_eq_length by blast+
  moreover have "mset (take n xs) \<subseteq># mset xs" for n and xs :: "AuditEntry list"
    by (metis append_take_drop_id mset_append mset_subset_eq_add_left)
  ultimately show ?thesis using s m
    by (auto simp: audit_list_def sorted_wrt_take min.commute dest!: in_set_takeD) (metis)+
qed

end
