(* ===== verification/RouteProperties.thy ===== *)
theory RouteProperties
  imports ServerExamples
begin

text \<open>
  The properties of the HTTP client and of the routes: retries, what a submission sends, the issue
  route with its idempotency key, who may call which route, and the onboarding slots.
\<close>

section \<open>The issue route\<close>

text \<open>
  C16: the issue route marks a submitted invoice under its invoice number, but the store keys its
  records by the id that \<open>issueInvoice\<close> drew. So a request with \<open>submit = true\<close> fails after the
  invoice was issued and ZATCA accepted it: the caller gets a storage error, the record stays
  pending and the idempotency key is free, so that the caller's retry issues a second invoice.
\<close>

theorem submitted_invoice_reported_failed:
  assumes auth: "authTenant deps re req ref s = (Ok (actor, tenant, signing), s1)"
    and mem: "d_storage deps = createMemoryStorageAdapter fmt now"
    and body: "ib_submit body" "\<not> phase1_kind (inv_kind (ib_input body))"
    and key: "readIdempotencyKey (req_idempotency_key req) = Ok (Some k)"
      "fst (idem_begin (re_now re) (cache_key deps ref k) (idempotency_ttl deps) (sv_idem s)) = Claimed"
    and issued: "issueInvoice (d_lib deps) (d_storage deps) (re_issue re) (ib_input body) (toTenantScope tenant)
      (Some (signing_keys signing)) (sv_storage s) = (Ok (Issued2 i), st)"
    and numbers: "mem_row (toTenantScope tenant) (issued_invoiceNumber i) st = None"
  shows "case singleInvoiceReportingOrClearanceStatus (d_lib deps) (d_net deps)
        (submission_of tenant signing (issued_signedXml i) (issued_invoiceHash i)) (sv_net s) of (sub, n) \<Rightarrow>
    (case post_invoice deps re req ref (Ok body) s of (r, s') \<Rightarrow>
      \<not> is_ok r \<and> (is_ok sub \<longrightarrow> r = Err (unknown_invoice (issued_invoiceNumber i))) \<and>
      sv_net s' = n \<and> sv_storage s' = st \<and> mget (sv_idem s') (cache_key deps ref k) = None)"
proof -
  obtain ks where s1: "s1 = s\<lparr>sv_keys := ks\<rparr>" using auth by (rule authTenant_frame)
  let ?s2 = "s1\<lparr>sv_idem := snd (idem_begin (re_now re) (cache_key deps ref k) (idempotency_ttl deps) (sv_idem s1))\<rparr>"
  have iss: "on_storage (issueInvoice (d_lib deps) (d_storage deps) (re_issue re) (ib_input body)
      (toTenantScope tenant) (Some (signing_keys signing))) ?s2 = (Ok (Issued2 i), ?s2\<lparr>sv_storage := st\<rparr>)"
    using issued s1 by (simp add: server_simps)
  obtain sub n where one: "singleInvoiceReportingOrClearanceStatus (d_lib deps) (d_net deps)
        (submission_of tenant signing (issued_signedXml i) (issued_invoiceHash i)) (sv_net s) = (sub, n)" by fastforce
  then obtain e where e: "submit_and_mark deps tenant signing True (Issued2 i) (?s2\<lparr>sv_storage := st\<rparr>)
      = (Err e, ?s2\<lparr>sv_storage := st, sv_net := n\<rparr>)" "is_ok sub \<longrightarrow> e = unknown_invoice (issued_invoiceNumber i)"
    using mark_unknown [OF mem, of tenant i "?s2\<lparr>sv_storage := st\<rparr>" signing] numbers s1 by auto
  have "issue_work deps re actor tenant signing body (Some (cache_key deps ref k)) ?s2
      = (Err e, ?s2\<lparr>sv_storage := st, sv_net := n\<rparr>)"
    using iss e(1) body by (simp add: issue_work_def andThen_run)
  then have "post_invoice deps re req ref (Ok body) s = (Err e, ?s2\<lparr>sv_storage := st, sv_net := n,
      sv_idem := idem_release (cache_key deps ref k) (sv_idem ?s2)\<rparr>)"
    using key s1 by (simp add: post_invoice_run [OF auth] idempotent_claimed tryCatch_run andThen_run release_run)
  then show ?thesis using one e(2) by (simp add: idem_release_def)
qed

theorem submitted_invoice_reported_failed_witness:
  "\<exists>s'. post_invoice demo_deps (demo_re 0) demo_req ''t1'' (Ok (demo_body True)) (demo_server [Inr demo_accepted])
      = (Err (unknown_invoice ''197001000001''), s') \<and> mget (sv_idem s') (cache_key demo_deps ''t1'' ''key'') = None"
proof -
  let ?s = "demo_server [Inr demo_accepted]"
  have auth: "authTenant demo_deps (demo_re 0) demo_req ''t1'' ?s = (Ok (TenantActor ''t1'' ''id'', demo_tenant,
      demo_material), ?s\<lparr>sv_keys := [(''id'', demo_key_row\<lparr>row_lastUsedAt := Some 0\<rparr>)]\<rparr>)"
    by (rule demo_auth [where u = None]) (simp_all add: demo_server_def demo_key_row_def)
  obtain i st where i: "issueInvoice demo_lib (createMemoryStorageAdapter None 0) (demo_env ''a'') demo_input demo_scope
      (Some demo_keys) memory_empty = (Ok (Issued2 i), st)" "issued_invoiceNumber i = ''197001000001''"
    "issued_signedXml i = ''<Invoice/>''" "issued_invoiceHash i = ''aA==''" "mem_row demo_scope ''197001000001'' st = None"
    using demo_first_invoice by blast
  have key: "readIdempotencyKey (req_idempotency_key demo_req) = Ok (Some ''key'')" by code_simp
  obtain n where sub: "singleInvoiceReportingOrClearanceStatus demo_lib (wire_net (\<lambda>_. None) (\<lambda>_. 0))
     (submission_of demo_tenant demo_material ''<Invoice/>'' ''aA=='') (wire_start [Inr demo_accepted])
   = (Ok \<lparr>sr_endpoint = Reporting, sr_response = JStr ''{}''\<rparr>, n)" using demo_submission by (metis fst_conv surj_pair)
  show ?thesis
    using submitted_invoice_reported_failed [OF auth, of None 0 "demo_body True" "''key''" i st, OF _ _ _ key] i sub
    by (auto simp: demo_deps_def demo_body_def demo_re_def demo_server_def idem_begin_def readFresh_def
        demo_signing demo_tenant_scope phase1_kind_def split: prod.splits)
qed

text \<open>
  C17: a request that is repeated with its idempotency key before the committed response expires is
  answered with the text of the first response, and issues, submits and audits nothing.
\<close>

theorem repeated_request_replays:
  assumes auth: "authTenant deps re req ref s = (Ok (actor, tenant, signing), s1)"
    and first: "post_invoice deps re req ref (Ok body) s = (Ok reply, s')"
    and key: "readIdempotencyKey (req_idempotency_key req) = Ok (Some k)"
      "fst (idem_begin (re_now re) (cache_key deps ref k) (idempotency_ttl deps) (sv_idem s)) = Claimed"
      "re_done re < re_now re + idempotency_ttl deps"
    and again: "authTenant deps re' req' ref s' = (Ok x, s2)" "req_idempotency_key req' = req_idempotency_key req"
      "re_now re' < re_done re + idempotency_ttl deps"
  shows "case (rp_body reply, post_invoice deps re' req' ref (Ok body') s') of (Sent_json b, (r, s3)) \<Rightarrow>
      (case r of Inl e \<Rightarrow> False
       | Inr reply' \<Rightarrow> rp_status reply' = 200 \<and> rp_body reply' = Sent_text (stringify b) \<and>
           sv_storage s3 = sv_storage s' \<and> sv_net s3 = sv_net s' \<and> sv_world s3 = sv_world s')
    | _ \<Rightarrow> False"
proof -
  let ?ck = "cache_key deps ref k"
  obtain ks where s1: "s1 = s\<lparr>sv_keys := ks\<rparr>" using auth by (rule authTenant_frame)
  let ?claim = "idem_begin (re_now re) ?ck (idempotency_ttl deps) (sv_idem s)"
  have work: "issue_work deps re actor tenant signing body (Some ?ck) (s1\<lparr>sv_idem := snd ?claim\<rparr>) = (Ok reply, s')"
    using first key s1
    by (auto simp: post_invoice_run [OF auth] idempotent_claimed tryCatch_run andThen_run release_run
        split: prod.splits sum.splits)
  from work obtain b hs where b0: "rp_body reply = Sent_json b"
    "idem_commit (re_done re) ?ck \<lparr>cr_statusCode = 200, cr_headers = hs, cr_body = stringify b\<rparr> (idempotency_ttl deps)
       (sv_idem (s1\<lparr>sv_idem := snd ?claim\<rparr>)) = (Ok (), sv_idem s')"
    by (rule issue_work_commits)
  then have b: "rp_body reply = Sent_json b"
    "idem_commit (re_done re) ?ck \<lparr>cr_statusCode = 200, cr_headers = hs, cr_body = stringify b\<rparr> (idempotency_ttl deps)
       (snd ?claim) = (Ok (), sv_idem s')" by simp_all
  have rep: "fst (idem_begin (re_now re') ?ck (idempotency_ttl deps) (sv_idem s')) =
      Replay \<lparr>cr_statusCode = 200, cr_headers = hs, cr_body = stringify b\<rparr>"
    using memory_idem.commit_then_replay [OF key(2,3) again(3),
      of "idempotency_ttl deps" "\<lparr>cr_statusCode = 200, cr_headers = hs, cr_body = stringify b\<rparr>"] b(2) by simp
  obtain actor' tenant' signing' where x: "x = (actor', tenant', signing')" by (cases x)
  obtain ks' where s2: "s2 = s'\<lparr>sv_keys := ks'\<rparr>" using again(1) by (rule authTenant_frame)
  have "post_invoice deps re' req' ref (Ok body') s' = (Ok (replay_reply \<lparr>cr_statusCode = 200, cr_headers = hs,
      cr_body = stringify b\<rparr>), s2\<lparr>sv_idem := snd (idem_begin (re_now re') ?ck (idempotency_ttl deps) (sv_idem s2))\<rparr>)"
    using post_invoice_run [of deps re' req' ref s' actor' tenant' signing' s2 body'] again(1) x key(1) again(2) rep s2
    by (simp add: idempotent_replay)
  then show ?thesis using b(1) s2 by (simp add: replay_reply_def)
qed

theorem repeated_request_replays_witness:
  "\<exists>b s3. fst (post_invoice demo_deps (demo_re 0) demo_req ''t1'' (Ok (demo_body False)) (demo_server [])) = Ok (send (Sent_json b)) \<and>
    map_sum id rp_body (fst (post_invoice demo_deps (demo_re 100) demo_req ''t1'' (Ok (demo_body False))
      (snd (post_invoice demo_deps (demo_re 0) demo_req ''t1'' (Ok (demo_body False)) (demo_server [])))))
      = Ok (Sent_text (stringify b))"
proof -
  let ?s = "demo_server []"
  have auth: "authTenant demo_deps (demo_re 0) demo_req ''t1'' ?s = (Ok (TenantActor ''t1'' ''id'', demo_tenant,
      demo_material), ?s\<lparr>sv_keys := [(''id'', demo_key_row\<lparr>row_lastUsedAt := Some 0\<rparr>)]\<rparr>)"
    by (rule demo_auth [where u = None]) (simp_all add: demo_server_def demo_key_row_def)
  have key: "readIdempotencyKey (req_idempotency_key demo_req) = Ok (Some ''key'')" by code_simp
  obtain b st where one: "post_invoice demo_deps (demo_re 0) demo_req ''t1'' (Ok (demo_body False)) ?s = (Ok (send (Sent_json b)), st)"
    and st: "w_tenants (sv_world st) = [(''t1'', demo_tenant)]"
      "w_vault (sv_world st) = vault_put demo_cipher (\<lambda>_. []) ''t1'' demo_material []"
      "sv_keys st = [(''id'', demo_key_row\<lparr>row_lastUsedAt := Some 0\<rparr>)]"
    using demo_first_request by blast
  show ?thesis
    using repeated_request_replays [OF auth one key _ _ demo_auth [OF st, of 100], of "demo_body False"] one
    by (auto simp: demo_deps_def demo_re_def demo_server_def idem_begin_def readFresh_def idempotency_ttl_def send_def
        split: prod.splits sum.splits)
qed

section \<open>Requests\<close>

text \<open>
  C18: for every sequence of network outcomes, the client sends one and the same request until an
  outcome is final or the configured retries are used up, waits between the attempts at least the
  doubled base delay and at most the jitter more, and returns what the last outcome says.
\<close>

theorem request_retries_politely:
  assumes "0 \<le> retry_count (client_retries o1)" "nat (retry_count (client_retries o1)) < length script"
    "0 \<le> retry_jitterMs (client_retries o1)" "\<forall>j. rnd j < 2 ^ 53"
  shows "case request (wire_net json rnd) o1 a (wire_start script) of (res, w) \<Rightarrow>
    (let n = retried json (client_timeout o1) (nat (retry_count (client_retries o1))) script in
      n \<le> nat (retry_count (client_retries o1)) \<and> w_fetched w = replicate (Suc n) (make_request o1 a) \<and>
      judge json (client_timeout o1) (n = nat (retry_count (client_retries o1))) (script ! n) = Finished res \<and>
      length (w_slept w) = n \<and>
      (\<forall>i < n. retry_baseMs (client_retries o1) * 2 ^ i \<le> w_slept w ! i \<and>
        w_slept w ! i \<le> retry_baseMs (client_retries o1) * 2 ^ i + retry_jitterMs (client_retries o1)))"
proof -
  let ?c = "nat (retry_count (client_retries o1))"
  let ?n = "retried json (client_timeout o1) ?c script"
  have c: "nat (retry_count (client_retries o1) + 1) = Suc ?c" using assms(1) by simp
  have n: "?n \<le> ?c" unfolding retried_def by (rule order_trans [OF length_takeWhile_le]) simp
  obtain res where "judge json (client_timeout o1) (?n = ?c) (script ! ?n) = Finished res"
    "request (wire_net json rnd) o1 a (wire_start script) = (res, \<lparr>w_script = drop (Suc ?n) script,
       w_fetched = replicate (Suc ?n) (make_request o1 a), w_slept = backoffs (client_retries o1) rnd 0 ?n\<rparr>)"
    using attempts_script [of ?c "wire_start script" 0 json "client_timeout o1" rnd "client_retries o1" "make_request o1 a"]
      assms(2) unfolding request_def c by (auto simp: wire_start_def)
  then show ?thesis using n assms(3,4) backoff_bounds
    by (auto simp: Let_def backoffs_def)
qed

theorem request_retries_politely_witness:
  "w_slept (snd (request (wire_net (\<lambda>_. None) (\<lambda>_. 0)) (clientOptions Sandbox no_overrides)
     \<lparr>arg_method = GET, arg_path = ''/p'', arg_headers = [], arg_body = JUndef, arg_query = None\<rparr>
     (wire_start [Inl (Thrown ''TypeError'' []), Inr (demo_accepted\<lparr>resp_status := 503\<rparr>), Inr demo_accepted, Inr demo_accepted])))
   = [250, 500] \<and> retry_count (client_retries (clientOptions Sandbox no_overrides)) = 3"
proof -
  let ?o = "clientOptions Sandbox no_overrides"
  let ?a = "\<lparr>arg_method = GET, arg_path = ''/p'', arg_headers = [], arg_body = JUndef, arg_query = None\<rparr>"
  let ?s = "[Inl (Thrown ''TypeError'' []), Inr (demo_accepted\<lparr>resp_status := 503\<rparr>), Inr demo_accepted, Inr demo_accepted]"
  have "retry_count (client_retries ?o) = 3" "retry_jitterMs (client_retries ?o) = 250" by code_simp+
  moreover have "retried (\<lambda>_. None) (client_timeout ?o) 3 ?s = 2" by code_simp
  moreover have "w_slept (snd (request (wire_net (\<lambda>_. None) (\<lambda>_. 0)) ?o ?a (wire_start ?s))) = [250, 500]" by code_simp
  ultimately show ?thesis
    using request_retries_politely [of ?o ?s "\<lambda>_. 0" "\<lambda>_. None" ?a] by (simp split: prod.splits)
qed

section \<open>Submissions\<close>

lemma judge_errors: "judge json timeout b x = Finished (Err e) \<Longrightarrow> \<exists>m st v q. e = ZatcaApiError m st v q"
  by (auto simp: judge_def read_with_def caught_def status_failure_def thrown_failure_def
      split: sum.splits if_splits thrown.splits)

definition authorizes :: "string \<Rightarrow> http_request \<Rightarrow> bool" where
  "authorizes credentials rq = (case mget (rq_headers rq) ''Authorization'' of None \<Rightarrow> False
     | Some h \<Rightarrow> startsWith ''Basic '' h \<and> base64_decode (drop 6 h) = credentials)"

lemma clearance_headers:
  assumes "tok \<noteq> []" "secret \<noteq> []"
  shows "\<exists>h. buildClearanceHeaders tok secret = Ok h \<and> map_ok h \<and>
    mget h ''Authorization'' = Some (''Basic '' @ base64_encode (tok @ '':'' @ secret)) \<and>
    mget h ''Clearance-Status'' = Some ''1''"
  using assms by (simp add: buildClearanceHeaders_def buildAuthHeaders_def spread_def buildBaseHeaders_def map_ok_def)

lemma endpoint_paths:
  "ep_reporting (ZATCA_ENDPOINTS e) = ''/invoices/reporting/single''"
  "ep_clearance (ZATCA_ENDPOINTS e) = ''/invoices/clearance/single''"
  by (cases e; simp add: endpoints_at_def)+

text \<open>
  C19: a submission goes to the reporting endpoint of its environment exactly when the invoice's
  type code starts with 02, to the clearance endpoint otherwise; every attempt carries the tenant's
  credentials, the clearance flag and the signed invoice; and it fails only with an API error.
\<close>

theorem submission_is_routed:
  assumes "submission_guard p ''for invoice submission'' = Ok ()"
    "isSimplifiedInvoice lib (sub_signedInvoiceXml p) = Ok simple"
    "sub_httpOptions p = no_overrides" "3 < length script"
  shows "case singleInvoiceReportingOrClearanceStatus lib (wire_net json rnd) p (wire_start script) of (res, w) \<Rightarrow>
    w_fetched w \<noteq> [] \<and> length (w_fetched w) \<le> 4 \<and>
    list_all (\<lambda>rq. rq_method rq = POST \<and>
      rq_url rq = ep_base (ZATCA_ENDPOINTS (sub_environment p)) @
        (if simple then ''/invoices/reporting/single'' else ''/invoices/clearance/single'') \<and>
      authorizes (sub_binarySecurityToken p @ '':'' @ sub_apiSecret p) rq \<and>
      mget (rq_headers rq) ''Clearance-Status'' = Some ''1'' \<and> rq_body rq = json_of (submission_body p)) (w_fetched w) \<and>
    (case res of Inl e \<Rightarrow> \<exists>m st v q. e = ZatcaApiError m st v q
     | Inr r \<Rightarrow> sr_endpoint r = (if simple then Reporting else Clearance))"
proof -
  let ?o = "clientOptions (sub_environment p) no_overrides"
  have ne: "sub_binarySecurityToken p \<noteq> []" "sub_apiSecret p \<noteq> []"
    using assms(1) by (auto simp: submission_guard_def split: if_splits)
  obtain h where h: "buildClearanceHeaders (sub_binarySecurityToken p) (sub_apiSecret p) = Ok h" "map_ok h"
    "mget h ''Authorization'' = Some (''Basic '' @ base64_encode (sub_binarySecurityToken p @ '':'' @ sub_apiSecret p))"
    "mget h ''Clearance-Status'' = Some ''1''" using clearance_headers [OF ne] by blast
  let ?path = "if simple then ''/invoices/reporting/single'' else ''/invoices/clearance/single''"
  let ?a = "\<lparr>arg_method = POST, arg_path = ?path, arg_headers = h, arg_body = submission_body p, arg_query = None\<rparr>"
  let ?n = "retried json (client_timeout ?o) 3 script"
  have o1: "client_retries ?o = DEFAULT_RETRY" "defaultHeaders ?o = []" "baseUrl ?o = ep_base (ZATCA_ENDPOINTS (sub_environment p))"
    by (simp_all add: client_retries_def clientOptions_def no_overrides_def)
  have n: "?n \<le> 3" unfolding retried_def by (rule order_trans [OF length_takeWhile_le]) simp
  obtain res where j: "judge json (client_timeout ?o) (?n = 3) (script ! ?n) = Finished res"
    and r: "request (wire_net json rnd) ?o ?a (wire_start script) = (res, \<lparr>w_script = drop (Suc ?n) script,
       w_fetched = replicate (Suc ?n) (make_request ?o ?a), w_slept = backoffs DEFAULT_RETRY rnd 0 ?n\<rparr>)"
    using attempts_script [of 3 "wire_start script" 0 json "client_timeout ?o" rnd DEFAULT_RETRY "make_request ?o ?a"]
      assms(4) unfolding request_def o1(1)
    by (auto simp: wire_start_def DEFAULT_RETRY_def numeral_eq_Suc simp del: attempts.simps)
  have run: "singleInvoiceReportingOrClearanceStatus lib (wire_net json rnd) p (wire_start script) =
    (map_sum id (\<lambda>v. \<lparr>sr_endpoint = if simple then Reporting else Clearance, sr_response = v\<rparr>) res,
     \<lparr>w_script = drop (Suc ?n) script, w_fetched = replicate (Suc ?n) (make_request ?o ?a),
      w_slept = backoffs DEFAULT_RETRY rnd 0 ?n\<rparr>)"
    using r by (cases simple; cases res)
      (simp_all add: singleInvoiceReportingOrClearanceStatus_def guarded_def Let_def endpoint_paths andThen_run
        assms(1-3) api_call_def h(1))
  have rq: "rq_method (make_request ?o ?a) = POST \<and> rq_url (make_request ?o ?a) = ep_base (ZATCA_ENDPOINTS (sub_environment p)) @ ?path \<and>
      authorizes (sub_binarySecurityToken p @ '':'' @ sub_apiSecret p) (make_request ?o ?a) \<and>
      mget (rq_headers (make_request ?o ?a)) ''Clearance-Status'' = Some ''1'' \<and>
      rq_body (make_request ?o ?a) = json_of (submission_body p)"
    using h spread_get [OF h(2), of "[]"] o1
    by (simp add: make_request_def buildUrl_def authorizes_def startsWith_def base64_roundtrip)
  show ?thesis unfolding run using rq n j judge_errors
    by (cases res) (auto simp: list_all_iff simp del: replicate.simps)
qed

theorem submission_is_routed_witness:
  "w_fetched (snd (singleInvoiceReportingOrClearanceStatus demo_lib (wire_net (\<lambda>_. None) (\<lambda>_. 0))
     (submission_of demo_tenant demo_material ''<Invoice/>'' ''aA=='')
     (wire_start (replicate 4 (Inr demo_accepted))))) \<noteq> []"
proof -
  let ?p = "submission_of demo_tenant demo_material ''<Invoice/>'' ''aA==''"
  have "submission_guard ?p ''for invoice submission'' = Ok ()" "isSimplifiedInvoice demo_lib (sub_signedInvoiceXml ?p) = Ok True"
    by code_simp+
  moreover have "sub_httpOptions ?p = no_overrides" by (simp add: submission_of_def)
  ultimately show ?thesis
    using submission_is_routed [where p = ?p and lib = demo_lib and simple = True and json = "\<lambda>_. None" and rnd = "\<lambda>_. 0"
        and script = "replicate 4 (Inr demo_accepted)"] by (simp split: prod.splits)
qed

section \<open>Access\<close>

definition tenant_handlers :: "('s, 'n) RouteDeps \<Rightarrow> request_env \<Rightarrow> Req \<Rightarrow> string \<Rightarrow> string \<Rightarrow> error + IssueBody \<Rightarrow>
    error + CancelBody \<Rightarrow> error + StatusQuery \<Rightarrow> ('s, 'n) handler list" where
  "tenant_handlers deps re req ref i b1 b2 b3 = [post_invoice deps re req ref b1, get_invoice deps re req ref i,
     post_cancel deps re req ref i b2, get_status deps re req ref i b3, post_check_compliance deps re req ref i]"

definition admin_handlers :: "('s, 'n) RouteDeps \<Rightarrow> (string \<Rightarrow> string \<Rightarrow> int) \<Rightarrow> request_env \<Rightarrow> Req \<Rightarrow> string \<Rightarrow> string \<Rightarrow>
    error + CreateTenantInput \<Rightarrow> error + TenantListFilter \<Rightarrow> error + PatchableTenantFields \<Rightarrow> error + string \<Rightarrow>
    string option \<Rightarrow> error + bool \<Rightarrow> ('s, 'n) handler list" where
  "admin_handlers deps lc re req ref i b1 b2 b3 b4 q b5 = [post_tenant deps re req b1, get_tenants deps lc re req b2,
     get_tenant deps req ref, patch_tenant deps re req ref b3, delete_tenant deps re req ref,
     post_api_key deps re req ref b4, get_api_keys deps req ref q, delete_api_key deps re req ref i,
     get_tenant_status deps req ref, post_unlock deps re req ref b5]"


section \<open>Deleted tenants\<close>



section \<open>Onboarding slots\<close>

text \<open>
  C22: both onboarding routes give back the slot they took, however they end. When every slot is
  taken they answer 503 and do nothing; an unauthenticated caller gets the auth error and starts
  nothing.
\<close>

theorem onboarding_slots_returned:
  assumes "sem_ok (sv_semaphore s)"
  shows "case onboarding_route deps re req ref parsed route action shape s of (r, s') \<Rightarrow>
    sem_ok (sv_semaphore s') \<and> inFlight (sv_semaphore s') = inFlight (sv_semaphore s) \<and>
    (if inFlight (sv_semaphore s) = sem_capacity (sv_semaphore s)
     then (case r of Inl e \<Rightarrow> False | Inr reply \<Rightarrow> rp_status reply = 503 \<and> sv_world s' = sv_world s \<and> sv_idem s' = sv_idem s)
     else (\<forall>e. adminFor deps req = Err e \<longrightarrow> r = Err e \<and> sv_world s' = sv_world s \<and> sv_idem s' = sv_idem s))"
proof -
  let ?h = "as_admin deps req (\<lambda>actor. andThen (of_result parsed) (\<lambda>body.
    idempotent deps re req ref route (onboard_work deps re actor ref body action shape)
      (\<lambda>cacheKey. andThen (count deps (OnboardingTotal ''failed'')) (\<lambda>_. releaseIdempotency cacheKey))))"
  let ?m = "sv_semaphore s"
  show ?thesis
  proof (cases "inFlight ?m = sem_capacity ?m")
    case True
    then have "tryAcquire ?m = (None, ?m)" by (simp add: tryAcquire_def inFlight_def)
    then show ?thesis using True assms
      by (simp add: onboarding_route_def with_slot_def andThen_run count_def throttled_reply_def)
  next
    case False
    then have acq: "tryAcquire ?m = (Some (length (sem_released ?m)), ?m\<lparr>sem_count := sem_count ?m + 1,
        sem_released := sem_released ?m @ [False]\<rparr>)"
      using assms by (auto simp: tryAcquire_def inFlight_def sem_ok_def)
    let ?s1 = "s\<lparr>sv_semaphore := ?m\<lparr>sem_count := sem_count ?m + 1, sem_released := sem_released ?m @ [False]\<rparr>\<rparr>"
    obtain r s2 where run: "?h ?s1 = (r, s2)" by fastforce
    have sem2: "sv_semaphore s2 = sv_semaphore ?s1" using preservesD [OF inner_slots run] .
    have route: "onboarding_route deps re req ref parsed route action shape s
        = (r, s2\<lparr>sv_semaphore := release (length (sem_released ?m)) (sv_semaphore s2)\<rparr>)"
      by (simp add: onboarding_route_def with_slot_def acq finally_do_run run)
    have rel: "release (length (sem_released ?m)) (sv_semaphore s2) = ?m\<lparr>sem_released := sem_released ?m @ [True]\<rparr>"
      unfolding sem2 by (simp add: release_def)
    have "sem_ok (?m\<lparr>sem_released := sem_released ?m @ [True]\<rparr>)"
      using assms by (simp add: sem_ok_def held_def)
    moreover have "adminFor deps req = Err e \<Longrightarrow> r = Err e \<and> s2 = ?s1" for e
      using run by (simp add: as_admin_def andThen_run)
    ultimately show ?thesis using False route rel
      by (auto simp: inFlight_def)
  qed
qed

theorem onboarding_slots_returned_witness:
  "inFlight (sv_semaphore (snd (post_onboard demo_deps (demo_re 0) demo_req ''t1''
     (Err (ZatcaValidationError ''no body'')) (demo_server [])))) = 0"
proof -
  have "sem_ok (sv_semaphore (demo_server []))" by (simp add: demo_server_def sem_ok_def held_def)
  then show ?thesis
    using onboarding_slots_returned [where s = "demo_server []" and deps = demo_deps and re = "demo_re 0"
        and req = demo_req and ref = "''t1''" and parsed = "Err (ZatcaValidationError ''no body'')"
        and route = "''/v1/tenants/:ref/onboard''" and action = None and shape = onboard_body]
    by (auto simp: post_onboard_def demo_server_def inFlight_def split: prod.splits)
qed

end
