(* ===== verification/Compliance.thy ===== *)
theory Compliance
  imports Issue ZatcaApi
begin

text \<open>
  The compliance tests of the core package: the six test invoices
  (\<open>core/src/compliance/test-invoices.ts\<close>) and the runner that issues each, submits it and reports
  (\<open>run-tests.ts\<close>). The runner works on two states, that of a storage adapter and that of the
  network; its own locals (the results, the last hash) are fields of the state of a run.
\<close>

section \<open>The test invoices\<close>

record ScenarioDateOverrides =
  over_issueDate :: "string option"
  over_issueTime :: "string option"

definition DEFAULT_ISSUE_DATE :: string where "DEFAULT_ISSUE_DATE = ''2024-01-15''"
definition DEFAULT_ISSUE_TIME :: string where "DEFAULT_ISSUE_TIME = ''12:00:00Z''"

definition makeComplianceLineItem :: ZATCAInvoiceLineItem where
  "makeComplianceLineItem = \<lparr>item_id = ''1'', item_name = ''Test Item'', item_quantity = num_of_nat 1,
     taxExclusivePrice = num_of_nat 100, otherTaxes = None, discounts = None, vatPercent = num_of_nat 15\<rparr>"

text \<open>
  What the six makers share. The fields an issuer overlays (\<open>IssuerOverlaid\<close>) are omitted in the
  source; here they hold the unit and blanks, which the issuer overwrites.
\<close>

definition scenario_of :: "InvoiceKind \<Rightarrow> ScenarioDateOverrides \<Rightarrow> EGSUnitInfo \<Rightarrow> InvoiceInput" where
  "scenario_of kind ov egs = \<lparr>inv_kind = kind, inv_egsInfo = egs, invoiceCounterNumber = 0,
     invoiceSerialNumber = [], issueDate = or_else (over_issueDate ov) DEFAULT_ISSUE_DATE,
     issueTime = or_else (over_issueTime ov) DEFAULT_ISSUE_TIME, inv_previousInvoiceHash = [],
     lineItems = [makeComplianceLineItem], cancelation = None, buyerName = None, buyerInfo = None\<rparr>"

definition test_buyer :: BuyerInfo where
  "test_buyer = \<lparr>buyer_vatNumber = None, buyer_registrationName = ''Test Buyer Co.'', buyer_address = None,
     buyer_identityScheme = ''CRN'', buyer_identityNumber = ''2020202020''\<rparr>"

definition test_cancelation :: "nat \<Rightarrow> string \<Rightarrow> string \<Rightarrow> ZATCAInvoiceCancelation" where
  "test_cancelation n typ reason = \<lparr>canceledInvoiceNumber = num_of_nat n, paymentMethod = ''10'',
     cancelationType = typ, cancelation_reason = reason\<rparr>"

definition makeSimplifiedInvoiceScenario :: "ScenarioDateOverrides \<Rightarrow> EGSUnitInfo \<Rightarrow> InvoiceInput" where
  "makeSimplifiedInvoiceScenario ov egs =
     (scenario_of Simplified_tax_invoice ov egs)\<lparr>buyerName := Some ''Test Customer''\<rparr>"

definition makeStandardInvoiceScenario :: "ScenarioDateOverrides \<Rightarrow> EGSUnitInfo \<Rightarrow> InvoiceInput" where
  "makeStandardInvoiceScenario ov egs = (scenario_of Standard_tax_invoice ov egs)\<lparr>buyerInfo := Some test_buyer\<rparr>"

definition makeSimplifiedCreditNoteScenario :: "ScenarioDateOverrides \<Rightarrow> EGSUnitInfo \<Rightarrow> InvoiceInput" where
  "makeSimplifiedCreditNoteScenario ov egs = (scenario_of Simplified_credit_note ov egs)
     \<lparr>buyerName := Some ''Test Customer'',
      cancelation := Some (test_cancelation 1 ''381'' ''Compliance test cancellation'')\<rparr>"

definition makeStandardCreditNoteScenario :: "ScenarioDateOverrides \<Rightarrow> EGSUnitInfo \<Rightarrow> InvoiceInput" where
  "makeStandardCreditNoteScenario ov egs = (scenario_of Standard_credit_note ov egs)
     \<lparr>buyerInfo := Some test_buyer,
      cancelation := Some (test_cancelation 2 ''381'' ''Compliance test cancellation'')\<rparr>"

definition makeSimplifiedDebitNoteScenario :: "ScenarioDateOverrides \<Rightarrow> EGSUnitInfo \<Rightarrow> InvoiceInput" where
  "makeSimplifiedDebitNoteScenario ov egs = (scenario_of Simplified_debit_note ov egs)
     \<lparr>buyerName := Some ''Test Customer'',
      cancelation := Some (test_cancelation 1 ''383'' ''Compliance test additional charge'')\<rparr>"

definition makeStandardDebitNoteScenario :: "ScenarioDateOverrides \<Rightarrow> EGSUnitInfo \<Rightarrow> InvoiceInput" where
  "makeStandardDebitNoteScenario ov egs = (scenario_of Standard_debit_note ov egs)
     \<lparr>buyerInfo := Some test_buyer,
      cancelation := Some (test_cancelation 2 ''383'' ''Compliance test additional charge'')\<rparr>"

section \<open>Results and reports\<close>

record ComplianceProgressEvent =
  ev_scenarioName :: string
  ev_invoiceKind :: InvoiceKind
  ev_passed :: bool
  ev_errors :: "string list"
  ev_completedCount :: nat
  ev_totalCount :: nat

record ComplianceTestScenarioResult =
  cr_invoiceKind :: InvoiceKind
  cr_scenarioName :: string
  cr_invoiceNumber :: string
  cr_invoiceHash :: string
  cr_submittedAt :: int
  cr_response :: "jsval option" \<comment> \<open>\<open>None\<close> is \<open>null\<close>\<close>
  cr_passed :: bool
  cr_errors :: "string list"

record ComplianceTestReport =
  rep_passed :: bool \<comment> \<open>\<open>overallStatus\<close> is \<open>passed\<close>\<close>
  rep_results :: "ComplianceTestScenarioResult list"
  rep_finalInvoiceHash :: string

text \<open>
  \<open>response.validationResults?.errorMessages ?? []\<close>, each as \<open>code: message\<close>. Reading a property of
  \<open>null\<close> or \<open>undefined\<close> throws, and so does \<open>map\<close> on a value that is no array.
\<close>

fun error_lines :: "jsval list \<Rightarrow> error + string list" where
  "error_lines [] = Ok []"
| "error_lines (e # es) = (if is_nullish e then Err (undefined_property e ''code'')
     else (case error_lines es of Inl x \<Rightarrow> Inl x
       | Inr ls \<Rightarrow> Ok ((to_str (jget e ''code'') @ '': '' @ to_str (jget e ''message'')) # ls)))"

definition classifyResponse :: "jsval \<Rightarrow> error + bool \<times> string list" where
  "classifyResponse response =
     (if is_nullish response then Err (undefined_property response ''validationResults'')
      else let v = jget response ''validationResults'';
               errs = (if is_nullish v then JUndef else jget v ''errorMessages'') in
        (case (if is_nullish errs then JArr [] else errs) of
           JArr es \<Rightarrow> (case error_lines es of Inl e \<Rightarrow> Inl e | Inr ls \<Rightarrow> Ok (ls = [], ls))
         | _ \<Rightarrow> Err (PlainError ''errs.map is not a function'' None)))"

text \<open>A \<open>PlainError\<close> does not carry its class, so its name here is \<open>Error\<close> also for a \<open>TypeError\<close>.\<close>

definition describeError :: "error \<Rightarrow> string" where
  "describeError e = (case e of
       ZatcaApiError m st _ _ \<Rightarrow> ''ZatcaApiError (status '' @ int_str st @ ''): '' @ m
     | PlainError m _ \<Rightarrow> ''Error: '' @ m
     | NonError \<Rightarrow> ''Unknown error''
     | _ \<Rightarrow> err_name e @ '': '' @ err_message e)"

section \<open>The runner\<close>

record 's RunComplianceTestsArgs =
  ct_egsInfo :: EGSUnitInfo
  ct_environment :: Environment
  ct_signing :: Signing_keys
  ct_binarySecurityToken :: string
  ct_apiSecret :: string
  ct_storage :: "'s StorageAdapter"
  ct_scope :: "TenantScope option"
  ct_httpOptions :: HttpOverrides
  ct_dateOverrides :: ScenarioDateOverrides

text \<open>What a scenario draws from its surroundings: two clock readings and the invoice's UUID.\<close>

record scenario_env =
  se_submittedAt :: int
  se_issue :: Issue_env

record ('s, 'n) test_run =
  tr_storage :: 's
  tr_net :: 'n
  tr_lastHash :: "string option"
  tr_results :: "ComplianceTestScenarioResult list"
  tr_events :: "ComplianceProgressEvent list" \<comment> \<open>the calls of \<open>onProgress\<close>\<close>

definition on_adapter :: "('s, 'a) eff \<Rightarrow> (('s, 'n) test_run, 'a) eff" where
  "on_adapter m w = (case m (tr_storage w) of (r, s) \<Rightarrow> (r, w\<lparr>tr_storage := s\<rparr>))"

definition on_network :: "('n, 'a) eff \<Rightarrow> (('s, 'n) test_run, 'a) eff" where
  "on_network m w = (case m (tr_net w) of (r, n) \<Rightarrow> (r, w\<lparr>tr_net := n\<rparr>))"

definition keep_hash :: "string \<Rightarrow> (('s, 'n) test_run, unit) eff" where
  "keep_hash h w = (Ok (), w\<lparr>tr_lastHash := Some h\<rparr>)"

definition push_result :: "ComplianceTestScenarioResult \<Rightarrow> (('s, 'n) test_run, unit) eff" where
  "push_result r w = (Ok (), w\<lparr>tr_results := tr_results w @ [r]\<rparr>)"

text \<open>What the callback throws is swallowed, so its outcome is not represented.\<close>

definition fireLatestProgress :: "(('s, 'n) test_run, unit) eff" where
  "fireLatestProgress w = (if tr_results w = [] then (Ok (), w)
     else let r = last (tr_results w) in
       (Ok (), w\<lparr>tr_events := tr_events w @ [\<lparr>ev_scenarioName = cr_scenarioName r, ev_invoiceKind = cr_invoiceKind r,
          ev_passed = cr_passed r, ev_errors = cr_errors r, ev_completedCount = length (tr_results w),
          ev_totalCount = 6\<rparr>]\<rparr>))"

definition compliance_submission :: "'s RunComplianceTestsArgs \<Rightarrow> IssuedInvoice \<Rightarrow> SubmissionParams" where
  "compliance_submission args i = \<lparr>sub_signedInvoiceXml = issued_signedXml i, sub_invoiceHash = issued_invoiceHash i,
     sub_egsUuid = egs_uuid (ct_egsInfo args), sub_binarySecurityToken = ct_binarySecurityToken args,
     sub_apiSecret = ct_apiSecret args, sub_environment = ct_environment args, sub_httpOptions = ct_httpOptions args\<rparr>"

definition scenario_result :: "InvoiceKind \<Rightarrow> int \<Rightarrow> IssuedInvoice \<Rightarrow> jsval \<Rightarrow> bool \<Rightarrow> string list \<Rightarrow> ComplianceTestScenarioResult" where
  "scenario_result kind t i response passed errors = \<lparr>cr_invoiceKind = kind, cr_scenarioName = kind_str kind,
     cr_invoiceNumber = issued_invoiceNumber i, cr_invoiceHash = issued_invoiceHash i, cr_submittedAt = t,
     cr_response = Some response, cr_passed = passed, cr_errors = errors\<rparr>"

definition scenario_failure :: "InvoiceKind \<Rightarrow> int \<Rightarrow> error \<Rightarrow> ComplianceTestScenarioResult" where
  "scenario_failure kind t e = \<lparr>cr_invoiceKind = kind, cr_scenarioName = kind_str kind, cr_invoiceNumber = [],
     cr_invoiceHash = [], cr_submittedAt = t, cr_response = None, cr_passed = False, cr_errors = [describeError e]\<rparr>"

text \<open>
  One scenario. The six blocks of the source differ in the kind, which is also the scenario's name,
  the issuer and the maker of the input.
\<close>

type_synonym 's issuer = "Issue_env \<Rightarrow> InvoiceInput \<Rightarrow> EGSUnitInfo \<Rightarrow> TenantScope \<Rightarrow> Signing_keys \<Rightarrow> ('s, IssuedInvoice) eff"

definition issue_and_check :: "'n network \<Rightarrow> 's RunComplianceTestsArgs \<Rightarrow> TenantScope \<Rightarrow> scenario_env \<Rightarrow>
    InvoiceKind \<Rightarrow> 's issuer \<Rightarrow> InvoiceInput \<Rightarrow> (('s, 'n) test_run, unit) eff" where
  "issue_and_check net args sc se kind issuer input =
     andThen (on_adapter (issuer (dispatch_env (se_issue se)) input (ct_egsInfo args) sc (ct_signing args))) (\<lambda>issued.
     andThen (keep_hash (issued_invoiceHash issued)) (\<lambda>_.
     andThen (on_network (checkInvoiceCompliance net (compliance_submission args issued))) (\<lambda>response.
     andThen (of_result (classifyResponse response)) (\<lambda>(passed, errors).
     push_result (scenario_result kind (se_submittedAt se) issued response passed errors)))))"

definition run_scenario :: "'n network \<Rightarrow> 's RunComplianceTestsArgs \<Rightarrow> TenantScope \<Rightarrow> scenario_env \<Rightarrow>
    InvoiceKind \<times> 's issuer \<times> InvoiceInput \<Rightarrow> (('s, 'n) test_run, unit) eff" where
  "run_scenario net args sc se x = (case x of (kind, issuer, input) \<Rightarrow>
     andThen (tryCatch (issue_and_check net args sc se kind issuer input)
       (\<lambda>e. push_result (scenario_failure kind (se_submittedAt se) e)))
     (\<lambda>_. fireLatestProgress))"

fun run_scenarios :: "'n network \<Rightarrow> 's RunComplianceTestsArgs \<Rightarrow> TenantScope \<Rightarrow> (InvoiceKind \<Rightarrow> scenario_env) \<Rightarrow>
    (InvoiceKind \<times> 's issuer \<times> InvoiceInput) list \<Rightarrow> (('s, 'n) test_run, unit) eff" where
  "run_scenarios net args sc envs [] = ret ()"
| "run_scenarios net args sc envs (x # xs) =
     andThen (run_scenario net args sc (envs (fst x)) x) (\<lambda>_. run_scenarios net args sc envs xs)"

type_synonym 's test_case = "InvoiceKind \<times> 's issuer \<times> InvoiceInput"

definition simplified_invoice_test :: "crypto_lib \<Rightarrow> 's RunComplianceTestsArgs \<Rightarrow> 's test_case" where
  "simplified_invoice_test lib args = (Simplified_tax_invoice, issueSimplifiedTaxInvoice lib (ct_storage args),
     makeSimplifiedInvoiceScenario (ct_dateOverrides args) (ct_egsInfo args))"

definition standard_invoice_test :: "crypto_lib \<Rightarrow> 's RunComplianceTestsArgs \<Rightarrow> 's test_case" where
  "standard_invoice_test lib args = (Standard_tax_invoice, issueStandardTaxInvoice lib (ct_storage args),
     makeStandardInvoiceScenario (ct_dateOverrides args) (ct_egsInfo args))"

definition simplified_credit_note_test :: "crypto_lib \<Rightarrow> 's RunComplianceTestsArgs \<Rightarrow> 's test_case" where
  "simplified_credit_note_test lib args = (Simplified_credit_note, issueSimplifiedCreditNote lib (ct_storage args),
     makeSimplifiedCreditNoteScenario (ct_dateOverrides args) (ct_egsInfo args))"

definition standard_credit_note_test :: "crypto_lib \<Rightarrow> 's RunComplianceTestsArgs \<Rightarrow> 's test_case" where
  "standard_credit_note_test lib args = (Standard_credit_note, issueStandardCreditNote lib (ct_storage args),
     makeStandardCreditNoteScenario (ct_dateOverrides args) (ct_egsInfo args))"

definition simplified_debit_note_test :: "crypto_lib \<Rightarrow> 's RunComplianceTestsArgs \<Rightarrow> 's test_case" where
  "simplified_debit_note_test lib args = (Simplified_debit_note, issueSimplifiedDebitNote lib (ct_storage args),
     makeSimplifiedDebitNoteScenario (ct_dateOverrides args) (ct_egsInfo args))"

definition standard_debit_note_test :: "crypto_lib \<Rightarrow> 's RunComplianceTestsArgs \<Rightarrow> 's test_case" where
  "standard_debit_note_test lib args = (Standard_debit_note, issueStandardDebitNote lib (ct_storage args),
     makeStandardDebitNoteScenario (ct_dateOverrides args) (ct_egsInfo args))"

definition compliance_scenarios :: "crypto_lib \<Rightarrow> 's RunComplianceTestsArgs \<Rightarrow> 's test_case list" where
  "compliance_scenarios lib args = [simplified_invoice_test lib args, standard_invoice_test lib args, 
     simplified_credit_note_test lib args, standard_credit_note_test lib args, 
     simplified_debit_note_test lib args, standard_debit_note_test lib args]"

lemmas test_case_defs = simplified_invoice_test_def standard_invoice_test_def simplified_credit_note_test_def
  standard_credit_note_test_def simplified_debit_note_test_def standard_debit_note_test_def

definition compliance_scope :: "'s RunComplianceTestsArgs \<Rightarrow> TenantScope" where
  "compliance_scope args = or_else (ct_scope args)
     \<lparr>scope_vatNumber = egs_vatNumber (ct_egsInfo args), scope_egsUuid = egs_uuid (ct_egsInfo args)\<rparr>"

definition report_of :: "('s, 'n) test_run \<Rightarrow> ComplianceTestReport" where
  "report_of w = \<lparr>rep_passed = list_all cr_passed (tr_results w), rep_results = tr_results w,
     rep_finalInvoiceHash = or_else (tr_lastHash w) []\<rparr>"

text \<open>The report, with the progress events that were fired on the way.\<close>

definition runComplianceTests :: "crypto_lib \<Rightarrow> 'n network \<Rightarrow> 's RunComplianceTestsArgs \<Rightarrow> (InvoiceKind \<Rightarrow> scenario_env) \<Rightarrow>
    ('s \<times> 'n, ComplianceTestReport \<times> ComplianceProgressEvent list) eff" where
  "runComplianceTests lib net args envs sn =
     (if key_certificate (ct_signing args) = [] \<or> key_privateKey (ct_signing args) = []
      then (Err (ZatcaOnboardingError
        ''runComplianceTests requires `signing.certificate` + `signing.privateKey`.''), sn)
      else if ct_binarySecurityToken args = [] \<or> ct_apiSecret args = []
      then (Err (ZatcaOnboardingError
        ''runComplianceTests requires `apiCredentials.binarySecurityToken` + `apiCredentials.apiSecret`.''), sn)
      else (case run_scenarios net args (compliance_scope args) envs (compliance_scenarios lib args)
          \<lparr>tr_storage = fst sn, tr_net = snd sn, tr_lastHash = None, tr_results = [], tr_events = []\<rparr> of
          (Inl e, w) \<Rightarrow> (Err e, (tr_storage w, tr_net w))
        | (Inr _, w) \<Rightarrow> (Ok (report_of w, tr_events w), (tr_storage w, tr_net w))))"

section \<open>What a run reports\<close>

text \<open>A result is passed exactly when it lists no error; then ZATCA answered and listed none.\<close>

definition result_ok :: "ComplianceTestScenarioResult \<Rightarrow> bool" where
  "result_ok r = ((cr_passed r = (cr_errors r = [])) \<and> cr_scenarioName r = kind_str (cr_invoiceKind r) \<and>
     (case cr_response r of None \<Rightarrow> cr_errors r \<noteq> []
      | Some v \<Rightarrow> classifyResponse v = Ok (cr_passed r, cr_errors r)))"

definition event_of :: "nat \<Rightarrow> ComplianceTestScenarioResult \<Rightarrow> ComplianceProgressEvent" where
  "event_of n r = \<lparr>ev_scenarioName = cr_scenarioName r, ev_invoiceKind = cr_invoiceKind r, ev_passed = cr_passed r,
     ev_errors = cr_errors r, ev_completedCount = n, ev_totalCount = 6\<rparr>"

fun events_from :: "nat \<Rightarrow> ComplianceTestScenarioResult list \<Rightarrow> ComplianceProgressEvent list" where
  "events_from n [] = []"
| "events_from n (r # rs) = event_of (Suc n) r # events_from (Suc n) rs"

lemma classify_passed: "classifyResponse v = Ok (p, es) \<Longrightarrow> p = (es = [])"
  by (auto simp: classifyResponse_def Let_def split: if_splits jsval.splits sum.splits)

lemma issue_and_check_result:
  "case issue_and_check net args sc se kind issuer input w of
     (Inl e, w') \<Rightarrow> tr_results w' = tr_results w \<and> tr_events w' = tr_events w
   | (Inr u, w') \<Rightarrow> (\<exists>r. tr_results w' = tr_results w @ [r] \<and> tr_events w' = tr_events w \<and>
       cr_invoiceKind r = kind \<and> cr_submittedAt r = se_submittedAt se \<and> result_ok r)"
  by (auto simp: issue_and_check_def andThen_run on_adapter_def keep_hash_def on_network_def push_result_def
      scenario_result_def result_ok_def classify_passed split: sum.split prod.split)

lemma run_scenario_result:
  "\<exists>r w'. run_scenario net args sc se (kind, issuer, input) w = (Ok (), w') \<and> tr_results w' = tr_results w @ [r] \<and>
     tr_events w' = tr_events w @ [event_of (Suc (length (tr_results w))) r] \<and>
     cr_invoiceKind r = kind \<and> cr_submittedAt r = se_submittedAt se \<and> result_ok r"
proof -
  obtain x w1 where run: "issue_and_check net args sc se kind issuer input w = (x, w1)" by fastforce
  note res = issue_and_check_result [where net = net and args = args and sc = sc and se = se and kind = kind
    and issuer = issuer and input = input and w = w]
  show ?thesis
  proof (cases x)
    case (Inl e)
    then have "tr_results w1 = tr_results w" "tr_events w1 = tr_events w" using res run by simp_all
    then show ?thesis using run Inl
      by (simp add: run_scenario_def andThen_run tryCatch_run push_result_def fireLatestProgress_def
          event_of_def scenario_failure_def result_ok_def)
  next
    case (Inr u)
    then obtain r where "tr_results w1 = tr_results w @ [r]" "tr_events w1 = tr_events w"
      "cr_invoiceKind r = kind" "cr_submittedAt r = se_submittedAt se" "result_ok r"
      using res run by auto
    then show ?thesis using run Inr
      by (simp add: run_scenario_def andThen_run tryCatch_run fireLatestProgress_def event_of_def)
  qed
qed

lemma run_scenarios_result:
  "\<exists>rs w'. run_scenarios net args sc envs xs w = (Ok (), w') \<and> tr_results w' = tr_results w @ rs \<and>
     tr_events w' = tr_events w @ events_from (length (tr_results w)) rs \<and>
     map cr_invoiceKind rs = map fst xs \<and> list_all result_ok rs"
proof (induction xs arbitrary: w)
  case (Cons x xs)
  obtain kind issuer input where x: "x = (kind, issuer, input)" by (cases x)
  obtain r w1 where one: "run_scenario net args sc (envs kind) x w = (Ok (), w1)" "tr_results w1 = tr_results w @ [r]"
    "tr_events w1 = tr_events w @ [event_of (Suc (length (tr_results w))) r]" "cr_invoiceKind r = kind" "result_ok r"
    using run_scenario_result x by metis
  obtain rs w2 where "run_scenarios net args sc envs xs w1 = (Ok (), w2)" "tr_results w2 = tr_results w1 @ rs"
    "tr_events w2 = tr_events w1 @ events_from (length (tr_results w1)) rs" "map cr_invoiceKind rs = map fst xs"
    "list_all result_ok rs" using Cons.IH by blast
  then show ?case using one x by (intro exI [of _ "r # rs"] exI [of _ w2]) (simp add: andThen_run)
qed (simp add: exI [of _ "[]"])

definition phase2_kinds :: "InvoiceKind list" where
  "phase2_kinds = [Simplified_tax_invoice, Standard_tax_invoice, Simplified_credit_note, Standard_credit_note,
     Simplified_debit_note, Standard_debit_note]"

definition credentials_given :: "'s RunComplianceTestsArgs \<Rightarrow> bool" where
  "credentials_given args = (key_certificate (ct_signing args) \<noteq> [] \<and> key_privateKey (ct_signing args) \<noteq> [] \<and>
     ct_binarySecurityToken args \<noteq> [] \<and> ct_apiSecret args \<noteq> [])"

lemma compliance_run:
  assumes "credentials_given args"
  shows "\<exists>rep evs sn'. runComplianceTests lib net args envs sn = (Ok (rep, evs), sn') \<and>
    map cr_invoiceKind (rep_results rep) = phase2_kinds \<and> list_all result_ok (rep_results rep) \<and>
    rep_passed rep = list_all cr_passed (rep_results rep) \<and> evs = events_from 0 (rep_results rep)"
proof -
  let ?w = "\<lparr>tr_storage = fst sn, tr_net = snd sn, tr_lastHash = None, tr_results = [], tr_events = []\<rparr>"
  obtain rs w' where "run_scenarios net args (compliance_scope args) envs (compliance_scenarios lib args) ?w = (Ok (), w')"
    "tr_results w' = rs" "tr_events w' = events_from 0 rs"
    "map cr_invoiceKind rs = map fst (compliance_scenarios lib args)" "list_all result_ok rs"
    using run_scenarios_result [of net args "compliance_scope args" envs "compliance_scenarios lib args" ?w] by auto
  then show ?thesis using assms
    by (simp add: runComplianceTests_def credentials_given_def report_of_def compliance_scenarios_def phase2_kinds_def test_case_defs)
qed

lemma compliance_refused:
  "\<not> credentials_given args \<Longrightarrow> \<exists>e. runComplianceTests lib net args envs sn = (Err (ZatcaOnboardingError e), sn)"
  by (auto simp: runComplianceTests_def credentials_given_def)

end
