(* ===== verification/CoreOnboarding.thy ===== *)
theory CoreOnboarding
  imports Compliance Csr
begin

text \<open>
  The core package's onboarding (\<open>core/src/onboarding/onboard.ts\<close>): key pair and certificate request,
  compliance certificate, the six compliance tests, production certificate. The key tools are
  parameters, as the code lets a caller replace them; theory \<open>Csr\<close> models the default ones. The
  state is the network's, with the calls of \<open>onProgress\<close> so far.
\<close>

record onboard_crypto =
  oc_ensureOpenssl :: "error + unit" \<comment> \<open>\<open>Ok\<close> also when the probe is skipped\<close>
  oc_generateKeyPair :: "error + string"
  oc_generateCSR :: "CSRGenerationEgsInfo \<Rightarrow> bool \<Rightarrow> string \<Rightarrow> error + string"

record OnboardArgs =
  oa_egsInfo :: EGSUnitInfo
  oa_otp :: string
  oa_environment :: Environment
  oa_solutionName :: string
  oa_httpOptions :: HttpOverrides
  oa_crypto :: onboard_crypto

record CoreOnboardingResult =
  or_privateKey :: string
  or_csr :: string
  or_compliance :: IssuedCertificateResult \<comment> \<open>the four \<open>compliance*\<close> fields\<close>
  or_production :: IssuedCertificateResult \<comment> \<open>the four \<open>production*\<close> fields\<close>
  or_report :: ComplianceTestReport

definition toCsrEgsInfo :: "EGSUnitInfo \<Rightarrow> string \<Rightarrow> CSRGenerationEgsInfo" where
  "toCsrEgsInfo i privateKey = \<lparr>ci_custom_id = egs_customId i, ci_model = egs_model i, ci_VAT_name = egs_vatName i,
     ci_VAT_number = egs_vatNumber i, ci_branch_name = egs_branchName i, ci_branch_industry = egs_branchIndustry i,
     ci_city = loc_cityName (egs_location i), ci_street = loc_street (egs_location i),
     ci_building = loc_building (egs_location i), ci_private_key = privateKey\<rparr>"

definition withComplianceCertificate :: "EGSUnitInfo \<Rightarrow> string \<Rightarrow> string \<Rightarrow> string \<Rightarrow> EGSUnitInfo" where
  "withComplianceCertificate i privateKey cert secret = i\<lparr>egs_certificate := Some
     \<lparr>cert_privateKey = Some privateKey, cert_csr = None, cert_complianceCertificate = Some cert,
      cert_complianceApiSecret = Some secret, cert_productionCertificate = None, cert_productionApiSecret = None\<rparr>\<rparr>"

definition onboarding_error :: "string \<Rightarrow> error" where
  "onboarding_error m = ZatcaOnboardingError m"

definition or_throw :: "string \<Rightarrow> error + 'a \<Rightarrow> error + 'a" where
  "or_throw m r = (case r of Inl _ \<Rightarrow> Err (onboarding_error m) | Inr a \<Rightarrow> Ok a)"

definition failure_line :: "ComplianceTestScenarioResult \<Rightarrow> string" where
  "failure_line r = kind_str (cr_invoiceKind r) @ '': '' @ join_with ''; '' (cr_errors r)"

definition tests_failed :: "ComplianceTestReport \<Rightarrow> error" where
  "tests_failed rep = onboarding_error (''Compliance tests failed '' @ em_dash @ '' production CSID not issued. Failures: ''
     @ join_with '' | '' (map failure_line (filter (\<lambda>r. \<not> cr_passed r) (rep_results rep))))"

definition test_args :: "OnboardArgs \<Rightarrow> string \<Rightarrow> IssuedCertificateResult \<Rightarrow> internal_state RunComplianceTestsArgs" where
  "test_args args privateKey cc = \<lparr>ct_egsInfo = withComplianceCertificate (oa_egsInfo args) privateKey
       (ic_issuedCertificate cc) (ic_apiSecret cc),
     ct_environment = oa_environment args,
     ct_signing = \<lparr>key_certificate = ic_issuedCertificate cc, key_privateKey = privateKey\<rparr>,
     ct_binarySecurityToken = ic_binarySecurityToken cc, ct_apiSecret = ic_apiSecret cc,
     ct_storage = createInternalMemoryStorage, ct_scope = None, ct_httpOptions = oa_httpOptions args,
     ct_dateOverrides = \<lparr>over_issueDate = None, over_issueTime = None\<rparr>\<rparr>"

type_synonym 'n onboard_state = "'n \<times> ComplianceProgressEvent list"

definition on_zatca :: "('n, 'a) eff \<Rightarrow> ('n onboard_state, 'a) eff" where
  "on_zatca m s = (case m (fst s) of (r, n) \<Rightarrow> (r, (n, snd s)))"

text \<open>The tests run on a fresh private storage, which is dropped afterwards.\<close>

definition compliance_tests :: "crypto_lib \<Rightarrow> 'n network \<Rightarrow> internal_state RunComplianceTestsArgs \<Rightarrow>
    (InvoiceKind \<Rightarrow> scenario_env) \<Rightarrow> ('n onboard_state, ComplianceTestReport) eff" where
  "compliance_tests lib net args envs s = (case runComplianceTests lib net args envs (internal_empty, fst s) of
       (Inl e, (_, n)) \<Rightarrow> (Err e, (n, snd s))
     | (Inr (rep, evs), (_, n)) \<Rightarrow> (Ok rep, (n, snd s @ evs)))"

definition csid_params :: "OnboardArgs \<Rightarrow> IssuedCertificateResult \<Rightarrow> IssueCSIDSParams" where
  "csid_params args cc = \<lparr>cs_complianceRequestId = ic_requestId cc, cs_binarySecurityToken = ic_binarySecurityToken cc,
     cs_apiSecret = ic_apiSecret cc, cs_environment = oa_environment args, cs_httpOptions = oa_httpOptions args\<rparr>"

definition certificate_params :: "OnboardArgs \<Rightarrow> string \<Rightarrow> IssueComplianceCertificateParams" where
  "certificate_params args csr = \<lparr>cc_csr = csr, cc_otp = oa_otp args, cc_environment = oa_environment args,
     cc_httpOptions = oa_httpOptions args\<rparr>"

definition onboard :: "crypto_lib \<Rightarrow> 'n network \<Rightarrow> (InvoiceKind \<Rightarrow> scenario_env) \<Rightarrow> OnboardArgs \<Rightarrow>
    ('n onboard_state, CoreOnboardingResult) eff" where
  "onboard lib net envs args =
     (if oa_otp args = [] then raise (onboarding_error ''onboard requires a 6-digit OTP.'')
      else if oa_solutionName args = [] then raise (onboarding_error ''onboard requires a solutionName (BSN).'')
      else andThen (of_result (or_throw ''OpenSSL CLI is required for onboarding but was not found on PATH.''
          (oc_ensureOpenssl (oa_crypto args)))) (\<lambda>_.
        andThen (of_result (or_throw ''Failed to generate the secp256k1 keypair.''
          (oc_generateKeyPair (oa_crypto args)))) (\<lambda>privateKey.
        andThen (of_result (or_throw ''Failed to generate the CSR.'' (oc_generateCSR (oa_crypto args)
          (toCsrEgsInfo (oa_egsInfo args) privateKey) (oa_environment args = Production) (oa_solutionName args)))) (\<lambda>csr.
        andThen (on_zatca (issueComplianceCertificate net (certificate_params args csr))) (\<lambda>cc.
        andThen (compliance_tests lib net (test_args args privateKey cc) envs) (\<lambda>report.
        if \<not> rep_passed report then raise (tests_failed report)
        else andThen (on_zatca (issueCSIDS net (csid_params args cc))) (\<lambda>prod.
          ret \<lparr>or_privateKey = privateKey, or_csr = csr, or_compliance = cc, or_production = prod,
               or_report = report\<rparr>)))))))"

section \<open>What an onboarding obtains\<close>

lemma read_certificate_ok:
  assumes "read_certificate what wrap raw = Ok c"
  shows "ic_binarySecurityToken c \<noteq> []" "ic_issuedCertificate c = wrap (base64_decode (ic_binarySecurityToken c))"
  using assms by (auto simp: read_certificate_def truthy_def split: if_splits jsval.splits)

lemma compliance_tests_cases:
  "compliance_tests lib net args envs s = (r, s') \<Longrightarrow>
    (case r of Inl e \<Rightarrow> \<not> credentials_given args \<and> s' = s
     | Inr rep \<Rightarrow> credentials_given args \<and> map cr_invoiceKind (rep_results rep) = phase2_kinds \<and> list_all result_ok (rep_results rep) \<and>
         rep_passed rep = list_all cr_passed (rep_results rep) \<and> snd s' = snd s @ events_from 0 (rep_results rep))"
proof (cases "credentials_given args")
  case True
  then obtain rep evs sn' where "runComplianceTests lib net args envs (internal_empty, fst s) = (Ok (rep, evs), sn')"
    "map cr_invoiceKind (rep_results rep) = phase2_kinds" "list_all result_ok (rep_results rep)"
    "rep_passed rep = list_all cr_passed (rep_results rep)" "evs = events_from 0 (rep_results rep)"
    using compliance_run by blast
  then show "compliance_tests lib net args envs s = (r, s') \<Longrightarrow> ?thesis"
    using True by (cases sn') (auto simp: compliance_tests_def)
next
  case False
  then show "compliance_tests lib net args envs s = (r, s') \<Longrightarrow> ?thesis"
    using compliance_refused [OF False, of lib net envs "(internal_empty, fst s)"]
    by (auto simp: compliance_tests_def)
qed

end
