(* ===== verification/Certificates.thy ===== *)
theory Certificates
  imports Errors
begin

text \<open>
  Certificate checks (\<open>core/src/certificates\<close>). Node's \<open>X509Certificate\<close>, \<open>createPrivateKey\<close> and
  \<open>Date.parse\<close> are parameters: a certificate text parses to its fields or throws, a key to the DER
  encoding of its public half.
\<close>

record x509 =
  x_validFrom :: string
  x_validTo :: string
  x_serialNumber :: string
  x_subject :: string
  x_issuer :: string
  x_spki :: "string option" \<comment> \<open>\<open>None\<close> when the export throws\<close>

record node_crypto =
  nc_x509 :: "string \<Rightarrow> x509 option"
  nc_privateKey_spki :: "string \<Rightarrow> string option" \<comment> \<open>\<open>None\<close> when any step of the key's side throws\<close>
  nc_parseDate :: "string \<Rightarrow> int option" \<comment> \<open>\<open>None\<close> is an invalid date\<close>

definition certificate_unparsed :: error where
  "certificate_unparsed = ZatcaCertificateError ''Failed to parse certificate via node:crypto X509Certificate.''"

definition getCertificateExpirationDate :: "node_crypto \<Rightarrow> string \<Rightarrow> error + int option" where
  "getCertificateExpirationDate nc certificate = (case nc_x509 nc certificate of
       None \<Rightarrow> Err certificate_unparsed
     | Some cert \<Rightarrow> Ok (nc_parseDate nc (x_validTo cert)))"

text \<open>Comparisons with an invalid date are false, and both checks rule it out first.\<close>

definition in_window :: "int \<Rightarrow> int option \<Rightarrow> int option \<Rightarrow> bool" where
  "in_window now validFrom validTo = (case (validFrom, validTo) of
       (Some a, Some b) \<Rightarrow> a \<le> now \<and> now \<le> b | _ \<Rightarrow> False)"

definition isCertificateValid :: "node_crypto \<Rightarrow> string \<Rightarrow> int \<Rightarrow> bool" where
  "isCertificateValid nc certificate now = (case nc_x509 nc certificate of
       None \<Rightarrow> False
     | Some cert \<Rightarrow> in_window now (nc_parseDate nc (x_validFrom cert)) (nc_parseDate nc (x_validTo cert)))"

record CertificateVerification =
  ver_isValid :: bool
  ver_serialNumber :: string
  ver_subject :: string
  ver_issuer :: string
  ver_validFrom :: "int option"
  ver_validTo :: "int option"
  ver_publicKeyMatchesPrivateKey :: "bool option" \<comment> \<open>\<open>None\<close> is \<open>null\<close>\<close>

definition spkiMatches :: "node_crypto \<Rightarrow> x509 \<Rightarrow> string \<Rightarrow> bool" where
  "spkiMatches nc cert privateKeyPem = (case (nc_privateKey_spki nc privateKeyPem, x_spki cert) of
       (Some a, Some b) \<Rightarrow> b = a | _ \<Rightarrow> False)"

definition verifyCertificate :: "node_crypto \<Rightarrow> string \<Rightarrow> string option \<Rightarrow> int \<Rightarrow> error + CertificateVerification" where
  "verifyCertificate nc certificate privateKey now = (case nc_x509 nc certificate of
       None \<Rightarrow> Err certificate_unparsed
     | Some cert \<Rightarrow> (let validFrom = nc_parseDate nc (x_validFrom cert); validTo = nc_parseDate nc (x_validTo cert) in
         Ok \<lparr>ver_isValid = in_window now validFrom validTo, ver_serialNumber = x_serialNumber cert,
             ver_subject = x_subject cert, ver_issuer = x_issuer cert, ver_validFrom = validFrom,
             ver_validTo = validTo, ver_publicKeyMatchesPrivateKey = map_option (spkiMatches nc cert) privateKey\<rparr>))"

section \<open>The three checks agree\<close>

lemma checks_agree:
  "isCertificateValid nc c now \<longleftrightarrow> (\<exists>v. verifyCertificate nc c k now = Ok v \<and> ver_isValid v)"
  "verifyCertificate nc c k now = Ok v \<Longrightarrow> getCertificateExpirationDate nc c = Ok (ver_validTo v)"
  "getCertificateExpirationDate nc c = Ok (Some t) \<Longrightarrow> t < now \<Longrightarrow> \<not> isCertificateValid nc c now"
  by (auto simp: isCertificateValid_def verifyCertificate_def getCertificateExpirationDate_def Let_def in_window_def
      split: option.splits)

text \<open>The validity is an interval of time: valid at two moments, valid in between.\<close>

lemma valid_convex:
  "isCertificateValid nc c t \<Longrightarrow> isCertificateValid nc c u \<Longrightarrow> t \<le> now \<Longrightarrow> now \<le> u \<Longrightarrow> isCertificateValid nc c now"
  by (auto simp: isCertificateValid_def in_window_def split: option.splits)

end
