(* ===== verification/ServerOnboarding.thy ===== *)
theory ServerOnboarding
  imports Onboarding CoreOnboarding Certificates
begin

text \<open>
  The server's onboarding run with the core package's onboarding in it, as
  \<open>server/src/onboarding/run.ts\<close> composes them: \<open>onboardFn\<close> is \<open>onboard\<close> on the unit's data, its
  progress events are written to the tenant's record, and \<open>getExpiry\<close> is
  \<open>getCertificateExpirationDate\<close>.
\<close>

definition core_args :: "RunOnboardingArgs \<Rightarrow> HttpOverrides \<Rightarrow> onboard_crypto \<Rightarrow> EGSUnitInfo \<Rightarrow> OnboardArgs" where
  "core_args args http tools egs = \<lparr>oa_egsInfo = egs, oa_otp = run_otp args, oa_environment = run_environment args,
     oa_solutionName = run_solutionName args, oa_httpOptions = http, oa_crypto = tools\<rparr>"

text \<open>Request ids are declared as strings and only written to JSON.\<close>

definition server_result :: "CoreOnboardingResult \<Rightarrow> OnboardingResult" where
  "server_result r = (let cc = or_compliance r; pc = or_production r in
     \<lparr>r_privateKey = or_privateKey r,
      r_complianceCertificate = ic_issuedCertificate cc, r_complianceBinarySecurityToken = ic_binarySecurityToken cc,
      r_complianceApiSecret = ic_apiSecret cc, r_complianceRequestId = to_str (ic_requestId cc),
      r_productionCertificate = ic_issuedCertificate pc, r_productionBinarySecurityToken = ic_binarySecurityToken pc,
      r_productionApiSecret = ic_apiSecret pc, r_productionRequestId = to_str (ic_requestId pc),
      r_tests_passed = rep_passed (or_report r)\<rparr>)"

definition reported :: "ComplianceProgressEvent \<Rightarrow> string \<times> bool" where
  "reported e = (ev_scenarioName e, ev_passed e)"

text \<open>The expiry of a certificate that parses is a date, so \<open>getExpiry\<close> fails only when parsing does.\<close>

definition expiry_hook :: "node_crypto \<Rightarrow> string \<Rightarrow> int option" where
  "expiry_hook nc c = (case getCertificateExpirationDate nc c of Inl _ \<Rightarrow> None | Inr t \<Rightarrow> t)"

definition onboard_on :: "crypto_lib \<Rightarrow> 'n network \<Rightarrow> (InvoiceKind \<Rightarrow> scenario_env) \<Rightarrow> HttpOverrides \<Rightarrow> onboard_crypto \<Rightarrow>
    RunOnboardingArgs \<Rightarrow> 'n \<Rightarrow> EGSUnitInfo \<Rightarrow> (string \<times> bool) list \<times> (error + OnboardingResult)" where
  "onboard_on lib net envs http tools args n egs = (case onboard lib net envs (core_args args http tools egs) (n, []) of
       (x, (_, evs)) \<Rightarrow> (map reported evs, map_sum id server_result x))"

definition run_with_core :: "unit_of_work \<Rightarrow> int \<Rightarrow> finish_env \<Rightarrow> crypto_lib \<Rightarrow> 'n network \<Rightarrow>
    (InvoiceKind \<Rightarrow> scenario_env) \<Rightarrow> HttpOverrides \<Rightarrow> onboard_crypto \<Rightarrow> 'n \<Rightarrow> RunOnboardingArgs \<Rightarrow>
    (world, RunOnboardingResult) eff" where
  "run_with_core uow now fe lib net envs http tools n args =
     runOnboarding uow now fe (onboard_on lib net envs http tools args n) args"

end
