(* ===== verification/Runs.thy ===== *)
theory Runs
  imports Onboarding
begin

text \<open>
  Onboarding runs of several callers, interleaved. A run is alive between its acquisition of the
  lock and its end (\<open>onboardFn\<close> is awaited in between); while it is alive other runs may start,
  report and end, time passes, and admins patch or delete tenants. A live run is kept with the
  deadline of the claim it took. In a \<open>prompt\<close> history every run ends before its deadline.
\<close>

record config =
  c_now :: int
  c_world :: world
  c_runs :: "(RunOnboardingArgs \<times> int) list"

abbreviation live_ref :: "RunOnboardingArgs \<times> int \<Rightarrow> string" where
  "live_ref x \<equiv> run_tenantRef (fst x)"

abbreviation set_rows :: "tenant_rows \<Rightarrow> config \<Rightarrow> config" where
  "set_rows m c \<equiv> c\<lparr>c_world := (c_world c)\<lparr>w_tenants := m\<rparr>\<rparr>"

inductive run_step :: "bool \<Rightarrow> config \<Rightarrow> config \<Rightarrow> bool" for prompt where
  Start: "acquire (c_now c) args (w_tenants (c_world c)) = (Ok egs, m) \<Longrightarrow>
    (prompt \<Longrightarrow> c_now c < lock_until args (c_now c)) \<Longrightarrow>
    run_step prompt c ((set_rows m c)\<lparr>c_runs := (args, lock_until args (c_now c)) # c_runs c\<rparr>)"
| Report: "(args, d) \<in> set (c_runs c) \<Longrightarrow> progress_event (c_now c) args ev (c_world c) = (r, w) \<Longrightarrow>
    run_step prompt c (c\<lparr>c_world := w\<rparr>)"
| End: "c_runs c = xs @ (args, d) # ys \<Longrightarrow> sound_uow uow \<Longrightarrow> fe_now fe = c_now c \<Longrightarrow>
    finish uow fe args outcome (c_world c) = (r, w) \<Longrightarrow>
    run_step prompt c (c\<lparr>c_world := w, c_runs := xs @ ys\<rparr>)"
| Tick: "c_now c \<le> t \<Longrightarrow> (prompt \<Longrightarrow> \<forall>x \<in> set (c_runs c). t < snd x) \<Longrightarrow>
    run_step prompt c (c\<lparr>c_now := t\<rparr>)"
| Patch: "tenant_patch (c_now c) ref p (w_tenants (c_world c)) = (r, m) \<Longrightarrow> run_step prompt c (set_rows m c)"
| Delete: "tenant_softDelete (c_now c) ref (w_tenants (c_world c)) = (r, m) \<Longrightarrow> run_step prompt c (set_rows m c)"

inductive_cases run_stepE [elim]: "run_step prompt c c'"

inductive reachable :: "bool \<Rightarrow> config \<Rightarrow> config \<Rightarrow> bool" for prompt c0 where
  Here: "reachable prompt c0 c0"
| Next: "reachable prompt c0 c \<Longrightarrow> run_step prompt c c' \<Longrightarrow> reachable prompt c0 c'"

section \<open>What each part does to the records\<close>

text \<open>The lock of a live run: while its tenant exists, the record carries exactly this claim.\<close>

definition guards :: "tenant_rows \<Rightarrow> RunOnboardingArgs \<times> int \<Rightarrow> bool" where
  "guards m x = (case visible (live_ref x) m of None \<Rightarrow> True
     | Some r \<Rightarrow> t_state r = Onboarding \<and> claimExpiresAt r = Some (snd x))"

lemma guards_cong: "visible (live_ref x) m = visible (live_ref x) m' \<Longrightarrow> guards m x = guards m' x"
  by (simp add: guards_def)

lemma acquire_guards:
  assumes "acquire now args m = (Ok egs, m')"
  shows "guards m' (args, lock_until args now)" "run_tenantRef args \<noteq> ref \<Longrightarrow> visible ref m' = visible ref m"
    "guards m (args', d) \<Longrightarrow> run_tenantRef args' = run_tenantRef args \<Longrightarrow> d \<le> now"
proof -
  obtain r where r: "visible (run_tenantRef args) m = Some r" "held_by now r = None"
    "m' = mset_to (run_tenantRef args) (claimed now args r) m" using assms by (rule acquire_ok)
  show "guards m' (args, lock_until args now)" "run_tenantRef args \<noteq> ref \<Longrightarrow> visible ref m' = visible ref m"
    using r visible_live [OF r(1)] by (simp_all add: guards_def visible_mset)
  show "guards m (args', d) \<Longrightarrow> run_tenantRef args' = run_tenantRef args \<Longrightarrow> d \<le> now"
    using r(1,2) by (auto simp: guards_def held_by_def split: if_splits)
qed

text \<open>An update that keeps the state and the claim keeps every guard.\<close>

lemma guards_update:
  assumes "visible ref m = Some r" "t_state r' = t_state r" "claimExpiresAt r' = claimExpiresAt r" "deletedAt r' = deletedAt r"
  shows "guards (mset_to ref r' m) x = guards m x"
  using assms visible_live [OF assms(1)] by (auto simp: guards_def visible_mset)

lemma progress_guards:
  assumes "progress_event now args ev w = (r, w')"
  shows "guards (w_tenants w') x = guards (w_tenants w) x"
proof -
  have "w' = w \<or> (\<exists>rec. visible (run_tenantRef args) (w_tenants w) = Some rec \<and>
      w' = w\<lparr>w_tenants := mset_to (run_tenantRef args) (with_progress now (fst ev) (snd ev) rec) (w_tenants w)\<rparr>)"
    using assms
    by (auto simp: progress_event_def ignore_error_def to_unit_def tryCatch_run andThen_run on_tenants_def
        tenant_recordOnboardingProgress_def update_record_def requireRecord_def split: option.splits prod.splits sum.splits)
  moreover have "guards (mset_to ref (with_progress now s b rec) m) x = guards m x" if "visible ref m = Some rec" for ref s b rec m
    using that by (rule guards_update) (simp_all add: with_progress_def)
  ultimately show ?thesis by auto
qed

lemma patch_guards:
  assumes "tenant_patch now ref p m = (r, m')"
  shows "guards m' x = guards m x"
  using assms guards_update [of ref m _ "patched now p _" x]
  by (auto simp: tenant_patch_def update_record_def requireRecord_def patched_def split: option.splits)

lemma delete_guards:
  assumes "tenant_softDelete now ref m = (r, m')" "guards m x"
  shows "guards m' x"
  using assms by (auto simp: tenant_softDelete_def guards_def visible_mset split: option.splits if_splits)

lemma finish_frame:
  assumes "finish uow fe args outcome w = (r, w')" "sound_uow uow" "ref \<noteq> run_tenantRef args"
  shows "visible ref (w_tenants w') = visible ref (w_tenants w)"
proof -
  obtain x w1 where c: "complete uow fe args outcome w = (x, w1)" by fastforce
  have promote: "visible ref (w_tenants (snd (promote fe args res t w))) = visible ref (w_tenants w)" for res t
    using assms(3) promote_live promote_gone
    by (cases "visible (run_tenantRef args) (w_tenants w)") (simp_all add: visible_mset)
  have "visible ref (w_tenants (snd (complete uow fe args outcome w))) = visible ref (w_tenants w)"
    unfolding complete_cases [OF assms(2)]
    using promote by (simp split: sum.split option.split)
  then have "visible ref (w_tenants w1) = visible ref (w_tenants w)" by (simp add: c)
  moreover have "visible ref (fail_tenant now rr msg m) = visible ref m" if "rr \<noteq> ref" for now rr msg m
    using that by (auto simp: fail_tenant_def visible_mset split: option.split)
  ultimately show ?thesis
    using assms(1,3) c by (cases x) (auto simp: finish_error finish_ok failed_world_def)
qed

lemma finish_guards:
  assumes "finish uow fe args outcome w = (r, w')" "sound_uow uow" "live_ref x \<noteq> run_tenantRef args"
  shows "guards (w_tenants w') x = guards (w_tenants w) x"
  using finish_frame [OF assms] by (rule guards_cong)

section \<open>Prompt histories\<close>

definition exclusive :: "config \<Rightarrow> bool" where
  "exclusive c = (distinct (map live_ref (c_runs c)) \<and>
     (\<forall>x \<in> set (c_runs c). c_now c < snd x \<and> guards (w_tenants (c_world c)) x))"

lemma step_exclusive:
  assumes "run_step True c c'" "exclusive c"
  shows "exclusive c'"
  using assms
proof (induction rule: run_step.induct)
  case (Start c args egs m)
  note acq = acquire_guards [OF Start.hyps(1)]
  have fresh: "live_ref x \<noteq> run_tenantRef args" if "x \<in> set (c_runs c)" for x
    using acq(3) [of "fst x" "snd x"] that Start.prems by (force simp: exclusive_def)
  have "guards m x" if x: "x \<in> set (c_runs c)" for x
  proof -
    have "guards m x = guards (w_tenants (c_world c)) x"
      by (rule guards_cong, rule acq(2)) (use fresh [OF x] in simp)
    then show ?thesis using Start.prems x by (simp add: exclusive_def)
  qed
  moreover have "run_tenantRef args \<notin> live_ref ` set (c_runs c)" using fresh by (metis imageE)
  ultimately show ?case using Start acq(1) by (simp add: exclusive_def)
next
  case (Report args d c ev r w)
  then show ?case using progress_guards by (auto simp: exclusive_def)
next
  case (End c xs args d ys uow fe outcome r w)
  then have "live_ref x \<noteq> run_tenantRef args" if "x \<in> set (xs @ ys)" for x
    using that by (auto simp: exclusive_def intro: rev_image_eqI)
  then show ?case using End finish_guards [OF End.hyps(4,2)] by (auto simp: exclusive_def)
next
  case (Tick c t)
  then show ?case by (auto simp: exclusive_def)
next
  case (Patch c ref p r m)
  then show ?case using patch_guards by (auto simp: exclusive_def)
next
  case (Delete c ref r m)
  then show ?case using delete_guards by (auto simp: exclusive_def)
qed

lemma reachable_exclusive: "reachable True c0 c \<Longrightarrow> exclusive c0 \<Longrightarrow> exclusive c"
  by (induction rule: reachable.induct) (blast intro: step_exclusive)+

end
