(* ===== verification/OnboardingProperties.thy ===== *)
theory OnboardingProperties
  imports Runs ServerExamples
begin

text \<open>
  Properties of onboarding over time: the histories of interleaved runs (theory \<open>Runs\<close>) implement a
  lock as long as runs end in time, and do not otherwise; how a run ends; and the life of an API key.
\<close>

section \<open>The lock\<close>

text \<open>
  The abstract lock: how many hold it, per tenant. It is taken only when free and given back by its
  holder.
\<close>

inductive lock_step :: "(string \<Rightarrow> nat) \<Rightarrow> (string \<Rightarrow> nat) \<Rightarrow> bool" where
  Take: "L ref = 0 \<Longrightarrow> lock_step L (L(ref := 1))"
| Give: "L ref = 1 \<Longrightarrow> lock_step L (L(ref := 0))"

inductive lock_trace :: "(string \<Rightarrow> nat) \<Rightarrow> bool" where
  Unlocked: "lock_trace (\<lambda>_. 0)"
| Then: "lock_trace L \<Longrightarrow> lock_step L L' \<Longrightarrow> lock_trace L'"

definition holders :: "config \<Rightarrow> string \<Rightarrow> nat" where
  "holders c ref = length (filter (\<lambda>x. live_ref x = ref) (c_runs c))"

lemma distinct_holders: "distinct (map live_ref xs) \<Longrightarrow>
    length (filter (\<lambda>x. live_ref x = ref) xs) = (if ref \<in> live_ref ` set xs then 1 else 0)"
  by (induction xs) auto

lemma holders_free: "ref \<notin> live_ref ` set xs \<Longrightarrow> filter (\<lambda>x. live_ref x = ref) xs = []"
  by (auto simp: filter_empty_conv)

text \<open>Each step of a prompt history is a step of the lock or leaves it alone.\<close>

lemma step_simulates:
  assumes "run_step True c c'" "exclusive c"
  shows "holders c' = holders c \<or> lock_step (holders c) (holders c')"
  using assms
proof (induction rule: run_step.induct)
  case (Start c args egs m)
  then have "exclusive ((set_rows m c)\<lparr>c_runs := (args, lock_until args (c_now c)) # c_runs c\<rparr>)"
    by (intro step_exclusive [OF run_step.Start])
  then have "run_tenantRef args \<notin> live_ref ` set (c_runs c)" by (simp add: exclusive_def)
  then have free: "holders c (run_tenantRef args) = 0" by (simp add: holders_def holders_free)
  have "holders ((set_rows m c)\<lparr>c_runs := (args, lock_until args (c_now c)) # c_runs c\<rparr>)
      = (holders c)(run_tenantRef args := 1)"
    using free by (auto simp: holders_def fun_eq_iff)
  then show ?case using lock_step.Take [of "holders c" "run_tenantRef args"] free by metis
next
  case (End c xs args d ys uow fe outcome r w)
  then have d: "distinct (map live_ref (c_runs c))" by (simp add: exclusive_def)
  have held: "holders c (run_tenantRef args) = 1"
    using d End.hyps(1) by (simp add: holders_def distinct_holders)
  have "run_tenantRef args \<notin> live_ref ` set (xs @ ys)" using d End.hyps(1) by auto
  then have "holders (c\<lparr>c_world := w, c_runs := xs @ ys\<rparr>) = (holders c)(run_tenantRef args := 0)"
    using End.hyps(1) holders_free [of "run_tenantRef args" "xs @ ys"] by (auto simp: holders_def fun_eq_iff)
  then show ?case using lock_step.Give [of "holders c" "run_tenantRef args"] held by metis
qed (simp_all add: holders_def fun_eq_iff)


section \<open>A run that outlives its lock\<close>

lemma start_step:
  assumes "visible (run_tenantRef a) (w_tenants (c_world c)) = Some q" "held_by (c_now c) q = None" "t_state q \<noteq> Revoked"
  shows "run_step False c ((set_rows (mset_to (run_tenantRef a) (claimed (c_now c) a q) (w_tenants (c_world c))) c)
    \<lparr>c_runs := (a, lock_until a (c_now c)) # c_runs c\<rparr>)"
  by (rule run_step.Start) (use assms in \<open>simp_all add: acquire_eq\<close>)

text \<open>A run that ends with a throw fails its tenant, whatever record the tenant has by then.\<close>

lemma end_step:
  assumes "c_runs c = xs @ [(a, d)]"
  shows "\<exists>w. run_step False c (c\<lparr>c_world := w, c_runs := xs\<rparr>)
    \<and> w_tenants w = fail_tenant (c_now c) (run_tenantRef a) ''timeout'' (w_tenants (c_world c))"
proof -
  let ?e = "ZatcaOnboardingError ''timeout''"
  let ?fe = "\<lparr>fe_cipher = undefined, fe_random = \<lambda>_. [], fe_now = c_now c, fe_uuid = [], fe_getExpiry = \<lambda>_. None\<rparr>"
  have fin: "finish pass_through ?fe a (Err ?e) (c_world c) = (Err ?e, failed_world ?fe a ?e (c_world c))"
    by (rule finish_error) (simp add: complete_def andThen_run)
  have "run_step False c (c\<lparr>c_world := failed_world ?fe a ?e (c_world c), c_runs := xs @ []\<rparr>)"
    by (rule run_step.End [OF _ _ _ fin]) (simp_all add: assms sound_uow_def)
  moreover have "w_tenants (failed_world ?fe a ?e (c_world c))
      = fail_tenant (c_now c) (run_tenantRef a) ''timeout'' (w_tenants (c_world c))"
    by (simp add: failed_world_def)
  ultimately show ?thesis by auto
qed

text \<open>
  C24: without that hypothesis the lock fails, although no claim is ever taken before it expires. A
  run that outlives its deadline loses the lock to a second one; when the first then ends with a
  throw it marks the tenant \<open>failed\<close> and clears the second run's claim, since \<open>setState\<close> of the
  error path names no expected claimant. A third run starts: two runs of the tenant are alive, both
  well within their deadlines.
\<close>

theorem stale_run_breaks_lock:
  assumes "c_runs c0 = []" "visible (run_tenantRef a) (w_tenants (c_world c0)) = Some r" "t_state r = Created"
    "run_lockTtlMs a = Some ttl" "0 < ttl"
  shows "\<exists>c d e. reachable False c0 c \<and> c_runs c = [(a, d), (a, e)] \<and> c_now c < d \<and> c_now c < e"
proof -
  let ?ref = "run_tenantRef a" and ?t = "c_now c0 + ttl"
  have until: "lock_until a t = t + ttl" for t using assms(4) by (simp add: lock_until_def or_else_def)
  have live: "deletedAt r = None" using visible_live [OF assms(2)] .
  let ?q1 = "claimed (c_now c0) a r"
  let ?c1 = "(set_rows (mset_to ?ref ?q1 (w_tenants (c_world c0))) c0)\<lparr>c_runs := (a, lock_until a (c_now c0)) # c_runs c0\<rparr>"
  have r1: "reachable False c0 ?c1"
    by (rule reachable.Next [OF reachable.Here], rule start_step) (use assms in \<open>simp_all add: held_by_def\<close>)
  let ?c2 = "?c1\<lparr>c_now := ?t\<rparr>"
  have "run_step False ?c1 ?c2" using assms(5) by (intro run_step.Tick) simp_all
  with r1 have r2: "reachable False c0 ?c2" by (rule reachable.Next)
  let ?q2 = "claimed ?t a ?q1"
  let ?c3 = "(set_rows (mset_to ?ref ?q2 (w_tenants (c_world ?c2))) ?c2)\<lparr>c_runs := (a, lock_until a (c_now ?c2)) # c_runs ?c2\<rparr>"
  have "run_step False ?c2 ?c3"
    using start_step [of a ?c2 ?q1] live by (simp add: visible_mset held_by_def until)
  with r2 have r3: "reachable False c0 ?c3" by (rule reachable.Next)
  obtain w where w: "run_step False ?c3 (?c3\<lparr>c_world := w, c_runs := [(a, ?t + ttl)]\<rparr>)"
    "w_tenants w = fail_tenant ?t ?ref ''timeout'' (mset_to ?ref ?q2 (w_tenants (c_world c0)))"
    using end_step [of ?c3 "[(a, ?t + ttl)]" a ?t] assms(1) by (auto simp: until)
  let ?c4 = "?c3\<lparr>c_world := w, c_runs := [(a, ?t + ttl)]\<rparr>"
  have r4: "reachable False c0 ?c4" by (rule reachable.Next [OF r3 w(1)])
  let ?q4 = "failed_record ?t ''timeout'' ?q2"
  have v4: "visible ?ref (w_tenants (c_world ?c4)) = Some ?q4"
    using live by (simp add: w(2) fail_tenant_def visible_mset)
  let ?c5 = "(set_rows (mset_to ?ref (claimed (c_now ?c4) a ?q4) (w_tenants (c_world ?c4))) ?c4)
    \<lparr>c_runs := (a, lock_until a (c_now ?c4)) # c_runs ?c4\<rparr>"
  have "run_step False ?c4 ?c5" by (rule start_step [OF v4]) (simp_all add: held_by_def)
  with r4 have "reachable False c0 ?c5" by (rule reachable.Next)
  moreover have "c_runs ?c5 = [(a, ?t + ttl), (a, ?t + ttl)]" "c_now ?c5 = ?t" by (simp_all add: until)
  ultimately show ?thesis using assms(5) by force
qed

section \<open>The demo tenant's onboarding\<close>

definition demo_config :: config where
  "demo_config = \<lparr>c_now = 0, c_world = (sv_world (demo_server []))
     \<lparr>w_tenants := [(''t1'', demo_tenant\<lparr>t_state := Created\<rparr>)]\<rparr>, c_runs = []\<rparr>"

definition demo_run :: RunOnboardingArgs where
  "demo_run = \<lparr>run_tenantRef = ''t1'', run_otp = ''123345'', run_solutionName = ''demo'', run_environment = Simulation,
     run_instanceId = ''i1'', run_actor = System, run_egsCustomId = None, run_egsModel = None,
     run_lockTtlMs = Some 1000, run_auditAction = None\<rparr>"

lemma demo_visible: "visible ''t1'' [(''t1'', demo_tenant\<lparr>t_state := s\<rparr>)] = Some (demo_tenant\<lparr>t_state := s\<rparr>)"
  by (simp add: visible_def demo_tenant_def)


theorem stale_run_breaks_lock_witness:
  "\<exists>c d e. reachable False demo_config c \<and> c_runs c = [(demo_run, d), (demo_run, e)] \<and> c_now c < d \<and> c_now c < e"
  using stale_run_breaks_lock [of demo_config demo_run "demo_tenant\<lparr>t_state := Created\<rparr>" 1000]
  by (simp add: demo_config_def demo_run_def demo_visible)

section \<open>How a run ends\<close>

lemma failed_record_environment [simp]: "t_environment (failed_record now msg r) = t_environment r"
  by (simp add: failed_record_def transitioned_def)


definition demo_result :: OnboardingResult where
  "demo_result = \<lparr>r_privateKey = ''k'', r_complianceCertificate = ''cc'', r_complianceBinarySecurityToken = ''cb'',
     r_complianceApiSecret = ''cs'', r_complianceRequestId = ''1'', r_productionCertificate = ''pc'',
     r_productionBinarySecurityToken = ''pb'', r_productionApiSecret = ''ps'', r_productionRequestId = ''2'',
     r_tests_passed = True\<rparr>"

definition demo_finish :: finish_env where
  "demo_finish = \<lparr>fe_cipher = noop_cipher, fe_random = \<lambda>_. [], fe_now = 5, fe_uuid = ''a'', fe_getExpiry = \<lambda>_. Some 99\<rparr>"


section \<open>A key from its issue to its use\<close>

lemma bearer_token:
  assumes "tok \<noteq> []" "list_all (\<lambda>c. \<not> is_space c) tok"
  shows "extractBearer (''Bearer '' @ tok) = Some tok"
proof -
  have none: "dropWhile is_space xs = xs" if "list_all (\<lambda>c. \<not> is_space c) xs" for xs
    using that by (cases xs) auto
  have t: "trim tok = tok" using assms by (simp add: trim_def none list_all_iff)
  obtain xs x where x: "tok = xs @ [x]" using assms(1) by (cases tok rule: rev_cases) auto
  have "\<not> is_space x" "\<not> is_space (CHR ''B'')" using assms(2) x by (simp_all add: is_space_def)
  then have h: "trim (''Bearer '' @ tok) = ''Bearer '' @ tok" by (simp add: trim_def x)
  have sp: "is_space (CHR '' '')" by (simp add: is_space_def)
  have "list_all (\<lambda>c. \<not> is_line_break c) tok"
    using assms(2) by (auto simp: list_all_iff is_line_break_def is_space_def)
  moreover have "toLowerCase ''Bearer'' = ''bearer''" by code_simp
  moreover have "\<exists>x \<in> set tok. \<not> is_space x" using assms by (cases tok) auto
  moreover have "'' '' @ tok \<noteq> tok" using arg_cong [of "'' '' @ tok" tok length] by auto
  ultimately show ?thesis using assms h t sp none [OF assms(2)]
    by (simp add: extractBearer_def Let_def)
qed

lemma token_chars:
  assumes "env = ''live'' \<or> env = ''test''" "list_all is_ref_char ref" "list_all is_base32_char tail"
  shows "token_of env ref tail \<noteq> []" "list_all (\<lambda>c. \<not> is_space c) (token_of env ref tail)"
proof -
  have "\<not> is_space c" if "is_ref_char c \<or> is_base32_char c" for c
    using that by (auto simp: is_space_def is_ref_char_def is_base32_char_def is_lower_def is_digit_def BASE32_def)
  then show "token_of env ref tail \<noteq> []" "list_all (\<lambda>c. \<not> is_space c) (token_of env ref tail)"
    using assms by (auto simp: token_of_def list_all_iff is_space_def)
qed

lemma resolve_live:
  assumes "mget rows i = Some r" "p r"
  shows "\<exists>k rows'. resolve_rows p now rows = (Some k, rows')"
  using resolve_rows_none [of p now rows] map_of_SomeD [OF assms(1)] assms(2)
  by (cases "resolve_rows p now rows"; cases "fst (resolve_rows p now rows)") auto


definition demo_random :: issue_random where
  "demo_random = \<lparr>random20 = replicate 20 0, random10 = replicate 10 0, random_salt = ''s''\<rparr>"


end
