(* ===== verification/CoreOnboardingProperties.thy ===== *)
theory CoreOnboardingProperties
  imports ServerOnboarding OnboardingProperties
begin

text \<open>
  Properties of the core package's onboarding and of its tools: when a production certificate is
  requested, whether its expiry can be read, and what certificate requests leave on disk.
\<close>

section \<open>What an onboarding obtains\<close>

text \<open>
  C27: the compliance tests gate the production certificate. Given the key, the request and the
  compliance certificate, the six test invoices are run in order, each is reported to \<open>onProgress\<close>,
  and one is passed exactly when ZATCA answered and listed no error. If all are, one CSID request
  is made with the compliance credentials and decides the outcome. If any is not, onboarding
  throws the failures and makes no further request: the network is as the tests left it.
\<close>

theorem production_certificate_gated:
  assumes given: "oa_otp args \<noteq> []" "oa_solutionName args \<noteq> []" "is_ok (oc_ensureOpenssl (oa_crypto args))"
    and key: "oc_generateKeyPair (oa_crypto args) = Ok key"
    and csr: "oc_generateCSR (oa_crypto args) (toCsrEgsInfo (oa_egsInfo args) key) (oa_environment args = Production)
      (oa_solutionName args) = Ok csr"
    and cc: "issueComplianceCertificate net (certificate_params args csr) n = (Ok cc, n1)"
    and tests: "compliance_tests lib net (test_args args key cc) envs (n1, evs) = (Ok rep, (n2, evs2))"
  shows "map cr_invoiceKind (rep_results rep) = phase2_kinds \<and> list_all result_ok (rep_results rep) \<and>
    rep_passed rep = (\<forall>r \<in> set (rep_results rep). cr_errors r = []) \<and>
    evs2 = evs @ events_from 0 (rep_results rep) \<and>
    onboard lib net envs args (n, evs) =
      (if rep_passed rep then (case issueCSIDS net (csid_params args cc) n2 of
           (Inl e, n3) \<Rightarrow> (Err e, (n3, evs2))
         | (Inr pc, n3) \<Rightarrow> (Ok \<lparr>or_privateKey = key, or_csr = csr, or_compliance = cc, or_production = pc, or_report = rep\<rparr>,
             (n3, evs2)))
       else (Err (tests_failed rep), (n2, evs2)))"
proof -
  note t = compliance_tests_cases [OF tests]
  have passed: "rep_passed rep = (\<forall>r \<in> set (rep_results rep). cr_errors r = [])"
    using t by (auto simp: list_all_iff result_ok_def)
  obtain u where u: "oc_ensureOpenssl (oa_crypto args) = Ok u" using given(3) by (cases "oc_ensureOpenssl (oa_crypto args)") auto
  have run: "onboard lib net envs args (n, evs) =
      (if rep_passed rep then (case issueCSIDS net (csid_params args cc) n2 of
           (Inl e, n3) \<Rightarrow> (Err e, (n3, evs2))
         | (Inr pc, n3) \<Rightarrow> (Ok \<lparr>or_privateKey = key, or_csr = csr, or_compliance = cc, or_production = pc, or_report = rep\<rparr>,
             (n3, evs2)))
       else (Err (tests_failed rep), (n2, evs2)))"
    using given(1,2) by (simp add: onboard_def andThen_run or_throw_def u key csr on_zatca_def cc tests split: sum.split prod.split)
  show ?thesis using t by (intro conjI passed run) simp_all
qed

text \<open>A world where every signature fails: the certificate request is answered, and no test invoice is built.\<close>

definition mute_lib :: crypto_lib where
  "mute_lib = demo_lib\<lparr>canonicalize := \<lambda>_. None\<rparr>"

definition demo_json :: "string \<Rightarrow> jsval option" where
  "demo_json s = (if s = ''C'' then Some (JObj [(''binarySecurityToken'', JStr ''aA==''), (''secret'', JStr ''s''),
     (''requestID'', JStr ''1'')]) else Some (JObj []))"

definition demo_issuance :: wire where
  "demo_issuance = wire_start [Inr \<lparr>resp_status = 200, resp_headers = [], resp_text = Inr ''C''\<rparr>]"

definition demo_zatca :: "wire network" where
  "demo_zatca = wire_net demo_json (\<lambda>_. 0)"

definition demo_onboard :: OnboardArgs where
  "demo_onboard = \<lparr>oa_egsInfo = demo_egs, oa_otp = ''123345'', oa_environment = Simulation, oa_solutionName = ''demo'',
     oa_httpOptions = no_overrides, oa_crypto = \<lparr>oc_ensureOpenssl = Ok (), oc_generateKeyPair = Ok ''k'',
       oc_generateCSR = (\<lambda>_ _ _. Ok ''csr'')\<rparr>\<rparr>"

definition demo_envs :: "InvoiceKind \<Rightarrow> scenario_env" where
  "demo_envs k = \<lparr>se_submittedAt = 0, se_issue = demo_env (kind_str k)\<rparr>"

definition demo_cc :: IssuedCertificateResult where
  "demo_cc = \<lparr>ic_issuedCertificate = wrapCertificatePem ''h'', ic_binarySecurityToken = ''aA=='', ic_apiSecret = ''s'',
     ic_requestId = JStr ''1'', ic_dispositionMessage = JUndef\<rparr>"

lemma mute_build: "\<exists>e. build mute_lib now b input c k = Err e"
  by (simp add: build_def generateSignedXMLString_def getInvoiceHash_def getPureInvoiceString_def mute_lib_def)

lemma demo_cc_issued: "fst (issueComplianceCertificate demo_zatca (certificate_params demo_onboard ''csr'') demo_issuance) = Ok demo_cc"
  by code_simp

lemma mute_issuer: "\<exists>e s'. issue_phase2 mute_lib createInternalMemoryStorage kind b env input egs sc keys s = (Err e, s')"
proof -
  have "build mute_lib now b i c k \<noteq> Ok x" for now i c k x using mute_build [of now b i c k] by auto
  then show ?thesis
    by (cases "assertScope egs sc") (auto simp: issue_phase2_def andThen_run createInternalMemoryStorage_def
      int_incrementCounter_def int_getPreviousHash_def Let_def split: sum.split)
qed

lemma first_scenario_fails:
  assumes "\<And>s. \<exists>e s'. issuer (dispatch_env (se_issue (envs kind))) input (ct_egsInfo args) sc (ct_signing args) s = (Err e, s')"
  shows "\<exists>w'. run_scenarios net args sc envs ((kind, issuer, input) # xs) w = (Ok (), w') \<and> \<not> list_all cr_passed (tr_results w')"
proof -
  obtain e s where e: "issuer (dispatch_env (se_issue (envs kind))) input (ct_egsInfo args) sc (ct_signing args) (tr_storage w) = (Err e, s)"
    using assms by blast
  obtain w1 where one: "run_scenario net args sc (envs kind) (kind, issuer, input) w = (Ok (), w1)"
    "\<not> list_all cr_passed (tr_results w1)"
    by (simp add: run_scenario_def issue_and_check_def andThen_run tryCatch_run on_adapter_def e push_result_def
        fireLatestProgress_def scenario_failure_def)
  obtain rs w' where "run_scenarios net args sc envs xs w1 = (Ok (), w')" "tr_results w' = tr_results w1 @ rs"
    using run_scenarios_result by blast
  then show ?thesis using one by (simp add: andThen_run)
qed

theorem production_certificate_gated_witness:
  "\<exists>rep n2 evs. map cr_invoiceKind (rep_results rep) = phase2_kinds \<and> \<not> rep_passed rep \<and>
    onboard mute_lib demo_zatca demo_envs demo_onboard (demo_issuance, []) = (Err (tests_failed rep), (n2, evs))"
proof -
  obtain n1 where cc: "issueComplianceCertificate demo_zatca (certificate_params demo_onboard ''csr'') demo_issuance
      = (Ok demo_cc, n1)" using demo_cc_issued by (metis prod.collapse)
  obtain x s2 where run: "compliance_tests mute_lib demo_zatca (test_args demo_onboard ''k'' demo_cc) demo_envs (n1, []) = (x, s2)"
    by (metis surj_pair)
  have cred: "credentials_given (test_args demo_onboard ''k'' demo_cc)"
    by (simp add: credentials_given_def test_args_def demo_cc_def wrapCertificatePem_def)
  then obtain rep where rep: "x = Ok rep" using compliance_tests_cases [OF run] by (cases x) simp_all
  obtain xs where scs: "compliance_scenarios mute_lib (test_args demo_onboard ''k'' demo_cc)
      = (Simplified_tax_invoice, issueSimplifiedTaxInvoice mute_lib createInternalMemoryStorage,
          makeSimplifiedInvoiceScenario (ct_dateOverrides (test_args demo_onboard ''k'' demo_cc))
            (ct_egsInfo (test_args demo_onboard ''k'' demo_cc))) # xs"
    by (simp add: compliance_scenarios_def test_case_defs test_args_def)
  have "\<exists>w'. run_scenarios demo_zatca (test_args demo_onboard ''k'' demo_cc) (compliance_scope (test_args demo_onboard ''k'' demo_cc))
      demo_envs (compliance_scenarios mute_lib (test_args demo_onboard ''k'' demo_cc)) w = (Ok (), w') \<and>
      \<not> list_all cr_passed (tr_results w')" for w
    unfolding scs by (rule first_scenario_fails) (simp add: issueSimplifiedTaxInvoice_def mute_issuer)
  then obtain w where w: "run_scenarios demo_zatca (test_args demo_onboard ''k'' demo_cc) (compliance_scope (test_args demo_onboard ''k'' demo_cc))
      demo_envs (compliance_scenarios mute_lib (test_args demo_onboard ''k'' demo_cc))
      \<lparr>tr_storage = fst (internal_empty, n1), tr_net = snd (internal_empty, n1), tr_lastHash = None, tr_results = [], tr_events = []\<rparr>
      = (Ok (), w)" "\<not> list_all cr_passed (tr_results w)" by blast
  have "\<exists>rep2 evs2 sn. runComplianceTests mute_lib demo_zatca (test_args demo_onboard ''k'' demo_cc) demo_envs
      (internal_empty, n1) = (Ok (rep2, evs2), sn) \<and> \<not> rep_passed rep2"
    unfolding runComplianceTests_def w using cred w(2) by (simp add: credentials_given_def report_of_def)
  then have "\<not> rep_passed rep" using run rep by (auto simp: compliance_tests_def)
  then show ?thesis
    using production_certificate_gated [of demo_onboard "''k''" "''csr''" demo_zatca demo_issuance demo_cc n1 mute_lib demo_envs
        "[]" rep "fst s2" "snd s2"] cc run rep
    by (intro exI [of _ rep] exI [of _ "fst s2"] exI [of _ "snd s2"]) (cases s2, simp add: demo_onboard_def)
qed

section \<open>The expiry of a fresh certificate\<close>

lemma csid_unwrapped:
  assumes "issueCSIDS net p n = (Ok c, n')"
  shows "ic_issuedCertificate c = base64_decode (ic_binarySecurityToken c)"
  using assms read_certificate_ok(2)
  by (fastforce simp: issueCSIDS_def guarded_def andThen_run split: sum.splits prod.splits)

definition pem_only :: "node_crypto \<Rightarrow> bool" where
  "pem_only nc = (\<forall>c. indexOf ''-----BEGIN'' c = None \<longrightarrow> nc_x509 nc c = None)"

text \<open>
  C28: a fresh production certificate cannot be read back. \<open>issueCSIDS\<close> returns the decoded token
  as it is, without the PEM lines that \<open>issueComplianceCertificate\<close> adds; for a token whose text has
  none, and with Node's reading of strings (PEM only), every successful onboarding ends in the
  error that the expiry could not be parsed: the tenant is failed and the new credentials are lost.
\<close>

theorem fresh_certificate_unreadable:
  assumes pem: "pem_only nc" "fe_getExpiry fe = expiry_hook nc"
    and csid: "issueCSIDS net p n = (Ok c, n')" "indexOf ''-----BEGIN'' (base64_decode (ic_binarySecurityToken c)) = None"
    and res: "r_productionCertificate res = ic_issuedCertificate c" "r_tests_passed res"
    and v: "visible (run_tenantRef args) (w_tenants w) = Some r" and uow: "sound_uow uow"
  shows "\<exists>w'. finish uow fe args (Ok res) w = (Err (expiry_unreadable (run_tenantRef args)), w') \<and>
    (\<exists>r'. visible (run_tenantRef args) (w_tenants w') = Some r' \<and> t_state r' = Failed) \<and> w_vault w' = w_vault w"
proof -
  have "nc_x509 nc (r_productionCertificate res) = None"
    using pem(1) csid(2) csid_unwrapped [OF csid(1)] res(1) by (simp add: pem_only_def)
  then have "fe_getExpiry fe (r_productionCertificate res) = None"
    by (simp add: pem(2) expiry_hook_def getCertificateExpirationDate_def)
  then have "complete uow fe args (Ok res) w = (Err (expiry_unreadable (run_tenantRef args)), w)"
    using res(2) by (simp add: complete_cases [OF uow])
  then show ?thesis using v visible_live [OF v]
    by (simp add: finish_error failed_world_def fail_tenant_def visible_mset)
qed

definition demo_csid :: IssueCSIDSParams where
  "demo_csid = \<lparr>cs_complianceRequestId = JStr ''1'', cs_binarySecurityToken = ''b'', cs_apiSecret = ''s'',
     cs_environment = Simulation, cs_httpOptions = no_overrides\<rparr>"

definition strict_node :: node_crypto where
  "strict_node = \<lparr>nc_x509 = (\<lambda>c. if indexOf ''-----BEGIN'' c = None then None else Some
       \<lparr>x_validFrom = [], x_validTo = [], x_serialNumber = [], x_subject = [], x_issuer = [], x_spki = None\<rparr>),
     nc_privateKey_spki = (\<lambda>_. None), nc_parseDate = (\<lambda>_. Some 0)\<rparr>"

lemma demo_csid_issued: "map_sum id ic_binarySecurityToken (fst (issueCSIDS demo_zatca demo_csid demo_issuance)) = Ok ''aA==''"
  by code_simp

theorem fresh_certificate_unreadable_witness:
  "\<exists>res w'. finish transactional (demo_finish\<lparr>fe_getExpiry := expiry_hook strict_node\<rparr>) demo_run (Ok res) (c_world demo_config)
    = (Err (expiry_unreadable ''t1''), w')"
proof -
  obtain c n' where c: "issueCSIDS demo_zatca demo_csid demo_issuance = (Ok c, n')" "ic_binarySecurityToken c = ''aA==''"
    using demo_csid_issued by (cases "issueCSIDS demo_zatca demo_csid demo_issuance"; cases "fst (issueCSIDS demo_zatca demo_csid demo_issuance)") auto
  have "indexOf ''-----BEGIN'' (base64_decode ''aA=='') = None" by code_simp
  then show ?thesis
    using fresh_certificate_unreadable [of strict_node "demo_finish\<lparr>fe_getExpiry := expiry_hook strict_node\<rparr>" demo_zatca demo_csid
        demo_issuance c n' "demo_result\<lparr>r_productionCertificate := ic_issuedCertificate c\<rparr>" demo_run "c_world demo_config"
        "demo_tenant\<lparr>t_state := Created\<rparr>" transactional] c
    by (auto simp: pem_only_def strict_node_def demo_result_def sound_uow_def demo_config_def demo_run_def demo_visible)
qed

section \<open>No key on disk\<close>


definition demo_csr_env :: csr_env where
  "demo_csr_env = \<lparr>ce_probe = Ok (), ce_keyFile = ''k.pem'', ce_configFile = ''c.cnf'', ce_fails = (\<lambda>c. c = Chmod_key),
     ce_torn = None, ce_openssl = (\<lambda>_ _. Spawn_fails)\<rparr>"


end
