(* ===== verification/StorageSpec.thy ===== *)
theory StorageSpec
  imports Storage
begin

text \<open>
  What the storage backends have in common: the abstract \<open>ledger\<close> of counters, rows and chain heads,
  itself a storage adapter, and the locale of a backend that answers like it. A backend's clock may
  be required to move on between calls, and its counters may have a range.
\<close>

section \<open>The ledger\<close>

record ledger =
  led_count :: "TenantScope \<Rightarrow> string \<Rightarrow> int"
  led_row :: "TenantScope \<Rightarrow> string \<Rightarrow> InvoiceRecord option"
  led_head :: "TenantScope \<Rightarrow> InvoiceKind option \<Rightarrow> string"

definition ledger_empty :: ledger where
  "ledger_empty = \<lparr>led_count = (\<lambda>_ _. 0), led_row = (\<lambda>_ _. None), led_head = (\<lambda>_ _. ZATCA_BASE_INVOICE_HASH)\<rparr>"

definition conflicting_record :: "string \<Rightarrow> error" where
  "conflicting_record i = ZatcaStorageError (''recordInvoice('' @ i @ '') called twice with conflicting payloads.'')"

definition put2 :: "'a \<Rightarrow> 'b \<Rightarrow> 'c \<Rightarrow> ('a \<Rightarrow> 'b \<Rightarrow> 'c) \<Rightarrow> 'a \<Rightarrow> 'b \<Rightarrow> 'c" where
  "put2 a b c f = (\<lambda>x y. if x = a \<and> y = b then c else f x y)"

definition led_incrementCounter :: "number_formatter \<Rightarrow> int \<Rightarrow> TenantScope \<Rightarrow> (ledger, int \<times> string) eff" where
  "led_incrementCounter fmt now sc L = (case yearMonthFor now of (ym, year, month) \<Rightarrow>
     let n = led_count L sc ym + 1 in (Ok (n, fmt sc n ym year month), L\<lparr>led_count := put2 sc ym n (led_count L)\<rparr>))"

definition led_recordInvoice :: "TenantScope \<Rightarrow> InvoiceRecord \<Rightarrow> (ledger, unit) eff" where
  "led_recordInvoice sc r L = (case led_row L sc (rec_invoiceId r) of
       Some old \<Rightarrow> (if recordsEqual old r then Ok () else Err (conflicting_record (rec_invoiceId r)), L)
     | None \<Rightarrow> (Ok (), L\<lparr>led_row := put2 sc (rec_invoiceId r) (Some r) (led_row L),
         led_head := put2 sc None (rec_invoiceHash r) (put2 sc (Some (rec_kind r)) (rec_invoiceHash r) (led_head L))\<rparr>))"

definition led_updateInvoiceStatus :: "TenantScope \<Rightarrow> string \<Rightarrow> InvoiceStatus \<Rightarrow> (ledger, unit) eff" where
  "led_updateInvoiceStatus sc i st L = (case led_row L sc i of
       None \<Rightarrow> (Err (unknown_invoice i), L)
     | Some r \<Rightarrow> (Ok (), L\<lparr>led_row := put2 sc i (Some (r\<lparr>rec_status := st\<rparr>)) (led_row L)\<rparr>))"

definition ledger_adapter :: "number_formatter \<Rightarrow> int \<Rightarrow> ledger StorageAdapter" where
  "ledger_adapter fmt now = \<lparr>incrementCounter = led_incrementCounter fmt now,
     getPreviousHash = (\<lambda>sc k L. (Ok (led_head L sc k), L)), recordInvoice = led_recordInvoice,
     loadInvoice = (\<lambda>sc i L. (Ok (led_row L sc i), L)), updateInvoiceStatus = led_updateInvoiceStatus\<rparr>"

lemmas ledger_defs = ledger_adapter_def led_incrementCounter_def led_recordInvoice_def led_updateInvoiceStatus_def put2_def Let_def

section \<open>Calls and their answers\<close>

datatype storage_call =
    Increment TenantScope
  | Previous TenantScope "InvoiceKind option"
  | Record TenantScope InvoiceRecord
  | Load TenantScope string
  | Update TenantScope string InvoiceStatus

datatype storage_answer = Number int string | Hash string | Done | Row "InvoiceRecord option"

fun call_scope :: "storage_call \<Rightarrow> TenantScope" where
  "call_scope (Increment sc) = sc"
| "call_scope (Previous sc _) = sc"
| "call_scope (Record sc _) = sc"
| "call_scope (Load sc _) = sc"
| "call_scope (Update sc _ _) = sc"

fun call_on :: "'s StorageAdapter \<Rightarrow> storage_call \<Rightarrow> 's \<Rightarrow> (error + storage_answer) \<times> 's" where
  "call_on ops (Increment sc) s = (case incrementCounter ops sc s of (x, s') \<Rightarrow> (map_sum id (\<lambda>(n, i). Number n i) x, s'))"
| "call_on ops (Previous sc k) s = (case getPreviousHash ops sc k s of (x, s') \<Rightarrow> (map_sum id Hash x, s'))"
| "call_on ops (Record sc r) s = (case recordInvoice ops sc r s of (x, s') \<Rightarrow> (map_sum id (\<lambda>_. Done) x, s'))"
| "call_on ops (Load sc i) s = (case loadInvoice ops sc i s of (x, s') \<Rightarrow> (map_sum id Row x, s'))"
| "call_on ops (Update sc i st) s = (case updateInvoiceStatus ops sc i st s of (x, s') \<Rightarrow> (map_sum id (\<lambda>_. Done) x, s'))"

text \<open>A client's calls over time, each at its moment, and what it is answered.\<close>

fun answers :: "(int \<Rightarrow> 's StorageAdapter) \<Rightarrow> (int \<times> storage_call) list \<Rightarrow> 's \<Rightarrow> (error + storage_answer) list" where
  "answers ops [] s = []"
| "answers ops ((now, c) # cs) s = (case call_on (ops now) c s of (x, s') \<Rightarrow> x # answers ops cs s')"

text \<open>
  The calls of the issuers and routes: scopes without a colon, and records without validation
  results, whose counter number fits PostgreSQL's \<open>INTEGER\<close>.
\<close>

definition int4_ok :: "int \<Rightarrow> bool" where
  "int4_ok n = (- 2147483648 \<le> n \<and> n < 2147483648)"

definition plain_call :: "storage_call \<Rightarrow> bool" where
  "plain_call c = (good_scope (call_scope c) \<and> (case c of
       Record _ r \<Rightarrow> rec_validationResults r = None \<and> int4_ok (rec_counterNumber r) | _ \<Rightarrow> True))"

fun clocked :: "(int \<Rightarrow> int \<Rightarrow> bool) \<Rightarrow> int \<Rightarrow> int list \<Rightarrow> bool" where
  "clocked before t [] = True"
| "clocked before t (now # ts) = (before t now \<and> clocked before now ts)"

section \<open>Refinement\<close>

text \<open>
  \<open>rel t n s L\<close>: state \<open>s\<close> stands for ledger \<open>L\<close>, no call was made after moment \<open>t\<close> and at most \<open>n\<close> were
  made.
\<close>

locale ledger_refinement =
  fixes ops :: "int \<Rightarrow> 's StorageAdapter" and fmt :: number_formatter and fits :: "storage_call \<Rightarrow> bool"
    and rel :: "int \<Rightarrow> nat \<Rightarrow> 's \<Rightarrow> ledger \<Rightarrow> bool"
    and before :: "int \<Rightarrow> int \<Rightarrow> bool" and limit :: nat and start :: 's
  assumes starts: "rel t 0 start ledger_empty"
    and step: "rel t n s L \<Longrightarrow> before t now \<Longrightarrow> n < limit \<Longrightarrow> fits c \<Longrightarrow>
      call_on (ops now) c s = (x, s') \<Longrightarrow> call_on (ledger_adapter fmt now) c L = (y, L') \<Longrightarrow>
      x = y \<and> rel now (Suc n) s' L'"
begin

lemma answers_from:
  "rel t n s L \<Longrightarrow> clocked before t (map fst cs) \<Longrightarrow> n + length cs \<le> limit \<Longrightarrow> list_all (\<lambda>(_, c). fits c) cs \<Longrightarrow>
    answers ops cs s = answers (ledger_adapter fmt) cs L"
proof (induction cs arbitrary: t n s L)
  case (Cons tc cs)
  obtain now c where tc: "tc = (now, c)" by (cases tc)
  obtain x s' y L' where run: "call_on (ops now) c s = (x, s')" "call_on (ledger_adapter fmt now) c L = (y, L')"
    by fastforce
  have "x = y \<and> rel now (Suc n) s' L'"
    by (rule step [OF Cons.prems(1) _ _ _ run]) (use Cons.prems tc in simp_all)
  then show ?case using Cons.IH [of now "Suc n" s' L'] Cons.prems tc run by simp
qed simp

lemma answers_agree:
  "clocked before t (map fst cs) \<Longrightarrow> length cs \<le> limit \<Longrightarrow> list_all (\<lambda>(_, c). fits c) cs \<Longrightarrow>
    answers ops cs start = answers (ledger_adapter fmt) cs ledger_empty"
  by (rule answers_from [OF starts]) simp_all

end

section \<open>The reference adapter\<close>

definition mem_any_head :: "TenantScope \<Rightarrow> InvoiceKind option \<Rightarrow> memory_state \<Rightarrow> string" where
  "mem_any_head sc k s = (case mget (cell_chainHead (getOrCreateScope sc s)) k of
     None \<Rightarrow> ZATCA_BASE_INVOICE_HASH | Some h \<Rightarrow> h)"

definition mem_rel :: "int \<Rightarrow> nat \<Rightarrow> memory_state \<Rightarrow> ledger \<Rightarrow> bool" where
  "mem_rel t n s L = (\<forall>sc. good_scope sc \<longrightarrow>
     (\<forall>ym. counter_value (counterKey sc ym) s = led_count L sc ym) \<and>
     (\<forall>i. mem_row sc i s = led_row L sc i) \<and> (\<forall>k. mem_any_head sc k s = led_head L sc k))"

lemma mem_previous_any: "mem_getPreviousHash sc k s = (Ok (mem_any_head sc k s), s)"
  by (auto simp: mem_getPreviousHash_def mem_any_head_def scope_cell_defs split: option.splits)

lemma mem_record_eq:
  "mem_recordInvoice sc r s = (case mem_row sc (rec_invoiceId r) s of
       Some old \<Rightarrow> (if recordsEqual old r then Ok () else Err (conflicting_record (rec_invoiceId r)),
         put_cell sc (getOrCreateScope sc s) s)
     | None \<Rightarrow> (Ok (), put_cell sc \<lparr>cell_records = mset_to (rec_invoiceId r) r (cell_records (getOrCreateScope sc s)),
         cell_chainHead = mset_to (Some (rec_kind r)) (rec_invoiceHash r)
           (mset_to None (rec_invoiceHash r) (cell_chainHead (getOrCreateScope sc s)))\<rparr> s))"
  by (simp add: mem_recordInvoice_def mem_row_def conflicting_record_def Let_def split: option.split)

lemma counter_value_put [simp]: "counter_value k (put_cell sc c s) = counter_value k s"
  by (simp add: counter_value_def)

lemma views_put_cell:
  assumes "good_scope a" "good_scope b"
  shows "mem_row a i (put_cell b c s) = (if a = b then mget (cell_records c) i else mem_row a i s)"
    "mem_any_head a k (put_cell b c s) = (if a = b then (case mget (cell_chainHead c) k of
       None \<Rightarrow> ZATCA_BASE_INVOICE_HASH | Some h \<Rightarrow> h) else mem_any_head a k s)"
  using assms by (simp_all add: mem_row_def mem_any_head_def getOrCreate_put_cell)

lemma views_fold:
  "mget (cell_records (getOrCreateScope sc s)) i = mem_row sc i s"
  "(case mget (cell_chainHead (getOrCreateScope sc s)) k of None \<Rightarrow> ZATCA_BASE_INVOICE_HASH | Some h \<Rightarrow> h) = mem_any_head sc k s"
  by (simp_all add: mem_row_def mem_any_head_def)

interpretation memory_ledger: ledger_refinement "createMemoryStorageAdapter (Some fmt)" fmt plain_call mem_rel "(\<le>)" limit memory_empty
proof unfold_locales
  show "mem_rel t 0 memory_empty ledger_empty" for t
    by (simp add: mem_rel_def ledger_empty_def memory_empty_def counter_value_def mem_row_def mem_any_head_def
        getOrCreateScope_def empty_cell_def)
next
  fix t n s L now c x s' y L'
  assume rel: "mem_rel t n s L" and good: "plain_call c"
    and run: "call_on (createMemoryStorageAdapter (Some fmt) now) c s = (x, s')"
      "call_on (ledger_adapter fmt now) c L = (y, L')"
  have gs: "good_scope (call_scope c)" using good by (simp add: plain_call_def)
  show "x = y \<and> mem_rel now (Suc n) s' L'"
  proof (cases c)
    case (Increment sc)
    then show ?thesis using rel run gs
      by (auto simp: createMemoryStorageAdapter_def mem_incrementCounter_def ledger_defs mem_rel_def counterKey_eq
          counter_value_def mem_row_def mem_any_head_def getOrCreateScope_def split: prod.splits)
  next
    case (Previous sc k)
    then show ?thesis using rel run gs
      by (auto simp: createMemoryStorageAdapter_def mem_previous_any ledger_defs mem_rel_def)
  next
    case (Record sc r)
    then show ?thesis using rel run gs
      by (auto simp: createMemoryStorageAdapter_def mem_record_eq ledger_defs mem_rel_def views_put_cell views_fold
          split: option.splits)
  next
    case (Load sc i)
    then show ?thesis using rel run gs
      by (auto simp: createMemoryStorageAdapter_def mem_loadInvoice_row ledger_defs mem_rel_def)
  next
    case (Update sc i st)
    then show ?thesis using rel run gs
      by (auto simp: createMemoryStorageAdapter_def mem_update_eq ledger_defs mem_rel_def views_put_cell views_fold
          split: option.splits)
  qed
qed

end
