(* ===== verification/PostgresStorage.thy ===== *)
theory PostgresStorage
  imports StorageSpec
begin

text \<open>
  The PostgreSQL storage adapter (\<open>storage-postgres/src/adapter.ts\<close>) over the two tables of
  \<open>migrations/001_initial.sql\<close>. Each SQL statement of the adapter is one definition on the tables;
  PostgreSQL's statements are atomic. The normal form of \<open>jsonb\<close> values is a parameter. Between the
  statements of one \<open>recordInvoice\<close> other sessions may act; they are an argument.
\<close>

section \<open>Tables\<close>

record pg_invoice =
  pi_id :: nat
  pi_vat_number :: string
  pi_egs_uuid :: string
  pi_invoice_id :: string
  pi_kind :: InvoiceKind
  pi_serial :: string
  pi_counter_number :: int
  pi_uuid :: string
  pi_invoice_hash :: string
  pi_previous_invoice_hash :: string
  pi_signed_xml :: string
  pi_qr_base64 :: string
  pi_status :: InvoiceStatus
  pi_issued_at :: int
  pi_created_at :: int
  pi_clearance_number :: "string option"
  pi_validation_results :: "jsval option"

record pg_tables =
  pg_counters :: "(string \<times> string \<times> string, int) jsmap"
  pg_invoices :: "pg_invoice list"
  pg_next_id :: nat

definition pg_empty :: pg_tables where
  "pg_empty = \<lparr>pg_counters = [], pg_invoices = [], pg_next_id = 0\<rparr>"

text \<open>What a statement can throw; only the unique violation (code 23505) is handled.\<close>

datatype db_error = Unique_violation | Out_of_range

definition thrown_db :: "db_error \<Rightarrow> error" where
  "thrown_db e = (case e of
       Unique_violation \<Rightarrow> PlainError ''duplicate key value violates unique constraint'' None
     | Out_of_range \<Rightarrow> PlainError ''integer out of range'' None)"

section \<open>Statements\<close>

definition of_scope :: "TenantScope \<Rightarrow> pg_invoice \<Rightarrow> bool" where
  "of_scope sc r = (pi_vat_number r = scope_vatNumber sc \<and> pi_egs_uuid r = scope_egsUuid sc)"

definition sql_upsert_counter :: "TenantScope \<Rightarrow> string \<Rightarrow> pg_tables \<Rightarrow> (db_error + int) \<times> pg_tables" where
  "sql_upsert_counter sc ym t = (let k = (scope_vatNumber sc, scope_egsUuid sc, ym) in
     (case mget (pg_counters t) k of
        None \<Rightarrow> (Inr 1, t\<lparr>pg_counters := mset_to k 1 (pg_counters t)\<rparr>)
      | Some n \<Rightarrow> if int4_ok (n + 1) then (Inr (n + 1), t\<lparr>pg_counters := mset_to k (n + 1) (pg_counters t)\<rparr>)
          else (Inl Out_of_range, t)))"

definition sql_select_invoice :: "TenantScope \<Rightarrow> string \<Rightarrow> pg_tables \<Rightarrow> pg_invoice option" where
  "sql_select_invoice sc i t = find (\<lambda>r. of_scope sc r \<and> pi_invoice_id r = i) (pg_invoices t)"

text \<open>\<open>ORDER BY created_at DESC, id DESC LIMIT 1\<close>\<close>

definition later :: "pg_invoice \<Rightarrow> pg_invoice \<Rightarrow> bool" where
  "later a b = (pi_created_at b < pi_created_at a \<or> pi_created_at a = pi_created_at b \<and> pi_id b \<le> pi_id a)"

fun latest :: "pg_invoice list \<Rightarrow> pg_invoice option" where
  "latest [] = None"
| "latest (r # rs) = (case latest rs of None \<Rightarrow> Some r | Some b \<Rightarrow> if later b r then Some b else Some r)"

definition sql_select_head :: "TenantScope \<Rightarrow> InvoiceKind option \<Rightarrow> pg_tables \<Rightarrow> string option" where
  "sql_select_head sc kind t = map_option pi_invoice_hash (latest (filter
     (\<lambda>r. of_scope sc r \<and> (case kind of None \<Rightarrow> True | Some k \<Rightarrow> pi_kind r = k)) (pg_invoices t)))"

text \<open>The unique constraint is on the scope and the invoice id; a failing insert also draws an id.\<close>

definition sql_insert_invoice :: "pg_invoice \<Rightarrow> pg_tables \<Rightarrow> (db_error + unit) \<times> pg_tables" where
  "sql_insert_invoice r t =
     (if \<not> int4_ok (pi_counter_number r) then (Inl Out_of_range, t)
      else if \<exists>q \<in> set (pg_invoices t). pi_vat_number q = pi_vat_number r \<and> pi_egs_uuid q = pi_egs_uuid r \<and>
          pi_invoice_id q = pi_invoice_id r
      then (Inl Unique_violation, t\<lparr>pg_next_id := Suc (pg_next_id t)\<rparr>)
      else (Inr (), t\<lparr>pg_invoices := pg_invoices t @ [r\<lparr>pi_id := pg_next_id t\<rparr>], pg_next_id := Suc (pg_next_id t)\<rparr>))"

definition sql_update_status :: "TenantScope \<Rightarrow> string \<Rightarrow> InvoiceStatus \<Rightarrow> pg_tables \<Rightarrow> nat \<times> pg_tables" where
  "sql_update_status sc i st t = (let hit = (\<lambda>r. of_scope sc r \<and> pi_invoice_id r = i) in
     (length (filter hit (pg_invoices t)),
      t\<lparr>pg_invoices := map (\<lambda>r. if hit r then r\<lparr>pi_status := st\<rparr> else r) (pg_invoices t)\<rparr>))"

section \<open>The adapter\<close>

definition rowToRecord :: "pg_invoice \<Rightarrow> InvoiceRecord" where
  "rowToRecord r = \<lparr>rec_invoiceId = pi_invoice_id r, rec_kind = pi_kind r, rec_serial = pi_serial r,
     rec_counterNumber = pi_counter_number r, rec_uuid = pi_uuid r, rec_invoiceHash = pi_invoice_hash r,
     rec_previousInvoiceHash = pi_previous_invoice_hash r, rec_signedXml = pi_signed_xml r,
     rec_qrBase64 = pi_qr_base64 r, rec_issuedAt = pi_issued_at r, rec_status = pi_status r,
     rec_clearanceNumber = pi_clearance_number r, rec_validationResults = pi_validation_results r\<rparr>"

definition pg_incrementCounter :: "number_formatter \<Rightarrow> int \<Rightarrow> TenantScope \<Rightarrow> (pg_tables, int \<times> string) eff" where
  "pg_incrementCounter fmt now sc t = (case yearMonthFor now of (ym, year, month) \<Rightarrow>
     (case sql_upsert_counter sc ym t of
        (Inl e, t') \<Rightarrow> (Err (thrown_db e), t')
      | (Inr n, t') \<Rightarrow> (Ok (n, fmt sc n ym year month), t')))"

definition pg_getPreviousHash :: "TenantScope \<Rightarrow> InvoiceKind option \<Rightarrow> (pg_tables, string) eff" where
  "pg_getPreviousHash sc kind t = (Ok (case sql_select_head sc kind t of None \<Rightarrow> ZATCA_BASE_INVOICE_HASH | Some h \<Rightarrow> h), t)"

text \<open>\<open>jsonb\<close> is what the column returns for the JSON text that was stored.\<close>

definition insert_row :: "(string \<Rightarrow> jsval) \<Rightarrow> int \<Rightarrow> TenantScope \<Rightarrow> InvoiceRecord \<Rightarrow> pg_invoice" where
  "insert_row jsonb created sc r = \<lparr>pi_id = 0, pi_vat_number = scope_vatNumber sc, pi_egs_uuid = scope_egsUuid sc,
     pi_invoice_id = rec_invoiceId r, pi_kind = rec_kind r, pi_serial = rec_serial r,
     pi_counter_number = rec_counterNumber r, pi_uuid = rec_uuid r, pi_invoice_hash = rec_invoiceHash r,
     pi_previous_invoice_hash = rec_previousInvoiceHash r, pi_signed_xml = rec_signedXml r,
     pi_qr_base64 = rec_qrBase64 r, pi_status = rec_status r, pi_issued_at = rec_issuedAt r,
     pi_created_at = created, pi_clearance_number = rec_clearanceNumber r,
     pi_validation_results = map_option jsonb (results_json (rec_validationResults r))\<rparr>"

definition lost_race :: "string \<Rightarrow> error" where
  "lost_race i = ZatcaStorageError (''recordInvoice('' @ i @ '') lost a race against a conflicting payload.'')"

definition pg_recordInvoice :: "(string \<Rightarrow> jsval) \<Rightarrow> (pg_tables \<Rightarrow> pg_tables) \<Rightarrow> int \<Rightarrow> TenantScope \<Rightarrow> InvoiceRecord \<Rightarrow>
    (pg_tables, unit) eff" where
  "pg_recordInvoice jsonb others created sc r t = (case sql_select_invoice sc (rec_invoiceId r) t of
       Some row \<Rightarrow> (if \<not> recordsEqual (rowToRecord row) r then Err (conflicting_record (rec_invoiceId r)) else Ok (), t)
     | None \<Rightarrow> (case sql_insert_invoice (insert_row jsonb created sc r) (others t) of
         (Inr _, t') \<Rightarrow> (Ok (), t')
       | (Inl Out_of_range, t') \<Rightarrow> (Err (thrown_db Out_of_range), t')
       | (Inl Unique_violation, t') \<Rightarrow> (case sql_select_invoice sc (rec_invoiceId r) t' of
           None \<Rightarrow> (Err (thrown_db Unique_violation), t')
         | Some winner \<Rightarrow> (if \<not> recordsEqual (rowToRecord winner) r then Err (lost_race (rec_invoiceId r)) else Ok (), t'))))"

definition pg_loadInvoice :: "TenantScope \<Rightarrow> string \<Rightarrow> (pg_tables, InvoiceRecord option) eff" where
  "pg_loadInvoice sc i t = (Ok (map_option rowToRecord (sql_select_invoice sc i t)), t)"

definition pg_updateInvoiceStatus :: "TenantScope \<Rightarrow> string \<Rightarrow> InvoiceStatus \<Rightarrow> (pg_tables, unit) eff" where
  "pg_updateInvoiceStatus sc i st t = (case sql_update_status sc i st t of (hits, t') \<Rightarrow>
     (if hits = 0 then Err (unknown_invoice i) else Ok (), t'))"

definition createPostgresStorageAdapter :: "(string \<Rightarrow> jsval) \<Rightarrow> number_formatter option \<Rightarrow> int \<Rightarrow> pg_tables StorageAdapter" where
  "createPostgresStorageAdapter jsonb fmt now =
     \<lparr>incrementCounter = pg_incrementCounter (case fmt of None \<Rightarrow> defaultFormatter | Some f \<Rightarrow> f) now,
      getPreviousHash = pg_getPreviousHash, recordInvoice = pg_recordInvoice jsonb (\<lambda>t. t) now,
      loadInvoice = pg_loadInvoice, updateInvoiceStatus = pg_updateInvoiceStatus\<rparr>"

section \<open>Table invariants\<close>

definition row_key :: "pg_invoice \<Rightarrow> string \<times> string \<times> string" where
  "row_key r = (pi_vat_number r, pi_egs_uuid r, pi_invoice_id r)"

text \<open>
  Keys are unique, and rows are in the order of their insertion, in which neither the time nor the id
  goes back.
\<close>

definition tables_ok :: "int \<Rightarrow> pg_tables \<Rightarrow> bool" where
  "tables_ok now t = (distinct (map row_key (pg_invoices t)) \<and> sorted_wrt (\<lambda>a b. later b a) (pg_invoices t) \<and>
     (\<forall>r \<in> set (pg_invoices t). pi_created_at r \<le> now \<and> pi_id r < pg_next_id t))"

lemma latest_last: "sorted_wrt (\<lambda>a b. later b a) rs \<Longrightarrow> latest rs = (if rs = [] then None else Some (last rs))"
  by (induction rs) auto

lemma select_key: "sql_select_invoice sc i t = find (\<lambda>r. row_key r = (scope_vatNumber sc, scope_egsUuid sc, i)) (pg_invoices t)"
  by (simp add: sql_select_invoice_def of_scope_def row_key_def conj_assoc)

lemma find_none: "find P xs = None \<longleftrightarrow> (\<forall>x \<in> set xs. \<not> P x)"
  by (auto simp: find_None_iff)

lemma find_append: "find P (xs @ ys) = (case find P xs of None \<Rightarrow> find P ys | Some x \<Rightarrow> Some x)"
  by (induction xs) auto

lemma scope_parts: "scope_vatNumber (a :: TenantScope) = scope_vatNumber b \<and> scope_egsUuid a = scope_egsUuid b \<longleftrightarrow> a = b"
  by (cases a; cases b) simp

lemma row_roundtrip:
  "rec_validationResults r = None \<Longrightarrow> rowToRecord ((insert_row jsonb created sc r)\<lparr>pi_id := i\<rparr>) = r"
  by (cases r) (simp add: rowToRecord_def insert_row_def results_json_def)

section \<open>The tables are a ledger\<close>

definition pg_count :: "TenantScope \<Rightarrow> string \<Rightarrow> pg_tables \<Rightarrow> int" where
  "pg_count sc ym t = (case mget (pg_counters t) (scope_vatNumber sc, scope_egsUuid sc, ym) of None \<Rightarrow> 0 | Some n \<Rightarrow> n)"

definition pg_row :: "TenantScope \<Rightarrow> string \<Rightarrow> pg_tables \<Rightarrow> InvoiceRecord option" where
  "pg_row sc i t = map_option rowToRecord (sql_select_invoice sc i t)"

definition pg_head :: "TenantScope \<Rightarrow> InvoiceKind option \<Rightarrow> pg_tables \<Rightarrow> string" where
  "pg_head sc k t = (case sql_select_head sc k t of None \<Rightarrow> ZATCA_BASE_INVOICE_HASH | Some h \<Rightarrow> h)"

definition of_stream :: "TenantScope \<Rightarrow> InvoiceKind option \<Rightarrow> pg_invoice \<Rightarrow> bool" where
  "of_stream sc kind r = (of_scope sc r \<and> (case kind of None \<Rightarrow> True | Some k \<Rightarrow> pi_kind r = k))"

text \<open>In an ordered table the head is the last row of its stream.\<close>

lemma pg_head_last:
  assumes "sorted_wrt (\<lambda>a b. later b a) (pg_invoices t)"
  shows "pg_head sc k t = (if filter (of_stream sc k) (pg_invoices t) = [] then ZATCA_BASE_INVOICE_HASH
    else pi_invoice_hash (last (filter (of_stream sc k) (pg_invoices t))))"
proof -
  have "sorted_wrt (\<lambda>a b. later b a) (filter (of_stream sc k) (pg_invoices t))" using assms by (rule sorted_wrt_filter)
  then show ?thesis
    by (simp add: pg_head_def sql_select_head_def of_stream_def [symmetric] latest_last)
qed

definition pg_rel :: "int \<Rightarrow> nat \<Rightarrow> pg_tables \<Rightarrow> ledger \<Rightarrow> bool" where
  "pg_rel now n t L = (tables_ok now t \<and>
     (\<forall>sc ym. pg_count sc ym t = led_count L sc ym \<and> 0 \<le> pg_count sc ym t \<and> pg_count sc ym t \<le> int n) \<and>
     (\<forall>sc i. pg_row sc i t = led_row L sc i) \<and> (\<forall>sc k. pg_head sc k t = led_head L sc k))"

lemma pg_relD:
  assumes "pg_rel now n t L"
  shows "tables_ok now t" "pg_count sc ym t = led_count L sc ym" "0 \<le> pg_count sc ym t" "pg_count sc ym t \<le> int n"
    "pg_row sc i t = led_row L sc i" "pg_head sc k t = led_head L sc k"
  using assms unfolding pg_rel_def by blast+

lemma pg_relI:
  assumes "tables_ok now t" "\<And>sc ym. pg_count sc ym t = led_count L sc ym"
    "\<And>sc ym. 0 \<le> pg_count sc ym t \<and> pg_count sc ym t \<le> int n"
    "\<And>sc i. pg_row sc i t = led_row L sc i" "\<And>sc k. pg_head sc k t = led_head L sc k"
  shows "pg_rel now n t L"
  using assms unfolding pg_rel_def by blast

lemma pg_count_step: "pg_rel now n s L \<Longrightarrow> pg_count sc ym s' = pg_count sc ym s \<Longrightarrow>
    0 \<le> pg_count sc ym s' \<and> pg_count sc ym s' \<le> int (Suc n)"
  using pg_relD(3,4) [of now n s L sc ym] by simp

lemma tables_ok_later: "tables_ok t s \<Longrightarrow> t \<le> now \<Longrightarrow> tables_ok now s"
  by (auto simp: tables_ok_def)

lemma pg_rel_later:
  assumes "pg_rel t n s L" "t \<le> now"
  shows "pg_rel now (Suc n) s L"
  using tables_ok_later [OF pg_relD(1) [OF assms(1)] assms(2)] pg_relD(2,5,6) [OF assms(1)] pg_count_step [OF assms(1)]
  by (intro pg_relI) blast+

lemma pg_empty_rel: "pg_rel t 0 pg_empty ledger_empty"
  by (simp add: pg_rel_def tables_ok_def pg_empty_def ledger_empty_def pg_count_def pg_row_def pg_head_def
      sql_select_invoice_def sql_select_head_def)

text \<open>An increment of a counter within range.\<close>

lemma pg_increment:
  assumes rel: "pg_rel t n s L" and n: "n < 2147483647" and run: "pg_incrementCounter fmt now sc s = (x, s')"
    and ym: "yearMonthFor now = (ym, y, m)"
  shows "x = Ok (led_count L sc ym + 1, fmt sc (led_count L sc ym + 1) ym y m)"
    "pg_rel t (Suc n) s' (L\<lparr>led_count := put2 sc ym (led_count L sc ym + 1) (led_count L)\<rparr>)"
proof -
  let ?c = "led_count L sc ym + 1" and ?k = "(scope_vatNumber sc, scope_egsUuid sc, ym)"
  have c: "pg_count sc ym s = led_count L sc ym" "0 \<le> pg_count sc ym s" "pg_count sc ym s \<le> int n"
    using pg_relD [OF rel] by blast+
  have "int n < 2147483647" using n by simp
  then have "int4_ok (pg_count sc ym s + 1)" using c by (simp add: int4_ok_def)
  then have up: "sql_upsert_counter sc ym s = (Inr ?c, s\<lparr>pg_counters := mset_to ?k ?c (pg_counters s)\<rparr>)"
    using c(1) by (auto simp: sql_upsert_counter_def pg_count_def Let_def split: option.splits)
  then have s': "x = Ok (?c, fmt sc ?c ym y m)" "s' = s\<lparr>pg_counters := mset_to ?k ?c (pg_counters s)\<rparr>"
    using run ym by (simp_all add: pg_incrementCounter_def)
  then show "x = Ok (?c, fmt sc ?c ym y m)" by simp
  have cnt: "pg_count sc' ym' s' = (if sc' = sc \<and> ym' = ym then ?c else pg_count sc' ym' s)" for sc' ym'
    using scope_parts [of sc' sc] by (auto simp: s' pg_count_def)
  have keep: "pg_row sc' i s' = pg_row sc' i s" "pg_head sc' k s' = pg_head sc' k s" "tables_ok t s' = tables_ok t s" for sc' i k
    by (simp_all add: s' pg_row_def pg_head_def sql_select_invoice_def sql_select_head_def tables_ok_def)
  show "pg_rel t (Suc n) s' (L\<lparr>led_count := put2 sc ym ?c (led_count L)\<rparr>)"
  proof (rule pg_relI)
    show "0 \<le> pg_count sc' ym' s' \<and> pg_count sc' ym' s' \<le> int (Suc n)" for sc' ym'
      using c pg_relD(3,4) [OF rel, of sc' ym'] by (simp add: cnt)
  qed (use pg_relD [OF rel] in \<open>simp_all add: keep cnt put2_def\<close>)
qed

text \<open>A new record goes to the end of the table.\<close>

lemma pg_insert:
  assumes rel: "pg_rel t n s L" and le: "t \<le> now" and new: "pg_row sc (rec_invoiceId r) s = None"
    and plain: "rec_validationResults r = None" "int4_ok (rec_counterNumber r)"
  shows "\<exists>s'. sql_insert_invoice (insert_row jsonb now sc r) s = (Inr (), s') \<and> pg_rel now (Suc n) s'
    (L\<lparr>led_row := put2 sc (rec_invoiceId r) (Some r) (led_row L),
       led_head := put2 sc None (rec_invoiceHash r) (put2 sc (Some (rec_kind r)) (rec_invoiceHash r) (led_head L))\<rparr>)"
proof -
  let ?row = "(insert_row jsonb now sc r)\<lparr>pi_id := pg_next_id s\<rparr>"
  let ?s = "s\<lparr>pg_invoices := pg_invoices s @ [?row], pg_next_id := Suc (pg_next_id s)\<rparr>"
  have ok: "tables_ok t s" using rel by (simp add: pg_rel_def)
  have fresh: "row_key q \<noteq> row_key ?row" if "q \<in> set (pg_invoices s)" for q
    using new that by (auto simp: pg_row_def select_key find_none row_key_def insert_row_def)
  then have ins: "sql_insert_invoice (insert_row jsonb now sc r) s = (Inr (), ?s)"
    using plain(2) by (auto simp: sql_insert_invoice_def row_key_def insert_row_def)
  have created: "pi_created_at ?row = now" by (simp add: insert_row_def)
  have lat: "later ?row q" if "q \<in> set (pg_invoices s)" for q
    using ok that le by (force simp: tables_ok_def later_def created)
  have ok': "tables_ok now ?s"
    using ok le fresh lat created by (fastforce simp: tables_ok_def sorted_wrt_append)
  have stream: "of_stream sc' k ?row = (sc' = sc \<and> (k = None \<or> k = Some (rec_kind r)))" for sc' k
    using scope_parts [of sc sc'] by (auto simp: of_stream_def of_scope_def insert_row_def split: option.split)
  have row: "pg_row sc' i ?s = (if sc' = sc \<and> i = rec_invoiceId r then Some r else pg_row sc' i s)" for sc' i
  proof -
    have "row_key ?row = (scope_vatNumber sc', scope_egsUuid sc', i) \<longleftrightarrow> sc' = sc \<and> i = rec_invoiceId r"
      using scope_parts [of sc sc'] by (auto simp: row_key_def insert_row_def)
    then show ?thesis using new row_roundtrip [OF plain(1)]
      by (auto simp: pg_row_def select_key find_append split: option.split)
  qed
  have srt: "sorted_wrt (\<lambda>a b. later b a) (pg_invoices s)" "sorted_wrt (\<lambda>a b. later b a) (pg_invoices ?s)"
    using ok ok' by (simp_all add: tables_ok_def)
  have "pi_invoice_hash ?row = rec_invoiceHash r" by (simp add: insert_row_def)
  then have head: "pg_head sc' k ?s = (if of_stream sc' k ?row then rec_invoiceHash r else pg_head sc' k s)" for sc' k
    by (simp add: pg_head_last [OF srt(1)] pg_head_last [OF srt(2)])
  have hits: "pg_count sc' ym ?s = pg_count sc' ym s" for sc' ym by (simp add: pg_count_def)
  have "pg_rel now (Suc n) ?s (L\<lparr>led_row := put2 sc (rec_invoiceId r) (Some r) (led_row L),
       led_head := put2 sc None (rec_invoiceHash r) (put2 sc (Some (rec_kind r)) (rec_invoiceHash r) (led_head L))\<rparr>)"
    by (rule pg_relI [OF ok' _ pg_count_step [OF rel hits]])
      (auto simp: row head stream hits put2_def pg_relD [OF rel])
  then show ?thesis using ins by blast
qed

text \<open>A status update changes one row in place.\<close>

lemma find_map: "(\<And>x. P (f x) = P x) \<Longrightarrow> find P (map f xs) = map_option f (find P xs)"
  by (induction xs) auto

lemma filter_map_same: "(\<And>x. P (f x) = P x) \<Longrightarrow> filter P (map f xs) = map f (filter P xs)"
  by (induction xs) auto

lemma pg_update:
  assumes rel: "pg_rel t n s L" and old: "pg_row sc i s = Some r"
    and run: "sql_update_status sc i st s = (hits, s')"
  shows "0 < hits" "pg_rel t (Suc n) s' (L\<lparr>led_row := put2 sc i (Some (r\<lparr>rec_status := st\<rparr>)) (led_row L)\<rparr>)"
proof -
  let ?hit = "\<lambda>r. of_scope sc r \<and> pi_invoice_id r = i"
  let ?f = "\<lambda>r. if ?hit r then r\<lparr>pi_status := st\<rparr> else r"
  have s': "hits = length (filter ?hit (pg_invoices s))" "s' = s\<lparr>pg_invoices := map ?f (pg_invoices s)\<rparr>"
    using run by (auto simp: sql_update_status_def Let_def)
  obtain q where q: "find ?hit (pg_invoices s) = Some q" "rowToRecord q = r"
    using old by (auto simp: pg_row_def sql_select_invoice_def)
  then have "q \<in> set (pg_invoices s)" "?hit q" by (auto simp: find_Some_iff)
  then show "0 < hits" by (auto simp: s' filter_empty_conv)
  have key: "row_key (?f r) = row_key r" "pi_created_at (?f r) = pi_created_at r" "pi_id (?f r) = pi_id r"
    "of_stream sc' k (?f r) = of_stream sc' k r" "pi_invoice_hash (?f r) = pi_invoice_hash r" for r sc' k
    by (auto simp: row_key_def of_stream_def of_scope_def split: option.split)
  have "map row_key (map ?f (pg_invoices s)) = map row_key (pg_invoices s)" by (simp add: key)
  moreover have "sorted_wrt (\<lambda>a b. later b a) (map ?f xs) = sorted_wrt (\<lambda>a b. later b a) xs" for xs
    by (simp add: sorted_wrt_map later_def key)
  ultimately have ok: "tables_ok t s'"
    using pg_relD(1) [OF rel] by (auto simp: s' tables_ok_def key simp del: map_map)
  have row: "pg_row sc' j s' = (if sc' = sc \<and> j = i then Some (r\<lparr>rec_status := st\<rparr>) else pg_row sc' j s)" for sc' j
  proof -
    have k: "row_key (?f r) = z \<longleftrightarrow> row_key r = z" for r z by (simp add: key)
    have "pg_row sc' j s' = map_option (rowToRecord \<circ> ?f) (sql_select_invoice sc' j s)"
      unfolding pg_row_def select_key s'
      by (simp add: find_map [where f = ?f and P = "\<lambda>r. row_key r = (scope_vatNumber sc', scope_egsUuid sc', j)", OF k] option.map_comp)
    moreover have "?hit p \<longleftrightarrow> sc' = sc \<and> j = i" if "sql_select_invoice sc' j s = Some p" for p
      using that scope_parts [of sc sc'] by (auto simp: sql_select_invoice_def find_Some_iff of_scope_def)
    moreover have "sql_select_invoice sc i s = Some q" using q by (simp add: sql_select_invoice_def)
    ultimately show ?thesis using q(2)
      by (cases "sql_select_invoice sc' j s") (auto simp: pg_row_def rowToRecord_def)
  qed
  have srt: "sorted_wrt (\<lambda>a b. later b a) (pg_invoices s)" "sorted_wrt (\<lambda>a b. later b a) (pg_invoices s')"
    using pg_relD(1) [OF rel] ok by (simp_all add: tables_ok_def)
  have head: "pg_head sc' k s' = pg_head sc' k s" for sc' k
  proof -
    have "filter (of_stream sc' k) (pg_invoices s') = map ?f (filter (of_stream sc' k) (pg_invoices s))"
      unfolding s' by (simp add: filter_map_same key)
    then show ?thesis unfolding pg_head_last [OF srt(1)] pg_head_last [OF srt(2)]
      by (simp add: last_map key)
  qed
  have hits: "pg_count sc' ym s' = pg_count sc' ym s" for sc' ym by (simp add: s' pg_count_def)
  show "pg_rel t (Suc n) s' (L\<lparr>led_row := put2 sc i (Some (r\<lparr>rec_status := st\<rparr>)) (led_row L)\<rparr>)"
    by (rule pg_relI [OF ok _ pg_count_step [OF rel hits]])
      (simp_all add: row head hits put2_def pg_relD [OF rel])
qed

lemma pg_update_none:
  assumes "sql_select_invoice sc i s = None"
  shows "sql_update_status sc i st s = (0, s)"
proof -
  have none: "\<not> (of_scope sc r \<and> pi_invoice_id r = i)" if "r \<in> set (pg_invoices s)" for r
    using assms that by (simp add: sql_select_invoice_def find_none)
  have "map (\<lambda>r. if of_scope sc r \<and> pi_invoice_id r = i then r\<lparr>pi_status := st\<rparr> else r) (pg_invoices s) = pg_invoices s"
    by (rule map_idI) (use none in auto)
  moreover have "filter (\<lambda>r. of_scope sc r \<and> pi_invoice_id r = i) (pg_invoices s) = []"
    using none by (simp add: filter_empty_conv)
  ultimately show ?thesis by (simp add: sql_update_status_def Let_def)
qed

lemma pg_step_record:
  assumes rel: "pg_rel t n s L" and le: "t \<le> now" and plain: "plain_call (Record sc r)"
    and run: "call_on (createPostgresStorageAdapter jsonb (Some fmt) now) (Record sc r) s = (x, s')"
      "call_on (ledger_adapter fmt now) (Record sc r) L = (y, L')"
  shows "x = y \<and> pg_rel now (Suc n) s' L'"
proof -
  note later = pg_rel_later [OF rel le]
  show ?thesis
  proof (cases "sql_select_invoice sc (rec_invoiceId r) s")
    case (Some row)
    then have "led_row L sc (rec_invoiceId r) = Some (rowToRecord row)"
      using pg_relD(5) [OF rel, of sc "rec_invoiceId r"] by (simp add: pg_row_def)
    then show ?thesis using run later Some
      by (auto simp: createPostgresStorageAdapter_def pg_recordInvoice_def ledger_adapter_def led_recordInvoice_def)
  next
    case None
    then have new: "pg_row sc (rec_invoiceId r) s = None" by (simp add: pg_row_def)
    then have "led_row L sc (rec_invoiceId r) = None" using pg_relD(5) [OF rel, of sc "rec_invoiceId r"] by simp
    moreover obtain s1 where "sql_insert_invoice (insert_row jsonb now sc r) s = (Inr (), s1)"
      "pg_rel now (Suc n) s1 (L\<lparr>led_row := put2 sc (rec_invoiceId r) (Some r) (led_row L),
        led_head := put2 sc None (rec_invoiceHash r) (put2 sc (Some (rec_kind r)) (rec_invoiceHash r) (led_head L))\<rparr>)"
      using pg_insert [OF rel le new] plain by (auto simp: plain_call_def)
    ultimately show ?thesis using run None
      by (auto simp: createPostgresStorageAdapter_def pg_recordInvoice_def ledger_adapter_def led_recordInvoice_def)
  qed
qed

lemma pg_step_update:
  assumes rel: "pg_rel t n s L" and le: "t \<le> now"
    and run: "call_on (createPostgresStorageAdapter jsonb (Some fmt) now) (Update sc i st) s = (x, s')"
      "call_on (ledger_adapter fmt now) (Update sc i st) L = (y, L')"
  shows "x = y \<and> pg_rel now (Suc n) s' L'"
proof -
  note later = pg_rel_later [OF rel le]
  obtain hits s1 where u: "sql_update_status sc i st s = (hits, s1)" by fastforce
  show ?thesis
  proof (cases "pg_row sc i s")
    case None
    then have "hits = 0" "s1 = s" using u pg_update_none by (auto simp: pg_row_def)
    then show ?thesis using run later u pg_relD(5) [OF rel, of sc i] None
      by (auto simp: createPostgresStorageAdapter_def pg_updateInvoiceStatus_def ledger_adapter_def led_updateInvoiceStatus_def)
  next
    case (Some r)
    note up = pg_update [OF rel Some u]
    have led: "led_row L sc i = Some r" using pg_relD(5) [OF rel, of sc i] Some by simp
    have "pg_rel now (Suc n) s1 (L\<lparr>led_row := put2 sc i (Some (r\<lparr>rec_status := st\<rparr>)) (led_row L)\<rparr>)"
      using pg_relI [OF tables_ok_later [OF pg_relD(1) [OF up(2)] le]] pg_relD [OF up(2)] by blast
    then show ?thesis using run up(1) u led
      by (auto simp: createPostgresStorageAdapter_def pg_updateInvoiceStatus_def ledger_adapter_def led_updateInvoiceStatus_def)
  qed
qed

interpretation postgres_ledger: ledger_refinement "createPostgresStorageAdapter jsonb (Some fmt)" fmt plain_call pg_rel "(\<le>)" 2147483647 pg_empty
proof unfold_locales
  show "pg_rel t 0 pg_empty ledger_empty" for t by (rule pg_empty_rel)
next
  fix t n s L now c x s' y L'
  assume rel: "pg_rel t n s L" and le: "t \<le> now" and n: "n < 2147483647" and plain: "plain_call c"
    and run: "call_on (createPostgresStorageAdapter jsonb (Some fmt) now) c s = (x, s')"
      "call_on (ledger_adapter fmt now) c L = (y, L')"
  note later = pg_rel_later [OF rel le]
  show "x = y \<and> pg_rel now (Suc n) s' L'"
  proof (cases c)
    case (Increment sc)
    obtain ym yr m where ym: "yearMonthFor now = (ym, yr, m)" by (cases "yearMonthFor now")
    obtain z s1 where z: "pg_incrementCounter fmt now sc s = (z, s1)" by fastforce
    note inc = pg_increment [OF rel n z ym]
    have "pg_rel now (Suc n) s1 (L\<lparr>led_count := put2 sc ym (led_count L sc ym + 1) (led_count L)\<rparr>)"
      using inc(2) le pg_relI [OF tables_ok_later [OF pg_relD(1) [OF inc(2)] le]] pg_relD [OF inc(2)] by blast
    then show ?thesis using run inc(1) z Increment
      by (auto simp: createPostgresStorageAdapter_def ledger_adapter_def led_incrementCounter_def ym Let_def)
  next
    case (Previous sc k)
    then show ?thesis using run later pg_relD(6) [OF rel, of sc k]
      by (auto simp: createPostgresStorageAdapter_def pg_getPreviousHash_def pg_head_def [symmetric] ledger_adapter_def)
  next
    case (Record sc r)
    show ?thesis using pg_step_record [OF rel le] plain run unfolding Record by blast
  next
    case (Load sc i)
    then show ?thesis using run later pg_relD(5) [OF rel, of sc i]
      by (auto simp: createPostgresStorageAdapter_def pg_loadInvoice_def pg_row_def [symmetric] ledger_adapter_def)
  next
    case (Update sc i st)
    show ?thesis using pg_step_update [OF rel le] run unfolding Update by blast
  qed
qed

section \<open>Races and clocks\<close>

text \<open>
  Whatever other sessions do between the two statements, as long as they leave at most one row per
  key: when \<open>recordInvoice\<close> returns, the stored row equals the record, and there is one such row.
\<close>

lemma pg_record_race:
  assumes run: "pg_recordInvoice jsonb others created sc r t = (Ok (), t')"
    and ok: "\<And>t. distinct (map row_key (pg_invoices t)) \<Longrightarrow> distinct (map row_key (pg_invoices (others t)))"
    and start: "distinct (map row_key (pg_invoices t))" and plain: "rec_validationResults r = None"
  shows "\<exists>row. sql_select_invoice sc (rec_invoiceId r) t' = Some row \<and> recordsEqual (rowToRecord row) r"
    "distinct (map row_key (pg_invoices t'))"
proof -
  let ?row = "insert_row jsonb created sc r"
  have key: "row_key (?row\<lparr>pi_id := n\<rparr>) = (scope_vatNumber sc, scope_egsUuid sc, rec_invoiceId r)" for n
    by (simp add: row_key_def insert_row_def)
  have "sql_select_invoice sc (rec_invoiceId r) t' = Some (?row\<lparr>pi_id := n\<rparr>) \<and> distinct (map row_key (pg_invoices t'))"
    if "sql_insert_invoice ?row (others t) = (Inr (), t')" "n = pg_next_id (others t)" for n
  proof -
    have fresh: "\<forall>q \<in> set (pg_invoices (others t)). row_key q \<noteq> (scope_vatNumber sc, scope_egsUuid sc, rec_invoiceId r)"
      and t': "pg_invoices t' = pg_invoices (others t) @ [?row\<lparr>pi_id := n\<rparr>]"
      using that by (auto simp: sql_insert_invoice_def row_key_def insert_row_def split: if_splits)
    then have "find (\<lambda>r'. row_key r' = (scope_vatNumber sc, scope_egsUuid sc, rec_invoiceId r)) (pg_invoices (others t)) = None"
      by (simp add: find_none)
    then show ?thesis using fresh ok [OF start] by (auto simp: select_key t' find_append key)
  qed
  moreover have "distinct (map row_key (pg_invoices t1))" if "sql_insert_invoice ?row (others t) = (Inl e, t1)" for e t1
    using that ok [OF start] by (auto simp: sql_insert_invoice_def split: if_splits)
  ultimately show "\<exists>row. sql_select_invoice sc (rec_invoiceId r) t' = Some row \<and> recordsEqual (rowToRecord row) r"
    "distinct (map row_key (pg_invoices t'))"
    using run start row_roundtrip [OF plain] recordsEqual_refl [of r]
    by (auto simp: pg_recordInvoice_def split: option.splits prod.splits sum.splits db_error.splits if_splits)
qed

text \<open>
  The head is chosen by the recorder's clock, not by the sequence: a record written by a clock that
  is behind the last one never becomes the head.
\<close>

lemma pg_clock_behind:
  assumes "sql_select_head sc (Some (rec_kind r)) t = Some h" "\<forall>q \<in> set (pg_invoices t). created < pi_created_at q"
    "pg_recordInvoice jsonb (\<lambda>t. t) created sc r t = (Ok (), t')"
  shows "sql_select_head sc (Some (rec_kind r)) t' = Some h"
proof -
  have app: "latest (xs @ [q]) = latest xs" if "xs \<noteq> []" "\<forall>p \<in> set xs. pi_created_at q < pi_created_at p" for xs q
    using that
  proof (induction xs)
    case (Cons x xs)
    then show ?case by (cases xs) (auto simp: later_def split: option.split)
  qed simp
  let ?P = "\<lambda>q. of_scope sc q \<and> pi_kind q = rec_kind r"
  have ne: "filter ?P (pg_invoices t) \<noteq> []" using assms(1) by (auto simp: sql_select_head_def)
  have "pg_invoices t' = pg_invoices t \<or> (\<exists>n. pg_invoices t' = pg_invoices t @ [(insert_row jsonb created sc r)\<lparr>pi_id := n\<rparr>])"
    using assms(3) by (auto simp: pg_recordInvoice_def sql_insert_invoice_def split: option.splits if_splits db_error.splits)
  then show ?thesis using assms(1,2) app [OF ne]
    by (auto simp: sql_select_head_def insert_row_def of_scope_def)
qed

end
