(* ===== verification/MongoStorage.thy ===== *)
theory MongoStorage
  imports PostgresStorage
begin

text \<open>
  The MongoDB storage adapter (\<open>storage-mongo/src/adapter.ts\<close>, \<open>schema.ts\<close>) over its two collections. A
  command on one document is atomic. Mongoose refuses a document whose required string is empty;
  \<open>mixed\<close> is what it stores for validation results, and \<open>scan\<close> the order in which the server delivers
  documents that the requested sort leaves open. Sequence numbers are integers: JavaScript counts
  exactly up to \<open>2 ^ 53\<close>.
\<close>

section \<open>Collections\<close>

record mg_invoice =
  mi_vatNumber :: string
  mi_egsUuid :: string
  mi_invoiceId :: string
  mi_kind :: InvoiceKind
  mi_serial :: string
  mi_counterNumber :: int
  mi_uuid :: string
  mi_invoiceHash :: string
  mi_previousInvoiceHash :: string
  mi_signedXml :: string
  mi_qrBase64 :: string
  mi_status :: InvoiceStatus
  mi_issuedAt :: int
  mi_createdAt :: int
  mi_clearanceNumber :: "string option"
  mi_validationResults :: "jsval option"

record mongo_db =
  mg_counters :: "(string \<times> string \<times> string, int) jsmap"
  mg_invoices :: "mg_invoice list"

definition mongo_empty :: mongo_db where
  "mongo_empty = \<lparr>mg_counters = [], mg_invoices = []\<rparr>"

datatype mongo_error = Duplicate_key | Validation_failed

definition thrown_mongo :: "mongo_error \<Rightarrow> error" where
  "thrown_mongo e = (case e of
       Duplicate_key \<Rightarrow> PlainError ''E11000 duplicate key error collection'' None
     | Validation_failed \<Rightarrow> PlainError ''ZatcaInvoice validation failed'' None)"

definition in_scope :: "TenantScope \<Rightarrow> mg_invoice \<Rightarrow> bool" where
  "in_scope sc d = (mi_vatNumber d = scope_vatNumber sc \<and> mi_egsUuid d = scope_egsUuid sc)"

section \<open>Commands\<close>

text \<open>\<open>findOneAndUpdate\<close> with \<open>$inc\<close> and \<open>upsert\<close>\<close>

definition mongo_inc :: "TenantScope \<Rightarrow> string \<Rightarrow> mongo_db \<Rightarrow> int \<times> mongo_db" where
  "mongo_inc sc ym db = (let k = (scope_vatNumber sc, scope_egsUuid sc, ym);
       n = or_else (mget (mg_counters db) k) 0 + 1 in
     (n, db\<lparr>mg_counters := mset_to k n (mg_counters db)\<rparr>))"

definition mongo_find_invoice :: "TenantScope \<Rightarrow> string \<Rightarrow> mongo_db \<Rightarrow> mg_invoice option" where
  "mongo_find_invoice sc i db = find (\<lambda>d. in_scope sc d \<and> mi_invoiceId d = i) (mg_invoices db)"

text \<open>\<open>findOne(filter).sort({ createdAt: -1 })\<close>\<close>

definition mongo_find_head :: "(mg_invoice list \<Rightarrow> mg_invoice list) \<Rightarrow> TenantScope \<Rightarrow> InvoiceKind option \<Rightarrow> mongo_db \<Rightarrow> mg_invoice option" where
  "mongo_find_head scan sc kind db = (case js_sort (\<lambda>a b. mi_createdAt b - mi_createdAt a) (scan (filter
       (\<lambda>d. in_scope sc d \<and> (case kind of None \<Rightarrow> True | Some k \<Rightarrow> mi_kind d = k)) (mg_invoices db))) of
     [] \<Rightarrow> None | d # _ \<Rightarrow> Some d)"

definition required_filled :: "mg_invoice \<Rightarrow> bool" where
  "required_filled d = list_all (\<lambda>s. s \<noteq> []) [mi_vatNumber d, mi_egsUuid d, mi_invoiceId d, mi_serial d, mi_uuid d,
     mi_invoiceHash d, mi_previousInvoiceHash d, mi_signedXml d, mi_qrBase64 d]"

definition mongo_create_invoice :: "mg_invoice \<Rightarrow> mongo_db \<Rightarrow> (mongo_error + unit) \<times> mongo_db" where
  "mongo_create_invoice d db =
     (if \<not> required_filled d then (Inl Validation_failed, db)
      else if \<exists>q \<in> set (mg_invoices db). mi_vatNumber q = mi_vatNumber d \<and> mi_egsUuid q = mi_egsUuid d \<and>
          mi_invoiceId q = mi_invoiceId d
      then (Inl Duplicate_key, db)
      else (Inr (), db\<lparr>mg_invoices := mg_invoices db @ [d]\<rparr>))"

text \<open>\<open>updateOne\<close>: the number of documents matched, at most one, which the unique index makes all of them.\<close>

definition mongo_set_status :: "TenantScope \<Rightarrow> string \<Rightarrow> InvoiceStatus \<Rightarrow> mongo_db \<Rightarrow> nat \<times> mongo_db" where
  "mongo_set_status sc i st db = (let hit = (\<lambda>d. in_scope sc d \<and> mi_invoiceId d = i) in
     (length (filter hit (mg_invoices db)),
      db\<lparr>mg_invoices := map (\<lambda>d. if hit d then d\<lparr>mi_status := st\<rparr> else d) (mg_invoices db)\<rparr>))"

section \<open>The adapter\<close>

definition docToRecord :: "mg_invoice \<Rightarrow> InvoiceRecord" where
  "docToRecord d = \<lparr>rec_invoiceId = mi_invoiceId d, rec_kind = mi_kind d, rec_serial = mi_serial d,
     rec_counterNumber = mi_counterNumber d, rec_uuid = mi_uuid d, rec_invoiceHash = mi_invoiceHash d,
     rec_previousInvoiceHash = mi_previousInvoiceHash d, rec_signedXml = mi_signedXml d,
     rec_qrBase64 = mi_qrBase64 d, rec_issuedAt = mi_issuedAt d, rec_status = mi_status d,
     rec_clearanceNumber = mi_clearanceNumber d, rec_validationResults = mi_validationResults d\<rparr>"

definition mg_incrementCounter :: "number_formatter \<Rightarrow> int \<Rightarrow> TenantScope \<Rightarrow> (mongo_db, int \<times> string) eff" where
  "mg_incrementCounter fmt now sc db = (case yearMonthFor now of (ym, year, month) \<Rightarrow>
     (case mongo_inc sc ym db of (n, db') \<Rightarrow> (Ok (n, fmt sc n ym year month), db')))"

definition mg_getPreviousHash :: "(mg_invoice list \<Rightarrow> mg_invoice list) \<Rightarrow> TenantScope \<Rightarrow> InvoiceKind option \<Rightarrow> (mongo_db, string) eff" where
  "mg_getPreviousHash scan sc kind db = (Ok (case mongo_find_head scan sc kind db of
     None \<Rightarrow> ZATCA_BASE_INVOICE_HASH | Some d \<Rightarrow> mi_invoiceHash d), db)"

text \<open>\<open>createdAt\<close> is the time of the server's own clock, not the adapter's.\<close>

definition insert_doc :: "(jsval \<Rightarrow> jsval option) \<Rightarrow> int \<Rightarrow> TenantScope \<Rightarrow> InvoiceRecord \<Rightarrow> mg_invoice" where
  "insert_doc mixed wall sc r = \<lparr>mi_vatNumber = scope_vatNumber sc, mi_egsUuid = scope_egsUuid sc,
     mi_invoiceId = rec_invoiceId r, mi_kind = rec_kind r, mi_serial = rec_serial r,
     mi_counterNumber = rec_counterNumber r, mi_uuid = rec_uuid r, mi_invoiceHash = rec_invoiceHash r,
     mi_previousInvoiceHash = rec_previousInvoiceHash r, mi_signedXml = rec_signedXml r,
     mi_qrBase64 = rec_qrBase64 r, mi_status = rec_status r, mi_issuedAt = rec_issuedAt r, mi_createdAt = wall,
     mi_clearanceNumber = rec_clearanceNumber r,
     mi_validationResults = Option.bind (rec_validationResults r) mixed\<rparr>"

definition mg_recordInvoice :: "(jsval \<Rightarrow> jsval option) \<Rightarrow> (mongo_db \<Rightarrow> mongo_db) \<Rightarrow> int \<Rightarrow> TenantScope \<Rightarrow> InvoiceRecord \<Rightarrow>
    (mongo_db, unit) eff" where
  "mg_recordInvoice mixed others wall sc r db = (case mongo_find_invoice sc (rec_invoiceId r) db of
       Some d \<Rightarrow> (if \<not> recordsEqual (docToRecord d) r then Err (conflicting_record (rec_invoiceId r)) else Ok (), db)
     | None \<Rightarrow> (case mongo_create_invoice (insert_doc mixed wall sc r) (others db) of
         (Inr _, db') \<Rightarrow> (Ok (), db')
       | (Inl Validation_failed, db') \<Rightarrow> (Err (thrown_mongo Validation_failed), db')
       | (Inl Duplicate_key, db') \<Rightarrow> (case mongo_find_invoice sc (rec_invoiceId r) db' of
           None \<Rightarrow> (Err (thrown_mongo Duplicate_key), db')
         | Some winner \<Rightarrow> (if \<not> recordsEqual (docToRecord winner) r then Err (lost_race (rec_invoiceId r)) else Ok (), db'))))"

definition mg_loadInvoice :: "TenantScope \<Rightarrow> string \<Rightarrow> (mongo_db, InvoiceRecord option) eff" where
  "mg_loadInvoice sc i db = (Ok (map_option docToRecord (mongo_find_invoice sc i db)), db)"

definition mg_updateInvoiceStatus :: "TenantScope \<Rightarrow> string \<Rightarrow> InvoiceStatus \<Rightarrow> (mongo_db, unit) eff" where
  "mg_updateInvoiceStatus sc i st db = (case mongo_set_status sc i st db of (matched, db') \<Rightarrow>
     (if matched = 0 then Err (unknown_invoice i) else Ok (), db'))"

definition createMongoStorageAdapter :: "(jsval \<Rightarrow> jsval option) \<Rightarrow> (mg_invoice list \<Rightarrow> mg_invoice list) \<Rightarrow>
    number_formatter option \<Rightarrow> int \<Rightarrow> int \<Rightarrow> mongo_db StorageAdapter" where
  "createMongoStorageAdapter mixed scan fmt wall now =
     \<lparr>incrementCounter = mg_incrementCounter (case fmt of None \<Rightarrow> defaultFormatter | Some f \<Rightarrow> f) now,
      getPreviousHash = mg_getPreviousHash scan, recordInvoice = mg_recordInvoice mixed (\<lambda>db. db) wall,
      loadInvoice = mg_loadInvoice, updateInvoiceStatus = mg_updateInvoiceStatus\<rparr>"

section \<open>The collections mirror the tables\<close>

text \<open>A document is a row without its id.\<close>

definition doc_of :: "pg_invoice \<Rightarrow> mg_invoice" where
  "doc_of r = \<lparr>mi_vatNumber = pi_vat_number r, mi_egsUuid = pi_egs_uuid r, mi_invoiceId = pi_invoice_id r,
     mi_kind = pi_kind r, mi_serial = pi_serial r, mi_counterNumber = pi_counter_number r, mi_uuid = pi_uuid r,
     mi_invoiceHash = pi_invoice_hash r, mi_previousInvoiceHash = pi_previous_invoice_hash r,
     mi_signedXml = pi_signed_xml r, mi_qrBase64 = pi_qr_base64 r, mi_status = pi_status r,
     mi_issuedAt = pi_issued_at r, mi_createdAt = pi_created_at r, mi_clearanceNumber = pi_clearance_number r,
     mi_validationResults = pi_validation_results r\<rparr>"

definition mirrors :: "mongo_db \<Rightarrow> pg_tables \<Rightarrow> bool" where
  "mirrors db t = (mg_counters db = pg_counters t \<and> mg_invoices db = map doc_of (pg_invoices t) \<and>
     sorted_wrt (\<lambda>a b. pi_created_at a < pi_created_at b) (pg_invoices t))"

lemma mirrorsD:
  assumes "mirrors db t"
  shows "mg_counters db = pg_counters t" "mg_invoices db = map doc_of (pg_invoices t)"
    "sorted_wrt (\<lambda>a b. pi_created_at a < pi_created_at b) (pg_invoices t)"
  using assms by (simp_all add: mirrors_def)

lemma doc_of_simps [simp]:
  "in_scope sc (doc_of r) = of_scope sc r" "mi_invoiceId (doc_of r) = pi_invoice_id r" "mi_kind (doc_of r) = pi_kind r"
  "mi_createdAt (doc_of r) = pi_created_at r" "mi_invoiceHash (doc_of r) = pi_invoice_hash r" "docToRecord (doc_of r) = rowToRecord r"
  "mi_vatNumber (doc_of r) = pi_vat_number r" "mi_egsUuid (doc_of r) = pi_egs_uuid r"
  by (simp_all add: doc_of_def in_scope_def of_scope_def docToRecord_def rowToRecord_def)

lemma find_map_doc: "find P (map f xs) = map_option f (find (P \<circ> f) xs)"
  by (induction xs) auto

lemma mongo_find_row: "mirrors db t \<Longrightarrow> mongo_find_invoice sc i db = map_option doc_of (sql_select_invoice sc i t)"
  by (simp add: mongo_find_invoice_def sql_select_invoice_def mirrorsD(2) find_map_doc comp_def)

lemma sorted_last: "sorted_wrt P xs \<Longrightarrow> xs \<noteq> [] \<Longrightarrow> \<forall>y \<in> set (butlast xs). P y (last xs)"
  by (induction xs rule: rev_induct) (auto simp: sorted_wrt_append)

lemma in_butlast: "x \<in> set xs \<Longrightarrow> x \<noteq> last xs \<Longrightarrow> x \<in> set (butlast xs)"
  by (induction xs) auto

text \<open>With distinct times of creation the newest document of a stream is its last row.\<close>

lemma mongo_head_row:
  assumes m: "mirrors db t" and srt: "sorted_wrt (\<lambda>a b. later b a) (pg_invoices t)" and scan: "\<And>xs. set (scan xs) = set xs"
  shows "map_option mi_invoiceHash (mongo_find_head scan sc k db) = sql_select_head sc k t"
proof -
  let ?Q = "\<lambda>r. of_scope sc r \<and> (case k of None \<Rightarrow> True | Some k \<Rightarrow> pi_kind r = k)"
  let ?rows = "filter ?Q (pg_invoices t)"
  have docs: "filter (\<lambda>d. in_scope sc d \<and> (case k of None \<Rightarrow> True | Some k \<Rightarrow> mi_kind d = k)) (mg_invoices db) = map doc_of ?rows"
    by (cases k) (simp_all add: mirrorsD(2) [OF m] filter_map comp_def)
  have inc: "sorted_wrt (\<lambda>a b. pi_created_at a < pi_created_at b) ?rows"
    using mirrorsD(3) [OF m] by (rule sorted_wrt_filter)
  have head: "sql_select_head sc k t = map_option pi_invoice_hash (if ?rows = [] then None else Some (last ?rows))"
    unfolding sql_select_head_def by (subst latest_last) (simp_all add: sorted_wrt_filter [OF srt])
  show ?thesis
  proof (cases "?rows = []")
    case True
    then have "set (scan (map doc_of ?rows)) = {}" using scan by simp
    then show ?thesis using True head by (simp add: mongo_find_head_def docs js_sort_def)
  next
    case False
    let ?x = "doc_of (last ?rows)"
    have lt: "- mi_createdAt ?x < - mi_createdAt y" if "y \<in> set (scan (map doc_of ?rows))" "y \<noteq> ?x" for y
    proof -
      obtain r where r: "r \<in> set ?rows" "y = doc_of r" using \<open>y \<in> set (scan (map doc_of ?rows))\<close> unfolding scan by auto
      have "r \<in> set (butlast ?rows)" using r that(2) by (intro in_butlast) auto
      moreover have "\<forall>r \<in> set (butlast ?rows). pi_created_at r < pi_created_at (last ?rows)"
        by (rule sorted_last [OF inc False])
      ultimately show ?thesis using r by simp
    qed
    have "?x \<in> set (scan (map doc_of ?rows))" unfolding scan set_map by (rule imageI [OF last_in_set [OF False]])
    then have "\<exists>rest. js_sort (\<lambda>a b. - mi_createdAt a - (- mi_createdAt b)) (scan (map doc_of ?rows)) = ?x # rest"
      by (rule js_sort_first) (use lt in blast)
    then obtain rest where "js_sort (\<lambda>a b. - mi_createdAt a - (- mi_createdAt b)) (scan (map doc_of ?rows)) = ?x # rest" ..
    moreover have "(\<lambda>a b. - mi_createdAt a - (- mi_createdAt b)) = (\<lambda>a b :: mg_invoice. mi_createdAt b - mi_createdAt a)"
      by (simp add: fun_eq_iff)
    ultimately show ?thesis using False head by (simp add: mongo_find_head_def docs)
  qed
qed

section \<open>Refinement\<close>

definition filled_call :: "storage_call \<Rightarrow> bool" where
  "filled_call c = (plain_call c \<and> (case c of
       Record sc r \<Rightarrow> required_filled (insert_doc (\<lambda>_. None) 0 sc r) | _ \<Rightarrow> True))"

definition mg_rel :: "int \<Rightarrow> nat \<Rightarrow> mongo_db \<Rightarrow> ledger \<Rightarrow> bool" where
  "mg_rel now n db L = (\<exists>t. mirrors db t \<and> pg_rel now n t L)"

text \<open>Call by call the collections do what the tables do, when the clock moves on.\<close>

lemma mongo_step_record:
  assumes m: "mirrors db t" and rel: "pg_rel now0 n t L" and clock: "now0 < now" and fits: "filled_call (Record sc r)"
    and run: "call_on (createPostgresStorageAdapter jsonb (Some fmt) now) (Record sc r) t = (x, t')"
  shows "\<exists>db'. call_on (createMongoStorageAdapter mixed scan (Some fmt) now now) (Record sc r) db = (x, db') \<and> mirrors db' t'"
proof -
  have plain: "rec_validationResults r = None" "int4_ok (rec_counterNumber r)" and filled: "required_filled (insert_doc (\<lambda>_. None) 0 sc r)"
    using fits by (simp_all add: filled_call_def plain_call_def)
  have filled': "required_filled (insert_doc mixed now sc r)" using filled by (simp add: required_filled_def insert_doc_def)
  show ?thesis
  proof (cases "sql_select_invoice sc (rec_invoiceId r) t")
    case (Some row)
    then show ?thesis using run m mongo_find_row [OF m, of sc "rec_invoiceId r"]
      by (auto simp: createPostgresStorageAdapter_def createMongoStorageAdapter_def pg_recordInvoice_def mg_recordInvoice_def)
  next
    case None
    then have "pg_row sc (rec_invoiceId r) t = None" by (simp add: pg_row_def)
    from pg_insert [OF rel _ this plain, of now] clock
    obtain t1 where ins: "sql_insert_invoice (insert_row jsonb now sc r) t = (Inr (), t1)" by auto
    then have t1: "pg_invoices t1 = pg_invoices t @ [(insert_row jsonb now sc r)\<lparr>pi_id := pg_next_id t\<rparr>]" "pg_counters t1 = pg_counters t"
      and fresh: "\<forall>q \<in> set (pg_invoices t). \<not> (pi_vat_number q = scope_vatNumber sc \<and> pi_egs_uuid q = scope_egsUuid sc \<and> pi_invoice_id q = rec_invoiceId r)"
      by (auto simp: sql_insert_invoice_def insert_row_def split: if_splits)
    have doc: "doc_of ((insert_row jsonb now sc r)\<lparr>pi_id := i\<rparr>) = insert_doc mixed now sc r" for i
      using plain(1) by (simp add: doc_of_def insert_row_def insert_doc_def results_json_def)
    have old: "\<forall>q \<in> set (pg_invoices t). pi_created_at q < now"
      using pg_relD(1) [OF rel] clock by (auto simp: tables_ok_def)
    let ?db = "db\<lparr>mg_invoices := mg_invoices db @ [insert_doc mixed now sc r]\<rparr>"
    have "mongo_create_invoice (insert_doc mixed now sc r) db = (Inr (), ?db)"
      using filled' fresh by (auto simp: mongo_create_invoice_def mirrorsD(2) [OF m] insert_doc_def)
    moreover have "pi_created_at ((insert_row jsonb now sc r)\<lparr>pi_id := i\<rparr>) = now" for i by (simp add: insert_row_def)
    then have "mirrors ?db t1" using old mirrorsD [OF m]
      by (auto simp: mirrors_def t1 doc sorted_wrt_append)
    ultimately show ?thesis using run None ins mongo_find_row [OF m, of sc "rec_invoiceId r"]
      by (auto simp: createPostgresStorageAdapter_def createMongoStorageAdapter_def pg_recordInvoice_def mg_recordInvoice_def)
  qed
qed

lemma mongo_step_update:
  assumes m: "mirrors db t"
    and run: "call_on (createPostgresStorageAdapter jsonb (Some fmt) now) (Update sc i st) t = (x, t')"
  shows "\<exists>db'. call_on (createMongoStorageAdapter mixed scan (Some fmt) now now) (Update sc i st) db = (x, db') \<and> mirrors db' t'"
proof -
  let ?hit = "\<lambda>r. of_scope sc r \<and> pi_invoice_id r = i"
  have "map doc_of (map (\<lambda>r. if ?hit r then r\<lparr>pi_status := st\<rparr> else r) (pg_invoices t)) =
      map (\<lambda>d. if in_scope sc d \<and> mi_invoiceId d = i then d\<lparr>mi_status := st\<rparr> else d) (mg_invoices db)"
    by (simp add: mirrorsD(2) [OF m]) (simp add: doc_of_def of_scope_def in_scope_def)
  moreover have "sorted_wrt (\<lambda>a b. pi_created_at a < pi_created_at b) (map (\<lambda>r. if ?hit r then r\<lparr>pi_status := st\<rparr> else r) (pg_invoices t))"
    using mirrorsD(3) [OF m] by (auto simp: sorted_wrt_map elim!: sorted_wrt_mono_rel [rotated])
  moreover have "length (filter (\<lambda>d. in_scope sc d \<and> mi_invoiceId d = i) (mg_invoices db)) = length (filter ?hit (pg_invoices t))"
    by (simp add: mirrorsD(2) [OF m] filter_map comp_def)
  ultimately show ?thesis using run mirrorsD(1) [OF m]
    by (auto simp: createPostgresStorageAdapter_def createMongoStorageAdapter_def pg_updateInvoiceStatus_def mg_updateInvoiceStatus_def
        sql_update_status_def mongo_set_status_def Let_def mirrors_def simp del: map_map split: if_splits)
qed

lemma mongo_step:
  assumes m: "mirrors db t" and rel: "pg_rel now0 n t L" and clock: "now0 < now" and n: "n < 2147483647" and fits: "filled_call c"
    and scan: "\<And>xs. set (scan xs) = set xs"
    and run: "call_on (createPostgresStorageAdapter jsonb (Some fmt) now) c t = (x, t')"
  shows "\<exists>db'. call_on (createMongoStorageAdapter mixed scan (Some fmt) now now) c db = (x, db') \<and> mirrors db' t'"
proof (cases c)
  case (Increment sc)
  obtain ym y mo where ym: "yearMonthFor now = (ym, y, mo)" by (cases "yearMonthFor now")
  obtain z t1 where z: "pg_incrementCounter fmt now sc t = (z, t1)" by fastforce
  note inc = pg_increment [OF rel n z ym]
  have cnt: "pg_count sc ym t = led_count L sc ym" by (rule pg_relD(2) [OF rel])
  have "t1 = t\<lparr>pg_counters := mset_to (scope_vatNumber sc, scope_egsUuid sc, ym) (led_count L sc ym + 1) (pg_counters t)\<rparr>"
    using z inc(1) cnt by (auto simp: pg_incrementCounter_def ym sql_upsert_counter_def pg_count_def Let_def split: option.splits if_splits)
  then show ?thesis using run Increment z inc(1) cnt mirrorsD [OF m]
    by (auto simp: createPostgresStorageAdapter_def createMongoStorageAdapter_def mg_incrementCounter_def mongo_inc_def ym Let_def
        mirrors_def pg_count_def or_else_def split: option.splits)
next
  case (Previous sc k)
  have "sorted_wrt (\<lambda>a b. later b a) (pg_invoices t)" using pg_relD(1) [OF rel] by (simp add: tables_ok_def)
  from mongo_head_row [OF m this scan, of sc k] show ?thesis using run Previous m
    by (auto simp: createPostgresStorageAdapter_def createMongoStorageAdapter_def pg_getPreviousHash_def mg_getPreviousHash_def
        split: option.splits)
next
  case (Record sc r)
  show ?thesis using mongo_step_record [OF m rel clock] fits run unfolding Record by blast
next
  case (Load sc i)
  then show ?thesis using run m mongo_find_row [OF m, of sc i]
    by (auto simp: createPostgresStorageAdapter_def createMongoStorageAdapter_def pg_loadInvoice_def mg_loadInvoice_def option.map_comp comp_def)
next
  case (Update sc i st)
  show ?thesis using mongo_step_update [OF m] run unfolding Update by blast
qed

lemma mongo_empty_rel: "mg_rel t 0 mongo_empty ledger_empty"
  unfolding mg_rel_def
  by (rule exI [of _ pg_empty], rule conjI [OF _ pg_empty_rel]) (simp add: mirrors_def mongo_empty_def pg_empty_def)

text \<open>Any order of delivery: the server delivers the documents that match, no more and no less.\<close>

locale delivery =
  fixes scan :: "mg_invoice list \<Rightarrow> mg_invoice list"
  assumes scan_set: "set (scan xs) = set xs"

sublocale delivery \<subseteq> mongo: ledger_refinement "\<lambda>now. createMongoStorageAdapter mixed scan (Some fmt) now now" fmt filled_call mg_rel
  "(<)" 2147483647 mongo_empty for mixed fmt
proof
  show "mg_rel t 0 mongo_empty ledger_empty" for t by (rule mongo_empty_rel)
next
  fix t n db L now c x db' y L'
  assume "mg_rel t n db L" and clock: "t < now" and n: "n < 2147483647" and fits: "filled_call c"
    and run: "call_on (createMongoStorageAdapter mixed scan (Some fmt) now now) c db = (x, db')"
      "call_on (ledger_adapter fmt now) c L = (y, L')"
  then obtain tab where m: "mirrors db tab" and rel: "pg_rel t n tab L" by (auto simp: mg_rel_def)
  obtain z tab' where pg: "call_on (createPostgresStorageAdapter (\<lambda>_. JNull) (Some fmt) now) c tab = (z, tab')" by (metis surj_pair)
  have plain: "plain_call c" using fits by (simp add: filled_call_def)
  have le: "t \<le> now" using clock by simp
  have "z = y \<and> pg_rel now (Suc n) tab' L'" by (rule postgres_ledger.step [OF rel le n plain pg run(2)])
  moreover obtain db1 where "call_on (createMongoStorageAdapter mixed scan (Some fmt) now now) c db = (z, db1)" "mirrors db1 tab'"
    using mongo_step [OF m rel clock n fits scan_set pg] by blast
  ultimately show "x = y \<and> mg_rel now (Suc n) db' L'" using run(1) by (auto simp: mg_rel_def)
qed

interpretation natural_order: delivery "\<lambda>xs. xs"
  by unfold_locales simp

context delivery
begin

lemma mongo_answers: "clocked (<) t (map fst cs) \<Longrightarrow> length cs \<le> 2147483647 \<Longrightarrow> list_all (\<lambda>(_, c). filled_call c) cs \<Longrightarrow>
    answers (\<lambda>now. createMongoStorageAdapter mixed scan (Some fmt) now now) cs mongo_empty = answers (ledger_adapter fmt) cs ledger_empty"
  by (rule mongo.answers_agree)

end

section \<open>Ties\<close>

text \<open>
  \<open>createdAt\<close> is in milliseconds and nothing else orders the documents: of two invoices of a stream
  recorded in one millisecond the server may deliver the first one as the head, and the chain forks.
\<close>

lemma mongo_tie_forks:
  assumes "mongo_create_invoice d2 (db\<lparr>mg_invoices := [d1]\<rparr>) = (Inr (), db')" "mi_createdAt d1 = mi_createdAt d2"
    "in_scope sc d1" "in_scope sc d2" "mi_kind d1 = k" "mi_kind d2 = k"
  shows "fst (mg_getPreviousHash (\<lambda>xs. xs) sc (Some k) db') = Ok (mi_invoiceHash d1)"
    "fst (mg_getPreviousHash rev sc (Some k) db') = Ok (mi_invoiceHash d2)"
  using assms
  by (auto simp: mongo_create_invoice_def mg_getPreviousHash_def mongo_find_head_def js_sort_def split: if_splits)

end
