(* ===== verification/Conformance.thy ===== *)
theory Conformance
  imports StorageSpec Validation
begin

text \<open>
  The conformance suite for storage adapters (\<open>core/src/test-helpers/storage-adapter-conformance.ts\<close>): every test
  as the calls it makes and what it expects of their answers, and the proof that the ledger passes.
  The tests share one adapter and one process. A test that fails stops at once in the code; the suite
  has failed then, whatever its later calls would be answered.
\<close>

section \<open>The fixtures\<close>

definition SAMPLE_HASH_A :: string where "SAMPLE_HASH_A = ''ypeBEsobvcr6wjGzmiPcTaeG7/gUfE5yuYB3ha/uSLs=''"
definition SAMPLE_HASH_B :: string where "SAMPLE_HASH_B = ''PiPoFgA5WUoziU9lZOGxNIu9egCI1CxKy3PurtWcAJ0=''"
definition SAMPLE_HASH_C :: string where "SAMPLE_HASH_C = ''Ky7AAuiTUiHQ8eiwaHEgcaGoFE6cv2P+8utR2QwHl7g=''"

text \<open>
  What the clock and the random source give: \<open>Date.now()\<close> and the UUID of the \<open>k\<close>-th new scope, the id, the
  UUID and the time of the \<open>j\<close>-th new record (an unknown id is drawn like the id of a record).
\<close>

record conformance_random =
  fx_wall :: "nat \<Rightarrow> int"
  fx_egs :: "nat \<Rightarrow> string"
  fx_id :: "nat \<Rightarrow> string"
  fx_uuid :: "nat \<Rightarrow> string"
  fx_issued :: "nat \<Rightarrow> int"

definition makeVatNumber :: "int \<Rightarrow> string" where
  "makeVatNumber seed = ''3'' @ padStart 13 (CHR ''0'') (int_str seed) @ ''3''"

text \<open>\<open>scopeSeq\<close> counts the scopes of the process.\<close>

definition nextScopeSeed :: "conformance_random \<Rightarrow> nat \<Rightarrow> int" where
  "nextScopeSeed fx k = fx_wall fx k mod 1000000000 + (int k + 1)"

definition newScope :: "conformance_random \<Rightarrow> nat \<Rightarrow> TenantScope" where
  "newScope fx k = \<lparr>scope_vatNumber = makeVatNumber (nextScopeSeed fx k), scope_egsUuid = fx_egs fx k\<rparr>"

definition newInvoiceRecord :: "conformance_random \<Rightarrow> nat \<Rightarrow> TenantScope \<Rightarrow> InvoiceRecord" where
  "newInvoiceRecord fx j sc =
     \<lparr>rec_invoiceId = fx_id fx j, rec_kind = Simplified_tax_invoice, rec_serial = ''INV-000001'',
      rec_counterNumber = 1, rec_uuid = fx_uuid fx j, rec_invoiceHash = SAMPLE_HASH_A,
      rec_previousInvoiceHash = ZATCA_BASE_INVOICE_HASH,
      rec_signedXml = ''<Invoice scope='' @ [CHR 0x22] @ scope_vatNumber sc @ ''/'' @ scope_egsUuid sc @ [CHR 0x22] @ ''/>'',
      rec_qrBase64 = ''QkFTRTY0LVFS'', rec_issuedAt = fx_issued fx j, rec_status = Pending,
      rec_clearanceNumber = None, rec_validationResults = None\<rparr>"

section \<open>The tests\<close>

type_synonym conformance_test = "storage_call list \<times> ((error + storage_answer) list \<Rightarrow> bool)"

fun seq_of :: "error + storage_answer \<Rightarrow> int option" where
  "seq_of (Inr (Number n i)) = Some n"
| "seq_of _ = None"

fun increasing_numbers :: "(error + storage_answer) list \<Rightarrow> bool" where
  "increasing_numbers [Inr (Number a i), Inr (Number b j), Inr (Number c k)] = (a < b \<and> b < c \<and> i \<noteq> j \<and> j \<noteq> k)"
| "increasing_numbers _ = False"

text \<open>The sequences, sorted as JavaScript sorts: as many distinct ones, the first 1, the last \<open>n\<close>.\<close>

definition exactly :: "nat \<Rightarrow> int list \<Rightarrow> bool" where
  "exactly n seqs = (let xs = js_sort (\<lambda>a b. a - b) seqs in
     length (remdups xs) = n \<and> xs \<noteq> [] \<and> hd xs = 1 \<and> last xs = int n)"

definition concurrent_numbers :: "nat \<Rightarrow> (error + storage_answer) list \<Rightarrow> bool" where
  "concurrent_numbers n xs = (list_all (\<lambda>x. seq_of x \<noteq> None) xs \<and> exactly n (map (\<lambda>x. or_else (seq_of x) 0) xs))"

definition same_fields :: "InvoiceRecord \<Rightarrow> InvoiceRecord \<Rightarrow> bool" where
  "same_fields a b = (rec_invoiceId a = rec_invoiceId b \<and> rec_kind a = rec_kind b \<and> rec_serial a = rec_serial b \<and>
     rec_counterNumber a = rec_counterNumber b \<and> rec_uuid a = rec_uuid b \<and> rec_invoiceHash a = rec_invoiceHash b \<and>
     rec_previousInvoiceHash a = rec_previousInvoiceHash b \<and> rec_signedXml a = rec_signedXml b \<and>
     rec_qrBase64 a = rec_qrBase64 b \<and> rec_status a = rec_status b \<and> rec_issuedAt a = rec_issuedAt b)"

fun rejected :: "error + storage_answer \<Rightarrow> bool" where
  "rejected (Inl (ZatcaStorageError m)) = True"
| "rejected _ = False"

text \<open>\<open>sched\<close> is the order in which the calls of the last test take effect; an answer stays with its call.\<close>

definition per_scope_numbers :: "nat \<Rightarrow> TenantScope list \<Rightarrow> storage_call list \<Rightarrow> (error + storage_answer) list \<Rightarrow> bool" where
  "per_scope_numbers n scs calls xs = (list_all (\<lambda>x. seq_of x \<noteq> None) xs \<and>
     list_all (\<lambda>sc. let mine = map (\<lambda>(c, x). or_else (seq_of x) 0) (filter (\<lambda>(c, x). call_scope c = sc) (zip calls xs)) in
       length mine = n \<and> exactly n mine) scs)"

definition chain_records :: "conformance_random \<Rightarrow> TenantScope \<Rightarrow> InvoiceRecord list" where
  "chain_records fx sc = map (\<lambda>(i, h). (newInvoiceRecord fx i sc)\<lparr>rec_invoiceHash := h, rec_counterNumber := int i + 1,
     rec_serial := ''INV-'' @ padStart 6 (CHR ''0'') (int_str (int i + 1)), rec_issuedAt := fx_issued fx i + int i * 10\<rparr>)
     [(0, SAMPLE_HASH_A), (1, SAMPLE_HASH_B), (2, SAMPLE_HASH_C)]"

fun loaded :: "(InvoiceRecord \<Rightarrow> bool) \<Rightarrow> (error + storage_answer) list \<Rightarrow> bool" where
  "loaded p [Inr (Row (Some l))] = p l"
| "loaded p (Inr Done # xs) = loaded p xs"
| "loaded p _ = False"

definition concurrent_increments :: "nat \<Rightarrow> TenantScope list \<Rightarrow> storage_call list" where
  "concurrent_increments n scs = concat (map (\<lambda>sc. replicate n (Increment sc)) scs)"

text \<open>The conflict test can be skipped: the scopes and records of the later tests are then drawn one earlier.\<close>

definition conformance_suite :: "conformance_random \<Rightarrow> nat \<Rightarrow> bool \<Rightarrow> (storage_call list \<Rightarrow> storage_call list) \<Rightarrow> conformance_test list" where
  "conformance_suite fx n skip sched =
     (let s = newScope fx; r = newInvoiceRecord fx; d = (if skip then 0 else 1);
          u = s (11 + d); q = r (7 + d) u; late = [s (13 + d), s (14 + d), s (15 + d)];
          stress = sched (concurrent_increments n late) in
      [([Increment (s 0), Increment (s 0), Increment (s 0)], increasing_numbers),
       ([Increment (s 1), Increment (s 1), Increment (s 2), Increment (s 2)],
          \<lambda>xs. map seq_of xs = [Some 1, Some 2, Some 1, Some 2]),
       (replicate n (Increment (s 3)), concurrent_numbers n),
       ([Previous (s 4) None], \<lambda>xs. xs = [Inr (Hash ZATCA_BASE_INVOICE_HASH)]),
       (map (Record (s 5)) (chain_records fx (s 5)) @ [Previous (s 5) None],
          \<lambda>xs. xs = [Inr Done, Inr Done, Inr Done, Inr (Hash SAMPLE_HASH_C)]),
       ([Record (s 6) (r 3 (s 6)), Previous (s 6) None, Previous (s 7) None],
          \<lambda>xs. xs = [Inr Done, Inr (Hash SAMPLE_HASH_A), Inr (Hash ZATCA_BASE_INVOICE_HASH)]),
       ([Record (s 8) (r 4 (s 8)), Load (s 8) (fx_id fx 4)], loaded (\<lambda>l. same_fields l (r 4 (s 8)))),
       ([Record (s 9) (r 5 (s 9)), Record (s 9) (r 5 (s 9)), Load (s 9) (fx_id fx 5)], loaded (\<lambda>_. True))]
      @ (if skip then [] else
       [([Record (s 10) (r 6 (s 10)), Record (s 10) ((r 6 (s 10))\<lparr>rec_invoiceHash := SAMPLE_HASH_B\<rparr>)],
          \<lambda>xs. length xs = 2 \<and> xs ! 0 = Inr Done \<and> rejected (xs ! 1))])
      @ [([Load (s (10 + d)) (fx_id fx (6 + d))], \<lambda>xs. xs = [Inr (Row None)]),
       ([Record u q, Update u (rec_invoiceId q) Accepted, Load u (rec_invoiceId q)], loaded (\<lambda>l. rec_status l = Accepted)),
       ([Update (s (12 + d)) (fx_id fx (8 + d)) Accepted], \<lambda>xs. length xs = 1 \<and> rejected (xs ! 0)),
       (stress, per_scope_numbers n late stress)])"

fun after_calls :: "(int \<Rightarrow> 's StorageAdapter) \<Rightarrow> (int \<times> storage_call) list \<Rightarrow> 's \<Rightarrow> 's" where
  "after_calls ops [] s = s"
| "after_calls ops ((now, c) # cs) s = after_calls ops cs (snd (call_on (ops now) c s))"

text \<open>Each test takes the next moments of the clock, one per call.\<close>

fun run_suite :: "(int \<Rightarrow> 's StorageAdapter) \<Rightarrow> conformance_test list \<Rightarrow> int list \<Rightarrow> 's \<Rightarrow> bool" where
  "run_suite ops [] moments s = True"
| "run_suite ops ((cs, expected) # ts) moments s =
     (let calls = zip (take (length cs) moments) cs in
      expected (answers ops calls s) \<and> run_suite ops ts (drop (length cs) moments) (after_calls ops calls s))"

definition runStorageAdapterConformance :: "(int \<Rightarrow> 's StorageAdapter) \<Rightarrow> conformance_random \<Rightarrow> nat option \<Rightarrow> bool option \<Rightarrow>
    (storage_call list \<Rightarrow> storage_call list) \<Rightarrow> int list \<Rightarrow> 's \<Rightarrow> bool" where
  "runStorageAdapterConformance ops fx concurrency skipConflictingRecordTest sched moments start =
     run_suite ops (conformance_suite fx (or_else concurrency 100) (or_else skipConflictingRecordTest False) sched) moments start"

section \<open>The verdict depends on the answers only\<close>

definition suite_calls :: "conformance_test list \<Rightarrow> storage_call list" where
  "suite_calls ts = concat (map fst ts)"

lemma suite_calls_simps [simp]: "suite_calls [] = []" "suite_calls ((cs, e) # ts) = cs @ suite_calls ts"
  by (simp_all add: suite_calls_def)

lemma answers_append: "answers ops (xs @ ys) s = answers ops xs s @ answers ops ys (after_calls ops xs s)"
  by (induction ops xs s rule: answers.induct) (simp_all split: prod.split)

lemma length_answers [simp]: "length (answers ops cs s) = length cs"
  by (induction ops cs s rule: answers.induct) (simp_all split: prod.split)

lemma zip_parts: "length moments = length cs + n \<Longrightarrow>
    zip moments (cs @ rest) = zip (take (length cs) moments) cs @ zip (drop (length cs) moments) rest"
  by (simp add: zip_append2 min_def)

lemma run_suite_answers:
  assumes "length moments = length (suite_calls ts)" "answers ops (zip moments (suite_calls ts)) s = answers ops' (zip moments (suite_calls ts)) s'"
  shows "run_suite ops ts moments s = run_suite ops' ts moments s'"
  using assms
proof (induction ts arbitrary: moments s s')
  case (Cons t ts)
  obtain cs e where t: "t = (cs, e)" by (cases t)
  let ?z = "zip (take (length cs) moments) cs"
  have len: "length moments = length cs + length (suite_calls ts)" using Cons.prems(1) t by simp
  have "answers ops ?z s @ answers ops (zip (drop (length cs) moments) (suite_calls ts)) (after_calls ops ?z s) =
      answers ops' ?z s' @ answers ops' (zip (drop (length cs) moments) (suite_calls ts)) (after_calls ops' ?z s')"
    using Cons.prems(2) t by (simp add: zip_parts [OF len] answers_append)
  then have same: "answers ops ?z s = answers ops' ?z s'"
      "answers ops (zip (drop (length cs) moments) (suite_calls ts)) (after_calls ops ?z s) =
      answers ops' (zip (drop (length cs) moments) (suite_calls ts)) (after_calls ops' ?z s')"
    by (simp_all add: append_eq_append_conv)
  then show ?case using Cons.IH [OF _ same(2)] same(1) len t by simp
qed simp

section \<open>The ledger passes\<close>

text \<open>A scope that nobody has used, and the calls that leave it so.\<close>

definition fresh :: "TenantScope \<Rightarrow> ledger \<Rightarrow> bool" where
  "fresh sc L = (led_count L sc = (\<lambda>_. 0) \<and> led_row L sc = (\<lambda>_. None) \<and> led_head L sc = (\<lambda>_. ZATCA_BASE_INVOICE_HASH))"

lemma fresh_call: "fresh sc L \<Longrightarrow> call_scope c \<noteq> sc \<Longrightarrow> fresh sc (snd (call_on (ledger_adapter fmt now) c L))"
  by (cases c) (auto simp: fresh_def ledger_defs split: prod.split option.split)

lemma fresh_after: "fresh sc L \<Longrightarrow> sc \<notin> call_scope ` snd ` set cs \<Longrightarrow> fresh sc (after_calls (ledger_adapter fmt) cs L)"
proof (induction cs arbitrary: L)
  case (Cons x cs)
  obtain now c where x: "x = (now, c)" by (cases x)
  have "fresh sc (snd (call_on (ledger_adapter fmt now) c L))" by (rule fresh_call) (use Cons.prems x in auto)
  then show ?case using Cons.IH [of "snd (call_on (ledger_adapter fmt now) c L)"] Cons.prems(2) x by simp
qed simp

text \<open>A test passes if it does in every ledger where its scopes are fresh, over moments of one month.\<close>

definition passes :: "number_formatter \<Rightarrow> string \<times> int \<times> int \<Rightarrow> conformance_test \<Rightarrow> bool" where
  "passes fmt month t = (case t of (cs, expected) \<Rightarrow> \<forall>L moments. length moments = length cs \<longrightarrow>
     (\<forall>now \<in> set moments. yearMonthFor now = month) \<longrightarrow> (\<forall>sc \<in> call_scope ` set cs. fresh sc L) \<longrightarrow>
     expected (answers (ledger_adapter fmt) (zip moments cs) L))"

fun apart :: "'a set list \<Rightarrow> bool" where
  "apart [] = True"
| "apart (S # Ss) = (list_all (\<lambda>T. S \<inter> T = {}) Ss \<and> apart Ss)"

lemma suite_passes:
  assumes "list_all (passes fmt month) ts" "apart (map (\<lambda>(cs, _). call_scope ` set cs) ts)"
    "\<forall>now \<in> set moments. yearMonthFor now = month" "length moments = length (suite_calls ts)"
    "\<forall>sc \<in> call_scope ` set (suite_calls ts). fresh sc L"
  shows "run_suite (ledger_adapter fmt) ts moments L"
  using assms
proof (induction ts arbitrary: moments L)
  case (Cons t ts)
  obtain cs e where t: "t = (cs, e)" by (cases t)
  let ?z = "zip (take (length cs) moments) cs"
  have ok: "e (answers (ledger_adapter fmt) ?z L)"
  proof -
    have "passes fmt month (cs, e)" using Cons.prems(1) t by simp
    then have "length (take (length cs) moments) = length cs \<Longrightarrow> (\<forall>now \<in> set (take (length cs) moments). yearMonthFor now = month) \<Longrightarrow>
        (\<forall>sc \<in> call_scope ` set cs. fresh sc L) \<Longrightarrow> ?thesis" unfolding passes_def by blast
    then show ?thesis using Cons.prems(3-5) t by (auto dest: in_set_takeD)
  qed
  have "fresh sc (after_calls (ledger_adapter fmt) ?z L)" if sc: "sc \<in> call_scope ` set (suite_calls ts)" for sc
  proof (rule fresh_after)
    show "fresh sc L" using sc Cons.prems(5) t by auto
    obtain cs' e' where "(cs', e') \<in> set ts" "sc \<in> call_scope ` set cs'" using sc by (auto simp: suite_calls_def)
    then have "sc \<notin> call_scope ` set cs" using Cons.prems(2) t by (auto simp: list_all_iff)
    moreover have "snd ` set ?z \<subseteq> set cs" by (auto dest: set_zip_rightD)
    ultimately show "sc \<notin> call_scope ` snd ` set ?z" by blast
  qed
  moreover have "length moments - length cs = length (suite_calls ts)" "length moments \<ge> length cs" using Cons.prems(4) t by auto
  ultimately show ?case
    using Cons.IH [of "drop (length cs) moments" "after_calls (ledger_adapter fmt) ?z L"] Cons.prems ok t
    by (auto simp: dest: in_set_dropD)
qed simp

text \<open>Increments, in any order and beside those of other scopes, number a scope's calls from 1.\<close>

lemma increments:
  assumes "length moments = length scs" "\<forall>now \<in> set moments. yearMonthFor now = (ym, y, mo)"
  defines "A \<equiv> \<lambda>fmt L. answers (ledger_adapter fmt) (zip moments (map Increment scs)) L"
  shows "list_all (\<lambda>x. seq_of x \<noteq> None) (A fmt L)"
    "map (\<lambda>(c, x). or_else (seq_of x) 0) (filter (\<lambda>(c, x). call_scope c = sc) (zip (map Increment scs) (A fmt L))) =
      [led_count L sc ym + 1..led_count L sc ym + int (length (filter ((=) sc) scs))]"
proof -
  have "list_all (\<lambda>x. seq_of x \<noteq> None) (A fmt L) \<and>
    map (\<lambda>(c, x). or_else (seq_of x) 0) (filter (\<lambda>(c, x). call_scope c = sc) (zip (map Increment scs) (A fmt L))) =
      [led_count L sc ym + 1..led_count L sc ym + int (length (filter ((=) sc) scs))]"
    using assms(1,2) unfolding A_def
  proof (induction moments scs arbitrary: L rule: list_induct2)
    case (Cons now moments s scs)
    let ?n = "led_count L s ym + 1"
    let ?L = "L\<lparr>led_count := put2 s ym ?n (led_count L)\<rparr>"
    have one: "call_on (ledger_adapter fmt now) (Increment s) L = (Inr (Number ?n (fmt s ?n ym y mo)), ?L)"
      using Cons.prems by (simp add: ledger_adapter_def led_incrementCounter_def Let_def)
    have "led_count ?L sc ym = (if sc = s then ?n else led_count L sc ym)" by (simp add: put2_def)
    then show ?case using Cons.IH [of ?L] Cons.prems one by (auto simp: or_else_def upto_rec1 add.assoc)
  qed simp
  then show "list_all (\<lambda>x. seq_of x \<noteq> None) (A fmt L)"
    "map (\<lambda>(c, x). or_else (seq_of x) 0) (filter (\<lambda>(c, x). call_scope c = sc) (zip (map Increment scs) (A fmt L))) =
      [led_count L sc ym + 1..led_count L sc ym + int (length (filter ((=) sc) scs))]" by blast+
qed

lemma exactly_upto: "0 < n \<Longrightarrow> exactly n [1..int n]"
proof -
  assume n: "0 < n"
  have "sorted (js_sort (\<lambda>a b. a - b) [1..int n])" using sorted_js_sort [of "\<lambda>x. x"] by (simp add: sorted_wrt_iff_nth_less)
  then have "js_sort (\<lambda>a b. a - b) [1..int n] = [1..int n]"
    using properties_for_sort [OF mset_js_sort [of "\<lambda>a b. a - b" "[1..int n]"]] by (simp add: sorted_sort_id)
  moreover have "hd [1..int n] = 1" "[1..int n] \<noteq> []" using n by (simp_all add: upto_rec1 [of 1])
  moreover have "last [1..int n] = int n" using n by (simp add: upto_rec2 [of 1 "int n"])
  ultimately show ?thesis by (simp add: exactly_def distinct_remdups_id)
qed

lemma passes_concurrent:
  assumes "0 < n" shows "passes fmt (ym, y, mo) (replicate n (Increment sc), concurrent_numbers n)"
proof -
  have "concurrent_numbers n (answers (ledger_adapter fmt) (zip moments (replicate n (Increment sc))) L)"
    if m: "length moments = n" "\<forall>now \<in> set moments. yearMonthFor now = (ym, y, mo)" and f: "fresh sc L" for moments L
  proof -
    have m': "length moments = length (replicate n sc)" using m(1) by simp
    let ?A = "answers (ledger_adapter fmt) (zip moments (map Increment (replicate n sc))) L"
    note inc = increments [OF m' m(2), where fmt = fmt and L = L]
    have "filter (\<lambda>(c, x). call_scope c = sc) (zip (map Increment (replicate n sc)) ?A) = zip (map Increment (replicate n sc)) ?A"
      by (rule filter_True) (auto dest: set_zip_leftD)
    then have "map (\<lambda>(c, x). or_else (seq_of x) 0) (zip (map Increment (replicate n sc)) ?A) = [1..int n]"
      using inc(2) [of sc] f m by (simp add: fresh_def)
    moreover have "map (\<lambda>(c, x). or_else (seq_of x) 0) (zip cs xs) = map (\<lambda>x. or_else (seq_of x) 0) xs" if "length cs = length xs"
      for cs :: "storage_call list" and xs using that by (induction cs xs rule: list_induct2) simp_all
    from this [of "map Increment (replicate n sc)" ?A]
    have "map (\<lambda>(c, x). or_else (seq_of x) 0) (zip (map Increment (replicate n sc)) ?A) = map (\<lambda>x. or_else (seq_of x) 0) ?A"
      using m by simp
    ultimately have "map (\<lambda>x. or_else (seq_of x) 0) ?A = [1..int n]" by (rule trans [OF sym, rotated])
    then show ?thesis using inc(1) exactly_upto [OF assms] by (simp add: concurrent_numbers_def)
  qed
  then show ?thesis using assms by (simp add: passes_def)
qed

lemma passes_stress:
  assumes "0 < n" "distinct scs" "mset cs = mset (concurrent_increments n scs)"
  shows "passes fmt (ym, y, mo) (cs, per_scope_numbers n scs cs)"
proof -
  have "c \<in> set cs \<Longrightarrow> \<exists>sc \<in> set scs. c = Increment sc" for c using mset_eq_setD [OF assms(3)] by (auto simp: concurrent_increments_def)
  then have "c \<in> set cs \<Longrightarrow> Increment (call_scope c) = c" for c by fastforce
  then have cs: "cs = map Increment (map call_scope cs)" by (simp add: map_idI)
  have hits: "length (filter ((=) sc) (map call_scope cs)) = n" if "sc \<in> set scs" for sc
  proof -
    have "mset (map call_scope cs) = mset (concat (map (replicate n) scs))"
      using arg_cong [OF assms(3), of "image_mset call_scope"] by (simp add: concurrent_increments_def map_concat comp_def flip: mset_map)
    then have "length (filter ((=) sc) (map call_scope cs)) = length (filter ((=) sc) (concat (map (replicate n) scs)))"
      by (metis mset_filter size_mset)
    also have "\<dots> = n" using that assms(2) by (induction scs) (auto simp: filter_concat comp_def filter_empty_conv)
    finally show ?thesis .
  qed
  have "per_scope_numbers n scs cs (answers (ledger_adapter fmt) (zip moments cs) L)"
    if m: "length moments = length cs" "\<forall>now \<in> set moments. yearMonthFor now = (ym, y, mo)" and f: "\<forall>sc \<in> call_scope ` set cs. fresh sc L" for moments L
  proof -
    have m': "length moments = length (map call_scope cs)" using m(1) by simp
    note inc = increments [OF m' m(2), where fmt = fmt and L = L, folded cs]
    have "led_count L sc ym = 0" if "sc \<in> set scs" for sc
    proof -
      have "filter ((=) sc) (map call_scope cs) \<noteq> []" using hits [OF that] assms(1) by (intro notI) simp
      then have "sc \<in> set (map call_scope cs)" unfolding filter_empty_conv by blast
      then show ?thesis using f by (auto simp: fresh_def)
    qed
    then have "map (\<lambda>(c, x). or_else (seq_of x) 0) (filter (\<lambda>(c, x). call_scope c = sc)
        (zip cs (answers (ledger_adapter fmt) (zip moments cs) L))) = [1..int n]" if "sc \<in> set scs" for sc
      using inc(2) [of sc] hits [OF that] that by (simp only: add_0)
    moreover have "length [1..int n] = n" by simp
    ultimately show ?thesis using inc(1) exactly_upto [OF assms(1)] unfolding per_scope_numbers_def list_all_iff Let_def by force
  qed
  then show ?thesis by (simp add: passes_def)
qed

lemma three_numbers:
  "defaultFormatter sc 1 ym y mo \<noteq> defaultFormatter sc 2 ym y mo" "defaultFormatter sc 2 ym y mo \<noteq> defaultFormatter sc 3 ym y mo"
proof -
  have "int_str 1 = ''1''" "int_str 2 = ''2''" "int_str 3 = ''3''" by code_simp+
  then show "defaultFormatter sc 1 ym y mo \<noteq> defaultFormatter sc 2 ym y mo" "defaultFormatter sc 2 ym y mo \<noteq> defaultFormatter sc 3 ym y mo"
    by (simp_all add: defaultFormatter_def padStart_def)
qed

lemmas test_simps = passes_def length_Suc_conv ledger_defs fresh_def newInvoiceRecord_def chain_records_def unknown_invoice_def
  conflicting_record_def recordsEqual_def same_fields_def

lemma passes_three: "passes defaultFormatter month ([Increment sc, Increment sc, Increment sc], increasing_numbers)"
  by (cases month) (auto simp: test_simps three_numbers)

lemma passes_two: "a \<noteq> b \<Longrightarrow> passes fmt month ([Increment a, Increment a, Increment b, Increment b],
    \<lambda>xs. map seq_of xs = [Some 1, Some 2, Some 1, Some 2])"
  by (cases month) (auto simp: test_simps)

lemma passes_base: "passes fmt month ([Previous sc None], \<lambda>xs. xs = [Inr (Hash ZATCA_BASE_INVOICE_HASH)])"
  by (auto simp: test_simps)

lemma passes_chain: "distinct (map (fx_id fx) [0, 1, 2]) \<Longrightarrow> passes fmt month
    (map (Record sc) (chain_records fx sc) @ [Previous sc None], \<lambda>xs. xs = [Inr Done, Inr Done, Inr Done, Inr (Hash SAMPLE_HASH_C)])"
  by (auto simp: test_simps)

lemma passes_bleed: "a \<noteq> b \<Longrightarrow> passes fmt month ([Record a (newInvoiceRecord fx j a), Previous a None, Previous b None],
    \<lambda>xs. xs = [Inr Done, Inr (Hash SAMPLE_HASH_A), Inr (Hash ZATCA_BASE_INVOICE_HASH)])"
  by (auto simp: test_simps)

lemma passes_records:
  "passes fmt month ([Record a (newInvoiceRecord fx j a), Load a (fx_id fx j)], loaded (\<lambda>l. same_fields l (newInvoiceRecord fx j a)))"
  "passes fmt month ([Record a (newInvoiceRecord fx j a), Record a (newInvoiceRecord fx j a), Load a (fx_id fx j)], loaded (\<lambda>_. True))"
  "passes fmt month ([Record a (newInvoiceRecord fx j a), Record a ((newInvoiceRecord fx j a)\<lparr>rec_invoiceHash := SAMPLE_HASH_B\<rparr>)],
    \<lambda>xs. length xs = 2 \<and> xs ! 0 = Inr Done \<and> rejected (xs ! 1))"
  "passes fmt month ([Record a (newInvoiceRecord fx j a), Update a (rec_invoiceId (newInvoiceRecord fx j a)) Accepted,
    Load a (rec_invoiceId (newInvoiceRecord fx j a))], loaded (\<lambda>l. rec_status l = Accepted))"
  by (auto simp: test_simps SAMPLE_HASH_A_def SAMPLE_HASH_B_def)

lemma passes_unknown:
  "passes fmt month ([Load a i], \<lambda>xs. xs = [Inr (Row None)])"
  "passes fmt month ([Update a i Accepted], \<lambda>xs. length xs = 1 \<and> rejected (xs ! 0))"
  by (auto simp: test_simps)

section \<open>The whole suite\<close>

text \<open>The suite draws at most 16 scopes and 10 records: their UUIDs are UUIDs, and distinct where it matters.\<close>

definition good_random_source :: "conformance_random \<Rightarrow> bool" where
  "good_random_source fx = (list_all isUuidV4 (map (fx_egs fx) [0..<17]) \<and> distinct (map (fx_egs fx) [0..<17]) \<and>
     list_all isUuidV4 (map (fx_id fx) [0..<10]) \<and> distinct (map (fx_id fx) [0..<10]) \<and>
     list_all isUuidV4 (map (fx_uuid fx) [0..<10]))"

lemma newScope_eq:
  assumes "good_random_source fx" "i < 17" "j < 17"
  shows "newScope fx i = newScope fx j \<longleftrightarrow> i = j"
proof -
  have "inj_on (fx_egs fx) {0..<17}" using assms(1) unfolding good_random_source_def distinct_map by simp
  then show ?thesis using assms(2,3) by (auto simp: newScope_def dest: inj_onD)
qed

lemma sched_set:
  assumes "\<And>xs. mset (sched xs) = mset xs" "0 < n"
  shows "set (sched (concurrent_increments n scs)) = Increment ` set scs"
  using mset_eq_setD [OF assms(1)] assms(2) by (auto simp: concurrent_increments_def)

lemma suite_all_pass:
  assumes fx: "good_random_source fx" and n: "0 < n" and sched: "\<And>xs. mset (sched xs) = mset xs"
  shows "list_all (passes defaultFormatter month) (conformance_suite fx n skip sched)"
proof -
  obtain ym y mo where month: "month = (ym, y, mo)" by (cases month)
  have "inj_on (fx_id fx) {0..<10}" using fx unfolding good_random_source_def distinct_map by simp
  then have "inj_on (fx_id fx) (set [0, 1, 2])" by (rule inj_on_subset) auto
  then have ids: "distinct (map (fx_id fx) [0, 1, 2])" unfolding distinct_map by simp
  have stress: "passes defaultFormatter (ym, y, mo) (sched (concurrent_increments n scs),
      per_scope_numbers n scs (sched (concurrent_increments n scs)))" if "distinct scs" for scs
    by (rule passes_stress [OF n that sched])
  have two: "passes defaultFormatter (ym, y, mo) ([Increment (newScope fx 1), Increment (newScope fx 1), Increment (newScope fx 2),
      Increment (newScope fx 2)], \<lambda>xs. map seq_of xs = [Some 1, Some 2, Some 1, Some 2])"
    by (rule passes_two) (simp add: newScope_eq [OF fx])
  have bleed: "passes defaultFormatter (ym, y, mo) ([Record (newScope fx 6) (newInvoiceRecord fx 3 (newScope fx 6)),
      Previous (newScope fx 6) None, Previous (newScope fx 7) None],
      \<lambda>xs. xs = [Inr Done, Inr (Hash SAMPLE_HASH_A), Inr (Hash ZATCA_BASE_INVOICE_HASH)])"
    by (rule passes_bleed) (simp add: newScope_eq [OF fx])
  have late: "distinct [newScope fx (13 + d), newScope fx (14 + d), newScope fx (15 + d)]" if "d \<le> 1" for d
    using that by (simp add: newScope_eq [OF fx])
  have "(if skip then 0 else 1) \<le> (1 :: nat)" by simp
  note last = stress [OF late [OF this]]
  show ?thesis
    unfolding conformance_suite_def Let_def month list_all_append list.pred_inject
    using last two bleed
    by (auto simp only: if_split list.pred_inject passes_three passes_base passes_records passes_unknown simp_thms
        passes_chain [OF ids] passes_concurrent [OF n])
qed

lemma suite_apart:
  assumes fx: "good_random_source fx" and n: "0 < n" and sched: "\<And>xs. mset (sched xs) = mset xs"
  shows "apart (map (\<lambda>(cs, _). call_scope ` set cs) (conformance_suite fx n skip sched))"
proof -
  have "set (replicate n x) = {x}" for x :: storage_call using n by simp
  then show ?thesis
    by (simp add: conformance_suite_def Let_def sched_set [OF sched n] newScope_eq [OF fx] chain_records_def)
qed

theorem ledger_conforms:
  assumes "good_random_source fx" "0 < n" "\<And>xs. mset (sched xs) = mset xs"
    "\<forall>now \<in> set moments. yearMonthFor now = month" "length moments = length (suite_calls (conformance_suite fx n skip sched))"
  shows "run_suite (ledger_adapter defaultFormatter) (conformance_suite fx n skip sched) moments ledger_empty"
  by (rule suite_passes [OF suite_all_pass suite_apart assms(4,5)]) (use assms in \<open>auto simp: fresh_def ledger_empty_def\<close>)

section \<open>What the suite asks of a backend\<close>

lemma no_colon_digits: "CHR '':'' \<notin> set (nat_str n)"
proof (induction n rule: nat_str.induct)
  case (1 n)
  have "digit_char d \<in> set ''0123456789''" for d unfolding digit_char_def by (rule nth_mem) simp
  moreover have "CHR '':'' \<notin> set ''0123456789''" by simp
  ultimately have "CHR '':'' \<noteq> digit_char d" for d by metis
  then show ?case using 1 by (simp add: nat_str.simps [of n])
qed

lemma newScope_good:
  assumes "good_random_source fx" "k < 17"
  shows "good_scope (newScope fx k)"
proof -
  have "isUuidV4 (fx_egs fx k)" using assms unfolding good_random_source_def list_all_iff by auto
  then have "CHR '':'' \<notin> set (fx_egs fx k)" by (rule uuid_no_colon)
  then show ?thesis
    using no_colon_digits
    by (auto simp: good_scope_def plain_scope_def newScope_def makeVatNumber_def padStart_def int_str_def)
qed

lemma uuid_not_empty: "isUuidV4 s \<Longrightarrow> s \<noteq> []"
  by (auto simp: isUuidV4_def)

lemma source_filled:
  assumes "good_random_source fx"
  shows "k < 17 \<Longrightarrow> fx_egs fx k \<noteq> []" "j < 10 \<Longrightarrow> fx_id fx j \<noteq> [] \<and> fx_uuid fx j \<noteq> []"
  using assms uuid_not_empty unfolding good_random_source_def list_all_iff by auto

lemma suite_calls_plain:
  assumes fx: "good_random_source fx" and n: "0 < n" and sched: "\<And>xs. mset (sched xs) = mset xs"
  shows "list_all plain_call (suite_calls (conformance_suite fx n skip sched))"
  using n by (auto simp: conformance_suite_def suite_calls_def Let_def sched_set [OF sched n] plain_call_def newScope_good [OF fx]
      chain_records_def newInvoiceRecord_def int4_ok_def list_all_iff)

end
