(* ===== verification/RegistrySpec.thy ===== *)
theory RegistrySpec
  imports Tenants Validation
begin

text \<open>
  The whole tenant store interface (\<open>server/src/tenants/store.ts\<close>) with the memory store as its
  reference: calls, their answers, and the locale of a backend that answers like the memory store.
  Answers are compared by the view of a tenant, which leaves the order of its scenarios out.
\<close>

section \<open>The interface\<close>

record 's FullTenantStore = "'s TenantStore" +
  ts_create :: "8 word list \<Rightarrow> CreateTenantInput \<Rightarrow> ('s, TenantRecord) eff"
  ts_list :: "TenantListFilter \<Rightarrow> ('s, TenantRecord list) eff"
  ts_patch :: "string \<Rightarrow> PatchableTenantFields \<Rightarrow> ('s, TenantRecord) eff"
  ts_softDelete :: "string \<Rightarrow> ('s, unit) eff"

definition memory_tenant_store :: "(string \<Rightarrow> string \<Rightarrow> int) \<Rightarrow> int \<Rightarrow> tenant_rows FullTenantStore" where
  "memory_tenant_store collate now = \<lparr>ts_get = tenant_get, ts_setState = tenant_setState now,
     ts_recordOnboardingProgress = tenant_recordOnboardingProgress now,
     ts_setProductionExpiry = tenant_setProductionExpiry now,
     ts_create = tenant_create now, ts_list = tenant_list collate now, ts_patch = tenant_patch now,
     ts_softDelete = tenant_softDelete now\<rparr>"

datatype tenant_call =
    Create_tenant "8 word list" CreateTenantInput
  | Get_tenant string
  | List_tenants TenantListFilter
  | Patch_tenant string PatchableTenantFields
  | Set_state string TenantState SetStateOptions
  | Record_progress string string bool
  | Set_expiry string int
  | Soft_delete string

datatype tenant_answer = One tenant_view | Maybe "tenant_view option" | Many "tenant_view list" | Nothing

fun tenant_call_on :: "'s FullTenantStore \<Rightarrow> tenant_call \<Rightarrow> 's \<Rightarrow> (error + tenant_answer) \<times> 's" where
  "tenant_call_on ops (Create_tenant rnd i) s = (case ts_create ops rnd i s of (x, s') \<Rightarrow> (map_sum id (\<lambda>r. One (tenant_view r)) x, s'))"
| "tenant_call_on ops (Get_tenant ref) s = (case ts_get ops ref s of (x, s') \<Rightarrow> (map_sum id (\<lambda>r. Maybe (map_option tenant_view r)) x, s'))"
| "tenant_call_on ops (List_tenants f) s = (case ts_list ops f s of (x, s') \<Rightarrow> (map_sum id (\<lambda>rs. Many (map tenant_view rs)) x, s'))"
| "tenant_call_on ops (Patch_tenant ref p) s = (case ts_patch ops ref p s of (x, s') \<Rightarrow> (map_sum id (\<lambda>r. One (tenant_view r)) x, s'))"
| "tenant_call_on ops (Set_state ref st o1) s = (case ts_setState ops ref st o1 s of (x, s') \<Rightarrow> (map_sum id (\<lambda>r. One (tenant_view r)) x, s'))"
| "tenant_call_on ops (Record_progress ref sc b) s = (case ts_recordOnboardingProgress ops ref sc b s of (x, s') \<Rightarrow> (map_sum id (\<lambda>_. Nothing) x, s'))"
| "tenant_call_on ops (Set_expiry ref t) s = (case ts_setProductionExpiry ops ref t s of (x, s') \<Rightarrow> (map_sum id (\<lambda>_. Nothing) x, s'))"
| "tenant_call_on ops (Soft_delete ref) s = (case ts_softDelete ops ref s of (x, s') \<Rightarrow> (map_sum id (\<lambda>_. Nothing) x, s'))"

text \<open>A client's calls, each at its moment.\<close>

fun tenant_answers :: "(int \<Rightarrow> 's FullTenantStore) \<Rightarrow> (int \<times> tenant_call) list \<Rightarrow> 's \<Rightarrow> (error + tenant_answer) list" where
  "tenant_answers ops [] s = []"
| "tenant_answers ops ((now, c) # cs) s = (case tenant_call_on (ops now) c s of (x, s') \<Rightarrow> x # tenant_answers ops cs s')"

text \<open>The branded strings of a new tenant have passed their guards.\<close>

definition branded :: "CreateTenantInput \<Rightarrow> bool" where
  "branded i = (isVATNumber (new_vatNumber i) \<and> isUuidV4 (new_egsUuid i) \<and> isCommercialRegistrationNumber (new_crn i))"

fun branded_call :: "tenant_call \<Rightarrow> bool" where
  "branded_call (Create_tenant rnd i) = branded i"
| "branded_call _ = True"

text \<open>\<open>fits\<close> says which calls a backend answers like the memory store.\<close>

locale tenant_refinement =
  fixes ops :: "int \<Rightarrow> 's FullTenantStore" and collate :: "string \<Rightarrow> string \<Rightarrow> int"
    and fits :: "tenant_call \<Rightarrow> bool" and rel :: "'s \<Rightarrow> tenant_rows \<Rightarrow> bool" and start :: 's
  assumes starts: "rel start []"
    and step: "rel s m \<Longrightarrow> fits c \<Longrightarrow> tenant_call_on (ops now) c s = (x, s') \<Longrightarrow>
      tenant_call_on (memory_tenant_store collate now) c m = (y, m') \<Longrightarrow> x = y \<and> rel s' m'"
begin

lemma tenant_answers_from:
  "rel s m \<Longrightarrow> list_all (\<lambda>(_, c). fits c) cs \<Longrightarrow>
    tenant_answers ops cs s = tenant_answers (memory_tenant_store collate) cs m"
proof (induction cs arbitrary: s m)
  case (Cons tc cs)
  obtain now c where tc: "tc = (now, c)" by (cases tc)
  obtain x s' y m' where run: "tenant_call_on (ops now) c s = (x, s')"
    "tenant_call_on (memory_tenant_store collate now) c m = (y, m')"
    by fastforce
  have "x = y \<and> rel s' m'" by (rule step [OF Cons.prems(1) _ run]) (use Cons.prems tc in simp)
  then show ?case using Cons.IH [of s' m'] Cons.prems tc run by simp
qed simp

lemma tenant_answers_agree:
  "list_all (\<lambda>(_, c). fits c) cs \<Longrightarrow>
    tenant_answers ops cs start = tenant_answers (memory_tenant_store collate) cs []"
  by (rule tenant_answers_from [OF starts])

end

section \<open>A table of tenants\<close>

text \<open>
  Both databases keep one row per tenant, change it by statements that are atomic, and give the rows a
  condition selects. These are the statements, whatever a row is: what one returns, and the table
  after it.
\<close>

definition select_rows :: "('r \<Rightarrow> bool) \<Rightarrow> 'r list \<Rightarrow> 'r list" where
  "select_rows P rows = filter P rows"

definition update_rows :: "('r \<Rightarrow> bool) \<Rightarrow> ('r \<Rightarrow> 'r) \<Rightarrow> 'r list \<Rightarrow> 'r list \<times> 'r list" where
  "update_rows P f rows = (map f (filter P rows), map (\<lambda>r. if P r then f r else r) rows)"

text \<open>
  Rows that stand for the memory store's map: the same keys in the same order, each row's tenant with
  the same view. \<open>tenant\<close> reads a row.
\<close>

definition same_rows :: "('r \<Rightarrow> TenantRecord) \<Rightarrow> 'r list \<Rightarrow> tenant_rows \<Rightarrow> bool" where
  "same_rows tenant rows m = (map_ok m \<and>
     list_all2 (\<lambda>row (k, r). tenantRef r = k \<and> tenant_view (tenant row) = tenant_view r) rows m)"

lemma same_rows_Nil [simp]: "same_rows tenant [] []"
  by (simp add: same_rows_def)

definition key_is :: "('r \<Rightarrow> TenantRecord) \<Rightarrow> string \<Rightarrow> 'r \<Rightarrow> bool" where
  "key_is tenant ref row = (tenantRef (tenant row) = ref)"

definition live_key :: "('r \<Rightarrow> TenantRecord) \<Rightarrow> string \<Rightarrow> 'r \<Rightarrow> bool" where
  "live_key tenant ref row = (tenantRef (tenant row) = ref \<and> deletedAt (tenant row) = None)"

text \<open>The rows of a key.\<close>

lemma same_rows_key:
  assumes "same_rows tenant rows m"
  shows "case mget m ref of None \<Rightarrow> filter (key_is tenant ref) rows = []
    | Some r \<Rightarrow> (\<exists>row. filter (key_is tenant ref) rows = [row] \<and> tenant_view (tenant row) = tenant_view r)"
  using assms
proof (induction rows arbitrary: m)
  case (Cons row rows)
  obtain k r m1 where m: "m = (k, r) # m1" using Cons.prems by (auto simp: same_rows_def list_all2_Cons1)
  have here: "tenantRef (tenant row) = k" "tenant_view (tenant row) = tenant_view r" and rest: "same_rows tenant rows m1"
    and new: "k \<notin> fst ` set m1"
    using Cons.prems m tenant_view_fields(1) [of "tenant row" r] by (auto simp: same_rows_def map_ok_def)
  show ?case
  proof (cases "k = ref")
    case True
    then have "mget m1 ref = None" using new by (simp add: map_of_eq_None_iff)
    then show ?thesis using Cons.IH [OF rest] here m True by (simp add: key_is_def)
  next
    case False
    then have "filter (key_is tenant ref) (row # rows) = filter (key_is tenant ref) rows" "mget m ref = mget m1 ref"
      using here m by (simp_all add: key_is_def)
    then show ?thesis using Cons.IH [OF rest] by (simp only:)
  qed
qed (auto simp: same_rows_def)

lemma live_key_filter: "filter (live_key tenant ref) rows =
    filter (\<lambda>row. deletedAt (tenant row) = None) (filter (key_is tenant ref) rows)"
  by (simp add: live_key_def [abs_def] key_is_def [abs_def] conj_commute)

lemma same_rows_live:
  assumes "same_rows tenant rows m"
  shows "case visible ref m of None \<Rightarrow> filter (live_key tenant ref) rows = []
    | Some r \<Rightarrow> (\<exists>row. filter (live_key tenant ref) rows = [row] \<and> tenant_view (tenant row) = tenant_view r)"
proof (cases "mget m ref")
  case None
  then show ?thesis using same_rows_key [OF assms, of ref] by (simp add: visible_def live_key_filter)
next
  case (Some r)
  then obtain row where "filter (key_is tenant ref) rows = [row]" "tenant_view (tenant row) = tenant_view r"
    using same_rows_key [OF assms, of ref] by auto
  moreover from this(2) have "deletedAt (tenant row) = deletedAt r" by (rule tenant_view_fields(5))
  ultimately show ?thesis using Some by (simp add: visible_def live_key_filter)
qed

text \<open>An update of one key on both sides.\<close>

lemma same_rows_update:
  assumes "same_rows tenant rows m" "mget m ref = Some r" "tenantRef r' = ref"
    and hit: "\<And>row. tenant_view (tenant row) = tenant_view r \<Longrightarrow> P row \<Longrightarrow> tenant_view (tenant (f row)) = tenant_view r'"
    and only: "\<And>row. P row \<Longrightarrow> key_is tenant ref row"
    and all: "\<And>row. tenant_view (tenant row) = tenant_view r \<Longrightarrow> row \<in> set rows \<Longrightarrow> P row"
  shows "same_rows tenant (map (\<lambda>row. if P row then f row else row) rows) (mset_to ref r' m)"
  using assms(1,2) all
proof (induction rows arbitrary: m)
  case (Cons row rows)
  obtain k q m1 where m: "m = (k, q) # m1" using Cons.prems by (auto simp: same_rows_def list_all2_Cons1)
  have here: "tenantRef (tenant row) = k" "tenant_view (tenant row) = tenant_view q" "tenantRef q = k"
    and rest: "same_rows tenant rows m1" and new: "k \<notin> fst ` set m1"
    using Cons.prems(1) m tenant_view_fields(1) [of "tenant row" q] by (auto simp: same_rows_def map_ok_def)
  show ?case
  proof (cases "k = ref")
    case True
    have qr: "q = r" using Cons.prems(2) m True by simp
    have P: "P row" using Cons.prems(3) here(2) qr by simp
    have "mget m1 ref = None" using new True by (simp add: map_of_eq_None_iff)
    then have "\<not> key_is tenant ref row'" if "row' \<in> set rows" for row'
      using that same_rows_key [OF rest, of ref] by (simp add: filter_empty_conv)
    then have "map (\<lambda>row. if P row then f row else row) rows = rows"
      by (intro map_idI) (use only in metis)
    then show ?thesis using rest new True P m hit [OF _ P] here(2) qr assms(3)
      by (auto simp: same_rows_def map_ok_def)
  next
    case False
    then have nP: "\<not> P row" using only here(1) by (auto simp: key_is_def)
    have "same_rows tenant (map (\<lambda>row. if P row then f row else row) rows) (mset_to ref r' m1)"
      using Cons.IH [OF rest] Cons.prems(2,3) m False by auto
    then show ?thesis using False nP m here new by (auto simp: same_rows_def map_ok_def dom_update)
  qed
qed (simp add: same_rows_def)

lemma same_rows_append:
  assumes "same_rows tenant rows m" "mget m ref = None" "tenantRef r = ref" "tenant_view (tenant row) = tenant_view r"
  shows "same_rows tenant (rows @ [row]) (mset_to ref r m)"
proof -
  have "mset_to ref r m = m @ [(ref, r)]" using assms(2) by (induction m) (auto split: if_splits)
  then show ?thesis using assms by (auto simp: same_rows_def map_ok_def map_of_eq_None_iff intro!: list_all2_appendI)
qed

text \<open>Lists: a filter and an order that only look at the view.\<close>

lemma list_matches_view: "tenant_view a = tenant_view b \<Longrightarrow> list_matches now f a = list_matches now f b"
  using tenant_view_fields [of a b] by (simp add: list_matches_def split: option.split)

lemma tenant_order_view:
  "tenant_view a = tenant_view a' \<Longrightarrow> tenant_view b = tenant_view b' \<Longrightarrow> tenant_order c a b = tenant_order c a' b'"
  using tenant_view_fields [of a a'] tenant_view_fields [of b b'] by (simp add: tenant_order_def)

lemma js_insert_rel:
  assumes "list_all2 (\<lambda>a b. v a = v b) xs ys" "v x = v y"
    and cmp: "\<And>a b a' b'. v a = v a' \<Longrightarrow> v b = v b' \<Longrightarrow> cmp a b = cmp a' b'"
  shows "list_all2 (\<lambda>a b. v a = v b) (js_insert cmp x xs) (js_insert cmp y ys)"
  using assms(1,2)
proof (induction xs arbitrary: ys)
  case (Cons a xs)
  then obtain b zs where ys: "ys = b # zs" "v a = v b" "list_all2 (\<lambda>a b. v a = v b) xs zs"
    by (auto simp: list_all2_Cons1)
  then show ?case using Cons cmp [of x y a b] by auto
qed auto

lemma js_sort_rel:
  assumes "list_all2 (\<lambda>a b. v a = v b) xs ys"
    and cmp: "\<And>a b a' b'. v a = v a' \<Longrightarrow> v b = v b' \<Longrightarrow> cmp a b = cmp a' b'"
  shows "list_all2 (\<lambda>a b. v a = v b) (js_sort cmp xs) (js_sort cmp ys)"
  using assms(1)
  by (induction rule: list_all2_induct) (auto simp: js_sort_def intro!: js_insert_rel cmp)

lemma same_rows_list:
  assumes "same_rows tenant rows m"
  shows "map tenant_view (js_sort (tenant_order collate) (filter (list_matches now f) (map tenant rows))) =
    map tenant_view (js_sort (tenant_order collate) (filter (list_matches now f) (map snd m)))"
proof -
  have "list_all2 (\<lambda>a b. tenant_view a = tenant_view b) (map tenant rows) (map snd m)"
    using assms by (auto simp: same_rows_def list_all2_map1 list_all2_map2 elim!: list_all2_mono)
  then have "list_all2 (\<lambda>a b. tenant_view a = tenant_view b) (filter (list_matches now f) (map tenant rows))
      (filter (list_matches now f) (map snd m))"
  proof (induction rule: list_all2_induct)
    case (Cons x xs y ys)
    then show ?case using list_matches_view [of x y now f] by simp
  qed simp
  then have "list_all2 (\<lambda>a b. tenant_view a = tenant_view b)
      (js_sort (tenant_order collate) (filter (list_matches now f) (map tenant rows)))
      (js_sort (tenant_order collate) (filter (list_matches now f) (map snd m)))"
    by (rule js_sort_rel) (rule tenant_order_view)
  then show ?thesis by (simp add: list_eq_iff_nth_eq list_all2_conv_all_nth)
qed

text \<open>Each transition only looks at the view, and keeps views equal.\<close>

lemma transition_allowed_view: "tenant_view a = tenant_view b \<Longrightarrow> transition_allowed now a o1 = transition_allowed now b o1"
  using tenant_view_fields [of a b] by (simp add: transition_allowed_def lockNotHeld_def split: option.split)

lemma tenant_view_elim:
  assumes "tenant_view a = tenant_view b"
  obtains p where "a = b\<lparr>onboardingProgress := p\<rparr>" "lastError p = lastError (onboardingProgress b)"
    "mget (scenarios p) = mget (scenarios (onboardingProgress b))"
proof -
  let ?z = "\<lambda>r. r\<lparr>onboardingProgress := \<lparr>scenarios = [], lastError = lastError (onboardingProgress r)\<rparr>\<rparr>"
  have "?z a = ?z b" using assms unfolding tenant_view_def prod.inject by blast
  then have "(?z a)\<lparr>onboardingProgress := onboardingProgress a\<rparr> = (?z b)\<lparr>onboardingProgress := onboardingProgress a\<rparr>"
    by (rule arg_cong)
  moreover have "(?z a)\<lparr>onboardingProgress := onboardingProgress a\<rparr> = a" by simp
  moreover have "(?z b)\<lparr>onboardingProgress := onboardingProgress a\<rparr> = b\<lparr>onboardingProgress := onboardingProgress a\<rparr>"
    by simp
  ultimately have "a = b\<lparr>onboardingProgress := onboardingProgress a\<rparr>" by (simp only:)
  then show ?thesis using that tenant_view_fields(9,10) [OF assms] by blast
qed

lemma tenant_view_progress:
  "mget (scenarios p) = mget (scenarios q) \<Longrightarrow> lastError p = lastError q \<Longrightarrow>
    tenant_view (r\<lparr>onboardingProgress := p\<rparr>) = tenant_view (r\<lparr>onboardingProgress := q\<rparr>)"
  by (simp add: tenant_view_def)

lemma patched_progress: "patched now p (r\<lparr>onboardingProgress := q\<rparr>) = (patched now p r)\<lparr>onboardingProgress := q\<rparr>"
  by (simp add: patched_def)

lemma transitioned_progress: "transitioned now st o1 (r\<lparr>onboardingProgress := q\<rparr>) = (transitioned now st o1 r)
    \<lparr>onboardingProgress := (case opt_lastError o1 of None \<Rightarrow> q | Some e \<Rightarrow> q\<lparr>lastError := Some e\<rparr>)\<rparr>"
  by (simp add: transitioned_def split: option.split)

lemma with_progress_progress: "with_progress now sc b (r\<lparr>onboardingProgress := q\<rparr>) = (with_progress now sc b r)
    \<lparr>onboardingProgress := q\<lparr>scenarios := mset_to sc (if b then ScenarioPassed else ScenarioFailed) (scenarios q)\<rparr>\<rparr>"
  by (simp add: with_progress_def)

lemma view_same_progress:
  assumes "mget (scenarios p) = mget (scenarios (onboardingProgress r))" "lastError p = lastError (onboardingProgress r)"
  shows "tenant_view (r\<lparr>onboardingProgress := p\<rparr>) = tenant_view r"
  using tenant_view_progress [OF assms, of r] by simp

lemma view_congs:
  assumes "tenant_view a = tenant_view b"
  shows "tenant_view (patched now p a) = tenant_view (patched now p b)"
    "tenant_view (transitioned now st o1 a) = tenant_view (transitioned now st o1 b)"
    "tenant_view (with_progress now sc x a) = tenant_view (with_progress now sc x b)"
    "tenant_view (a\<lparr>productionCertificateExpiresAt := Some t, updatedAt := now\<rparr>) =
      tenant_view (b\<lparr>productionCertificateExpiresAt := Some t, updatedAt := now\<rparr>)"
    "tenant_view (a\<lparr>t_state := Revoked, deletedAt := Some now, updatedAt := now\<rparr>) =
      tenant_view (b\<lparr>t_state := Revoked, deletedAt := Some now, updatedAt := now\<rparr>)"
proof -
  obtain q where a: "a = b\<lparr>onboardingProgress := q\<rparr>" and q: "lastError q = lastError (onboardingProgress b)"
    "mget (scenarios q) = mget (scenarios (onboardingProgress b))"
    using assms by (rule tenant_view_elim)
  show "tenant_view (patched now p a) = tenant_view (patched now p b)"
    unfolding a patched_progress by (rule view_same_progress) (simp_all add: q patched_def)
  show "tenant_view (transitioned now st o1 a) = tenant_view (transitioned now st o1 b)"
    unfolding a transitioned_progress
    by (rule view_same_progress) (simp_all add: q transitioned_def split: option.split)
  show "tenant_view (with_progress now sc x a) = tenant_view (with_progress now sc x b)"
    unfolding a with_progress_progress by (rule view_same_progress) (simp_all add: q with_progress_def fun_eq_iff)
  show "tenant_view (a\<lparr>productionCertificateExpiresAt := Some t, updatedAt := now\<rparr>) =
      tenant_view (b\<lparr>productionCertificateExpiresAt := Some t, updatedAt := now\<rparr>)"
    "tenant_view (a\<lparr>t_state := Revoked, deletedAt := Some now, updatedAt := now\<rparr>) =
      tenant_view (b\<lparr>t_state := Revoked, deletedAt := Some now, updatedAt := now\<rparr>)"
    unfolding a by (simp_all add: tenant_view_def q)
qed

lemma tenantRef_kept [simp]:
  "tenantRef (patched now p r) = tenantRef r" "tenantRef (transitioned now st o1 r) = tenantRef r"
  "tenantRef (with_progress now sc b r) = tenantRef r"
  by (simp_all add: patched_def transitioned_def with_progress_def)

section \<open>Tables that stand for the memory store\<close>

lemma one_view: "map_sum id (\<lambda>r. One (tenant_view r)) x = map_sum id One (map_sum id tenant_view x)"
  "map_sum id (\<lambda>r. Maybe (map_option tenant_view r)) y = map_sum id Maybe (map_sum id (map_option tenant_view) y)"
  "map_sum id (\<lambda>r. Many (map tenant_view r)) z = map_sum id Many (map_sum id (map tenant_view) z)"
  by (simp_all add: sum.map_comp comp_def id_def)

lemma map_untouched: "filter P t = [] \<Longrightarrow> map (\<lambda>x. if P x then f x else x) t = t"
  by (auto simp: filter_empty_conv intro: map_idI)

lemma no_update: "filter P t = [] \<Longrightarrow> update_rows P f t = ([], t)"
  by (simp add: update_rows_def map_untouched)

definition first_row :: "'a list \<Rightarrow> 'a option" where
  "first_row rows = (case rows of [] \<Rightarrow> None | r # _ \<Rightarrow> Some r)"

text \<open>
  \<open>read\<close> is the code's conversion of a row, which may throw; on \<open>good\<close> rows it gives \<open>tenant\<close>. The
  relation of such a table to the memory store's map, and what one statement does to it.
\<close>

locale tenant_table =
  fixes read :: "'r \<Rightarrow> error + TenantRecord" and tenant :: "'r \<Rightarrow> TenantRecord" and good :: "'r \<Rightarrow> bool"
  assumes read_good: "good row \<Longrightarrow> read row = Ok (tenant row)"
begin

definition rel :: "'r list \<Rightarrow> tenant_rows \<Rightarrow> bool" where
  "rel t m = (same_rows tenant t m \<and> list_all good t)"

lemma relD: "rel t m \<Longrightarrow> same_rows tenant t m" "rel t m \<Longrightarrow> list_all good t"
  by (simp_all add: rel_def)

lemma rel_live:
  assumes "rel t m"
  shows "case visible ref m of None \<Rightarrow> filter (live_key tenant ref) t = []
    | Some r \<Rightarrow> (\<exists>row. filter (live_key tenant ref) t = [row] \<and> good row \<and> tenant_view (tenant row) = tenant_view r)"
proof (cases "visible ref m")
  case None
  then show ?thesis using same_rows_live [OF relD(1) [OF assms], of ref] by simp
next
  case (Some r)
  then obtain row where row: "filter (live_key tenant ref) t = [row]" "tenant_view (tenant row) = tenant_view r"
    using same_rows_live [OF relD(1) [OF assms], of ref] by auto
  then have "row \<in> set t" by (metis filter_eq_ConsD in_set_conv_decomp)
  then show ?thesis using Some row relD(2) [OF assms] by (auto simp: list_all_iff)
qed

lemma rel_none: "rel t m \<Longrightarrow> visible ref m = None \<Longrightarrow> filter (live_key tenant ref) t = []"
  using rel_live [of t m ref] by simp

lemma rel_some:
  assumes "rel t m" "visible ref m = Some r"
  obtains row where "filter (live_key tenant ref) t = [row]" "good row" "tenant_view (tenant row) = tenant_view r"
    "tenantRef (tenant row) = ref" "row \<in> set t"
proof -
  obtain row where row: "filter (live_key tenant ref) t = [row]" "good row" "tenant_view (tenant row) = tenant_view r"
    using rel_live [OF assms(1), of ref] assms(2) by auto
  then have "row \<in> set (filter (live_key tenant ref) t)" by simp
  then have "row \<in> set t" "live_key tenant ref row" by simp_all
  then show ?thesis using that row by (simp add: live_key_def)
qed

text \<open>A guarded update: \<open>P\<close> selects the live row of the reference, and \<open>Q\<close> says when.\<close>

lemma rel_update:
  assumes rel: "rel t m" and vis: "visible ref m = Some r" and ref: "tenantRef r' = ref"
    and P: "\<And>row. P row = (live_key tenant ref row \<and> Q row)" and Q: "\<And>row. tenant_view (tenant row) = tenant_view r \<Longrightarrow> Q row"
    and f: "\<And>row. tenant_view (tenant row) = tenant_view r \<Longrightarrow> tenant_view (tenant (f row)) = tenant_view r'"
    and b: "\<And>row. good (f row) = good row"
  shows "\<exists>row. update_rows P f t = ([row], map (\<lambda>x. if P x then f x else x) t) \<and> read row = Ok (tenant row) \<and>
      tenant_view (tenant row) = tenant_view r'"
    "rel (snd (update_rows P f t)) (mset_to ref r' m)"
proof -
  obtain row where row: "filter (live_key tenant ref) t = [row]" "good row" "tenant_view (tenant row) = tenant_view r"
      "tenantRef (tenant row) = ref" "row \<in> set t"
    using rel vis by (rule rel_some)
  have "filter P t = filter Q (filter (live_key tenant ref) t)" using P by (auto intro!: filter_cong)
  then have "filter P t = [row]" using row Q [OF row(3)] by simp
  then show "\<exists>row. update_rows P f t = ([row], map (\<lambda>x. if P x then f x else x) t) \<and> read row = Ok (tenant row) \<and>
      tenant_view (tenant row) = tenant_view r'"
    using row(2) b f [OF row(3)] by (intro exI [of _ "f row"]) (simp add: update_rows_def read_good)
  have live: "deletedAt r = None" and mget: "mget m ref = Some r"
    using vis by (auto simp: visible_def split: option.splits if_splits)
  have mref: "tenantRef r = ref" using tenant_view_fields(1) [OF row(3)] row(4) by simp
  have "same_rows tenant (map (\<lambda>x. if P x then f x else x) t) (mset_to ref r' m)"
  proof (rule same_rows_update [OF relD(1) [OF rel] mget ref])
    fix x assume v: "tenant_view (tenant x) = tenant_view r"
    show "tenant_view (tenant (f x)) = tenant_view r'" by (rule f [OF v])
    show "P x" using P Q [OF v] tenant_view_fields(1,5) [OF v] live mref by (simp add: live_key_def)
  next
    fix x assume "P x"
    then show "key_is tenant ref x" using P by (simp add: key_is_def live_key_def)
  qed
  then show "rel (snd (update_rows P f t)) (mset_to ref r' m)"
    using relD(2) [OF rel] b by (auto simp: rel_def update_rows_def list_all_iff)
qed

lemma rel_keys:
  assumes "rel t m"
  shows "(\<exists>q \<in> set t. tenantRef (tenant q) = ref) = (mget m ref \<noteq> None)"
proof -
  have "(\<exists>q \<in> set t. tenantRef (tenant q) = ref) = (filter (key_is tenant ref) t \<noteq> [])"
    by (simp add: filter_empty_conv key_is_def)
  then show ?thesis using same_rows_key [OF relD(1) [OF assms], of ref] by (auto split: option.splits)
qed

lemma rel_append:
  assumes "rel t m" "mget m ref = None" "tenantRef r = ref" "tenant_view (tenant row) = tenant_view r" "good row"
  shows "rel (t @ [row]) (mset_to ref r m)"
  using same_rows_append [OF relD(1) [OF assms(1)] assms(2-4)] relD(2) [OF assms(1)] assms(5) by (simp add: rel_def)

text \<open>An update whose effect is a function on tenants.\<close>

lemma simple_update:
  assumes rel: "rel t m"
    and f: "\<And>row. tenant (f row) = g (tenant row)" and b: "\<And>row. good (f row) = good row"
    and g: "\<And>r. tenantRef (g r) = tenantRef r" "\<And>a b. tenant_view a = tenant_view b \<Longrightarrow> tenant_view (g a) = tenant_view (g b)"
  shows "case visible ref m of None \<Rightarrow> update_rows (live_key tenant ref) f t = ([], t)
    | Some r \<Rightarrow> \<exists>row t'. update_rows (live_key tenant ref) f t = ([row], t') \<and> read row = Ok (tenant row) \<and>
        tenant_view (tenant row) = tenant_view (g r) \<and> rel t' (mset_to ref (g r) m)"
proof (cases "visible ref m")
  case None
  then show ?thesis using no_update [OF rel_none [OF rel None]] by simp
next
  case (Some r)
  obtain row where row: "tenant_view (tenant row) = tenant_view r" "tenantRef (tenant row) = ref"
    using rel Some by (rule rel_some)
  have ref: "tenantRef (g r) = ref" using g(1) tenant_view_fields(1) [OF row(1)] row(2) by simp
  have up: "tenant_view (tenant (f x)) = tenant_view (g r)" if "tenant_view (tenant x) = tenant_view r" for x
    using f g(2) [OF that] by simp
  show ?thesis
    using rel_update [where P = "live_key tenant ref" and Q = "\<lambda>_. True", OF rel Some ref _ _ up b] Some by auto
qed

lemma rel_list:
  assumes "rel t m" "map tenant ts = js_sort (tenant_order collate) (filter (list_matches now f) (map tenant t))" "set ts \<subseteq> set t"
  shows "list_all good ts" "map tenant_view (map tenant ts) =
    map tenant_view (js_sort (tenant_order collate) (filter (list_matches now f) (map snd m)))"
  using same_rows_list [OF relD(1) [OF assms(1)], of collate now f] assms relD(2) [OF assms(1)]
  by (auto simp: list_all_iff simp del: map_map)

end

end
