(* ===== verification/PostgresRegistry.thy ===== *)
theory PostgresRegistry
  imports RegistrySpec
begin

text \<open>
  The tenant store over PostgreSQL (\<open>server/src/tenants/registry-postgres.ts\<close>, tables of
  \<open>migrations/postgres/001_initial.sql\<close>). Each SQL statement is one definition on the table, and atomic.
  \<open>jsonb\<close> is what the column \<open>onboarding_progress\<close> gives back for the object that was stored; the
  \<open>location\<close> has fixed fields. Between the statements of one method other sessions may act: \<open>others\<close>
  is what the \<open>n\<close>-th gap does to the table.
\<close>

section \<open>The table\<close>

record pg_tenant =
  tr_tenant_ref :: string
  tr_vat_number :: string
  tr_egs_uuid :: string
  tr_vat_name :: string
  tr_crn :: string
  tr_branch_name :: string
  tr_branch_industry :: "string option"
  tr_location :: TenantLocation
  tr_environment :: Environment
  tr_state :: TenantState
  tr_onboarding_progress :: OnboardingProgress
  tr_production_certificate_expires_at :: "int option"
  tr_callback_url :: "string option"
  tr_claimed_by :: "string option"
  tr_claim_expires_at :: "int option"
  tr_label :: "string option"
  tr_created_at :: int
  tr_updated_at :: int
  tr_deleted_at :: "int option"

type_synonym tenant_table = "pg_tenant list"

text \<open>The casts of the branded columns throw; then every column becomes the field of its name.\<close>

definition rowToTenant :: "pg_tenant \<Rightarrow> error + TenantRecord" where
  "rowToTenant row =
     (case asVATNumber (tr_vat_number row) of Inl e \<Rightarrow> Inl e | Inr vat \<Rightarrow>
     (case asEGSUuid (tr_egs_uuid row) of Inl e \<Rightarrow> Inl e | Inr egs \<Rightarrow>
     (case asCommercialRegistrationNumber (tr_crn row) of Inl e \<Rightarrow> Inl e | Inr c \<Rightarrow>
       Ok \<lparr>tenantRef = tr_tenant_ref row, t_vatNumber = vat, t_egsUuid = egs, t_vatName = tr_vat_name row,
           t_crn = c, t_branchName = tr_branch_name row, t_branchIndustry = tr_branch_industry row,
           t_location = tr_location row, t_environment = tr_environment row, t_state = tr_state row,
           onboardingProgress = tr_onboarding_progress row,
           productionCertificateExpiresAt = tr_production_certificate_expires_at row,
           callbackUrl = tr_callback_url row, claimedBy = tr_claimed_by row,
           claimExpiresAt = tr_claim_expires_at row, t_label = tr_label row,
           createdAt = tr_created_at row, updatedAt = tr_updated_at row, deletedAt = tr_deleted_at row\<rparr>)))"

text \<open>\<open>rows.map(rowToTenant)\<close>\<close>

fun rowsToTenants :: "pg_tenant list \<Rightarrow> error + TenantRecord list" where
  "rowsToTenants [] = Ok []"
| "rowsToTenants (row # rows) = (case rowToTenant row of Inl e \<Rightarrow> Inl e
     | Inr r \<Rightarrow> (case rowsToTenants rows of Inl e \<Rightarrow> Inl e | Inr rs \<Rightarrow> Ok (r # rs)))"

section \<open>Statements\<close>

text \<open>\<open>WHERE tenant_ref = $1 AND deleted_at IS NULL\<close>\<close>

definition live_ref :: "string \<Rightarrow> pg_tenant \<Rightarrow> bool" where
  "live_ref ref row = (tr_tenant_ref row = ref \<and> tr_deleted_at row = None)"

text \<open>The columns an INSERT does not name take their defaults, NULL.\<close>

definition insert_tenant_row :: "(OnboardingProgress \<Rightarrow> OnboardingProgress) \<Rightarrow> int \<Rightarrow> string \<Rightarrow> CreateTenantInput \<Rightarrow> pg_tenant" where
  "insert_tenant_row jsonb now ref i =
     \<lparr>tr_tenant_ref = ref, tr_vat_number = new_vatNumber i, tr_egs_uuid = new_egsUuid i, tr_vat_name = new_vatName i,
      tr_crn = new_crn i, tr_branch_name = new_branchName i, tr_branch_industry = new_branchIndustry i,
      tr_location = new_location i, tr_environment = new_environment i, tr_state = Created,
      tr_onboarding_progress = jsonb \<lparr>scenarios = [], lastError = None\<rparr>,
      tr_production_certificate_expires_at = None, tr_callback_url = new_callbackUrl i, tr_claimed_by = None,
      tr_claim_expires_at = None, tr_label = new_label i, tr_created_at = now, tr_updated_at = now,
      tr_deleted_at = None\<rparr>"

text \<open>The primary key is \<open>tenant_ref\<close>; \<open>None\<close> is the unique violation (code 23505).\<close>

definition sql_insert_tenant :: "pg_tenant \<Rightarrow> tenant_table \<Rightarrow> pg_tenant list option \<times> tenant_table" where
  "sql_insert_tenant row t = (if \<exists>q \<in> set t. tr_tenant_ref q = tr_tenant_ref row then (None, t)
     else (Some [row], t @ [row]))"

text \<open>The conditions of \<open>list\<close> and its order; \<open>collate\<close> compares texts in the database's collation.\<close>

definition sql_list_where :: "int \<Rightarrow> TenantListFilter \<Rightarrow> pg_tenant \<Rightarrow> bool" where
  "sql_list_where now f row =
     ((if includeDeleted f then True else tr_deleted_at row = None) \<and>
      (case filter_state f of None \<Rightarrow> True | Some s \<Rightarrow> tr_state row = s) \<and>
      (case filter_environment f of None \<Rightarrow> True | Some e \<Rightarrow> tr_environment row = e) \<and>
      (case expiringWithinDays f of None \<Rightarrow> True
       | Some d \<Rightarrow> (case tr_production_certificate_expires_at row of None \<Rightarrow> False
           | Some x \<Rightarrow> x \<le> now + d * 86400000)))"

definition sql_list_order :: "(string \<Rightarrow> string \<Rightarrow> int) \<Rightarrow> pg_tenant \<Rightarrow> pg_tenant \<Rightarrow> int" where
  "sql_list_order collate a b = (let dt = tr_created_at a - tr_created_at b in
     if dt \<noteq> 0 then dt else collate (tr_tenant_ref a) (tr_tenant_ref b))"

definition sql_list_tenants :: "(string \<Rightarrow> string \<Rightarrow> int) \<Rightarrow> int \<Rightarrow> TenantListFilter \<Rightarrow> tenant_table \<Rightarrow> pg_tenant list" where
  "sql_list_tenants collate now f t = js_sort (sql_list_order collate) (select_rows (sql_list_where now f) t)"

text \<open>A column of the patch is in the SET list when its field is given.\<close>

definition sql_patch_set :: "int \<Rightarrow> PatchableTenantFields \<Rightarrow> pg_tenant \<Rightarrow> pg_tenant" where
  "sql_patch_set now p row = row
     \<lparr>tr_vat_name := or_else (patch_vatName p) (tr_vat_name row),
      tr_branch_name := or_else (patch_branchName p) (tr_branch_name row),
      tr_branch_industry := or_keep (patch_branchIndustry p) (tr_branch_industry row),
      tr_location := or_else (patch_location p) (tr_location row),
      tr_label := or_keep (patch_label p) (tr_label row),
      tr_callback_url := or_keep (patch_callbackUrl p) (tr_callback_url row),
      tr_updated_at := now\<rparr>"

text \<open>
  The guarded UPDATE of \<open>setState\<close>; \<open>$7\<close> is the expected state. Without one the condition is only
  the live reference.
\<close>

definition sql_claim_where :: "int \<Rightarrow> string \<Rightarrow> TenantState \<Rightarrow> pg_tenant \<Rightarrow> bool" where
  "sql_claim_where now ref from row = (live_ref ref row \<and>
     ((tr_state row = from \<and> from \<noteq> Onboarding) \<or>
      (tr_state row = Onboarding \<and>
        (case tr_claim_expires_at row of None \<Rightarrow> True | Some t \<Rightarrow> t \<le> now))))"

definition sql_state_set :: "int \<Rightarrow> TenantState \<Rightarrow> SetStateOptions \<Rightarrow> OnboardingProgress option \<Rightarrow> pg_tenant \<Rightarrow> pg_tenant" where
  "sql_state_set now next_state o1 progress row = row
     \<lparr>tr_state := next_state, tr_updated_at := now, tr_claimed_by := opt_claimedBy o1,
      tr_claim_expires_at := opt_claimExpiresAt o1,
      tr_onboarding_progress := or_else progress (tr_onboarding_progress row)\<rparr>"

definition sql_select_progress :: "string \<Rightarrow> tenant_table \<Rightarrow> OnboardingProgress option" where
  "sql_select_progress ref t = map_option tr_onboarding_progress (first_row (select_rows (live_ref ref) t))"

section \<open>The store\<close>

definition pg_create :: "(OnboardingProgress \<Rightarrow> OnboardingProgress) \<Rightarrow> int \<Rightarrow> 8 word list \<Rightarrow> CreateTenantInput \<Rightarrow>
    (tenant_table, TenantRecord) eff" where
  "pg_create jsonb now random10 i t =
     (let ref = (case new_tenantRef i of None \<Rightarrow> generateTenantRef random10 | Some x \<Rightarrow> x) in
      case sql_insert_tenant (insert_tenant_row jsonb now ref i) t of
        (None, t') \<Rightarrow> (Err (ZatcaRegistryError (''Tenant '' @ quoted ref @ '' already exists.'') (Some Conflict)), t')
      | (Some rows, t') \<Rightarrow> ((case first_row rows of
            None \<Rightarrow> Err (ZatcaRegistryError (''create returned no row for tenant '' @ quoted ref @ ''.'') (Some Conflict))
          | Some row \<Rightarrow> rowToTenant row), t'))"

definition pg_get :: "string \<Rightarrow> (tenant_table, TenantRecord option) eff" where
  "pg_get ref t = ((case first_row (select_rows (live_ref ref) t) of None \<Rightarrow> Ok None
     | Some row \<Rightarrow> map_sum id Some (rowToTenant row)), t)"

definition pg_list :: "(string \<Rightarrow> string \<Rightarrow> int) \<Rightarrow> int \<Rightarrow> TenantListFilter \<Rightarrow> (tenant_table, TenantRecord list) eff" where
  "pg_list collate now f t = (rowsToTenants (sql_list_tenants collate now f t), t)"

definition pg_patch :: "int \<Rightarrow> string \<Rightarrow> PatchableTenantFields \<Rightarrow> (tenant_table, TenantRecord) eff" where
  "pg_patch now ref p t = (case update_rows (live_ref ref) (sql_patch_set now p) t of (rows, t') \<Rightarrow>
     ((case first_row rows of None \<Rightarrow> Err (unknown_tenant ref) | Some row \<Rightarrow> rowToTenant row), t'))"

text \<open>The progress that a \<open>lastError\<close> makes: read first, written later.\<close>

definition progress_with_error :: "(OnboardingProgress \<Rightarrow> OnboardingProgress) \<Rightarrow> string \<Rightarrow> SetStateOptions \<Rightarrow> tenant_table \<Rightarrow>
    OnboardingProgress option" where
  "progress_with_error jsonb ref o1 t = (case opt_lastError o1 of None \<Rightarrow> None
     | Some e \<Rightarrow> Some (jsonb ((or_else (sql_select_progress ref t) \<lparr>scenarios = [], lastError = None\<rparr>)\<lparr>lastError := Some e\<rparr>)))"

definition pg_no_transition :: "string \<Rightarrow> SetStateOptions \<Rightarrow> pg_tenant option \<Rightarrow> error" where
  "pg_no_transition ref o1 row = (case row of None \<Rightarrow> unknown_tenant ref
     | Some r \<Rightarrow> ZatcaRegistryError (''Cannot transition tenant '' @ quoted ref @ '' from ''
         @ quoted (tenant_state_str (tr_state r)) @ '' (expected ''
         @ quoted (case expectedFrom o1 of None \<Rightarrow> ''undefined'' | Some f \<Rightarrow> tenant_state_str f) @ '').'') (Some Conflict))"

definition pg_setState :: "(OnboardingProgress \<Rightarrow> OnboardingProgress) \<Rightarrow> (nat \<Rightarrow> tenant_table \<Rightarrow> tenant_table) \<Rightarrow> int \<Rightarrow> string \<Rightarrow>
    TenantState \<Rightarrow> SetStateOptions \<Rightarrow> (tenant_table, TenantRecord) eff" where
  "pg_setState jsonb others now ref next_state o1 t =
     (let progress = progress_with_error jsonb ref o1 t; t1 = (if opt_lastError o1 = None then t else others 0 t) in
      case update_rows (case expectedFrom o1 of None \<Rightarrow> live_ref ref | Some from \<Rightarrow> sql_claim_where now ref from)
             (sql_state_set now next_state o1 progress) t1 of (rows, t2) \<Rightarrow>
      (case first_row rows of
         Some row \<Rightarrow> (rowToTenant row, t2)
       | None \<Rightarrow> (Err (pg_no_transition ref o1 (first_row (select_rows (live_ref ref) (others 1 t2)))), others 1 t2)))"

definition pg_recordOnboardingProgress :: "(OnboardingProgress \<Rightarrow> OnboardingProgress) \<Rightarrow> (nat \<Rightarrow> tenant_table \<Rightarrow> tenant_table) \<Rightarrow> int \<Rightarrow>
    string \<Rightarrow> string \<Rightarrow> bool \<Rightarrow> (tenant_table, unit) eff" where
  "pg_recordOnboardingProgress jsonb others now ref scenario passed t = (case sql_select_progress ref t of
       None \<Rightarrow> (Err (unknown_tenant ref), t)
     | Some p \<Rightarrow> let merged = p\<lparr>scenarios := mset_to scenario (if passed then ScenarioPassed else ScenarioFailed) (scenarios p)\<rparr> in
         (Ok (), snd (update_rows (live_ref ref)
            (\<lambda>r. r\<lparr>tr_onboarding_progress := jsonb merged, tr_updated_at := now\<rparr>) (others 0 t))))"

definition pg_setProductionExpiry :: "int \<Rightarrow> string \<Rightarrow> int \<Rightarrow> (tenant_table, unit) eff" where
  "pg_setProductionExpiry now ref expiresAt t = (case update_rows (live_ref ref)
       (\<lambda>r. r\<lparr>tr_production_certificate_expires_at := Some expiresAt, tr_updated_at := now\<rparr>) t of (rows, t') \<Rightarrow>
     (if length rows = 0 then Err (unknown_tenant ref) else Ok (), t'))"

definition already_deleted :: "string \<Rightarrow> error" where
  "already_deleted ref = ZatcaRegistryError (''Tenant '' @ quoted ref @ '' is already deleted.'') (Some Conflict)"

definition pg_softDelete :: "(nat \<Rightarrow> tenant_table \<Rightarrow> tenant_table) \<Rightarrow> int \<Rightarrow> string \<Rightarrow> (tenant_table, unit) eff" where
  "pg_softDelete others now ref t = (case update_rows (live_ref ref)
       (\<lambda>r. r\<lparr>tr_state := Revoked, tr_deleted_at := Some now, tr_updated_at := now\<rparr>) t of (rows, t') \<Rightarrow>
     (if length rows = 0
      then (Err (if select_rows (\<lambda>r. tr_tenant_ref r = ref) (others 0 t') = [] then unknown_tenant ref else already_deleted ref),
        others 0 t')
      else (Ok (), t')))"

definition quiet :: "nat \<Rightarrow> 's \<Rightarrow> 's" where \<comment> \<open>no other session\<close>
  "quiet n t = t"

definition createPostgresTenantStore :: "(OnboardingProgress \<Rightarrow> OnboardingProgress) \<Rightarrow> (string \<Rightarrow> string \<Rightarrow> int) \<Rightarrow>
    (nat \<Rightarrow> tenant_table \<Rightarrow> tenant_table) \<Rightarrow> int \<Rightarrow> tenant_table FullTenantStore" where
  "createPostgresTenantStore jsonb collate others now = \<lparr>ts_get = pg_get, ts_setState = pg_setState jsonb others now,
     ts_recordOnboardingProgress = pg_recordOnboardingProgress jsonb others now,
     ts_setProductionExpiry = pg_setProductionExpiry now, ts_create = pg_create jsonb now, ts_list = pg_list collate now,
     ts_patch = pg_patch now, ts_softDelete = pg_softDelete others now\<rparr>"

section \<open>Rows as tenants\<close>

definition row_tenant :: "pg_tenant \<Rightarrow> TenantRecord" where
  "row_tenant row = \<lparr>tenantRef = tr_tenant_ref row, t_vatNumber = tr_vat_number row, t_egsUuid = tr_egs_uuid row,
     t_vatName = tr_vat_name row, t_crn = tr_crn row, t_branchName = tr_branch_name row,
     t_branchIndustry = tr_branch_industry row, t_location = tr_location row, t_environment = tr_environment row,
     t_state = tr_state row, onboardingProgress = tr_onboarding_progress row,
     productionCertificateExpiresAt = tr_production_certificate_expires_at row, callbackUrl = tr_callback_url row,
     claimedBy = tr_claimed_by row, claimExpiresAt = tr_claim_expires_at row, t_label = tr_label row,
     createdAt = tr_created_at row, updatedAt = tr_updated_at row, deletedAt = tr_deleted_at row\<rparr>"

definition branded_row :: "pg_tenant \<Rightarrow> bool" where
  "branded_row row = (isVATNumber (tr_vat_number row) \<and> isUuidV4 (tr_egs_uuid row) \<and>
     isCommercialRegistrationNumber (tr_crn row))"

lemma rowToTenant_branded: "branded_row row \<Longrightarrow> rowToTenant row = Ok (row_tenant row)"
  by (simp add: branded_row_def rowToTenant_def row_tenant_def asVATNumber_def asEGSUuid_def
      asCommercialRegistrationNumber_def)

lemma rowsToTenants_branded: "list_all branded_row rows \<Longrightarrow> rowsToTenants rows = Ok (map row_tenant rows)"
  by (induction rows) (simp_all add: rowToTenant_branded)

lemma row_tenant_fields [simp]:
  "tenantRef (row_tenant row) = tr_tenant_ref row" "deletedAt (row_tenant row) = tr_deleted_at row"
  "t_state (row_tenant row) = tr_state row" "claimExpiresAt (row_tenant row) = tr_claim_expires_at row"
  "onboardingProgress (row_tenant row) = tr_onboarding_progress row"
  by (simp_all add: row_tenant_def)

lemma live_ref_key: "live_ref ref = live_key row_tenant ref"
  by (simp add: fun_eq_iff live_ref_def live_key_def)

text \<open>What the statements set, read as tenants.\<close>

lemma row_tenant_sets:
  "row_tenant (sql_patch_set now p row) = patched now p (row_tenant row)"
  "row_tenant (sql_state_set now st o1 progress row) = (transitioned now st o1 (row_tenant row))
    \<lparr>onboardingProgress := or_else progress (tr_onboarding_progress row)\<rparr>"
  "row_tenant (row\<lparr>tr_onboarding_progress := q, tr_updated_at := now\<rparr>) = (with_progress now sc b (row_tenant row))
    \<lparr>onboardingProgress := q\<rparr>"
  "row_tenant (row\<lparr>tr_production_certificate_expires_at := Some x, tr_updated_at := now\<rparr>) =
    (row_tenant row)\<lparr>productionCertificateExpiresAt := Some x, updatedAt := now\<rparr>"
  "row_tenant (row\<lparr>tr_state := Revoked, tr_deleted_at := Some now, tr_updated_at := now\<rparr>) =
    (row_tenant row)\<lparr>t_state := Revoked, deletedAt := Some now, updatedAt := now\<rparr>"
  "row_tenant (insert_tenant_row jsonb now ref i) = (new_record now ref i)\<lparr>onboardingProgress := jsonb \<lparr>scenarios = [], lastError = None\<rparr>\<rparr>"
  by (simp_all add: row_tenant_def sql_patch_set_def patched_def sql_state_set_def transitioned_def with_progress_def
      insert_tenant_row_def new_record_def)

lemma branded_sets [simp]:
  "branded_row (sql_patch_set now p row) = branded_row row" "branded_row (sql_state_set now st o1 q row) = branded_row row"
  "branded_row (row\<lparr>tr_onboarding_progress := q', tr_updated_at := now\<rparr>) = branded_row row"
  "branded_row (row\<lparr>tr_production_certificate_expires_at := x, tr_updated_at := now\<rparr>) = branded_row row"
  "branded_row (row\<lparr>tr_state := st, tr_deleted_at := x, tr_updated_at := now\<rparr>) = branded_row row"
  "branded_row (insert_tenant_row jsonb now ref i) = branded i"
  by (simp_all add: branded_row_def sql_patch_set_def sql_state_set_def insert_tenant_row_def branded_def)

lemma claim_where_allowed:
  "sql_claim_where now ref from row = (live_ref ref row \<and>
    transition_allowed now (row_tenant row) (o1\<lparr>expectedFrom := Some from\<rparr>))"
  by (auto simp: sql_claim_where_def transition_allowed_def lockNotHeld_def)

lemma sql_list_view: "map row_tenant (sql_list_tenants collate now f t) =
    js_sort (tenant_order collate) (filter (list_matches now f) (map row_tenant t))"
proof -
  have ins: "map row_tenant (js_insert (sql_list_order collate) x xs) =
      js_insert (tenant_order collate) (row_tenant x) (map row_tenant xs)" for x xs
    by (induction xs) (simp_all add: sql_list_order_def tenant_order_def row_tenant_def)
  have sort: "map row_tenant (js_sort (sql_list_order collate) xs) = js_sort (tenant_order collate) (map row_tenant xs)" for xs
    by (induction xs) (simp_all add: js_sort_def ins)
  have "sql_list_where now f = list_matches now f \<circ> row_tenant"
    by (auto simp: fun_eq_iff sql_list_where_def list_matches_def row_tenant_def split: option.split)
  then show ?thesis by (simp add: sql_list_tenants_def select_rows_def sort filter_map)
qed

interpretation pg_table: tenant_table rowToTenant row_tenant branded_row
  by unfold_locales (rule rowToTenant_branded)

end
