(* ===== verification/PostgresTenants.thy ===== *)
theory PostgresTenants
  imports PostgresRegistry
begin

text \<open>
  The PostgreSQL tenant store against the memory store: the simulation call by call, the laws
  onboarding relies on, and what holds whatever other sessions do between a method's statements.
\<close>

section \<open>The column of the progress\<close>

text \<open>What is relied on of \<open>jsonb\<close>: an object is given back with the same keys and values.\<close>

locale jsonb_column =
  fixes jsonb :: "OnboardingProgress \<Rightarrow> OnboardingProgress"
  assumes jsonb_error: "lastError (jsonb p) = lastError p"
    and jsonb_scenarios: "mget (scenarios (jsonb p)) = mget (scenarios p)"
begin

lemma view_jsonb: "tenant_view (r\<lparr>onboardingProgress := jsonb p\<rparr>) = tenant_view (r\<lparr>onboardingProgress := p\<rparr>)"
  by (rule tenant_view_progress) (simp_all add: jsonb_error jsonb_scenarios)

end

text \<open>PostgreSQL keeps the keys of an object in the order of their lengths, and drops duplicates.\<close>

definition jsonb_progress :: "OnboardingProgress \<Rightarrow> OnboardingProgress" where
  "jsonb_progress p = p\<lparr>scenarios := sort_key (\<lambda>(k, _). length k) (AList.clearjunk (scenarios p))\<rparr>"

lemma map_of_sort_key: "distinct (map fst xs) \<Longrightarrow> map_of (sort_key f xs) = map_of xs"
  by (rule map_of_eqI) (auto simp: distinct_map inj_on_def distinct_sort)

interpretation sorted_jsonb: jsonb_column jsonb_progress
  by unfold_locales (simp_all add: jsonb_progress_def map_of_sort_key distinct_clearjunk map_of_clearjunk)

section \<open>The simulation\<close>

lemma quiet_id: "quiet n = (\<lambda>t. t)"
  by (simp add: fun_eq_iff quiet_def)

lemmas tenants_relD = pg_table.relD
lemmas rel_live = pg_table.rel_live [folded live_ref_key]
lemmas rel_none = pg_table.rel_none [folded live_ref_key]
lemmas rel_some = pg_table.rel_some [folded live_ref_key, unfolded row_tenant_fields]
lemmas rel_update = pg_table.rel_update [folded live_ref_key]
lemmas rel_keys = pg_table.rel_keys [simplified]
lemmas simple_update = pg_table.simple_update [folded live_ref_key]

context jsonb_column
begin

lemma step_create:
  assumes rel: "pg_table.rel t m" and ok: "branded i"
  shows "map_sum id tenant_view (fst (pg_create jsonb now rnd i t)) = map_sum id tenant_view (fst (tenant_create now rnd i m))"
    "pg_table.rel (snd (pg_create jsonb now rnd i t)) (snd (tenant_create now rnd i m))"
proof -
  define ref where "ref = (case new_tenantRef i of None \<Rightarrow> generateTenantRef rnd | Some x \<Rightarrow> x)"
  let ?row = "insert_tenant_row jsonb now ref i" and ?r = "new_record now ref i"
  have ref: "tr_tenant_ref ?row = ref" "tenantRef ?r = ref" by (simp_all add: insert_tenant_row_def new_record_def)
  have "?r\<lparr>onboardingProgress := \<lparr>scenarios = [], lastError = None\<rparr>\<rparr> = ?r" by (simp add: new_record_def)
  then have view: "tenant_view (row_tenant ?row) = tenant_view ?r" by (simp add: row_tenant_sets view_jsonb)
  have "map_sum id tenant_view (fst (pg_create jsonb now rnd i t)) = map_sum id tenant_view (fst (tenant_create now rnd i m)) \<and>
    pg_table.rel (snd (pg_create jsonb now rnd i t)) (snd (tenant_create now rnd i m))"
  proof (cases "mget m ref")
    case None
    have "pg_table.rel (t @ [?row]) (mset_to ref ?r m)"
      using same_rows_append [OF tenants_relD(1) [OF rel] None ref(2) view] tenants_relD(2) [OF rel] ok
      by (simp add: pg_table.rel_def)
    then show ?thesis using None rel_keys [OF rel, of ref] ref ok view
      by (simp add: pg_create_def tenant_create_def ref_def [symmetric] Let_def sql_insert_tenant_def first_row_def
          rowToTenant_branded)
  next
    case (Some r)
    then show ?thesis using rel rel_keys [OF rel, of ref] ref
      by (simp add: pg_create_def tenant_create_def ref_def [symmetric] Let_def sql_insert_tenant_def)
  qed
  then show "map_sum id tenant_view (fst (pg_create jsonb now rnd i t)) = map_sum id tenant_view (fst (tenant_create now rnd i m))"
    "pg_table.rel (snd (pg_create jsonb now rnd i t)) (snd (tenant_create now rnd i m))" by blast+
qed

text \<open>The updates that have the memory store's shape: unknown, or one row changed.\<close>

lemma state_set_view:
  assumes row: "filter (live_ref ref) t = [row]" "tenant_view (row_tenant row) = tenant_view r"
    and v: "tenant_view (row_tenant x) = tenant_view r"
  shows "tenant_view (row_tenant (sql_state_set now st o1 (progress_with_error jsonb ref o1 t) x)) = tenant_view (transitioned now st o1 r)"
proof -
  have sel: "sql_select_progress ref t = Some (tr_onboarding_progress row)"
    by (simp add: sql_select_progress_def select_rows_def row(1) first_row_def)
  have pr: "lastError (onboardingProgress (row_tenant row)) = lastError (onboardingProgress (row_tenant x))"
    "mget (scenarios (onboardingProgress (row_tenant row))) = mget (scenarios (onboardingProgress (row_tenant x)))"
    using tenant_view_fields(9,10) [OF row(2)] tenant_view_fields(9,10) [OF v] by simp_all
  have "tenant_view (row_tenant (sql_state_set now st o1 (progress_with_error jsonb ref o1 t) x)) = tenant_view (transitioned now st o1 (row_tenant x))"
    unfolding row_tenant_sets
    by (rule view_same_progress)
      (use pr in \<open>simp_all add: progress_with_error_def transitioned_def sel or_else_def jsonb_error jsonb_scenarios split: option.split\<close>)
  then show ?thesis using view_congs(2) [OF v] by simp
qed

lemma step_setState:
  assumes rel: "pg_table.rel t m"
  shows "map_sum id tenant_view (fst (pg_setState jsonb quiet now ref st o1 t)) = map_sum id tenant_view (fst (tenant_setState now ref st o1 m))"
    "pg_table.rel (snd (pg_setState jsonb quiet now ref st o1 t)) (snd (tenant_setState now ref st o1 m))"
proof -
  let ?P = "case expectedFrom o1 of None \<Rightarrow> live_ref ref | Some from \<Rightarrow> sql_claim_where now ref from"
  let ?p = "progress_with_error jsonb ref o1 t"
  let ?f = "sql_state_set now st o1 ?p"
  have P: "?P row = (live_ref ref row \<and> transition_allowed now (row_tenant row) o1)" for row
    by (simp add: sql_claim_where_def transition_allowed_def lockNotHeld_def split: option.split)
  have run: "pg_setState jsonb quiet now ref st o1 t = (case update_rows ?P ?f t of (rows, t2) \<Rightarrow> (case first_row rows of
         Some row \<Rightarrow> (rowToTenant row, t2)
       | None \<Rightarrow> (Err (pg_no_transition ref o1 (first_row (select_rows (live_ref ref) t2))), t2)))"
    by (simp only: pg_setState_def quiet_id Let_def if_cancel)
  have "map_sum id tenant_view (fst (pg_setState jsonb quiet now ref st o1 t)) = map_sum id tenant_view (fst (tenant_setState now ref st o1 m)) \<and>
    pg_table.rel (snd (pg_setState jsonb quiet now ref st o1 t)) (snd (tenant_setState now ref st o1 m))"
  proof (cases "visible ref m")
    case None
    note e = rel_none [OF rel None]
    then have "filter ?P t = []" using P by (auto simp: filter_empty_conv)
    then show ?thesis using None e rel
      by (simp add: run no_update first_row_def select_rows_def pg_no_transition_def tenant_setState_def update_record_def)
  next
    case (Some r)
    obtain row where row: "filter (live_ref ref) t = [row]" "branded_row row" "tenant_view (row_tenant row) = tenant_view r"
        "tr_tenant_ref row = ref" "row \<in> set t"
      using rel Some by (rule rel_some)
    have mref: "tenantRef r = ref" using tenant_view_fields(1) [OF row(3)] row(4) by simp
    have q: "filter ?P t = filter (\<lambda>x. transition_allowed now (row_tenant x) o1) [row]"
      unfolding row(1) [symmetric] filter_filter using P by (intro filter_cong) (auto simp: conj_commute)
    show ?thesis
    proof (cases "transition_allowed now r o1")
      case True
      note f = state_set_view [OF row(1,3)]
      have ref': "tenantRef (transitioned now st o1 r) = ref" using mref by simp
      have Q: "transition_allowed now (row_tenant x) o1" if "tenant_view (row_tenant x) = tenant_view r" for x
        using transition_allowed_view [OF that] True by simp
      note up = rel_update [where P = ?P and f = ?f, OF rel Some ref' P Q f branded_sets(2)]
      obtain row' where "update_rows ?P ?f t = ([row'], map (\<lambda>x. if ?P x then ?f x else x) t)" "rowToTenant row' = Ok (row_tenant row')"
          "tenant_view (row_tenant row') = tenant_view (transitioned now st o1 r)"
        using up(1) by blast
      then show ?thesis using Some True up(2)
        by (simp add: run first_row_def tenant_setState_def update_record_def)
    next
      case False
      then have na: "\<not> transition_allowed now (row_tenant row) o1" using transition_allowed_view [OF row(3)] by simp
      then have "filter ?P t = []" using q by simp
      moreover have "expectedFrom o1 \<noteq> None" using False by (auto simp: transition_allowed_def split: option.splits)
      ultimately show ?thesis using Some False row rel tenant_view_fields(2) [OF row(3)]
        by (auto simp: run no_update first_row_def select_rows_def pg_no_transition_def tenant_setState_def update_record_def
            transition_conflict_def)
    qed
  qed
  then show "map_sum id tenant_view (fst (pg_setState jsonb quiet now ref st o1 t)) = map_sum id tenant_view (fst (tenant_setState now ref st o1 m))"
    "pg_table.rel (snd (pg_setState jsonb quiet now ref st o1 t)) (snd (tenant_setState now ref st o1 m))" by blast+
qed

lemma step_progress:
  assumes rel: "pg_table.rel t m"
  shows "fst (pg_recordOnboardingProgress jsonb quiet now ref sc b t) = fst (tenant_recordOnboardingProgress now ref sc b m)"
    "pg_table.rel (snd (pg_recordOnboardingProgress jsonb quiet now ref sc b t)) (snd (tenant_recordOnboardingProgress now ref sc b m))"
proof -
  have "fst (pg_recordOnboardingProgress jsonb quiet now ref sc b t) = fst (tenant_recordOnboardingProgress now ref sc b m) \<and>
    pg_table.rel (snd (pg_recordOnboardingProgress jsonb quiet now ref sc b t)) (snd (tenant_recordOnboardingProgress now ref sc b m))"
  proof (cases "visible ref m")
    case None
    then show ?thesis using rel rel_none [OF rel None]
      by (simp add: pg_recordOnboardingProgress_def sql_select_progress_def select_rows_def first_row_def
          tenant_recordOnboardingProgress_def to_unit_def andThen_run update_record_def)
  next
    case (Some r)
    obtain row where row: "filter (live_ref ref) t = [row]" "tenant_view (row_tenant row) = tenant_view r" "tr_tenant_ref row = ref"
      using rel Some by (rule rel_some)
    let ?p = "tr_onboarding_progress row"
    let ?m = "?p\<lparr>scenarios := mset_to sc (if b then ScenarioPassed else ScenarioFailed) (scenarios ?p)\<rparr>"
    let ?f = "\<lambda>r. r\<lparr>tr_onboarding_progress := jsonb ?m, tr_updated_at := now\<rparr>"
    have mref: "tenantRef (with_progress now sc b r) = ref" using tenant_view_fields(1) [OF row(2)] row(3) by simp
    have f: "tenant_view (row_tenant (?f x)) = tenant_view (with_progress now sc b r)"
      if v: "tenant_view (row_tenant x) = tenant_view r" for x
    proof -
      have pr: "lastError ?p = lastError (onboardingProgress (row_tenant x))" "mget (scenarios ?p) = mget (scenarios (onboardingProgress (row_tenant x)))"
        using tenant_view_fields(9,10) [OF row(2)] tenant_view_fields(9,10) [OF v] by simp_all
      have "tenant_view (row_tenant (?f x)) = tenant_view (with_progress now sc b (row_tenant x))"
        unfolding row_tenant_sets(3) [where sc = sc and b = b]
        by (rule view_same_progress) (use pr in \<open>simp_all add: with_progress_def jsonb_error jsonb_scenarios fun_eq_iff\<close>)
      then show ?thesis using view_congs(3) [OF v] by simp
    qed
    have sel: "sql_select_progress ref t = Some ?p"
      by (simp add: sql_select_progress_def select_rows_def row(1) first_row_def)
    have "pg_table.rel (snd (update_rows (live_ref ref) ?f t)) (mset_to ref (with_progress now sc b r) m)"
      by (rule rel_update(2) [where Q = "\<lambda>_. True", OF rel Some mref _ _ f]) simp_all
    then show ?thesis using Some
      by (simp add: pg_recordOnboardingProgress_def sel quiet_def Let_def
          tenant_recordOnboardingProgress_def to_unit_def andThen_run update_record_def)
  qed
  then show "fst (pg_recordOnboardingProgress jsonb quiet now ref sc b t) = fst (tenant_recordOnboardingProgress now ref sc b m)"
    "pg_table.rel (snd (pg_recordOnboardingProgress jsonb quiet now ref sc b t)) (snd (tenant_recordOnboardingProgress now ref sc b m))"
    by blast+
qed

end

text \<open>The updates that do not touch the progress.\<close>

lemma step_patch:
  assumes "pg_table.rel t m"
  shows "map_sum id tenant_view (fst (pg_patch now ref p t)) = map_sum id tenant_view (fst (tenant_patch now ref p m)) \<and>
    pg_table.rel (snd (pg_patch now ref p t)) (snd (tenant_patch now ref p m))"
  using simple_update [OF assms row_tenant_sets(1) branded_sets(1) _ view_congs(1), of now p ref] assms
  by (auto simp: pg_patch_def first_row_def tenant_patch_def update_record_def requireRecord_def split: option.splits)

lemma step_expiry:
  assumes "pg_table.rel t m"
  shows "fst (pg_setProductionExpiry now ref x t) = fst (tenant_setProductionExpiry now ref x m) \<and>
    pg_table.rel (snd (pg_setProductionExpiry now ref x t)) (snd (tenant_setProductionExpiry now ref x m))"
  using simple_update [OF assms row_tenant_sets(4) branded_sets(4) _ view_congs(4), of now x ref] assms
  by (auto simp: pg_setProductionExpiry_def tenant_setProductionExpiry_def update_record_def requireRecord_def to_unit_def
      andThen_run split: option.splits)

lemma step_delete:
  assumes rel: "pg_table.rel t m"
  shows "fst (pg_softDelete quiet now ref t) = fst (tenant_softDelete now ref m) \<and>
    pg_table.rel (snd (pg_softDelete quiet now ref t)) (snd (tenant_softDelete now ref m))"
proof -
  have none: "select_rows (\<lambda>r. tr_tenant_ref r = ref) t = [] \<longleftrightarrow> mget m ref = None"
    using rel_keys [OF rel, of ref] by (auto simp: select_rows_def filter_empty_conv)
  show ?thesis
    using simple_update [OF rel row_tenant_sets(5) branded_sets(5) _ view_congs(5), of now ref] rel none
    by (auto simp: pg_softDelete_def tenant_softDelete_def visible_def quiet_def already_deleted_def
        split: option.splits if_splits)
qed

lemma step_get:
  assumes "pg_table.rel t m"
  shows "map_sum id (map_option tenant_view) (fst (pg_get ref t)) = map_sum id (map_option tenant_view) (fst (tenant_get ref m)) \<and>
    pg_table.rel (snd (pg_get ref t)) (snd (tenant_get ref m))"
  using rel_live [OF assms, of ref] assms
  by (auto simp: pg_get_def tenant_get_def select_rows_def first_row_def rowToTenant_branded split: option.splits)

lemma step_list:
  assumes "pg_table.rel t m"
  shows "map_sum id (map tenant_view) (fst (pg_list collate now f t)) = map_sum id (map tenant_view) (fst (tenant_list collate now f m)) \<and>
    pg_table.rel (snd (pg_list collate now f t)) (snd (tenant_list collate now f m))"
proof -
  have "set (sql_list_tenants collate now f t) \<subseteq> set t"
    by (metis mset_js_sort set_mset_mset filter_is_subset select_rows_def sql_list_tenants_def)
  then have "list_all branded_row (sql_list_tenants collate now f t)"
    using tenants_relD(2) [OF assms] by (auto simp: list_all_iff)
  then show ?thesis
    using same_rows_list [OF tenants_relD(1) [OF assms], of collate now f] assms
    by (simp add: pg_list_def tenant_list_def rowsToTenants_branded sql_list_view)
qed

sublocale jsonb_column \<subseteq> tenants: tenant_refinement "createPostgresTenantStore jsonb collate quiet" collate branded_call pg_table.rel "[]" for collate
proof
  show "pg_table.rel [] []" by (simp add: pg_table.rel_def)
next
  fix t m c now x t' y m'
  assume rel: "pg_table.rel t m" and b: "branded_call c"
    and run: "tenant_call_on (createPostgresTenantStore jsonb collate quiet now) c t = (x, t')"
      "tenant_call_on (memory_tenant_store collate now) c m = (y, m')"
  show "x = y \<and> pg_table.rel t' m'"
  proof (cases c)
    case (Create_tenant rnd i)
    then show ?thesis using step_create [OF rel, of i now rnd] run b
      by (auto simp: createPostgresTenantStore_def memory_tenant_store_def one_view split: prod.splits)
  next
    case (Get_tenant ref)
    then show ?thesis using step_get [OF rel, of ref] run rel
      by (auto simp: createPostgresTenantStore_def memory_tenant_store_def one_view split: prod.splits)
  next
    case (List_tenants f)
    then show ?thesis using step_list [OF rel, of collate now f] run rel
      by (auto simp: createPostgresTenantStore_def memory_tenant_store_def one_view split: prod.splits)
  next
    case (Patch_tenant ref p)
    then show ?thesis using step_patch [OF rel, of now ref p] run
      by (auto simp: createPostgresTenantStore_def memory_tenant_store_def one_view split: prod.splits)
  next
    case (Set_state ref st o1)
    then show ?thesis using step_setState [OF rel, of now ref st o1] run
      by (auto simp: createPostgresTenantStore_def memory_tenant_store_def one_view split: prod.splits)
  next
    case (Record_progress ref sc b)
    then show ?thesis using step_progress [OF rel, of now ref sc b] run
      by (auto simp: createPostgresTenantStore_def memory_tenant_store_def one_view split: prod.splits)
  next
    case (Set_expiry ref e)
    then show ?thesis using step_expiry [OF rel, of now ref e] run
      by (auto simp: createPostgresTenantStore_def memory_tenant_store_def one_view split: prod.splits)
  next
    case (Soft_delete ref)
    then show ?thesis using step_delete [OF rel, of now ref] run
      by (auto simp: createPostgresTenantStore_def memory_tenant_store_def one_view split: prod.splits)
  qed
qed

context jsonb_column
begin

lemma answers_like_memory: "list_all (\<lambda>(_, c). branded_call c) cs \<Longrightarrow>
    tenant_answers (createPostgresTenantStore jsonb collate quiet) cs [] = tenant_answers (memory_tenant_store collate) cs []"
  by (rule tenants.tenant_answers_agree)

end

section \<open>The laws onboarding relies on\<close>

definition pg_seen :: "string \<Rightarrow> tenant_table \<Rightarrow> TenantRecord option" where
  "pg_seen ref t = map_option row_tenant (first_row (filter (live_ref ref) t))"

text \<open>The primary key and the branded columns.\<close>

definition table_valid :: "tenant_table \<Rightarrow> bool" where
  "table_valid t = (distinct (map tr_tenant_ref t) \<and> list_all branded_row t)"

lemma live_row_unique:
  assumes "distinct (map tr_tenant_ref t)"
  shows "filter (live_ref ref) t = [] \<or> (\<exists>row. filter (live_ref ref) t = [row])"
  using assms
proof (induction t)
  case (Cons row t)
  have "filter (live_ref ref) t = []" if "live_ref ref row"
    using that Cons.prems unfolding filter_empty_conv live_ref_def by (metis distinct.simps(2) image_eqI list.simps(9) set_map)
  then show ?case using Cons by auto
qed simp

lemma pg_seen_none: "pg_seen ref t = None \<longleftrightarrow> filter (live_ref ref) t = []"
  by (simp add: pg_seen_def first_row_def split: list.split)

lemma pg_seen_some:
  assumes "table_valid t" "pg_seen ref t = Some r"
  obtains row where "filter (live_ref ref) t = [row]" "r = row_tenant row" "branded_row row" "tr_tenant_ref row = ref"
proof -
  obtain row where row: "filter (live_ref ref) t = [row]"
    using live_row_unique [of t ref] assms by (auto simp: table_valid_def pg_seen_def first_row_def)
  then have "row \<in> set (filter (live_ref ref) t)" by simp
  then have "row \<in> set t" "live_ref ref row" by simp_all
  then show ?thesis using that row assms by (auto simp: pg_seen_def first_row_def table_valid_def list_all_iff live_ref_def)
qed

text \<open>An UPDATE of the live row of a reference that keeps the key and the row alive.\<close>

lemma live_update:
  assumes keep: "\<And>row. live_ref ref' (f row) = live_ref ref' row" and sub: "\<And>row. P row \<Longrightarrow> live_ref ref row"
  shows "filter (live_ref ref') (map (\<lambda>row. if P row then f row else row) t) =
    map (\<lambda>row. if P row then f row else row) (filter (live_ref ref') t)"
  using keep by (induction t) auto

lemma live_frame:
  assumes keep: "\<And>row. live_ref ref' (f row) = live_ref ref' row" and sub: "\<And>row. P row \<Longrightarrow> live_ref ref row" and "ref' \<noteq> ref"
  shows "pg_seen ref' (map (\<lambda>row. if P row then f row else row) t) = pg_seen ref' t"
proof -
  have "map (\<lambda>row. if P row then f row else row) (filter (live_ref ref') t) = filter (live_ref ref') t"
    using sub assms(3) by (intro map_idI) (auto simp: live_ref_def)
  then show ?thesis by (simp add: pg_seen_def live_update [OF keep sub])
qed

lemma update_valid:
  assumes "\<And>row. tr_tenant_ref (f row) = tr_tenant_ref row" "\<And>row. branded_row (f row) = branded_row row" "table_valid t"
  shows "table_valid (map (\<lambda>row. if P row then f row else row) t)"
proof -
  have "map tr_tenant_ref (map (\<lambda>row. if P row then f row else row) t) = map tr_tenant_ref t" using assms(1) by auto
  then show ?thesis using assms by (auto simp: table_valid_def list_all_iff simp del: map_map)
qed

lemma live_sets [simp]:
  "live_ref ref (sql_state_set now st o1 q row) = live_ref ref row"
  "live_ref ref (row\<lparr>tr_onboarding_progress := p, tr_updated_at := now\<rparr>) = live_ref ref row"
  "live_ref ref (row\<lparr>tr_production_certificate_expires_at := x, tr_updated_at := now\<rparr>) = live_ref ref row"
  "tr_tenant_ref (sql_state_set now st o1 q row) = tr_tenant_ref row"
  by (simp_all add: live_ref_def sql_state_set_def)

definition state_where :: "int \<Rightarrow> string \<Rightarrow> SetStateOptions \<Rightarrow> pg_tenant \<Rightarrow> bool" where
  "state_where now ref o1 = (case expectedFrom o1 of None \<Rightarrow> live_ref ref | Some from \<Rightarrow> sql_claim_where now ref from)"

lemma state_where_iff: "state_where now ref o1 row = (live_ref ref row \<and> transition_allowed now (row_tenant row) o1)"
  by (simp add: state_where_def sql_claim_where_def transition_allowed_def lockNotHeld_def split: option.split)

text \<open>What one call of \<open>setState\<close> does, whatever others do in its gaps.\<close>

lemma pg_setState_run: "pg_setState jsonb others now ref st o1 t =
    (let t1 = (if opt_lastError o1 = None then t else others 0 t);
         f = sql_state_set now st o1 (progress_with_error jsonb ref o1 t) in
     case filter (state_where now ref o1) t1 of
       row # _ \<Rightarrow> (rowToTenant (f row), map (\<lambda>row. if state_where now ref o1 row then f row else row) t1)
     | [] \<Rightarrow> (Err (pg_no_transition ref o1 (first_row (select_rows (live_ref ref) (others 1 t1)))), others 1 t1))"
  by (auto simp: pg_setState_def state_where_def [symmetric] update_rows_def Let_def first_row_def map_untouched
      split: list.split)

context jsonb_column
begin

text \<open>The store's four operations that onboarding uses.\<close>

definition onboarding_ops :: "int \<Rightarrow> tenant_table TenantStore" where
  "onboarding_ops now = TenantStore.truncate (createPostgresTenantStore jsonb (\<lambda>_ _. 0) quiet now)"

lemma onboarding_ops_simps [simp]:
  "ts_get (onboarding_ops now) = pg_get" "ts_setState (onboarding_ops now) = pg_setState jsonb quiet now"
  "ts_recordOnboardingProgress (onboarding_ops now) = pg_recordOnboardingProgress jsonb quiet now"
  "ts_setProductionExpiry (onboarding_ops now) = pg_setProductionExpiry now"
  by (simp_all add: onboarding_ops_def createPostgresTenantStore_def TenantStore.truncate_def)

lemma seen_unique: "table_valid t \<Longrightarrow> pg_seen ref t = Some r \<Longrightarrow> \<exists>row. filter (live_ref ref) t = [row] \<and> r = row_tenant row \<and> branded_row row"
  by (auto elim: pg_seen_some)

end

sublocale jsonb_column \<subseteq> claims: tenant_store onboarding_ops pg_seen table_valid
proof
  fix t :: tenant_table and now ref
  show "table_valid t \<Longrightarrow> ts_get (onboarding_ops now) ref t = (Ok (pg_seen ref t), t)"
    using live_row_unique [of t ref] seen_unique [of t ref]
    by (auto simp: pg_get_def select_rows_def pg_seen_def first_row_def rowToTenant_branded table_valid_def)
next
  fix t :: tenant_table and now ref st o1
  assume "table_valid t"
  then show "table_valid (snd (ts_setState (onboarding_ops now) ref st o1 t))"
    by (auto simp: pg_setState_run quiet_id Let_def intro!: update_valid split: list.split)
next
  fix t :: tenant_table and now ref st o1
  assume none: "pg_seen ref t = None"
  then have "filter (state_where now ref o1) t = []" by (auto simp: pg_seen_none filter_empty_conv state_where_iff)
  then show "ts_setState (onboarding_ops now) ref st o1 t = (Err (unknown_tenant ref), t)" using none
    by (simp add: pg_setState_run quiet_id Let_def pg_no_transition_def pg_seen_none select_rows_def first_row_def)
next
  fix t :: tenant_table and now ref st o1 r
  assume "table_valid t" "pg_seen ref t = Some r" and na: "\<not> transition_allowed now r o1"
  then obtain row where row: "filter (live_ref ref) t = [row]" "r = row_tenant row" using seen_unique by blast
  have "filter (state_where now ref o1) t = filter (\<lambda>x. transition_allowed now (row_tenant x) o1) (filter (live_ref ref) t)"
    by (auto simp: state_where_iff intro!: filter_cong)
  then have "filter (state_where now ref o1) t = []" using row na by simp
  moreover have "expectedFrom o1 \<noteq> None" using na by (auto simp: transition_allowed_def split: option.splits)
  ultimately show "ts_setState (onboarding_ops now) ref st o1 t = (Err (transition_conflict ref r o1), t)" using row
    by (auto simp: pg_setState_run quiet_id Let_def pg_no_transition_def select_rows_def first_row_def transition_conflict_def)
next
  fix t :: tenant_table and now ref st o1 r
  assume v: "table_valid t" and s: "pg_seen ref t = Some r" and a: "transition_allowed now r o1"
  then obtain row where row: "filter (live_ref ref) t = [row]" "r = row_tenant row" "branded_row row" using seen_unique by blast
  let ?f = "sql_state_set now st o1 (progress_with_error jsonb ref o1 t)"
  let ?t = "map (\<lambda>row. if state_where now ref o1 row then ?f row else row) t"
  have "filter (state_where now ref o1) t = filter (\<lambda>x. transition_allowed now (row_tenant x) o1) (filter (live_ref ref) t)"
    by (auto simp: state_where_iff intro!: filter_cong)
  then have hit: "filter (state_where now ref o1) t = [row]" using row a by simp
  then have w: "state_where now ref o1 row" by (metis filter_eq_ConsD)
  have sel: "sql_select_progress ref t = Some (tr_onboarding_progress row)"
    by (simp add: sql_select_progress_def select_rows_def row(1) first_row_def)
  have "tenant_view (row_tenant (?f row)) = tenant_view (transitioned now st o1 (row_tenant row))"
    unfolding row_tenant_sets
    by (rule view_same_progress)
      (simp_all add: progress_with_error_def transitioned_def sel or_else_def jsonb_error jsonb_scenarios split: option.split)
  moreover have "filter (live_ref ref) ?t = map (\<lambda>row. if state_where now ref o1 row then ?f row else row) (filter (live_ref ref) t)"
    by (rule live_update [where ref = ref]) (simp_all add: state_where_iff)
  then have "pg_seen ref ?t = Some (row_tenant (?f row))"
    using w by (simp add: pg_seen_def row(1) first_row_def)
  ultimately show "\<exists>r' t'. ts_setState (onboarding_ops now) ref st o1 t = (Ok r', t') \<and> pg_seen ref t' = Some r' \<and>
      tenant_view r' = tenant_view (transitioned now st o1 r)"
    using row hit by (simp add: pg_setState_run quiet_id Let_def rowToTenant_branded)
next
  fix t t' :: tenant_table and now ref ref' st o1 x
  assume "ref' \<noteq> ref" and run: "ts_setState (onboarding_ops now) ref st o1 t = (x, t')"
  then have "pg_seen ref' (map (\<lambda>row. if state_where now ref o1 row then sql_state_set now st o1 q row else row) t) = pg_seen ref' t" for q
    by (intro live_frame [of ref' _ _ ref]) (simp_all add: state_where_iff)
  then show "pg_seen ref' t' = pg_seen ref' t" using run
    by (auto simp: pg_setState_run quiet_id Let_def split: list.splits)
next
  fix t :: tenant_table and now ref sc b
  assume "table_valid t"
  then show "table_valid (snd (ts_recordOnboardingProgress (onboarding_ops now) ref sc b t))"
    by (auto simp: pg_recordOnboardingProgress_def update_rows_def quiet_id Let_def intro!: update_valid split: option.split)
next
  fix t :: tenant_table and now ref sc b
  show "pg_seen ref t = None \<Longrightarrow> ts_recordOnboardingProgress (onboarding_ops now) ref sc b t = (Err (unknown_tenant ref), t)"
    by (simp add: pg_recordOnboardingProgress_def sql_select_progress_def select_rows_def pg_seen_none first_row_def)
next
  fix t :: tenant_table and now ref sc b r
  assume "table_valid t" "pg_seen ref t = Some r"
  then obtain row where row: "filter (live_ref ref) t = [row]" "r = row_tenant row" using seen_unique by blast
  have w: "live_ref ref row" using row(1) by (metis filter_eq_ConsD)
  let ?p = "tr_onboarding_progress row"
  let ?m = "?p\<lparr>scenarios := mset_to sc (if b then ScenarioPassed else ScenarioFailed) (scenarios ?p)\<rparr>"
  let ?f = "\<lambda>r. r\<lparr>tr_onboarding_progress := jsonb ?m, tr_updated_at := now\<rparr>"
  have "tenant_view (row_tenant (?f row)) = tenant_view (with_progress now sc b (row_tenant row))"
    unfolding row_tenant_sets(3) [where sc = sc and b = b]
    by (rule view_same_progress) (simp_all add: with_progress_def jsonb_error jsonb_scenarios)
  moreover have "pg_seen ref (map (\<lambda>row. if live_ref ref row then ?f row else row) t) = Some (row_tenant (?f row))"
    using w by (simp add: pg_seen_def live_update [where ref = ref] row(1) first_row_def)
  ultimately show "\<exists>r' t'. ts_recordOnboardingProgress (onboarding_ops now) ref sc b t = (Ok (), t') \<and> pg_seen ref t' = Some r' \<and>
      tenant_view r' = tenant_view (with_progress now sc b r)"
    using row by (simp add: pg_recordOnboardingProgress_def sql_select_progress_def select_rows_def first_row_def quiet_id
        update_rows_def Let_def)
next
  fix t :: tenant_table and now ref x
  assume "table_valid t"
  then show "table_valid (snd (ts_setProductionExpiry (onboarding_ops now) ref x t))"
    by (auto simp: pg_setProductionExpiry_def update_rows_def intro!: update_valid)
next
  fix t :: tenant_table and now ref x
  show "pg_seen ref t = None \<Longrightarrow> ts_setProductionExpiry (onboarding_ops now) ref x t = (Err (unknown_tenant ref), t)"
    by (simp add: pg_setProductionExpiry_def pg_seen_none no_update)
next
  fix t :: tenant_table and now ref x r
  assume "table_valid t" "pg_seen ref t = Some r"
  then obtain row where row: "filter (live_ref ref) t = [row]" "r = row_tenant row" using seen_unique by blast
  have w: "live_ref ref row" using row(1) by (metis filter_eq_ConsD)
  let ?f = "\<lambda>r. r\<lparr>tr_production_certificate_expires_at := Some x, tr_updated_at := now\<rparr>"
  have "pg_seen ref (map (\<lambda>row. if live_ref ref row then ?f row else row) t) = Some (row_tenant (?f row))"
    using w by (simp add: pg_seen_def live_update [where ref = ref] row(1) first_row_def)
  then show "\<exists>t'. ts_setProductionExpiry (onboarding_ops now) ref x t = (Ok (), t') \<and>
      pg_seen ref t' = Some (r\<lparr>productionCertificateExpiresAt := Some x, updatedAt := now\<rparr>)"
    using row by (simp add: pg_setProductionExpiry_def update_rows_def row_tenant_sets)
qed

end
