(* ===== verification/PostgresClaims.thy ===== *)
theory PostgresClaims
  imports PostgresTenants
begin

text \<open>
  The onboarding lock in PostgreSQL under interference: the methods of several servers interleave
  statement by statement. The claim of a tenant is taken by one UPDATE, so it is exclusive; the
  progress of a tenant is read first and written later, so updates of it can be lost.
\<close>

section \<open>The claim\<close>

text \<open>State and deadline of the live row of a reference.\<close>

definition claim_of :: "string \<Rightarrow> tenant_table \<Rightarrow> (TenantState \<times> int option) list" where
  "claim_of ref t = map (\<lambda>row. (tr_state row, tr_claim_expires_at row)) (filter (live_ref ref) t)"

text \<open>The guard of a transition only reads the claim.\<close>

definition claim_allows :: "int \<Rightarrow> SetStateOptions \<Rightarrow> TenantState \<times> int option \<Rightarrow> bool" where
  "claim_allows now o1 cl = (case expectedFrom o1 of None \<Rightarrow> True
     | Some from \<Rightarrow> (fst cl = from \<and> from \<noteq> Onboarding) \<or>
         (fst cl = Onboarding \<and> (case snd cl of None \<Rightarrow> True | Some t \<Rightarrow> t \<le> now)))"

lemma state_where_claim: "state_where now ref o1 row =
    (live_ref ref row \<and> claim_allows now o1 (tr_state row, tr_claim_expires_at row))"
  by (simp add: state_where_def sql_claim_where_def claim_allows_def split: option.split)

lemma claim_of_hits: "map (\<lambda>row. (tr_state row, tr_claim_expires_at row)) (filter (state_where now ref o1) t) =
    filter (claim_allows now o1) (claim_of ref t)"
  by (induction t) (auto simp: claim_of_def state_where_claim)

lemma claim_of_set: "claim_of ref (map (\<lambda>row. if state_where now ref o1 row then sql_state_set now st o1 q row else row) t) =
    map (\<lambda>cl. if claim_allows now o1 cl then (st, opt_claimExpiresAt o1) else cl) (claim_of ref t)"
proof (induction t)
  case (Cons row t)
  have "tr_state (sql_state_set now st o1 q row) = st" "tr_claim_expires_at (sql_state_set now st o1 q row) = opt_claimExpiresAt o1"
    by (simp_all add: sql_state_set_def)
  then show ?case using Cons by (simp add: claim_of_def state_where_claim)
qed (simp add: claim_of_def)

text \<open>
  \<open>setState\<close> for any sessions in its gaps: with \<open>t1\<close> the table its UPDATE finds, it changes the
  claims that allow the transition, or finds none and fails.
\<close>

lemma setState_claim:
  assumes "table_valid t1" "t1 = (if opt_lastError o1 = None then t else others 0 t)"
  shows "case pg_setState jsonb others now ref st o1 t of
      (Inr r, t') \<Rightarrow> (\<exists>cl. claim_of ref t1 = [cl] \<and> claim_allows now o1 cl) \<and> claim_of ref t' = [(st, opt_claimExpiresAt o1)]
    | (Inl e, t') \<Rightarrow> (\<forall>cl \<in> set (claim_of ref t1). \<not> claim_allows now o1 cl) \<and> t' = others 1 t1"
proof (cases "filter (state_where now ref o1) t1")
  case Nil
  then have "filter (claim_allows now o1) (claim_of ref t1) = []" using claim_of_hits [of now ref o1 t1] by simp
  then show ?thesis using Nil assms(2) by (simp add: pg_setState_run Let_def filter_empty_conv)
next
  case (Cons row rest)
  then have "row \<in> set (filter (state_where now ref o1) t1)" by simp
  then have row: "row \<in> set t1" "state_where now ref o1 row" by simp_all
  then have "filter (live_ref ref) t1 \<noteq> []" by (auto simp: filter_empty_conv state_where_claim)
  then obtain row' where one: "filter (live_ref ref) t1 = [row']"
    using live_row_unique [of t1 ref] assms(1) by (auto simp: table_valid_def)
  have "row \<in> set (filter (live_ref ref) t1)" using row by (simp add: state_where_claim)
  then have "row = row'" using one by simp
  then have cl: "claim_of ref t1 = [(tr_state row, tr_claim_expires_at row)]" "claim_allows now o1 (tr_state row, tr_claim_expires_at row)"
    using one row(2) by (simp_all add: claim_of_def state_where_claim)
  have "branded_row row" using assms(1) row(1) by (simp add: table_valid_def list_all_iff)
  then show ?thesis using Cons cl assms(2) by (simp add: pg_setState_run Let_def rowToTenant_branded claim_of_set)
qed

lemma held_not_allowed: "expectedFrom o1 \<noteq> None \<Longrightarrow> now < x \<Longrightarrow> \<not> claim_allows now o1 (Onboarding, Some x)"
  by (auto simp: claim_allows_def)

text \<open>
  A claim excludes every guarded transition before its deadline, if the sessions in the gaps leave
  the claim alone.
\<close>

lemma claim_excludes_others:
  assumes "table_valid (if opt_lastError o2 = None then t else others 0 t)" "claim_of ref t = [(Onboarding, Some x)]" "now < x" "expectedFrom o2 \<noteq> None"
    and keep: "\<And>n t. claim_of ref (others n t) = claim_of ref t"
  shows "\<exists>e t'. pg_setState jsonb others now ref st o2 t = (Err e, t') \<and> claim_of ref t' = [(Onboarding, Some x)]"
proof -
  let ?t1 = "if opt_lastError o2 = None then t else others 0 t"
  have c: "claim_of ref ?t1 = [(Onboarding, Some x)]" using assms(2) keep by simp
  obtain res t' where run: "pg_setState jsonb others now ref st o2 t = (res, t')" by (metis surj_pair)
  show ?thesis
    using setState_claim [where ?t1.0 = ?t1 and ?o1.0 = o2 and others = others and t = t, OF assms(1) refl, where jsonb = jsonb and now = now and ref = ref and st = st] held_not_allowed [OF assms(4,3)] c keep
    by (cases res) (auto simp: run)
qed

section \<open>What leaves the claim alone\<close>

lemma claim_of_update:
  assumes "\<And>row. live_ref ref (f row) = live_ref ref row" "\<And>row. tr_state (f row) = tr_state row"
    "\<And>row. tr_claim_expires_at (f row) = tr_claim_expires_at row"
  shows "claim_of ref (map (\<lambda>row. if P row then f row else row) t) = claim_of ref t"
  using assms by (induction t) (simp_all add: claim_of_def)

text \<open>Whatever happens in its gap, a progress update changes no claim of its own accord.\<close>

lemma progress_keeps_claim:
  "claim_of ref' (snd (pg_recordOnboardingProgress jsonb others now ref sc b t)) \<in> {claim_of ref' t, claim_of ref' (others 0 t)}"
  by (auto simp: pg_recordOnboardingProgress_def Let_def update_rows_def intro!: claim_of_update split: option.split)

lemma patch_keeps_claim: "claim_of ref' (snd (pg_patch now ref p t)) = claim_of ref' t"
  by (auto simp: pg_patch_def update_rows_def sql_patch_set_def live_ref_def intro!: claim_of_update)

lemma expiry_keeps_claim: "claim_of ref' (snd (pg_setProductionExpiry now ref x t)) = claim_of ref' t"
  by (auto simp: pg_setProductionExpiry_def update_rows_def intro!: claim_of_update)

section \<open>A lost update\<close>

text \<open>
  Two servers that record the progress of one tenant at the same time: the one that read before the
  other wrote, and writes after it, takes the other's scenario back. The last error that another
  session's \<open>setState\<close> stored in between is lost in the same way.
\<close>

lemma select_progress_row:
  "sql_select_progress ref t = Some p \<Longrightarrow> \<exists>x \<in> set (filter (live_ref ref) t). p = tr_onboarding_progress x"
  by (cases "filter (live_ref ref) t") (auto simp: sql_select_progress_def select_rows_def first_row_def)

context jsonb_column
begin

lemma progress_lost:
  assumes "filter (live_ref ref) t = [row]" "sc' \<noteq> sc"
  shows "\<exists>t'. pg_recordOnboardingProgress jsonb (\<lambda>_ t. snd (pg_recordOnboardingProgress jsonb quiet now' ref sc' b' t)) now ref sc b t = (Ok (), t') \<and>
    (\<forall>p. sql_select_progress ref t' = Some p \<longrightarrow> mget (scenarios p) sc' = mget (scenarios (tr_onboarding_progress row)) sc')"
proof -
  let ?others = "\<lambda>_ t. snd (pg_recordOnboardingProgress jsonb quiet now' ref sc' b' t)"
  have sel: "sql_select_progress ref t = Some (tr_onboarding_progress row)"
    by (simp add: sql_select_progress_def select_rows_def assms(1) first_row_def)
  let ?f = "\<lambda>q t. map (\<lambda>row. if live_ref ref row then row\<lparr>tr_onboarding_progress := q, tr_updated_at := now\<rparr> else row) t"
  have none: "mget (scenarios p) sc' = mget (scenarios q) sc'" if "sql_select_progress ref (?f q u) = Some p" for p q u
  proof -
    have "filter (live_ref ref) (?f q u) = map (\<lambda>row. if live_ref ref row then row\<lparr>tr_onboarding_progress := q, tr_updated_at := now\<rparr> else row) (filter (live_ref ref) u)"
      by (rule live_update [where ref = ref]) simp_all
    then have "\<forall>x \<in> set (filter (live_ref ref) (?f q u)). tr_onboarding_progress x = q" by auto
    then show ?thesis using select_progress_row [OF that] by metis
  qed
  let ?m = "(tr_onboarding_progress row)\<lparr>scenarios := mset_to sc (if b then ScenarioPassed else ScenarioFailed)
      (scenarios (tr_onboarding_progress row))\<rparr>"
  have run: "pg_recordOnboardingProgress jsonb ?others now ref sc b t = (Ok (), ?f (jsonb ?m) (?others 0 t))"
    by (subst pg_recordOnboardingProgress_def) (simp add: sel Let_def update_rows_def)
  show ?thesis
  proof (intro exI conjI allI impI)
    show "pg_recordOnboardingProgress jsonb ?others now ref sc b t = (Ok (), ?f (jsonb ?m) (?others 0 t))" by (rule run)
  next
    fix p assume "sql_select_progress ref (?f (jsonb ?m) (?others 0 t)) = Some p"
    from none [OF this] show "mget (scenarios p) sc' = mget (scenarios (tr_onboarding_progress row)) sc'"
      using assms(2) by (simp add: jsonb_scenarios)
  qed
qed

end

end
