(* ===== verification/PostgresSecrets.thy ===== *)
theory PostgresSecrets
  imports PostgresRegistry Vault ApiKeys AuditLog
begin

text \<open>
  Credentials, API keys and audit rows over PostgreSQL, and the transaction around a unit of work
  (\<open>server/src/tenants/registry-postgres.ts\<close>, \<open>server/src/audit/log-postgres.ts\<close>). Rows of a query without a
  total order are delivered in an order the database chooses: \<open>scan\<close> rearranges them.
\<close>

section \<open>Tables\<close>

record pg_credential =
  cr_tenant_ref :: string
  cr_private_key :: CipherEnvelope
  cr_production_certificate :: CipherEnvelope
  cr_production_binary_security_token :: CipherEnvelope
  cr_production_api_secret :: CipherEnvelope
  cr_compliance_certificate :: "CipherEnvelope option"
  cr_compliance_binary_security_token :: "CipherEnvelope option"
  cr_compliance_api_secret :: "CipherEnvelope option"
  cr_created_at :: int
  cr_updated_at :: int

record pg_api_key =
  ak_token_id :: string
  ak_tenant_ref :: string
  ak_token_hash_b64 :: string
  ak_salt_b64 :: string
  ak_env :: string
  ak_last4 :: string
  ak_label :: string
  ak_created_at :: int
  ak_last_used_at :: "int option"
  ak_revoked_at :: "int option"

record pg_audit =
  au_id :: string
  au_at :: int
  au_actor_type :: string
  au_actor :: AuditActor
  au_tenant_ref :: "string option"
  au_action :: string
  au_target_id :: "string option"
  au_result_ok :: bool
  au_zatca_request_id :: "string option"
  au_request_id :: "string option"
  au_payload :: "jsval option"

record pg_registry =
  rg_tenants :: tenant_table
  rg_credentials :: "pg_credential list"
  rg_api_keys :: "pg_api_key list"
  rg_audit :: "pg_audit list"

definition registry_empty :: pg_registry where
  "registry_empty = \<lparr>rg_tenants = [], rg_credentials = [], rg_api_keys = [], rg_audit = []\<rparr>"

text \<open>What the driver throws; these methods do not look at it.\<close>

definition duplicate_key :: error where
  "duplicate_key = PlainError ''duplicate key value violates unique constraint'' None"

definition no_parent_row :: error where
  "no_parent_row = PlainError ''insert or update violates foreign key constraint'' None"

definition has_tenant :: "string \<Rightarrow> pg_registry \<Rightarrow> bool" where
  "has_tenant ref s = (\<exists>row \<in> set (rg_tenants s). tr_tenant_ref row = ref)"

section \<open>The vault\<close>

definition sealed_row :: "SecretCipher \<Rightarrow> (nat \<Rightarrow> string) \<Rightarrow> int \<Rightarrow> string \<Rightarrow> SignerMaterial \<Rightarrow> pg_credential" where
  "sealed_row c rnd now ref m =
     \<lparr>cr_tenant_ref = ref, cr_private_key = encrypt c (rnd 0) (m_privateKey m),
      cr_production_certificate = encrypt c (rnd 1) (m_productionCertificate m),
      cr_production_binary_security_token = encrypt c (rnd 2) (m_productionBinarySecurityToken m),
      cr_production_api_secret = encrypt c (rnd 3) (m_productionApiSecret m),
      cr_compliance_certificate = map_option (encrypt c (rnd 4)) (m_complianceCertificate m),
      cr_compliance_binary_security_token = map_option (encrypt c (rnd 5)) (m_complianceBinarySecurityToken m),
      cr_compliance_api_secret = map_option (encrypt c (rnd 6)) (m_complianceApiSecret m),
      cr_created_at = now, cr_updated_at = now\<rparr>"

text \<open>\<open>INSERT ... ON CONFLICT (tenant_ref) DO UPDATE\<close> keeps the time of creation.\<close>

definition sql_upsert_credentials :: "pg_credential \<Rightarrow> pg_credential list \<Rightarrow> pg_credential list" where
  "sql_upsert_credentials row rows =
     (if \<exists>q \<in> set rows. cr_tenant_ref q = cr_tenant_ref row
      then map (\<lambda>q. if cr_tenant_ref q = cr_tenant_ref row then row\<lparr>cr_created_at := cr_created_at q\<rparr> else q) rows
      else rows @ [row])"

definition pg_vault_put :: "SecretCipher \<Rightarrow> (nat \<Rightarrow> string) \<Rightarrow> int \<Rightarrow> string \<Rightarrow> SignerMaterial \<Rightarrow> (pg_registry, unit) eff" where
  "pg_vault_put c rnd now ref m s =
     (if \<not> has_tenant ref s then (Err no_parent_row, s)
      else (Ok (), s\<lparr>rg_credentials := sql_upsert_credentials (sealed_row c rnd now ref m) (rg_credentials s)\<rparr>))"

text \<open>The production columns are NOT NULL, so the check for NULL never fires. They are opened first.\<close>

definition open_row :: "SecretCipher \<Rightarrow> pg_credential \<Rightarrow> error + SignerMaterial" where
  "open_row c r =
     (case decrypt c (cr_private_key r) of Inl e \<Rightarrow> Inl e | Inr pk \<Rightarrow>
     (case decrypt c (cr_production_certificate r) of Inl e \<Rightarrow> Inl e | Inr pc \<Rightarrow>
     (case decrypt c (cr_production_binary_security_token r) of Inl e \<Rightarrow> Inl e | Inr pb \<Rightarrow>
     (case decrypt c (cr_production_api_secret r) of Inl e \<Rightarrow> Inl e | Inr ps \<Rightarrow>
     (case decryptOptional c (cr_compliance_certificate r) of Inl e \<Rightarrow> Inl e | Inr cc \<Rightarrow>
     (case decryptOptional c (cr_compliance_binary_security_token r) of Inl e \<Rightarrow> Inl e | Inr cb \<Rightarrow>
     (case decryptOptional c (cr_compliance_api_secret r) of Inl e \<Rightarrow> Inl e | Inr cs \<Rightarrow>
       Ok \<lparr>m_privateKey = pk, m_productionCertificate = pc, m_productionBinarySecurityToken = pb,
           m_productionApiSecret = ps, m_complianceCertificate = cc,
           m_complianceBinarySecurityToken = cb, m_complianceApiSecret = cs\<rparr>)))))))"

definition pg_vault_get :: "SecretCipher \<Rightarrow> string \<Rightarrow> (pg_registry, SignerMaterial option) eff" where
  "pg_vault_get c ref s = ((case find (\<lambda>r. cr_tenant_ref r = ref) (rg_credentials s) of None \<Rightarrow> Ok None
     | Some r \<Rightarrow> map_sum (vault_error ref) Some (open_row c r)), s)"

definition pg_vault_delete :: "string \<Rightarrow> (pg_registry, unit) eff" where
  "pg_vault_delete ref s = (Ok (), s\<lparr>rg_credentials := filter (\<lambda>r. cr_tenant_ref r \<noteq> ref) (rg_credentials s)\<rparr>)"

section \<open>The API keys\<close>

definition pg_key_issue :: "(string \<Rightarrow> string \<Rightarrow> string) \<Rightarrow> string \<Rightarrow> int \<Rightarrow> issue_random \<Rightarrow> string \<Rightarrow> string \<Rightarrow>
    (pg_registry, IssuedApiKey) eff" where
  "pg_key_issue scrypt env now rnd ref label s =
     (let tail = key_tail rnd; tok = token_of env ref tail;
          i = toLowerCase (base32Encode (random10 rnd));
          row = \<lparr>ak_token_id = i, ak_tenant_ref = ref,
             ak_token_hash_b64 = base64_encode (scrypt tok (random_salt rnd)),
             ak_salt_b64 = base64_encode (random_salt rnd), ak_env = env,
             ak_last4 = drop (length tail - 4) tail, ak_label = label, ak_created_at = now,
             ak_last_used_at = None, ak_revoked_at = None\<rparr> in
      if \<exists>q \<in> set (rg_api_keys s). ak_token_id q = i then (Err duplicate_key, s)
      else if \<not> has_tenant ref s then (Err no_parent_row, s)
      else (Ok \<lparr>token = tok, tokenId = i\<rparr>, s\<lparr>rg_api_keys := rg_api_keys s @ [row]\<rparr>))"

definition pg_key_matches :: "(string \<Rightarrow> string \<Rightarrow> string) \<Rightarrow> string \<Rightarrow> pg_api_key \<Rightarrow> bool" where
  "pg_key_matches scrypt tok row =
     (scrypt tok (base64_decode (ak_salt_b64 row)) = base64_decode (ak_token_hash_b64 row))"

definition LAST_USED_DEBOUNCE_MS :: int where
  "LAST_USED_DEBOUNCE_MS = 60000"

text \<open>
  The time of the last write per key is in the process, not in the database. The state is both.
  \<open>others\<close> acts between the SELECT and the UPDATE.
\<close>

definition pg_key_resolve :: "(string \<Rightarrow> string \<Rightarrow> string) \<Rightarrow> string \<Rightarrow> (pg_api_key list \<Rightarrow> pg_api_key list) \<Rightarrow>
    (pg_registry \<Rightarrow> pg_registry) \<Rightarrow> int \<Rightarrow> string \<Rightarrow> (pg_registry \<times> (string, int) jsmap, ResolvedApiKey option) eff" where
  "pg_key_resolve scrypt env scan others now tok s = (case parseToken tok of
       None \<Rightarrow> (Ok None, s)
     | Some (e, ref, tail) \<Rightarrow> if e \<noteq> env then (Ok None, s)
         else (let rows = scan (filter (\<lambda>r. ak_tenant_ref r = ref \<and> ak_revoked_at r = None) (rg_api_keys (fst s))) in
           case find (pg_key_matches scrypt tok) rows of
             None \<Rightarrow> (Ok None, s)
           | Some row \<Rightarrow> (Ok (Some \<lparr>resolved_tenantRef = ak_tenant_ref row, resolved_tokenId = ak_token_id row\<rparr>),
               if LAST_USED_DEBOUNCE_MS \<le> now - or_else (mget (snd s) (ak_token_id row)) 0
               then (let db = others (fst s) in
                  (db\<lparr>rg_api_keys := map (\<lambda>r. if ak_token_id r = ak_token_id row then r\<lparr>ak_last_used_at := Some now\<rparr> else r)
                      (rg_api_keys db)\<rparr>, mset_to (ak_token_id row) now (snd s)))
               else s)))"

definition pg_key_revoke :: "int \<Rightarrow> string \<Rightarrow> string \<Rightarrow> (pg_registry, bool) eff" where
  "pg_key_revoke now ref i s =
     (let hit = (\<lambda>r. ak_token_id r = i \<and> ak_tenant_ref r = ref \<and> ak_revoked_at r = None) in
      (Ok (0 < length (filter hit (rg_api_keys s))),
       s\<lparr>rg_api_keys := map (\<lambda>r. if hit r then r\<lparr>ak_revoked_at := Some now\<rparr> else r) (rg_api_keys s)\<rparr>))"

definition pg_list_entry :: "pg_api_key \<Rightarrow> ApiKeyListEntry" where
  "pg_list_entry r = \<lparr>entry_tokenId = ak_token_id r, entry_tenantRef = ak_tenant_ref r,
     entry_label = ak_label r, entry_last4 = ak_last4 r, entry_createdAt = ak_created_at r,
     entry_lastUsedAt = ak_last_used_at r, entry_revokedAt = ak_revoked_at r\<rparr>"

definition pg_key_list :: "(pg_api_key list \<Rightarrow> pg_api_key list) \<Rightarrow> string \<Rightarrow> (pg_registry, ApiKeyListEntry list) eff" where
  "pg_key_list scan ref s = (Ok (map pg_list_entry (js_sort (\<lambda>a b. ak_created_at a - ak_created_at b)
     (scan (filter (\<lambda>r. ak_tenant_ref r = ref) (rg_api_keys s))))), s)"

definition pg_key_revokeAllForTenant :: "int \<Rightarrow> string \<Rightarrow> (pg_registry, unit) eff" where
  "pg_key_revokeAllForTenant now ref s = (Ok (), s\<lparr>rg_api_keys := map (\<lambda>r.
     if ak_tenant_ref r = ref \<and> ak_revoked_at r = None then r\<lparr>ak_revoked_at := Some now\<rparr> else r) (rg_api_keys s)\<rparr>)"

section \<open>The audit log\<close>

definition rowToEntry :: "pg_audit \<Rightarrow> AuditEntry" where
  "rowToEntry row = \<lparr>e_id = au_id row, e_at = au_at row,
     e_input = \<lparr>a_actor = au_actor row, a_tenantRef = au_tenant_ref row, a_action = au_action row,
       a_targetId = au_target_id row, a_result_ok = au_result_ok row,
       a_zatcaRequestId = au_zatca_request_id row, a_requestId = au_request_id row,
       a_payload = au_payload row\<rparr>\<rparr>"

text \<open>The entry is built from the input, not read back; \<open>jsonb\<close> is what the payload column gives back.\<close>

definition pg_audit_write :: "(jsval \<Rightarrow> jsval) \<Rightarrow> string \<Rightarrow> int \<Rightarrow> AuditEntryInput \<Rightarrow> (pg_registry, AuditEntry) eff" where
  "pg_audit_write jsonb uuid now i s =
     (let capped = capAuditPayload MAX_AUDIT_PAYLOAD_BYTES (a_payload i);
          row = \<lparr>au_id = uuid, au_at = now, au_actor_type = actor_type (a_actor i), au_actor = a_actor i,
             au_tenant_ref = a_tenantRef i, au_action = a_action i, au_target_id = a_targetId i,
             au_result_ok = a_result_ok i, au_zatca_request_id = a_zatcaRequestId i,
             au_request_id = a_requestId i, au_payload = map_option jsonb capped\<rparr> in
      if \<exists>q \<in> set (rg_audit s). au_id q = uuid then (Err duplicate_key, s)
      else (Ok \<lparr>e_id = uuid, e_at = now, e_input = i\<lparr>a_payload := capped\<rparr>\<rparr>,
        s\<lparr>rg_audit := rg_audit s @ [row]\<rparr>))"

definition sql_audit_where :: "AuditListFilter \<Rightarrow> pg_audit \<Rightarrow> bool" where
  "sql_audit_where f row =
     ((case f_tenantRef f of None \<Rightarrow> True | Some t \<Rightarrow> au_tenant_ref row = Some t) \<and>
      (case f_action f of None \<Rightarrow> True | Some a \<Rightarrow> au_action row = a) \<and>
      (case f_actorType f of None \<Rightarrow> True | Some a \<Rightarrow> au_actor_type row = a) \<and>
      (case f_result_ok f of None \<Rightarrow> True | Some b \<Rightarrow> au_result_ok row = b) \<and>
      (case f_since f of None \<Rightarrow> True | Some t \<Rightarrow> t \<le> au_at row) \<and>
      (case f_until f of None \<Rightarrow> True | Some t \<Rightarrow> au_at row \<le> t))"

definition pg_audit_list :: "(pg_audit list \<Rightarrow> pg_audit list) \<Rightarrow> AuditListFilter \<Rightarrow> (pg_registry, AuditEntry list) eff" where
  "pg_audit_list scan f s = (Ok (map rowToEntry (take (case f_limit f of None \<Rightarrow> 100 | Some n \<Rightarrow> n)
     (js_sort (\<lambda>a b. au_at b - au_at a) (scan (filter (sql_audit_where f) (rg_audit s)))))), s)"

section \<open>Transactions\<close>

text \<open>
  The pool counts the clients that are checked out. Connecting, BEGIN and COMMIT may throw; a COMMIT
  that throws may have been applied. A throw of ROLLBACK is swallowed; the server rolls back a
  transaction whose connection is given up.
\<close>

datatype commit_outcome = Committed_tx | Commit_failed error bool

record tx_env =
  tx_connect :: "error + unit"
  tx_begin :: "error + unit"
  tx_commit :: commit_outcome

record 'd pg_pool =
  pool_out :: nat
  pool_db :: 'd

definition tx_body :: "tx_env \<Rightarrow> ('d, 'a) eff \<Rightarrow> ('d pg_pool, 'a) eff" where
  "tx_body env fn p = (case tx_begin env of Inl e \<Rightarrow> (Err e, p)
     | Inr _ \<Rightarrow> (case fn (pool_db p) of
         (Inl e, _) \<Rightarrow> (Err e, p)
       | (Inr a, db) \<Rightarrow> (case tx_commit env of
           Committed_tx \<Rightarrow> (Ok a, p\<lparr>pool_db := db\<rparr>)
         | Commit_failed e applied \<Rightarrow> (Err e, if applied then p\<lparr>pool_db := db\<rparr> else p))))"

definition withPgTransaction :: "tx_env \<Rightarrow> ('d, 'a) eff \<Rightarrow> ('d pg_pool, 'a) eff" where
  "withPgTransaction env fn =
     andThen (of_result (tx_connect env)) (\<lambda>_.
     andThen (\<lambda>p. (Ok (), p\<lparr>pool_out := pool_out p + 1\<rparr>)) (\<lambda>_.
     finally_do (tx_body env fn) (\<lambda>p. (Ok (), p\<lparr>pool_out := pool_out p - 1\<rparr>))))"

text \<open>The stores that a unit of work gets: on the transaction's client, with an empty map of last uses.\<close>

record pg_stores =
  st_tenants :: "tenant_table FullTenantStore"
  st_vault_put :: "string \<Rightarrow> SignerMaterial \<Rightarrow> (pg_registry, unit) eff"
  st_vault_get :: "string \<Rightarrow> (pg_registry, SignerMaterial option) eff"
  st_vault_delete :: "string \<Rightarrow> (pg_registry, unit) eff"
  st_issue :: "issue_random \<Rightarrow> string \<Rightarrow> string \<Rightarrow> (pg_registry, IssuedApiKey) eff"
  st_resolve :: "string \<Rightarrow> (pg_registry \<times> (string, int) jsmap, ResolvedApiKey option) eff"
  st_revoke :: "string \<Rightarrow> string \<Rightarrow> (pg_registry, bool) eff"
  st_list :: "string \<Rightarrow> (pg_registry, ApiKeyListEntry list) eff"
  st_revokeAllForTenant :: "string \<Rightarrow> (pg_registry, unit) eff"

record registry_deps =
  rd_jsonb :: "OnboardingProgress \<Rightarrow> OnboardingProgress"
  rd_collate :: "string \<Rightarrow> string \<Rightarrow> int"
  rd_scan :: "pg_api_key list \<Rightarrow> pg_api_key list"
  rd_cipher :: SecretCipher
  rd_random :: "nat \<Rightarrow> string"
  rd_scrypt :: "string \<Rightarrow> string \<Rightarrow> string"
  rd_env :: "string option"
  rd_now :: int

definition createPostgresRegistry :: "registry_deps \<Rightarrow> pg_stores" where
  "createPostgresRegistry d = (let env = or_else (rd_env d) ''live''; now = rd_now d in
     \<lparr>st_tenants = createPostgresTenantStore (rd_jsonb d) (rd_collate d) quiet now,
      st_vault_put = pg_vault_put (rd_cipher d) (rd_random d) now, st_vault_get = pg_vault_get (rd_cipher d),
      st_vault_delete = pg_vault_delete, st_issue = pg_key_issue (rd_scrypt d) env now,
      st_resolve = pg_key_resolve (rd_scrypt d) env (rd_scan d) (\<lambda>s. s) now, st_revoke = pg_key_revoke now,
      st_list = pg_key_list (rd_scan d), st_revokeAllForTenant = pg_key_revokeAllForTenant now\<rparr>)"

definition createPostgresWithUnitOfWork :: "tx_env \<Rightarrow> registry_deps \<Rightarrow>
    (pg_stores \<Rightarrow> (pg_registry \<times> (string, int) jsmap, 'a) eff) \<Rightarrow> (pg_registry pg_pool, 'a) eff" where
  "createPostgresWithUnitOfWork env d fn = withPgTransaction env
     (\<lambda>db. case fn (createPostgresRegistry d) (db, []) of (r, (db', _)) \<Rightarrow> (r, db'))"

section \<open>The vault round trip\<close>

lemma upsert_find:
  "\<exists>q. find (\<lambda>r. cr_tenant_ref r = cr_tenant_ref row) (sql_upsert_credentials row rows) = Some q \<and>
    q\<lparr>cr_created_at := cr_created_at row\<rparr> = row"
proof -
  have hit: "\<exists>q. find (\<lambda>r. cr_tenant_ref r = cr_tenant_ref row)
      (map (\<lambda>q. if cr_tenant_ref q = cr_tenant_ref row then row\<lparr>cr_created_at := cr_created_at q\<rparr> else q) rows) = Some q \<and>
    q\<lparr>cr_created_at := cr_created_at row\<rparr> = row" if "\<exists>q \<in> set rows. cr_tenant_ref q = cr_tenant_ref row"
    using that by (induction rows) auto
  have miss: "find (\<lambda>r. cr_tenant_ref r = cr_tenant_ref row) (rows @ [row]) = Some row"
    if "\<not> (\<exists>q \<in> set rows. cr_tenant_ref q = cr_tenant_ref row)"
    using that by (induction rows) auto
  show ?thesis using hit miss by (auto simp: sql_upsert_credentials_def)
qed

lemma upsert_frame: "ref \<noteq> cr_tenant_ref row \<Longrightarrow>
    find (\<lambda>r. cr_tenant_ref r = ref) (sql_upsert_credentials row rows) = find (\<lambda>r. cr_tenant_ref r = ref) rows"
proof -
  assume ne: "ref \<noteq> cr_tenant_ref row"
  have "find (\<lambda>r. cr_tenant_ref r = ref)
      (map (\<lambda>q. if cr_tenant_ref q = cr_tenant_ref row then row\<lparr>cr_created_at := cr_created_at q\<rparr> else q) rows) =
    find (\<lambda>r. cr_tenant_ref r = ref) rows"
    using ne by (induction rows) auto
  moreover have "find (\<lambda>r. cr_tenant_ref r = ref) (rows @ [row]) = find (\<lambda>r. cr_tenant_ref r = ref) rows"
    using ne by (induction rows) auto
  ultimately show ?thesis by (simp add: sql_upsert_credentials_def)
qed

lemma open_row_created: "open_row c (q\<lparr>cr_created_at := t\<rparr>) = open_row c q"
  by (simp add: open_row_def split: sum.split)

context cipher_pair
begin

lemma open_sealed: "\<forall>i. good_random (rnd i) \<Longrightarrow> open_row reader ((sealed_row writer rnd now ref m)\<lparr>cr_created_at := t\<rparr>) = Ok m"
  by (simp add: open_row_def sealed_row_def decryptOptional_encrypt decrypt_encrypt)

lemma pg_vault_roundtrip:
  assumes "\<forall>i. good_random (rnd i)" "pg_vault_put writer rnd now ref m s = (Ok (), s')"
  shows "pg_vault_get reader ref s' = (Ok (Some m), s')"
proof -
  let ?row = "sealed_row writer rnd now ref m"
  have ref: "cr_tenant_ref ?row = ref" by (simp add: sealed_row_def)
  have s': "s' = s\<lparr>rg_credentials := sql_upsert_credentials ?row (rg_credentials s)\<rparr>"
    using assms(2) by (simp add: pg_vault_put_def split: if_splits)
  obtain q where q: "find (\<lambda>r. cr_tenant_ref r = ref) (sql_upsert_credentials ?row (rg_credentials s)) = Some q"
      "q\<lparr>cr_created_at := cr_created_at ?row\<rparr> = ?row"
    using upsert_find [of ?row "rg_credentials s"] ref by auto
  have "open_row reader q = open_row reader (q\<lparr>cr_created_at := cr_created_at ?row\<rparr>)" by (simp only: open_row_created)
  also have "\<dots> = open_row reader (?row\<lparr>cr_created_at := cr_created_at ?row\<rparr>)" unfolding q(2) by simp
  also have "\<dots> = Ok m" by (rule open_sealed [OF assms(1)])
  finally have "open_row reader q = Ok m" .
  then show ?thesis using q(1) by (simp add: pg_vault_get_def s')
qed

end

lemma pg_vault_frame: "ref' \<noteq> ref \<Longrightarrow> fst (pg_vault_get c ref' (snd (pg_vault_put w rnd now ref m s))) = fst (pg_vault_get c ref' s)"
  using upsert_frame [of ref' "sealed_row w rnd now ref m" "rg_credentials s"]
  by (simp add: pg_vault_get_def pg_vault_put_def sealed_row_def)

section \<open>API keys\<close>

text \<open>Resolving answers with a live key of the token's tenant that the token's digest fits.\<close>

lemma pg_resolve_some:
  assumes "pg_key_resolve scrypt env scan others now tok (s, m) = (Ok (Some k), s')" "\<And>xs. set (scan xs) = set xs"
  shows "\<exists>row \<in> set (rg_api_keys s). ak_revoked_at row = None \<and> pg_key_matches scrypt tok row \<and>
    resolved_tenantRef k = ak_tenant_ref row \<and> resolved_tokenId k = ak_token_id row \<and>
    (\<exists>tail. parseToken tok = Some (env, ak_tenant_ref row, tail))"
proof -
  obtain ref tail where p: "parseToken tok = Some (env, ref, tail)"
    using assms(1) by (auto simp: pg_key_resolve_def split: option.splits if_splits)
  let ?rows = "scan (filter (\<lambda>r. ak_tenant_ref r = ref \<and> ak_revoked_at r = None) (rg_api_keys s))"
  obtain row where row: "find (pg_key_matches scrypt tok) ?rows = Some row"
      "k = \<lparr>resolved_tenantRef = ak_tenant_ref row, resolved_tokenId = ak_token_id row\<rparr>"
    using assms(1) p by (auto simp: pg_key_resolve_def Let_def split: option.splits)
  from row(1) have "row \<in> set ?rows" "pg_key_matches scrypt tok row" by (auto simp: find_Some_iff in_set_conv_nth)
  then show ?thesis using row(2) p assms(2) by auto
qed

lemma pg_issued:
  assumes iss: "pg_key_issue scrypt env now rnd ref label s = (Ok k, s')"
    and ok: "env = ''live'' \<or> env = ''test''" "ref \<noteq> []" "list_all is_ref_char ref" "length (random20 rnd) = 20"
    and fresh: "\<forall>r \<in> set (rg_api_keys s). \<not> pg_key_matches scrypt (token k) r"
    and scan: "\<And>xs. set (scan xs) = set xs"
  shows "fst (pg_key_resolve scrypt env scan others t (token k) (s', m)) =
      Ok (Some \<lparr>resolved_tenantRef = ref, resolved_tokenId = tokenId k\<rparr>)"
    "fst (pg_key_revoke t ref (tokenId k) s') = Ok True"
    "fst (pg_key_resolve scrypt env scan others t' (token k) (snd (pg_key_revoke t ref (tokenId k) s'), m)) = Ok None"
    "fst (pg_key_resolve scrypt env scan others t' (token k) (snd (pg_key_revokeAllForTenant t ref s'), m)) = Ok None"
proof -
  obtain row where s': "rg_api_keys s' = rg_api_keys s @ [row]" and row: "ak_tenant_ref row = ref" "ak_revoked_at row = None"
      "ak_token_id row = tokenId k" "pg_key_matches scrypt (token k) row" "token k = token_of env ref (key_tail rnd)"
    and new: "\<forall>r \<in> set (rg_api_keys s). ak_token_id r \<noteq> tokenId k"
    using iss by (auto simp: pg_key_issue_def Let_def pg_key_matches_def base64_roundtrip split: if_splits)
  have parse: "parseToken (token k) = Some (env, ref, key_tail rnd)"
    unfolding row(5) by (rule parseToken_token [OF ok(1-3) key_tail_ok [OF ok(4)]])
  have "find (pg_key_matches scrypt (token k)) (scan (filter (\<lambda>r. ak_tenant_ref r = ref \<and> ak_revoked_at r = None) (rg_api_keys s')))
      = Some row"
    by (rule find_only) (use scan row fresh in \<open>auto simp: s'\<close>)
  then show "fst (pg_key_resolve scrypt env scan others t (token k) (s', m)) =
      Ok (Some \<lparr>resolved_tenantRef = ref, resolved_tokenId = tokenId k\<rparr>)"
    using row(1-3) by (simp add: pg_key_resolve_def parse Let_def)
  show "fst (pg_key_revoke t ref (tokenId k) s') = Ok True"
    using row by (simp add: pg_key_revoke_def s' Let_def)
  have gone: "fst (pg_key_resolve scrypt env scan others t' (token k) (u, m)) = Ok None"
    if "\<forall>r \<in> set (rg_api_keys u). ak_tenant_ref r = ref \<longrightarrow> ak_revoked_at r = None \<longrightarrow> \<not> pg_key_matches scrypt (token k) r" for u
  proof -
    have "find (pg_key_matches scrypt (token k)) (scan (filter (\<lambda>r. ak_tenant_ref r = ref \<and> ak_revoked_at r = None) (rg_api_keys u))) = None"
      by (rule find_nothing) (use that scan in auto)
    then show ?thesis by (simp add: pg_key_resolve_def parse Let_def)
  qed
  show "fst (pg_key_resolve scrypt env scan others t' (token k) (snd (pg_key_revoke t ref (tokenId k) s'), m)) = Ok None"
    by (rule gone) (use fresh new row in \<open>auto simp: pg_key_revoke_def s' Let_def\<close>)
  show "fst (pg_key_resolve scrypt env scan others t' (token k) (snd (pg_key_revokeAllForTenant t ref s'), m)) = Ok None"
    by (rule gone) (use fresh row in \<open>auto simp: pg_key_revokeAllForTenant_def s'\<close>)
qed

text \<open>The time of last use is written at most once a minute per key and process.\<close>

lemma resolve_writes:
  assumes "pg_key_resolve scrypt env scan others now tok (s, m) = (Ok (Some k), (s', m'))"
  shows "if now < or_else (mget m (resolved_tokenId k)) 0 + 60000 then s' = s \<and> m' = m
    else mget m' (resolved_tokenId k) = Some now"
  using assms
  by (auto simp: pg_key_resolve_def LAST_USED_DEBOUNCE_MS_def Let_def split: option.splits if_splits)

section \<open>The audit log\<close>

lemma pg_audit_sound:
  assumes scan: "\<And>xs. mset (scan xs) = mset xs"
  shows "\<exists>rows. pg_audit_list scan f s = (Ok (map rowToEntry rows), s) \<and> mset rows \<subseteq># mset (filter (sql_audit_where f) (rg_audit s)) \<and>
    sorted_wrt (\<lambda>a b. au_at b \<le> au_at a) rows \<and> length rows \<le> or_else (f_limit f) 100"
proof -
  let ?n = "case f_limit f of None \<Rightarrow> 100 | Some n \<Rightarrow> n"
  let ?sorted = "js_sort (\<lambda>a b. au_at b - au_at a) (scan (filter (sql_audit_where f) (rg_audit s)))"
  have "(\<lambda>a b. au_at b - au_at a) = (\<lambda>a b :: pg_audit. - au_at a - (- au_at b))" by (simp add: fun_eq_iff)
  then have "sorted_wrt (\<lambda>a b. - au_at a \<le> - au_at b) ?sorted"
    using sorted_js_sort [of "\<lambda>a. - au_at a"] by simp
  then have "sorted_wrt (\<lambda>a b. au_at b \<le> au_at a) (take ?n ?sorted)" by (simp add: sorted_wrt_take)
  moreover have "mset (take ?n ?sorted) \<subseteq># mset (filter (sql_audit_where f) (rg_audit s))"
  proof -
    have "mset ?sorted = mset (take ?n ?sorted) + mset (drop ?n ?sorted)"
      by (metis append_take_drop_id mset_append)
    then show ?thesis using scan by (simp add: mset_js_sort)
  qed
  ultimately show ?thesis by (auto simp: pg_audit_list_def or_else_def split: option.split)
qed

section \<open>Transactions: all or nothing\<close>

lemma tx_outcome:
  "case withPgTransaction env fn p of
     (Inr a, p') \<Rightarrow> fst (fn (pool_db p)) = Ok a \<and> p' = p\<lparr>pool_db := snd (fn (pool_db p))\<rparr>
   | (Inl e, p') \<Rightarrow> p' = p \<or> (tx_commit env = Commit_failed e True \<and> p' = p\<lparr>pool_db := snd (fn (pool_db p))\<rparr>)"
  by (auto simp: withPgTransaction_def tx_body_def andThen_run finally_do_run
      split: sum.splits prod.splits commit_outcome.splits)

end
