(* ===== verification/MongoRegistry.thy ===== *)
theory MongoRegistry
  imports PostgresSecrets PostgresTenants
begin

text \<open>
  The registry over MongoDB (\<open>server/src/tenants/registry-mongo.ts\<close>, \<open>server/src/audit/log-mongo.ts\<close>). A command on one
  document is atomic; \<open>others\<close> is what other sessions do in the \<open>n\<close>-th gap between the commands of
  one method. Mongoose refuses empty required strings, and leaves empty objects out when it stores a
  progress: \<open>bson\<close> is what it stores, \<open>None\<close> for no field. An absent \<open>scenarios\<close> object is the empty one.
\<close>

section \<open>The tenants\<close>

record mg_tenant =
  td_id :: string
  td_vatNumber :: string
  td_egsUuid :: string
  td_vatName :: string
  td_crn :: string
  td_branchName :: string
  td_branchIndustry :: "string option"
  td_location :: TenantLocation
  td_environment :: Environment
  td_state :: TenantState
  td_onboardingProgress :: "OnboardingProgress option"
  td_productionCertificateExpiresAt :: "int option"
  td_callbackUrl :: "string option"
  td_claimedBy :: "string option"
  td_claimExpiresAt :: "int option"
  td_label :: "string option"
  td_createdAt :: int
  td_updatedAt :: int
  td_deletedAt :: "int option"

type_synonym tenant_docs = "mg_tenant list"

definition empty_progress :: OnboardingProgress where
  "empty_progress = \<lparr>scenarios = [], lastError = None\<rparr>"

definition docToTenant :: "mg_tenant \<Rightarrow> error + TenantRecord" where
  "docToTenant d =
     (case asVATNumber (td_vatNumber d) of Inl e \<Rightarrow> Inl e | Inr vat \<Rightarrow>
     (case asEGSUuid (td_egsUuid d) of Inl e \<Rightarrow> Inl e | Inr egs \<Rightarrow>
     (case asCommercialRegistrationNumber (td_crn d) of Inl e \<Rightarrow> Inl e | Inr c \<Rightarrow>
       Ok \<lparr>tenantRef = td_id d, t_vatNumber = vat, t_egsUuid = egs, t_vatName = td_vatName d,
           t_crn = c, t_branchName = td_branchName d, t_branchIndustry = td_branchIndustry d,
           t_location = td_location d, t_environment = td_environment d, t_state = td_state d,
           onboardingProgress = or_else (td_onboardingProgress d) empty_progress,
           productionCertificateExpiresAt = td_productionCertificateExpiresAt d,
           callbackUrl = td_callbackUrl d, claimedBy = td_claimedBy d,
           claimExpiresAt = td_claimExpiresAt d, t_label = td_label d,
           createdAt = td_createdAt d, updatedAt = td_updatedAt d, deletedAt = td_deletedAt d\<rparr>)))"

fun docsToTenants :: "mg_tenant list \<Rightarrow> error + TenantRecord list" where
  "docsToTenants [] = Ok []"
| "docsToTenants (d # ds) = (case docToTenant d of Inl e \<Rightarrow> Inl e
     | Inr r \<Rightarrow> (case docsToTenants ds of Inl e \<Rightarrow> Inl e | Inr rs \<Rightarrow> Ok (r # rs)))"

text \<open>\<open>{ _id: tenantRef, deletedAt: { $exists: false } }\<close>\<close>

definition live_id :: "string \<Rightarrow> mg_tenant \<Rightarrow> bool" where
  "live_id ref d = (td_id d = ref \<and> td_deletedAt d = None)"

definition new_tenant_doc :: "int \<Rightarrow> string \<Rightarrow> CreateTenantInput \<Rightarrow> mg_tenant" where
  "new_tenant_doc now ref i =
     \<lparr>td_id = ref, td_vatNumber = new_vatNumber i, td_egsUuid = new_egsUuid i, td_vatName = new_vatName i,
      td_crn = new_crn i, td_branchName = new_branchName i, td_branchIndustry = new_branchIndustry i,
      td_location = new_location i, td_environment = new_environment i, td_state = Created,
      td_onboardingProgress = Some empty_progress, td_productionCertificateExpiresAt = None,
      td_callbackUrl = new_callbackUrl i, td_claimedBy = None, td_claimExpiresAt = None, td_label = new_label i,
      td_createdAt = now, td_updatedAt = now, td_deletedAt = None\<rparr>"

definition tenant_filled :: "mg_tenant \<Rightarrow> bool" where
  "tenant_filled d = list_all (\<lambda>s. s \<noteq> []) [td_id d, td_vatNumber d, td_egsUuid d, td_vatName d, td_crn d, td_branchName d]"

definition validation_failed :: error where
  "validation_failed = PlainError ''validation failed'' None"

definition duplicate_id :: error where
  "duplicate_id = PlainError ''E11000 duplicate key error collection'' None"

text \<open>The value that is returned is made from the document in memory, not from what was stored.\<close>

definition mongo_create :: "(OnboardingProgress \<Rightarrow> OnboardingProgress option) \<Rightarrow> int \<Rightarrow> 8 word list \<Rightarrow> CreateTenantInput \<Rightarrow>
    (tenant_docs, TenantRecord) eff" where
  "mongo_create bson now rnd i db =
     (let ref = (case new_tenantRef i of None \<Rightarrow> generateTenantRef rnd | Some x \<Rightarrow> x); d = new_tenant_doc now ref i in
      if \<not> tenant_filled d then (Err validation_failed, db)
      else if \<exists>q \<in> set db. td_id q = ref
      then (Err (ZatcaRegistryError (''Tenant '' @ quoted ref @ '' already exists.'') (Some Conflict)), db)
      else (docToTenant d, db @ [d\<lparr>td_onboardingProgress := bson empty_progress\<rparr>]))"

definition mongo_get :: "string \<Rightarrow> (tenant_docs, TenantRecord option) eff" where
  "mongo_get ref db = ((case first_row (select_rows (live_id ref) db) of None \<Rightarrow> Ok None
     | Some d \<Rightarrow> map_sum id Some (docToTenant d)), db)"

definition mongo_list_filter :: "int \<Rightarrow> TenantListFilter \<Rightarrow> mg_tenant \<Rightarrow> bool" where
  "mongo_list_filter now f d =
     ((if includeDeleted f then True else td_deletedAt d = None) \<and>
      (case filter_state f of None \<Rightarrow> True | Some s \<Rightarrow> td_state d = s) \<and>
      (case filter_environment f of None \<Rightarrow> True | Some e \<Rightarrow> td_environment d = e) \<and>
      (case expiringWithinDays f of None \<Rightarrow> True
       | Some n \<Rightarrow> (case td_productionCertificateExpiresAt d of None \<Rightarrow> False
           | Some x \<Rightarrow> x \<le> now + n * 86400000)))"

definition mongo_list_order :: "(string \<Rightarrow> string \<Rightarrow> int) \<Rightarrow> mg_tenant \<Rightarrow> mg_tenant \<Rightarrow> int" where
  "mongo_list_order collate a b = (let dt = td_createdAt a - td_createdAt b in
     if dt \<noteq> 0 then dt else collate (td_id a) (td_id b))"

definition mongo_find_tenants :: "(string \<Rightarrow> string \<Rightarrow> int) \<Rightarrow> int \<Rightarrow> TenantListFilter \<Rightarrow> tenant_docs \<Rightarrow> tenant_docs" where
  "mongo_find_tenants collate now f db = js_sort (mongo_list_order collate) (select_rows (mongo_list_filter now f) db)"

definition mongo_list :: "(string \<Rightarrow> string \<Rightarrow> int) \<Rightarrow> int \<Rightarrow> TenantListFilter \<Rightarrow> (tenant_docs, TenantRecord list) eff" where
  "mongo_list collate now f db = (docsToTenants (mongo_find_tenants collate now f db), db)"

definition mongo_patch_set :: "int \<Rightarrow> PatchableTenantFields \<Rightarrow> mg_tenant \<Rightarrow> mg_tenant" where
  "mongo_patch_set now p d = d
     \<lparr>td_updatedAt := now, td_vatName := or_else (patch_vatName p) (td_vatName d),
      td_branchName := or_else (patch_branchName p) (td_branchName d),
      td_branchIndustry := or_keep (patch_branchIndustry p) (td_branchIndustry d),
      td_location := or_else (patch_location p) (td_location d),
      td_label := or_keep (patch_label p) (td_label d),
      td_callbackUrl := or_keep (patch_callbackUrl p) (td_callbackUrl d)\<rparr>"

definition mongo_patch :: "int \<Rightarrow> string \<Rightarrow> PatchableTenantFields \<Rightarrow> (tenant_docs, TenantRecord) eff" where
  "mongo_patch now ref p db = (case update_rows (live_id ref) (mongo_patch_set now p) db of (ds, db') \<Rightarrow>
     ((case first_row ds of None \<Rightarrow> Err (unknown_tenant ref) | Some d \<Rightarrow> docToTenant d), db'))"

text \<open>The filter of a guarded transition: the first branch is left out when onboarding is expected.\<close>

definition mongo_claim_filter :: "int \<Rightarrow> string \<Rightarrow> TenantState \<Rightarrow> mg_tenant \<Rightarrow> bool" where
  "mongo_claim_filter now ref from d = (live_id ref d \<and>
     ((if from = Onboarding then False else td_state d = from) \<or>
      (td_state d = Onboarding \<and>
        (case td_claimExpiresAt d of Some t \<Rightarrow> t \<le> now | None \<Rightarrow> True))))"

text \<open>The current progress is read from the document of the reference, deleted or not.\<close>

definition mongo_progress_with_error :: "string \<Rightarrow> SetStateOptions \<Rightarrow> tenant_docs \<Rightarrow> OnboardingProgress option" where
  "mongo_progress_with_error ref o1 db = (case opt_lastError o1 of None \<Rightarrow> None
     | Some e \<Rightarrow> Some ((case first_row (select_rows (\<lambda>d. td_id d = ref) db) of
         None \<Rightarrow> empty_progress | Some d \<Rightarrow> or_else (td_onboardingProgress d) empty_progress)\<lparr>lastError := Some e\<rparr>))"

definition mongo_state_set :: "(OnboardingProgress \<Rightarrow> OnboardingProgress option) \<Rightarrow> int \<Rightarrow> TenantState \<Rightarrow> SetStateOptions \<Rightarrow>
    OnboardingProgress option \<Rightarrow> mg_tenant \<Rightarrow> mg_tenant" where
  "mongo_state_set bson now next_state o1 progress d = d
     \<lparr>td_state := next_state, td_updatedAt := now, td_claimedBy := opt_claimedBy o1,
      td_claimExpiresAt := opt_claimExpiresAt o1,
      td_onboardingProgress := (case progress of None \<Rightarrow> td_onboardingProgress d | Some p \<Rightarrow> bson p)\<rparr>"

definition mongo_no_transition :: "string \<Rightarrow> SetStateOptions \<Rightarrow> mg_tenant option \<Rightarrow> error" where
  "mongo_no_transition ref o1 d = (case d of None \<Rightarrow> unknown_tenant ref
     | Some r \<Rightarrow> ZatcaRegistryError (''Cannot transition tenant '' @ quoted ref @ '' from ''
         @ quoted (tenant_state_str (td_state r)) @ '' (expected ''
         @ quoted (case expectedFrom o1 of None \<Rightarrow> ''undefined'' | Some f \<Rightarrow> tenant_state_str f) @ '').'') (Some Conflict))"

definition mongo_setState :: "(OnboardingProgress \<Rightarrow> OnboardingProgress option) \<Rightarrow> (nat \<Rightarrow> tenant_docs \<Rightarrow> tenant_docs) \<Rightarrow> int \<Rightarrow> string \<Rightarrow>
    TenantState \<Rightarrow> SetStateOptions \<Rightarrow> (tenant_docs, TenantRecord) eff" where
  "mongo_setState bson others now ref next_state o1 db =
     (let progress = mongo_progress_with_error ref o1 db; db1 = (if opt_lastError o1 = None then db else others 0 db) in
      case update_rows (case expectedFrom o1 of None \<Rightarrow> live_id ref | Some from \<Rightarrow> mongo_claim_filter now ref from)
             (mongo_state_set bson now next_state o1 progress) db1 of (ds, db2) \<Rightarrow>
      (case first_row ds of
         Some d \<Rightarrow> (docToTenant d, db2)
       | None \<Rightarrow> (Err (mongo_no_transition ref o1 (first_row (select_rows (live_id ref) (others 1 db2)))), others 1 db2)))"

definition mongo_recordOnboardingProgress :: "(OnboardingProgress \<Rightarrow> OnboardingProgress option) \<Rightarrow> (nat \<Rightarrow> tenant_docs \<Rightarrow> tenant_docs) \<Rightarrow>
    int \<Rightarrow> string \<Rightarrow> string \<Rightarrow> bool \<Rightarrow> (tenant_docs, unit) eff" where
  "mongo_recordOnboardingProgress bson others now ref scenario passed db = (case first_row (select_rows (live_id ref) db) of
       None \<Rightarrow> (Err (unknown_tenant ref), db)
     | Some d \<Rightarrow> let p = or_else (td_onboardingProgress d) empty_progress;
           merged = p\<lparr>scenarios := mset_to scenario (if passed then ScenarioPassed else ScenarioFailed) (scenarios p)\<rparr> in
         (case update_rows (live_id ref) (\<lambda>d. d\<lparr>td_onboardingProgress := bson merged, td_updatedAt := now\<rparr>) (others 0 db) of
           (ds, db') \<Rightarrow> (if length ds = 0 then Err (unknown_tenant ref) else Ok (), db')))"

definition mongo_setProductionExpiry :: "int \<Rightarrow> string \<Rightarrow> int \<Rightarrow> (tenant_docs, unit) eff" where
  "mongo_setProductionExpiry now ref expiresAt db = (case update_rows (live_id ref)
       (\<lambda>d. d\<lparr>td_productionCertificateExpiresAt := Some expiresAt, td_updatedAt := now\<rparr>) db of (ds, db') \<Rightarrow>
     (if length ds = 0 then Err (unknown_tenant ref) else Ok (), db'))"

definition mongo_softDelete :: "(nat \<Rightarrow> tenant_docs \<Rightarrow> tenant_docs) \<Rightarrow> int \<Rightarrow> string \<Rightarrow> (tenant_docs, unit) eff" where
  "mongo_softDelete others now ref db = (case update_rows (live_id ref)
       (\<lambda>d. d\<lparr>td_state := Revoked, td_deletedAt := Some now, td_updatedAt := now\<rparr>) db of (ds, db') \<Rightarrow>
     (if length ds = 0
      then (Err (if select_rows (\<lambda>d. td_id d = ref) (others 0 db') = [] then unknown_tenant ref else already_deleted ref),
        others 0 db')
      else (Ok (), db')))"

definition createMongoTenantStore :: "(OnboardingProgress \<Rightarrow> OnboardingProgress option) \<Rightarrow> (string \<Rightarrow> string \<Rightarrow> int) \<Rightarrow>
    (nat \<Rightarrow> tenant_docs \<Rightarrow> tenant_docs) \<Rightarrow> int \<Rightarrow> tenant_docs FullTenantStore" where
  "createMongoTenantStore bson collate others now = \<lparr>ts_get = mongo_get, ts_setState = mongo_setState bson others now,
     ts_recordOnboardingProgress = mongo_recordOnboardingProgress bson others now,
     ts_setProductionExpiry = mongo_setProductionExpiry now, ts_create = mongo_create bson now, ts_list = mongo_list collate now,
     ts_patch = mongo_patch now, ts_softDelete = mongo_softDelete others now\<rparr>"

section \<open>The vault\<close>

record mg_credential =
  cd_id :: string
  cd_material :: EncryptedSignerMaterial
  cd_createdAt :: int
  cd_updatedAt :: int

text \<open>The upsert sets the given fields, unsets the others, and keeps the time of creation.\<close>

definition mongo_vault_put :: "SecretCipher \<Rightarrow> (nat \<Rightarrow> string) \<Rightarrow> int \<Rightarrow> string \<Rightarrow> SignerMaterial \<Rightarrow> (mg_credential list, unit) eff" where
  "mongo_vault_put c rnd now ref m db = (Ok (),
     if \<exists>d \<in> set db. cd_id d = ref
     then map (\<lambda>d. if cd_id d = ref then d\<lparr>cd_material := seal c rnd m, cd_updatedAt := now\<rparr> else d) db
     else db @ [\<lparr>cd_id = ref, cd_material = seal c rnd m, cd_createdAt = now, cd_updatedAt = now\<rparr>])"

definition open_doc :: "SecretCipher \<Rightarrow> EncryptedSignerMaterial \<Rightarrow> error + SignerMaterial" where
  "open_doc c r =
     (case decrypt c (m_privateKey r) of Inl e \<Rightarrow> Inl e | Inr pk \<Rightarrow>
     (case decrypt c (m_productionCertificate r) of Inl e \<Rightarrow> Inl e | Inr pc \<Rightarrow>
     (case decrypt c (m_productionBinarySecurityToken r) of Inl e \<Rightarrow> Inl e | Inr pb \<Rightarrow>
     (case decrypt c (m_productionApiSecret r) of Inl e \<Rightarrow> Inl e | Inr ps \<Rightarrow>
     (case decryptOptional c (m_complianceCertificate r) of Inl e \<Rightarrow> Inl e | Inr cc \<Rightarrow>
     (case decryptOptional c (m_complianceBinarySecurityToken r) of Inl e \<Rightarrow> Inl e | Inr cb \<Rightarrow>
     (case decryptOptional c (m_complianceApiSecret r) of Inl e \<Rightarrow> Inl e | Inr cs \<Rightarrow>
       Ok \<lparr>m_privateKey = pk, m_productionCertificate = pc, m_productionBinarySecurityToken = pb,
           m_productionApiSecret = ps, m_complianceCertificate = cc,
           m_complianceBinarySecurityToken = cb, m_complianceApiSecret = cs\<rparr>)))))))"

definition mongo_vault_get :: "SecretCipher \<Rightarrow> string \<Rightarrow> (mg_credential list, SignerMaterial option) eff" where
  "mongo_vault_get c ref db = ((case find (\<lambda>d. cd_id d = ref) db of None \<Rightarrow> Ok None
     | Some d \<Rightarrow> map_sum (vault_error ref) Some (open_doc c (cd_material d))), db)"

definition mongo_vault_delete :: "string \<Rightarrow> (mg_credential list, unit) eff" where
  "mongo_vault_delete ref db = (Ok (), filter (\<lambda>d. cd_id d \<noteq> ref) db)"

end
