(* ===== verification/MongoTenants.thy ===== *)
theory MongoTenants
  imports MongoRegistry
begin

text \<open>
  The MongoDB tenant store does, call by call, what the PostgreSQL one does on the rows of its
  documents, with a column that gives back what \<open>bson\<close> stored: so it answers like the memory store too.
\<close>

section \<open>The progress field\<close>

text \<open>What is relied on of the driver: the field is stored with its keys and values, or left out when empty.\<close>

locale bson_field =
  fixes bson :: "OnboardingProgress \<Rightarrow> OnboardingProgress option"
  assumes bson_some: "bson p = Some q \<Longrightarrow> lastError q = lastError p \<and> mget (scenarios q) = mget (scenarios p)"
    and bson_none: "bson p = None \<Longrightarrow> lastError p = None \<and> mget (scenarios p) = Map.empty"
begin

definition restored :: "OnboardingProgress \<Rightarrow> OnboardingProgress" where
  "restored p = or_else (bson p) empty_progress"

lemma restored_fields: "lastError (restored p) = lastError p" "mget (scenarios (restored p)) = mget (scenarios p)"
  using bson_some [of p] bson_none [of p] by (auto simp: restored_def or_else_def empty_progress_def split: option.split)

end

text \<open>Mongoose's \<open>minimize\<close>.\<close>

definition minimized :: "OnboardingProgress \<Rightarrow> OnboardingProgress option" where
  "minimized p = (if scenarios p = [] \<and> lastError p = None then None else Some p)"

interpretation mongoose: bson_field minimized
  by unfold_locales (auto simp: minimized_def split: if_splits)

sublocale bson_field \<subseteq> column: jsonb_column restored
  by unfold_locales (simp_all add: restored_fields)

section \<open>Documents as rows\<close>

definition row_of_doc :: "mg_tenant \<Rightarrow> pg_tenant" where
  "row_of_doc d = \<lparr>tr_tenant_ref = td_id d, tr_vat_number = td_vatNumber d, tr_egs_uuid = td_egsUuid d,
     tr_vat_name = td_vatName d, tr_crn = td_crn d, tr_branch_name = td_branchName d,
     tr_branch_industry = td_branchIndustry d, tr_location = td_location d, tr_environment = td_environment d,
     tr_state = td_state d, tr_onboarding_progress = or_else (td_onboardingProgress d) empty_progress,
     tr_production_certificate_expires_at = td_productionCertificateExpiresAt d, tr_callback_url = td_callbackUrl d,
     tr_claimed_by = td_claimedBy d, tr_claim_expires_at = td_claimExpiresAt d, tr_label = td_label d,
     tr_created_at = td_createdAt d, tr_updated_at = td_updatedAt d, tr_deleted_at = td_deletedAt d\<rparr>"

lemma row_of_doc_fields [simp]:
  "tr_tenant_ref (row_of_doc d) = td_id d" "tr_state (row_of_doc d) = td_state d" "tr_deleted_at (row_of_doc d) = td_deletedAt d"
  "tr_onboarding_progress (row_of_doc d) = or_else (td_onboardingProgress d) empty_progress"
  "tr_environment (row_of_doc d) = td_environment d" "tr_claim_expires_at (row_of_doc d) = td_claimExpiresAt d"
  "tr_production_certificate_expires_at (row_of_doc d) = td_productionCertificateExpiresAt d"
  "tr_created_at (row_of_doc d) = td_createdAt d"
  by (simp_all add: row_of_doc_def)

lemma read_doc [simp]: "rowToTenant (row_of_doc d) = docToTenant d"
  by (simp add: row_of_doc_def rowToTenant_def docToTenant_def split: sum.split)

lemma live_doc [simp]: "live_ref ref (row_of_doc d) = live_id ref d"
  by (simp add: live_ref_def live_id_def)

lemma rowsToTenants_docs: "rowsToTenants (map row_of_doc ds) = docsToTenants ds"
  by (induction ds) (simp_all split: sum.split)

lemma first_row_map: "first_row (map f xs) = map_option f (first_row xs)"
  by (simp add: first_row_def split: list.split)

lemma filter_docs: "(\<And>d. P' (row_of_doc d) = P d) \<Longrightarrow> filter P' (map row_of_doc db) = map row_of_doc (filter P db)"
  by (induction db) auto

lemma update_docs:
  assumes "\<And>d. P' (row_of_doc d) = P d" "\<And>d. f' (row_of_doc d) = row_of_doc (f d)"
  shows "update_rows P' f' (map row_of_doc db) = map_prod (map row_of_doc) (map row_of_doc) (update_rows P f db)"
  using assms by (auto simp: update_rows_def filter_docs [where P' = P' and P = P])

lemma update_cong: "(\<And>d. d \<in> set db \<Longrightarrow> P d = Q d) \<Longrightarrow> (\<And>d. d \<in> set db \<Longrightarrow> P d \<Longrightarrow> f d = g d) \<Longrightarrow> update_rows P f db = update_rows Q g db"
  by (simp add: update_rows_def cong: filter_cong)

lemma mongo_js_insert: "map row_of_doc (js_insert (mongo_list_order collate) x xs) =
    js_insert (sql_list_order collate) (row_of_doc x) (map row_of_doc xs)"
  by (induction xs) (simp_all add: mongo_list_order_def sql_list_order_def)

lemma mongo_js_sort: "map row_of_doc (js_sort (mongo_list_order collate) xs) = js_sort (sql_list_order collate) (map row_of_doc xs)"
  by (induction xs) (simp_all add: js_sort_def mongo_js_insert)

text \<open>The calls, as they act on the rows.\<close>

definition as_rows :: "(error + 'a) \<times> tenant_docs \<Rightarrow> (error + 'a) \<times> tenant_table" where
  "as_rows x = (fst x, map row_of_doc (snd x))"

lemma as_rows_get: "pg_get ref (map row_of_doc db) = as_rows (mongo_get ref db)"
  by (simp add: as_rows_def pg_get_def mongo_get_def select_rows_def filter_docs [where P = "live_id ref"] first_row_map split: option.split)

lemma as_rows_list: "pg_list collate now f (map row_of_doc db) = as_rows (mongo_list collate now f db)"
proof -
  have "filter (sql_list_where now f) (map row_of_doc db) = map row_of_doc (filter (mongo_list_filter now f) db)"
    by (rule filter_docs) (simp add: sql_list_where_def mongo_list_filter_def split: option.split)
  then show ?thesis
    by (simp add: as_rows_def pg_list_def mongo_list_def sql_list_tenants_def mongo_find_tenants_def select_rows_def
        mongo_js_sort [symmetric] rowsToTenants_docs)
qed

lemma as_rows_patch: "pg_patch now ref p (map row_of_doc db) = as_rows (mongo_patch now ref p db)"
proof -
  have "sql_patch_set now p (row_of_doc d) = row_of_doc (mongo_patch_set now p d)" for d
    by (simp add: sql_patch_set_def mongo_patch_set_def row_of_doc_def)
  then have "update_rows (live_ref ref) (sql_patch_set now p) (map row_of_doc db) =
      map_prod (map row_of_doc) (map row_of_doc) (update_rows (live_id ref) (mongo_patch_set now p) db)"
    by (intro update_docs) simp_all
  then show ?thesis
    by (auto simp: as_rows_def pg_patch_def mongo_patch_def first_row_map split: prod.split option.split)
qed

lemma as_rows_expiry: "pg_setProductionExpiry now ref x (map row_of_doc db) = as_rows (mongo_setProductionExpiry now ref x db)"
proof -
  have "update_rows (live_ref ref) (\<lambda>r. r\<lparr>tr_production_certificate_expires_at := Some x, tr_updated_at := now\<rparr>) (map row_of_doc db) =
      map_prod (map row_of_doc) (map row_of_doc) (update_rows (live_id ref)
        (\<lambda>d. d\<lparr>td_productionCertificateExpiresAt := Some x, td_updatedAt := now\<rparr>) db)"
    by (rule update_docs) (simp_all add: row_of_doc_def live_ref_def live_id_def)
  then show ?thesis
    by (auto simp: as_rows_def pg_setProductionExpiry_def mongo_setProductionExpiry_def split: prod.split)
qed

lemma as_rows_delete: "pg_softDelete quiet now ref (map row_of_doc db) = as_rows (mongo_softDelete quiet now ref db)"
proof -
  have "update_rows (live_ref ref) (\<lambda>r. r\<lparr>tr_state := Revoked, tr_deleted_at := Some now, tr_updated_at := now\<rparr>) (map row_of_doc db) =
      map_prod (map row_of_doc) (map row_of_doc) (update_rows (live_id ref)
        (\<lambda>d. d\<lparr>td_state := Revoked, td_deletedAt := Some now, td_updatedAt := now\<rparr>) db)"
    by (rule update_docs) (simp_all add: row_of_doc_def live_ref_def live_id_def)
  moreover have "filter (\<lambda>r. tr_tenant_ref r = ref) (map row_of_doc ds) = map row_of_doc (filter (\<lambda>d. td_id d = ref) ds)" for ds
    by (rule filter_docs) simp
  ultimately show ?thesis
    by (auto simp: as_rows_def pg_softDelete_def mongo_softDelete_def select_rows_def quiet_def split: prod.split)
qed

text \<open>Reading a progress: the live document is the document of its key.\<close>

lemma live_is_key:
  "distinct (map td_id db) \<Longrightarrow> filter (live_id ref) db \<noteq> [] \<Longrightarrow> filter (\<lambda>d. td_id d = ref) db = filter (live_id ref) db"
proof (induction db)
  case (Cons d db)
  show ?case
  proof (cases "td_id d = ref")
    case True
    have "td_id d \<notin> td_id ` set db" using Cons.prems(1) by simp
    then have none: "\<forall>x \<in> set db. td_id x \<noteq> ref" using True by (metis image_eqI)
    then have "filter (\<lambda>d. td_id d = ref) db = []" "filter (live_id ref) db = []" by (auto simp: filter_empty_conv live_id_def)
    then show ?thesis using True Cons.prems(2) by (auto split: if_splits)
  next
    case False
    then show ?thesis using Cons by (auto simp: live_id_def)
  qed
qed simp

lemma rel_distinct:
  assumes "pg_table.rel (map row_of_doc db) m"
  shows "distinct (map td_id db)"
proof -
  have "map td_id ds = map fst n"
    if "list_all2 (\<lambda>row (k, r). tenantRef r = k \<and> tenant_view (row_tenant row) = tenant_view r) (map row_of_doc ds) n" for ds n
    using that
  proof (induction ds arbitrary: n)
    case (Cons d ds)
    then obtain k r n' where n: "n = (k, r) # n'" "tenantRef r = k" "tenant_view (row_tenant (row_of_doc d)) = tenant_view r"
        "list_all2 (\<lambda>row (k, r). tenantRef r = k \<and> tenant_view (row_tenant row) = tenant_view r) (map row_of_doc ds) n'"
      by (auto simp: list_all2_Cons1)
    then show ?case using Cons.IH [OF n(4)] tenant_view_fields(1) [OF n(3)] by simp
  qed simp
  then show ?thesis using pg_table.relD(1) [OF assms] by (auto simp: same_rows_def map_ok_def)
qed

context bson_field
begin

lemma as_rows_progress: "pg_recordOnboardingProgress restored quiet now ref sc b (map row_of_doc db) =
    as_rows (mongo_recordOnboardingProgress bson quiet now ref sc b db)"
proof (cases "filter (live_id ref) db")
  case Nil
  then show ?thesis
    by (simp add: as_rows_def pg_recordOnboardingProgress_def mongo_recordOnboardingProgress_def sql_select_progress_def
        select_rows_def filter_docs [where P = "live_id ref"] first_row_def)
next
  case (Cons d ds)
  let ?p = "or_else (td_onboardingProgress d) empty_progress"
  let ?m = "?p\<lparr>scenarios := mset_to sc (if b then ScenarioPassed else ScenarioFailed) (scenarios ?p)\<rparr>"
  have "update_rows (live_ref ref) (\<lambda>r. r\<lparr>tr_onboarding_progress := restored ?m, tr_updated_at := now\<rparr>) (map row_of_doc db) =
      map_prod (map row_of_doc) (map row_of_doc)
        (update_rows (live_id ref) (\<lambda>d. d\<lparr>td_onboardingProgress := bson ?m, td_updatedAt := now\<rparr>) db)"
    by (rule update_docs) (simp_all add: row_of_doc_def restored_def live_ref_def live_id_def)
  moreover obtain ds' db' where u: "update_rows (live_id ref) (\<lambda>d. d\<lparr>td_onboardingProgress := bson ?m, td_updatedAt := now\<rparr>) db = (ds', db')"
      and "length ds' \<noteq> 0"
    using Cons by (simp add: update_rows_def)
  moreover have "sql_select_progress ref (map row_of_doc db) = Some ?p" "first_row (select_rows (live_id ref) db) = Some d"
    using Cons by (simp_all add: sql_select_progress_def select_rows_def filter_docs [where P = "live_id ref"] first_row_def)
  ultimately show ?thesis
    unfolding pg_recordOnboardingProgress_def mongo_recordOnboardingProgress_def quiet_def
    by (simp only: option.case Let_def as_rows_def) simp
qed

lemma as_rows_setState:
  assumes "distinct (map td_id db)"
  shows "pg_setState restored quiet now ref st o1 (map row_of_doc db) = as_rows (mongo_setState bson quiet now ref st o1 db)"
proof -
  let ?P = "case expectedFrom o1 of None \<Rightarrow> live_ref ref | Some from \<Rightarrow> sql_claim_where now ref from"
  let ?M = "case expectedFrom o1 of None \<Rightarrow> live_id ref | Some from \<Rightarrow> mongo_claim_filter now ref from"
  let ?f = "sql_state_set now st o1 (progress_with_error restored ref o1 (map row_of_doc db))"
  let ?g = "mongo_state_set bson now st o1 (mongo_progress_with_error ref o1 db)"
  have P: "?P (row_of_doc d) = ?M d" for d
    by (auto simp: sql_claim_where_def mongo_claim_filter_def split: option.splits)
  have M: "?M d \<Longrightarrow> live_id ref d" for d by (auto simp: mongo_claim_filter_def split: option.splits)
  have up: "update_rows ?P ?f (map row_of_doc db) = map_prod (map row_of_doc) (map row_of_doc) (update_rows ?M ?g db)"
  proof (cases "filter (live_id ref) db = []")
    case True
    then have "filter ?M db = []" using M by (auto simp: filter_empty_conv)
    moreover from this have "filter ?P (map row_of_doc db) = []" using P by (auto simp: filter_empty_conv)
    ultimately show ?thesis by (simp add: no_update)
  next
    case False
    have key: "filter (\<lambda>d. td_id d = ref) db = filter (live_id ref) db" by (rule live_is_key [OF assms False])
    obtain d0 ds where d0: "filter (live_id ref) db = d0 # ds" using False by (cases "filter (live_id ref) db") auto
    have prog: "progress_with_error restored ref o1 (map row_of_doc db) = map_option restored (mongo_progress_with_error ref o1 db)"
      using d0 key
      by (simp add: progress_with_error_def mongo_progress_with_error_def sql_select_progress_def select_rows_def
          filter_docs [where P = "live_id ref"] first_row_def or_else_def split: option.split)
    show ?thesis
      by (rule update_docs [where P = ?M and f = ?g and P' = ?P and f' = ?f])
        (rule P, simp add: prog sql_state_set_def mongo_state_set_def row_of_doc_def restored_def or_else_def split: option.split)
  qed
  have sel: "first_row (filter (live_ref ref) (map row_of_doc ds)) = map_option row_of_doc (first_row (filter (live_id ref) ds))" for ds
    by (simp add: filter_docs [where P = "live_id ref"] first_row_map)
  have none: "pg_no_transition ref o1 (map_option row_of_doc x) = mongo_no_transition ref o1 x" for x
    by (simp add: pg_no_transition_def mongo_no_transition_def split: option.split)
  have frs: "first_row ([] :: pg_tenant list) = None" "first_row (x # xs) = Some x" for x :: pg_tenant and xs by (simp_all add: first_row_def)
  have frs': "first_row ([] :: mg_tenant list) = None" "first_row (x # xs) = Some x" for x :: mg_tenant and xs by (simp_all add: first_row_def)
  obtain ds db2 where u: "update_rows ?M ?g db = (ds, db2)" by (metis surj_pair)
  then show ?thesis
    using frs frs' sel none
    by (cases ds) (simp_all add: as_rows_def pg_setState_def mongo_setState_def up Let_def quiet_def select_rows_def del: map_map)
qed

end

section \<open>Refinement\<close>

definition mongo_fits :: "tenant_call \<Rightarrow> bool" where
  "mongo_fits c = (branded_call c \<and> (case c of Create_tenant rnd i \<Rightarrow>
     tenant_filled (new_tenant_doc 0 (case new_tenantRef i of None \<Rightarrow> generateTenantRef rnd | Some x \<Rightarrow> x) i) | _ \<Rightarrow> True))"

context bson_field
begin

lemma as_rows_create:
  assumes "mongo_fits (Create_tenant rnd i)"
  shows "map_sum id tenant_view (fst (pg_create restored now rnd i (map row_of_doc db))) = map_sum id tenant_view (fst (mongo_create bson now rnd i db))"
    "snd (pg_create restored now rnd i (map row_of_doc db)) = map row_of_doc (snd (mongo_create bson now rnd i db))"
proof -
  define ref where "ref = (case new_tenantRef i of None \<Rightarrow> generateTenantRef rnd | Some x \<Rightarrow> x)"
  let ?d = "new_tenant_doc now ref i" and ?row = "insert_tenant_row restored now ref i"
  have b: "branded i" and filled: "tenant_filled ?d"
    using assms by (simp_all add: mongo_fits_def ref_def tenant_filled_def new_tenant_doc_def)
  have stored: "row_of_doc (?d\<lparr>td_onboardingProgress := bson empty_progress\<rparr>) = ?row"
    by (simp add: row_of_doc_def new_tenant_doc_def insert_tenant_row_def restored_def empty_progress_def)
  have row_d: "row_of_doc ?d = ?row\<lparr>tr_onboarding_progress := empty_progress\<rparr>"
    by (simp add: row_of_doc_def new_tenant_doc_def insert_tenant_row_def or_else_def)
  have tenant: "docToTenant ?d = Ok (row_tenant (?row\<lparr>tr_onboarding_progress := empty_progress\<rparr>))"
    using b rowToTenant_branded [of "?row\<lparr>tr_onboarding_progress := empty_progress\<rparr>"]
    by (simp add: read_doc [symmetric] row_d branded_row_def branded_def insert_tenant_row_def)
  have view: "tenant_view (row_tenant ?row) = tenant_view (row_tenant (?row\<lparr>tr_onboarding_progress := empty_progress\<rparr>))"
  proof -
    have "row_tenant (?row\<lparr>tr_onboarding_progress := empty_progress\<rparr>) = (row_tenant ?row)\<lparr>onboardingProgress := empty_progress\<rparr>"
      by (simp add: row_tenant_def)
    moreover have "onboardingProgress (row_tenant ?row) = restored empty_progress" by (simp add: insert_tenant_row_def empty_progress_def)
    ultimately show ?thesis using view_same_progress [of empty_progress "row_tenant ?row"] restored_fields [of empty_progress] by simp
  qed
  have key: "tr_tenant_ref ?row = ref" by (simp add: insert_tenant_row_def)
  have "map_sum id tenant_view (fst (pg_create restored now rnd i (map row_of_doc db))) = map_sum id tenant_view (fst (mongo_create bson now rnd i db)) \<and>
    snd (pg_create restored now rnd i (map row_of_doc db)) = map row_of_doc (snd (mongo_create bson now rnd i db))"
    using filled b stored tenant view
    by (simp add: pg_create_def mongo_create_def ref_def [symmetric] Let_def sql_insert_tenant_def key first_row_def rowToTenant_branded
        del: read_doc)
  then show "map_sum id tenant_view (fst (pg_create restored now rnd i (map row_of_doc db))) = map_sum id tenant_view (fst (mongo_create bson now rnd i db))"
    "snd (pg_create restored now rnd i (map row_of_doc db)) = map row_of_doc (snd (mongo_create bson now rnd i db))" by blast+
qed

lemma mongo_call:
  assumes "mongo_fits c" "distinct (map td_id db)"
  shows "tenant_call_on (createPostgresTenantStore restored collate quiet now) c (map row_of_doc db) =
    as_rows (tenant_call_on (createMongoTenantStore bson collate quiet now) c db)"
proof (cases c)
  case (Create_tenant rnd i)
  then show ?thesis using as_rows_create [of rnd i now db] assms(1)
    by (auto simp: createPostgresTenantStore_def createMongoTenantStore_def as_rows_def one_view split: prod.split)
next
  case (Set_state ref st o1)
  then show ?thesis using as_rows_setState [OF assms(2), of now ref st o1]
    by (auto simp: createPostgresTenantStore_def createMongoTenantStore_def as_rows_def split: prod.split)
qed (auto simp: createPostgresTenantStore_def createMongoTenantStore_def as_rows_get as_rows_list as_rows_patch as_rows_progress
    as_rows_expiry as_rows_delete as_rows_def split: prod.split)

end

definition mongo_rel :: "tenant_docs \<Rightarrow> tenant_rows \<Rightarrow> bool" where
  "mongo_rel db m = pg_table.rel (map row_of_doc db) m"

sublocale bson_field \<subseteq> mongo_tenants: tenant_refinement "createMongoTenantStore bson collate quiet" collate mongo_fits mongo_rel "[]" for collate
proof
  show "mongo_rel [] []" by (simp add: mongo_rel_def pg_table.rel_def)
next
  fix db m c now x db' y m'
  assume rel: "mongo_rel db m" and fits: "mongo_fits c"
    and run: "tenant_call_on (createMongoTenantStore bson collate quiet now) c db = (x, db')"
      "tenant_call_on (memory_tenant_store collate now) c m = (y, m')"
  have r: "pg_table.rel (map row_of_doc db) m" using rel by (simp add: mongo_rel_def)
  have pg: "tenant_call_on (createPostgresTenantStore restored collate quiet now) c (map row_of_doc db) = (x, map row_of_doc db')"
    using mongo_call [OF fits rel_distinct [OF r], of collate now] run(1) by (simp add: as_rows_def)
  have b: "branded_call c" using fits by (simp add: mongo_fits_def)
  show "x = y \<and> mongo_rel db' m'" unfolding mongo_rel_def by (rule column.tenants.step [OF r b pg run(2)])
qed

context bson_field
begin

lemma mongo_answers_like_memory_store: "list_all (\<lambda>(_, c). mongo_fits c) cs \<Longrightarrow>
    tenant_answers (createMongoTenantStore bson collate quiet) cs [] = tenant_answers (memory_tenant_store collate) cs []"
  by (rule mongo_tenants.tenant_answers_agree)

end

end
