(* ===== verification/MongoSecrets.thy ===== *)
theory MongoSecrets
  imports MongoRegistry
begin

text \<open>
  API keys, audit log and registry over MongoDB (\<open>server/src/tenants/registry-mongo.ts\<close>,
  \<open>server/src/audit/log-mongo.ts\<close>). The documents have the fields of the PostgreSQL rows, with \<open>_id\<close> for the
  row's key, and no reference to the tenant is checked. \<open>scan\<close> is the order in which a query without
  a sort delivers its documents; sorting is taken to be stable.
\<close>

section \<open>The vault\<close>

context cipher_pair
begin

lemma open_doc_seal: "\<forall>i. good_random (rnd i) \<Longrightarrow> open_doc reader (seal writer rnd m) = Ok m"
  by (simp add: open_doc_def seal_def decryptOptional_encrypt decrypt_encrypt)

lemma mongo_vault_roundtrip:
  assumes "\<forall>i. good_random (rnd i)"
  shows "fst (mongo_vault_get reader ref (snd (mongo_vault_put writer rnd now ref m db))) = Ok (Some m)"
proof -
  have "find (\<lambda>d. cd_id d = ref)
      (map (\<lambda>d. if cd_id d = ref then d\<lparr>cd_material := seal writer rnd m, cd_updatedAt := now\<rparr> else d) db) =
    map_option (\<lambda>d. d\<lparr>cd_material := seal writer rnd m, cd_updatedAt := now\<rparr>) (find (\<lambda>d. cd_id d = ref) db)"
    by (induction db) auto
  moreover have "find (\<lambda>d. cd_id d = ref) (db @ [x]) = Some x" if "\<not> (\<exists>d \<in> set db. cd_id d = ref)" "cd_id x = ref" for x
    using that by (induction db) auto
  moreover have "find (\<lambda>d. cd_id d = ref) db \<noteq> None" if "\<exists>d \<in> set db. cd_id d = ref"
    using that by (auto simp: find_None_iff)
  ultimately show ?thesis
    by (cases "\<exists>d \<in> set db. cd_id d = ref")
      (auto simp: mongo_vault_get_def mongo_vault_put_def open_doc_seal [OF assms] split: option.split)
qed

end

section \<open>The API keys\<close>

type_synonym api_key_docs = "pg_api_key list"

definition key_filled :: "pg_api_key \<Rightarrow> bool" where
  "key_filled d = list_all (\<lambda>s. s \<noteq> []) [ak_token_id d, ak_tenant_ref d, ak_token_hash_b64 d, ak_salt_b64 d, ak_env d,
     ak_last4 d, ak_label d]"

definition mongo_key_issue :: "(string \<Rightarrow> string \<Rightarrow> string) \<Rightarrow> string \<Rightarrow> int \<Rightarrow> issue_random \<Rightarrow> string \<Rightarrow> string \<Rightarrow>
    (api_key_docs, IssuedApiKey) eff" where
  "mongo_key_issue scrypt env now rnd ref label db =
     (let tail = key_tail rnd; tok = token_of env ref tail;
          i = toLowerCase (base32Encode (random10 rnd));
          d = \<lparr>ak_token_id = i, ak_tenant_ref = ref,
             ak_token_hash_b64 = base64_encode (scrypt tok (random_salt rnd)),
             ak_salt_b64 = base64_encode (random_salt rnd), ak_env = env,
             ak_last4 = drop (length tail - 4) tail, ak_label = label, ak_created_at = now,
             ak_last_used_at = None, ak_revoked_at = None\<rparr> in
      if \<not> key_filled d then (Err validation_failed, db)
      else if \<exists>q \<in> set db. ak_token_id q = i then (Err duplicate_id, db)
      else (Ok \<lparr>token = tok, tokenId = i\<rparr>, db @ [d]))"

definition MONGO_LAST_USED_DEBOUNCE_MS :: int where
  "MONGO_LAST_USED_DEBOUNCE_MS = 60000"

definition mongo_key_resolve :: "(string \<Rightarrow> string \<Rightarrow> string) \<Rightarrow> string \<Rightarrow> (pg_api_key list \<Rightarrow> pg_api_key list) \<Rightarrow>
    (api_key_docs \<Rightarrow> api_key_docs) \<Rightarrow> int \<Rightarrow> string \<Rightarrow> (api_key_docs \<times> (string, int) jsmap, ResolvedApiKey option) eff" where
  "mongo_key_resolve scrypt env scan others now tok s = (case parseToken tok of
       None \<Rightarrow> (Ok None, s)
     | Some (e, ref, tail) \<Rightarrow> if e \<noteq> env then (Ok None, s)
         else (let docs = scan (filter (\<lambda>d. ak_tenant_ref d = ref \<and> ak_revoked_at d = None) (fst s)) in
           case find (pg_key_matches scrypt tok) docs of
             None \<Rightarrow> (Ok None, s)
           | Some d \<Rightarrow> (Ok (Some \<lparr>resolved_tenantRef = ak_tenant_ref d, resolved_tokenId = ak_token_id d\<rparr>),
               if MONGO_LAST_USED_DEBOUNCE_MS \<le> now - or_else (mget (snd s) (ak_token_id d)) 0
               then (map (\<lambda>q. if ak_token_id q = ak_token_id d then q\<lparr>ak_last_used_at := Some now\<rparr> else q) (others (fst s)),
                 mset_to (ak_token_id d) now (snd s))
               else s)))"

definition mongo_key_revoke :: "int \<Rightarrow> string \<Rightarrow> string \<Rightarrow> (api_key_docs, bool) eff" where
  "mongo_key_revoke now ref i db =
     (let hit = (\<lambda>d. ak_token_id d = i \<and> ak_tenant_ref d = ref \<and> ak_revoked_at d = None) in
      (Ok (0 < length (filter hit db)), map (\<lambda>d. if hit d then d\<lparr>ak_revoked_at := Some now\<rparr> else d) db))"

definition mongo_key_list :: "(pg_api_key list \<Rightarrow> pg_api_key list) \<Rightarrow> string \<Rightarrow> (api_key_docs, ApiKeyListEntry list) eff" where
  "mongo_key_list scan ref db = (Ok (map pg_list_entry (js_sort (\<lambda>a b. ak_created_at a - ak_created_at b)
     (scan (filter (\<lambda>d. ak_tenant_ref d = ref) db)))), db)"

definition mongo_key_revokeAllForTenant :: "int \<Rightarrow> string \<Rightarrow> (api_key_docs, unit) eff" where
  "mongo_key_revokeAllForTenant now ref db = (Ok (), map (\<lambda>d.
     if ak_tenant_ref d = ref \<and> ak_revoked_at d = None then d\<lparr>ak_revoked_at := Some now\<rparr> else d) db)"

section \<open>The registry\<close>

record mongo_deps =
  md_bson :: "OnboardingProgress \<Rightarrow> OnboardingProgress option"
  md_collate :: "string \<Rightarrow> string \<Rightarrow> int"
  md_scan :: "pg_api_key list \<Rightarrow> pg_api_key list"
  md_cipher :: SecretCipher
  md_random :: "nat \<Rightarrow> string"
  md_scrypt :: "string \<Rightarrow> string \<Rightarrow> string"
  md_env :: "string option"
  md_now :: int

text \<open>The stores act on three collections of their own; other sessions are left out here.\<close>

record mongo_stores =
  ms_tenants :: "tenant_docs FullTenantStore"
  ms_vault_put :: "string \<Rightarrow> SignerMaterial \<Rightarrow> (mg_credential list, unit) eff"
  ms_vault_get :: "string \<Rightarrow> (mg_credential list, SignerMaterial option) eff"
  ms_vault_delete :: "string \<Rightarrow> (mg_credential list, unit) eff"
  ms_issue :: "issue_random \<Rightarrow> string \<Rightarrow> string \<Rightarrow> (api_key_docs, IssuedApiKey) eff"
  ms_resolve :: "string \<Rightarrow> (api_key_docs \<times> (string, int) jsmap, ResolvedApiKey option) eff"
  ms_revoke :: "string \<Rightarrow> string \<Rightarrow> (api_key_docs, bool) eff"
  ms_list :: "string \<Rightarrow> (api_key_docs, ApiKeyListEntry list) eff"
  ms_revokeAllForTenant :: "string \<Rightarrow> (api_key_docs, unit) eff"

definition createMongoRegistry :: "mongo_deps \<Rightarrow> mongo_stores" where
  "createMongoRegistry d = (let env = or_else (md_env d) ''live''; now = md_now d in
     \<lparr>ms_tenants = createMongoTenantStore (md_bson d) (md_collate d) quiet now,
      ms_vault_put = mongo_vault_put (md_cipher d) (md_random d) now, ms_vault_get = mongo_vault_get (md_cipher d),
      ms_vault_delete = mongo_vault_delete, ms_issue = mongo_key_issue (md_scrypt d) env now,
      ms_resolve = mongo_key_resolve (md_scrypt d) env (md_scan d) (\<lambda>db. db) now, ms_revoke = mongo_key_revoke now,
      ms_list = mongo_key_list (md_scan d), ms_revokeAllForTenant = mongo_key_revokeAllForTenant now\<rparr>)"

section \<open>The audit log\<close>

definition audit_filled :: "pg_audit \<Rightarrow> bool" where
  "audit_filled d = list_all (\<lambda>s. s \<noteq> []) [au_id d, au_actor_type d, au_action d]"

text \<open>\<open>bson\<close> is what is stored of a payload, \<open>None\<close> for an object that Mongoose leaves out.\<close>

definition mongo_audit_write :: "(jsval \<Rightarrow> jsval option) \<Rightarrow> string \<Rightarrow> int \<Rightarrow> AuditEntryInput \<Rightarrow> (pg_audit list, AuditEntry) eff" where
  "mongo_audit_write bson uuid now i db =
     (let capped = capAuditPayload MAX_AUDIT_PAYLOAD_BYTES (a_payload i);
          d = \<lparr>au_id = uuid, au_at = now, au_actor_type = actor_type (a_actor i), au_actor = a_actor i,
             au_tenant_ref = a_tenantRef i, au_action = a_action i, au_target_id = a_targetId i,
             au_result_ok = a_result_ok i, au_zatca_request_id = a_zatcaRequestId i,
             au_request_id = a_requestId i, au_payload = capped\<rparr> in
      if \<not> audit_filled d then (Err validation_failed, db)
      else if \<exists>q \<in> set db. au_id q = uuid then (Err duplicate_id, db)
      else (Ok (rowToEntry d), db @ [d\<lparr>au_payload := (case capped of None \<Rightarrow> None | Some v \<Rightarrow> bson v)\<rparr>]))"

definition mongo_audit_filter :: "AuditListFilter \<Rightarrow> pg_audit \<Rightarrow> bool" where
  "mongo_audit_filter f d =
     ((case f_tenantRef f of None \<Rightarrow> True | Some t \<Rightarrow> au_tenant_ref d = Some t) \<and>
      (case f_action f of None \<Rightarrow> True | Some a \<Rightarrow> au_action d = a) \<and>
      (case f_actorType f of None \<Rightarrow> True | Some a \<Rightarrow> au_actor_type d = a) \<and>
      (case f_result_ok f of None \<Rightarrow> True | Some b \<Rightarrow> au_result_ok d = b) \<and>
      (case f_since f of None \<Rightarrow> True | Some t \<Rightarrow> t \<le> au_at d) \<and>
      (case f_until f of None \<Rightarrow> True | Some t \<Rightarrow> au_at d \<le> t))"

text \<open>A limit of 0 is no limit for MongoDB.\<close>

definition limited :: "nat \<Rightarrow> 'a list \<Rightarrow> 'a list" where
  "limited n xs = (if n = 0 then xs else take n xs)"

definition mongo_audit_list :: "(pg_audit list \<Rightarrow> pg_audit list) \<Rightarrow> AuditListFilter \<Rightarrow> (pg_audit list, AuditEntry list) eff" where
  "mongo_audit_list scan f db = (Ok (map rowToEntry (limited (case f_limit f of None \<Rightarrow> 100 | Some n \<Rightarrow> n)
     (js_sort (\<lambda>a b. au_at b - au_at a) (scan (filter (mongo_audit_filter f) db))))), db)"

section \<open>The keys answer like the PostgreSQL ones\<close>

text \<open>A key collection beside any tenants.\<close>

definition with_keys :: "tenant_table \<Rightarrow> api_key_docs \<Rightarrow> pg_registry" where
  "with_keys ts db = registry_empty\<lparr>rg_tenants := ts, rg_api_keys := db\<rparr>"

lemma with_keys_fields [simp]:
  "rg_api_keys (with_keys ts db) = db" "rg_tenants (with_keys ts db) = ts"
  "(with_keys ts db)\<lparr>rg_api_keys := db'\<rparr> = with_keys ts db'"
  by (simp_all add: with_keys_def)

lemma resolve_same: "fst (mongo_key_resolve scrypt env scan others now tok (db, m)) =
    fst (pg_key_resolve scrypt env scan others' now tok (with_keys ts db, m))"
  by (simp add: mongo_key_resolve_def pg_key_resolve_def Let_def split: option.split)

lemma revoke_same:
  "pg_key_revoke t ref i (with_keys ts db) = map_prod id (with_keys ts) (mongo_key_revoke t ref i db)"
  "pg_key_revokeAllForTenant t ref (with_keys ts db) = map_prod id (with_keys ts) (mongo_key_revokeAllForTenant t ref db)"
  "pg_key_list scan ref (with_keys ts db) = map_prod id (with_keys ts) (mongo_key_list scan ref db)"
  by (simp_all add: mongo_key_revoke_def pg_key_revoke_def mongo_key_revokeAllForTenant_def pg_key_revokeAllForTenant_def
      mongo_key_list_def pg_key_list_def Let_def)

lemma issue_same:
  assumes "mongo_key_issue scrypt env now rnd ref label db = (Ok k, db')" "\<exists>r \<in> set ts. tr_tenant_ref r = ref"
  shows "pg_key_issue scrypt env now rnd ref label (with_keys ts db) = (Ok k, with_keys ts db')"
  using assms by (auto simp: mongo_key_issue_def pg_key_issue_def has_tenant_def Let_def split: if_splits)

lemma mongo_issued:
  assumes iss: "mongo_key_issue scrypt env now rnd ref label db = (Ok k, db')"
    and ok: "env = ''live'' \<or> env = ''test''" "ref \<noteq> []" "list_all is_ref_char ref" "length (random20 rnd) = 20"
    and fresh: "\<forall>d \<in> set db. \<not> pg_key_matches scrypt (token k) d"
    and scan: "\<And>xs. set (scan xs) = set xs"
  shows "fst (mongo_key_resolve scrypt env scan others t (token k) (db', m)) =
      Ok (Some \<lparr>resolved_tenantRef = ref, resolved_tokenId = tokenId k\<rparr>)"
    "fst (mongo_key_resolve scrypt env scan others t' (token k) (snd (mongo_key_revoke t ref (tokenId k) db'), m)) = Ok None"
    "fst (mongo_key_resolve scrypt env scan others t' (token k) (snd (mongo_key_revokeAllForTenant t ref db'), m)) = Ok None"
proof -
  define row where "row = (SOME r :: pg_tenant. tr_tenant_ref r = ref)"
  have "\<exists>r :: pg_tenant. tr_tenant_ref r = ref" by (metis pg_tenant.select_convs(1))
  then have row: "tr_tenant_ref row = ref" unfolding row_def by (rule someI_ex)
  have iss': "pg_key_issue scrypt env now rnd ref label (with_keys [row] db) = (Ok k, with_keys [row] db')"
    by (rule issue_same [OF iss]) (simp add: row)
  have fresh': "\<forall>d \<in> set (rg_api_keys (with_keys [row] db)). \<not> pg_key_matches scrypt (token k) d" using fresh by simp
  note pg = pg_issued [OF iss' ok fresh' scan]
  show "fst (mongo_key_resolve scrypt env scan others t (token k) (db', m)) =
      Ok (Some \<lparr>resolved_tenantRef = ref, resolved_tokenId = tokenId k\<rparr>)"
    unfolding resolve_same [where ts = "[row]" and others' = id] by (rule pg(1))
  show "fst (mongo_key_resolve scrypt env scan others t' (token k) (snd (mongo_key_revoke t ref (tokenId k) db'), m)) = Ok None"
    unfolding resolve_same [where ts = "[row]" and others' = id] using pg(3) by (simp add: revoke_same)
  show "fst (mongo_key_resolve scrypt env scan others t' (token k) (snd (mongo_key_revokeAllForTenant t ref db'), m)) = Ok None"
    unfolding resolve_same [where ts = "[row]" and others' = id] using pg(4) by (simp add: revoke_same)
qed

section \<open>The audit log answers like the PostgreSQL one\<close>

lemma mongo_audit_same:
  assumes "f_limit f \<noteq> Some 0"
  shows "fst (mongo_audit_list scan f db) = fst (pg_audit_list scan f (registry_empty\<lparr>rg_audit := db\<rparr>))"
proof -
  have "mongo_audit_filter f = sql_audit_where f" by (simp add: mongo_audit_filter_def sql_audit_where_def fun_eq_iff)
  then show ?thesis using assms
    by (auto simp: mongo_audit_list_def pg_audit_list_def limited_def split: option.split)
qed

text \<open>With a limit of 0 it lists everything that passes the filter, where PostgreSQL lists nothing.\<close>

lemma mongo_limit_zero:
  assumes "f_limit f = Some 0"
  shows "fst (mongo_audit_list scan f db) = Ok (map rowToEntry (js_sort (\<lambda>a b. au_at b - au_at a) (scan (filter (mongo_audit_filter f) db))))"
    "fst (pg_audit_list scan f s) = Ok []"
  using assms by (simp_all add: mongo_audit_list_def pg_audit_list_def limited_def)

end
