(* ===== verification/Schemas.thy ===== *)
theory Schemas
  imports Builders Validation
begin

text \<open>
  The zod schemas of the invoice inputs (\<open>core/src/validation/schemas.ts\<close>), over inputs of the right types.
  An object schema accepts when all its fields do, a \<open>refine\<close> adds a condition, and the output is the
  input but for what \<open>transform\<close> changes: casts change nothing, the time of issue gets its \<open>Z\<close>.
  \<open>z.number()\<close> refuses NaN and takes infinities.
\<close>

section \<open>Primitive schemas\<close>

definition vatNumberSchema :: "string \<Rightarrow> bool" where \<comment> \<open>\<open>/^3\d{13}3$/\<close>\<close>
  "vatNumberSchema s = (length s = 15 \<and> hd s = CHR ''3'' \<and> last s = CHR ''3'' \<and> list_all is_digit s)"

definition crnSchema :: "string \<Rightarrow> bool" where \<comment> \<open>\<open>/^\d{10}$/\<close>\<close>
  "crnSchema s = (length s = 10 \<and> list_all is_digit s)"

definition egsUuidSchema :: "string \<Rightarrow> bool" where \<comment> \<open>the expression of \<open>isUuidV4\<close>\<close>
  "egsUuidSchema s = isUuidV4 s"

definition invoiceHashSchema :: "string \<Rightarrow> bool" where \<comment> \<open>\<open>/^[A-Za-z0-9+/]{43}=$/\<close>\<close>
  "invoiceHashSchema s = (length s = 44 \<and> list_all is_b64_char (take 43 s) \<and> drop 43 s = ''='')"

text \<open>\<open>9\<close> stands for a digit, every other character for itself.\<close>

definition like :: "string \<Rightarrow> string \<Rightarrow> bool" where
  "like pat s = list_all2 (\<lambda>p c. if p = CHR ''9'' then is_digit c else c = p) pat s"

definition issueDateSchema :: "string \<Rightarrow> bool" where
  "issueDateSchema s = like ''9999-99-99'' s"

definition issueTimeSchema :: "string \<Rightarrow> string option" where
  "issueTimeSchema s = (if like ''99:99:99'' s \<or> like ''99:99:99Z'' s
     then Some (if endsWith ''Z'' s then s else s @ ''Z'') else None)"

definition min1 :: "string \<Rightarrow> bool" where
  "min1 s = (s \<noteq> [])"

definition optional :: "('a \<Rightarrow> bool) \<Rightarrow> 'a option \<Rightarrow> bool" where
  "optional p x = (case x of None \<Rightarrow> True | Some y \<Rightarrow> p y)"

definition nonnegative :: "num64 \<Rightarrow> bool" where
  "nonnegative x = le64 zero64 x"

definition positive :: "num64 \<Rightarrow> bool" where
  "positive x = (le64 zero64 x \<and> \<not> eq64 x zero64)"

fun is_integer64 :: "num64 \<Rightarrow> bool" where
  "is_integer64 (Fin s m e) = (0 \<le> e \<or> 2 ^ nat (- e) dvd m)"
| "is_integer64 _ = False"

section \<open>Objects\<close>

definition egsUnitLocationSchema :: "EGSUnitLocation \<Rightarrow> bool" where
  "egsUnitLocationSchema l = (min1 (loc_cityName l) \<and> min1 (loc_citySubdivision l) \<and> min1 (loc_street l) \<and>
     min1 (loc_plotIdentification l) \<and> min1 (loc_building l) \<and> like ''99999'' (loc_postalZone l))"

text \<open>The certificate's fields are optional strings: every \<open>EGSCertificate\<close> is accepted.\<close>

definition egsUnitInfoSchema :: "EGSUnitInfo \<Rightarrow> bool" where
  "egsUnitInfoSchema e = (egsUuidSchema (egs_uuid e) \<and> min1 (egs_customId e) \<and> min1 (egs_model e) \<and>
     crnSchema (egs_crnNumber e) \<and> min1 (egs_vatName e) \<and> vatNumberSchema (egs_vatNumber e) \<and>
     min1 (egs_branchName e) \<and> min1 (egs_branchIndustry e) \<and> egsUnitLocationSchema (egs_location e))"

definition lineItemTaxSchema :: "ZATCAInvoiceLineItemTax \<Rightarrow> bool" where
  "lineItemTaxSchema t = nonnegative (percentAmount t)"

definition lineItemDiscountSchema :: "ZATCAInvoiceLineItemDiscount \<Rightarrow> bool" where
  "lineItemDiscountSchema d = (nonnegative (discount_amount d) \<and> min1 (discount_reason d))"

definition lineItemSchema :: "ZATCAInvoiceLineItem \<Rightarrow> bool" where
  "lineItemSchema l = (min1 (item_id l) \<and> min1 (item_name l) \<and> positive (item_quantity l) \<and>
     nonnegative (taxExclusivePrice l) \<and> optional (list_all lineItemTaxSchema) (otherTaxes l) \<and>
     optional (list_all lineItemDiscountSchema) (discounts l) \<and>
     nonnegative (vatPercent l) \<and> le64 (vatPercent l) hundred64)"

definition paymentMethodSchema :: "string \<Rightarrow> bool" where
  "paymentMethodSchema s = List.member [''10'', ''30'', ''42'', ''48''] s"

definition invoiceTypeCodeSchema :: "string \<Rightarrow> bool" where
  "invoiceTypeCodeSchema s = List.member [''388'', ''383'', ''381''] s"

definition cancelationSchema :: "ZATCAInvoiceCancelation \<Rightarrow> bool" where
  "cancelationSchema c = (is_integer64 (canceledInvoiceNumber c) \<and> positive (canceledInvoiceNumber c) \<and>
     paymentMethodSchema (paymentMethod c) \<and> invoiceTypeCodeSchema (cancelationType c) \<and> min1 (cancelation_reason c))"

definition partyAddressSchema :: "PartyAddress \<Rightarrow> bool" where
  "partyAddressSchema a = (min1 (addr_streetName a) \<and> min1 (addr_buildingNumber a) \<and> min1 (addr_cityName a) \<and>
     like ''99999'' (addr_postalZone a) \<and> length (addr_countryCode a) = 2)"

definition partyIdentitySchemeSchema :: "string \<Rightarrow> bool" where
  "partyIdentitySchemeSchema s = List.member [''CRN'', ''MOM'', ''MLS'', ''700'', ''SAG'', ''NAT'', ''GCC'', ''IQA'', ''PAS'', ''OTH''] s"

definition buyerInfoSchema :: "BuyerInfo \<Rightarrow> bool" where
  "buyerInfoSchema b = (optional vatNumberSchema (buyer_vatNumber b) \<and> min1 (buyer_registrationName b) \<and>
     optional partyAddressSchema (buyer_address b) \<and> partyIdentitySchemeSchema (buyer_identityScheme b) \<and>
     min1 (buyer_identityNumber b))"

section \<open>Invoice inputs\<close>

definition invoiceCommonShape :: "InvoiceInput \<Rightarrow> InvoiceInput option" where
  "invoiceCommonShape i = (case issueTimeSchema (issueTime i) of None \<Rightarrow> None | Some t \<Rightarrow>
     if egsUnitInfoSchema (inv_egsInfo i) \<and> 0 < invoiceCounterNumber i \<and> min1 (invoiceSerialNumber i) \<and>
        issueDateSchema (issueDate i) \<and> invoiceHashSchema (inv_previousInvoiceHash i) \<and>
        list_all lineItemSchema (lineItems i) \<and> lineItems i \<noteq> [] \<and>
        optional cancelationSchema (cancelation i) \<and> optional min1 (buyerName i) \<and> optional buyerInfoSchema (buyerInfo i)
     then Some (i\<lparr>issueTime := t\<rparr>) else None)"

text \<open>The object with its literal \<open>kind\<close>, and the conditions that the schema of each kind refines it by.\<close>

definition kind_object :: "InvoiceKind \<Rightarrow> InvoiceInput \<Rightarrow> InvoiceInput option" where
  "kind_object k i = (if inv_kind i = k then invoiceCommonShape i else None)"

definition refine :: "(InvoiceInput \<Rightarrow> bool) \<Rightarrow> InvoiceInput option \<Rightarrow> InvoiceInput option" where
  "refine p x = (case x of None \<Rightarrow> None | Some i \<Rightarrow> if p i then Some i else None)"

definition simplifiedTaxInvoiceInputSchema :: "InvoiceInput \<Rightarrow> InvoiceInput option" where
  "simplifiedTaxInvoiceInputSchema i =
     refine (\<lambda>v. case buyerName v of None \<Rightarrow> False | Some s \<Rightarrow> 0 < length s) (kind_object Simplified_tax_invoice i)"

definition standardTaxInvoiceInputSchema :: "InvoiceInput \<Rightarrow> InvoiceInput option" where
  "standardTaxInvoiceInputSchema i = refine (\<lambda>v. buyerInfo v \<noteq> None) (kind_object Standard_tax_invoice i)"

definition simplifiedCreditNoteInputSchema :: "InvoiceInput \<Rightarrow> InvoiceInput option" where
  "simplifiedCreditNoteInputSchema i = refine (\<lambda>v. cancelation v \<noteq> None) (kind_object Simplified_credit_note i)"

definition standardCreditNoteInputSchema :: "InvoiceInput \<Rightarrow> InvoiceInput option" where
  "standardCreditNoteInputSchema i = refine (\<lambda>v. buyerInfo v \<noteq> None)
     (refine (\<lambda>v. cancelation v \<noteq> None) (kind_object Standard_credit_note i))"

definition simplifiedDebitNoteInputSchema :: "InvoiceInput \<Rightarrow> InvoiceInput option" where
  "simplifiedDebitNoteInputSchema i = refine (\<lambda>v. cancelation v \<noteq> None) (kind_object Simplified_debit_note i)"

definition standardDebitNoteInputSchema :: "InvoiceInput \<Rightarrow> InvoiceInput option" where
  "standardDebitNoteInputSchema i = refine (\<lambda>v. buyerInfo v \<noteq> None)
     (refine (\<lambda>v. cancelation v \<noteq> None) (kind_object Standard_debit_note i))"

definition phase1InvoiceInputSchema :: "InvoiceInput \<Rightarrow> InvoiceInput option" where
  "phase1InvoiceInputSchema i = kind_object Phase1_invoice i"

definition phase1CreditNoteInputSchema :: "InvoiceInput \<Rightarrow> InvoiceInput option" where
  "phase1CreditNoteInputSchema i = refine (\<lambda>v. cancelation v \<noteq> None) (kind_object Phase1_credit_note i)"

text \<open>The union picks the plain object of the kind: no \<open>refine\<close>.\<close>

definition invoiceInputSchema :: "InvoiceInput \<Rightarrow> InvoiceInput option" where
  "invoiceInputSchema i = kind_object (inv_kind i) i"

definition variantSchema :: "InvoiceKind \<Rightarrow> InvoiceInput \<Rightarrow> InvoiceInput option" where
  "variantSchema k = (case k of
       Simplified_tax_invoice \<Rightarrow> simplifiedTaxInvoiceInputSchema | Standard_tax_invoice \<Rightarrow> standardTaxInvoiceInputSchema
     | Simplified_credit_note \<Rightarrow> simplifiedCreditNoteInputSchema | Standard_credit_note \<Rightarrow> standardCreditNoteInputSchema
     | Simplified_debit_note \<Rightarrow> simplifiedDebitNoteInputSchema | Standard_debit_note \<Rightarrow> standardDebitNoteInputSchema
     | Phase1_invoice \<Rightarrow> phase1InvoiceInputSchema | Phase1_credit_note \<Rightarrow> phase1CreditNoteInputSchema)"

lemmas variant_defs = variantSchema_def simplifiedTaxInvoiceInputSchema_def standardTaxInvoiceInputSchema_def
  simplifiedCreditNoteInputSchema_def standardCreditNoteInputSchema_def simplifiedDebitNoteInputSchema_def
  standardDebitNoteInputSchema_def phase1InvoiceInputSchema_def phase1CreditNoteInputSchema_def refine_def kind_object_def

section \<open>The output\<close>

lemma like_append: "like pat s \<Longrightarrow> list_all2 (\<lambda>p c. if p = CHR ''9'' then is_digit c else c = p) q u \<Longrightarrow> like (pat @ q) (s @ u)"
  unfolding like_def by (rule list_all2_appendI)

lemma like_no_z: "like ''99:99:99'' s \<Longrightarrow> \<not> endsWith ''Z'' s"
proof
  assume s: "like ''99:99:99'' s" "endsWith ''Z'' s"
  then have len: "length s = 8" by (simp add: like_def list_all2_lengthD [symmetric])
  then have "is_digit (last s)"
    using s(1) list_all2_nthD [of "\<lambda>p c. if p = CHR ''9'' then is_digit c else c = p" "''99:99:99''" s 7]
    by (cases "s = []") (simp_all add: like_def last_conv_nth)
  moreover have "last s = CHR ''Z''" using s(2) len last_drop [of "length s - 1" s] by (simp add: endsWith_def)
  ultimately show False by (simp add: is_digit_def)
qed

lemma issueTime_normal:
  assumes "issueTimeSchema t = Some u"
  shows "u = ensureZatcaTimeZ t \<and> issueTimeSchema u = Some u \<and> like ''99:99:99Z'' u"
proof -
  have "like ''99:99:99Z'' (s @ ''Z'')" if "like ''99:99:99'' s" for s
    using like_append [OF that, of "''Z''" "''Z''"] by simp
  moreover have "endsWith ''Z'' s" if "like ''99:99:99Z'' s" for s
  proof -
    have "length s = 9" using that by (simp add: like_def list_all2_lengthD [symmetric])
    moreover from this have "s ! 8 = CHR ''Z''"
      using that list_all2_nthD [of "\<lambda>p c. if p = CHR ''9'' then is_digit c else c = p" "''99:99:99Z''" s 8] by (simp add: like_def)
    ultimately show ?thesis using Cons_nth_drop_Suc [of 8 s] by (simp add: endsWith_def)
  qed
  ultimately show ?thesis using assms like_no_z
    by (auto simp: issueTimeSchema_def ensureZatcaTimeZ_def endsWith_def split: if_splits)
qed

lemma common_shape_output:
  assumes "invoiceCommonShape i = Some j"
  shows "j = normalizeInput i" "invoiceCommonShape j = Some j"
proof -
  obtain u where u: "issueTimeSchema (issueTime i) = Some u" "j = i\<lparr>issueTime := u\<rparr>"
    using assms by (auto simp: invoiceCommonShape_def split: option.splits if_splits)
  note n = issueTime_normal [OF u(1)]
  show "j = normalizeInput i" using u(2) n by (simp add: normalizeInput_def)
  show "invoiceCommonShape j = Some j" using assms u n by (auto simp: invoiceCommonShape_def split: if_splits)
qed

lemma variant_output:
  assumes "variantSchema k i = Some j"
  shows "invoiceCommonShape i = Some j" "variantSchema k j = Some j" "inv_kind i = k"
proof -
  have "invoiceCommonShape i = Some j \<and> inv_kind i = k"
    using assms by (cases k) (auto simp: variant_defs split: if_splits option.splits)
  then show i: "invoiceCommonShape i = Some j" "inv_kind i = k" by blast+
  have "inv_kind j = k" "buyerName j = buyerName i" "buyerInfo j = buyerInfo i" "cancelation j = cancelation i"
    using i common_shape_output(1) [OF i(1)] by (simp_all add: normalizeInput_def)
  then show "variantSchema k j = Some j"
    using assms i common_shape_output(2) [OF i(1)] by (cases k) (auto simp: variant_defs split: if_splits option.splits)
qed

text \<open>What the variant schema asks for beside the union.\<close>

definition refined :: "InvoiceInput \<Rightarrow> bool" where
  "refined i = (case inv_kind i of
       Simplified_tax_invoice \<Rightarrow> buyerName i \<noteq> None | Standard_tax_invoice \<Rightarrow> buyerInfo i \<noteq> None
     | Simplified_credit_note \<Rightarrow> cancelation i \<noteq> None | Standard_credit_note \<Rightarrow> cancelation i \<noteq> None \<and> buyerInfo i \<noteq> None
     | Simplified_debit_note \<Rightarrow> cancelation i \<noteq> None | Standard_debit_note \<Rightarrow> cancelation i \<noteq> None \<and> buyerInfo i \<noteq> None
     | Phase1_invoice \<Rightarrow> True | Phase1_credit_note \<Rightarrow> cancelation i \<noteq> None)"

lemma variant_is_refined_union:
  "variantSchema (inv_kind i) i = (if refined i then invoiceInputSchema i else None)"
proof (cases "invoiceCommonShape i")
  case (Some j)
  have "buyerName i = Some s \<Longrightarrow> s \<noteq> []" for s
    using Some by (auto simp: invoiceCommonShape_def optional_def min1_def split: option.splits if_splits)
  moreover have "buyerName j = buyerName i" "buyerInfo j = buyerInfo i" "cancelation j = cancelation i"
    using common_shape_output(1) [OF Some] by (simp_all add: normalizeInput_def)
  ultimately show ?thesis using Some
    by (cases "inv_kind i") (auto simp: variant_defs invoiceInputSchema_def refined_def split: option.split)
qed (cases "inv_kind i", auto simp: variant_defs invoiceInputSchema_def)

lemma base_hash_refused: "inv_previousInvoiceHash i = ZATCA_BASE_INVOICE_HASH \<Longrightarrow> invoiceCommonShape i = None"
proof -
  have "\<not> invoiceHashSchema ZATCA_BASE_INVOICE_HASH" by code_simp
  then show "inv_previousInvoiceHash i = ZATCA_BASE_INVOICE_HASH \<Longrightarrow> invoiceCommonShape i = None"
    by (simp add: invoiceCommonShape_def split: option.split)
qed

text \<open>The schemas' hash is the guards' hash.\<close>

lemma invoiceHashSchema_guard: "invoiceHashSchema s = isInvoiceHash s"
proof -
  have eq: "\<not> is_b64_char (CHR ''='')" by code_simp
  show ?thesis
  proof
    assume "invoiceHashSchema s"
    then have "s = take 43 s @ ''=''" "length (take 43 s) = 43" "\<forall>c \<in> set (take 43 s). is_b64_char c"
      using append_take_drop_id [of 43 s] by (simp_all add: invoiceHashSchema_def list_all_iff)
    then show "isInvoiceHash s"
      using eq takeWhile_append2 [of "take 43 s" is_b64_char "''=''"] dropWhile_append2 [of "take 43 s" is_b64_char "''=''"]
      by (simp add: isInvoiceHash_def)
  next
    assume h: "isInvoiceHash s"
    have "list_all is_b64_char (takeWhile is_b64_char s)" by (auto simp: list_all_iff dest: set_takeWhileD)
    then obtain t where s: "s = t @ ''=''" "length t = 43" "list_all is_b64_char t"
      using h takeWhile_dropWhile_id [of is_b64_char s] unfolding isInvoiceHash_def by metis
    then show "invoiceHashSchema s" by (simp add: invoiceHashSchema_def)
  qed
qed

end
