(* ===== verification/Config.thy ===== *)
theory Config
  imports Vault ApiKeys Semaphore
begin

text \<open>
  The configuration of the server from its environment (\<open>server/src/config.ts\<close>) and the choice of a
  storage driver (\<open>server/src/cli.ts\<close>). \<open>enum_message\<close> is what zod says of a value outside an enumeration;
  the other messages are the schemas' own.
\<close>

type_synonym process_env = "string \<Rightarrow> string option"

record ServerConfig =
  cfg_host :: string
  cfg_port :: nat
  cfg_timezone :: string
  cfg_adminKeysRaw :: string
  cfg_masterKeys :: "MasterKey list"
  cfg_activeKid :: string
  cfg_tenantBearerEnv :: string
  cfg_onboardingTimeoutMs :: num64
  cfg_idempotencyWindowMs :: num64
  cfg_onboardingMaxConcurrent :: num64
  cfg_instanceId :: string
  cfg_metricsEnabled :: bool
  cfg_logLevel :: string
  cfg_trustProxy :: bool
  cfg_rateLimitMaxPerMinute :: num64

text \<open>What the routes see: no field with key material.\<close>

record SafeServerConfig =
  safe_host :: string
  safe_port :: nat
  safe_timezone :: string
  safe_tenantBearerEnv :: string
  safe_onboardingTimeoutMs :: num64
  safe_idempotencyWindowMs :: num64
  safe_onboardingMaxConcurrent :: num64
  safe_instanceId :: string
  safe_metricsEnabled :: bool
  safe_logLevel :: string
  safe_trustProxy :: bool
  safe_rateLimitMaxPerMinute :: num64

definition toSafeServerConfig :: "ServerConfig \<Rightarrow> SafeServerConfig" where
  "toSafeServerConfig c = \<lparr>safe_host = cfg_host c, safe_port = cfg_port c, safe_timezone = cfg_timezone c,
     safe_tenantBearerEnv = cfg_tenantBearerEnv c, safe_onboardingTimeoutMs = cfg_onboardingTimeoutMs c,
     safe_idempotencyWindowMs = cfg_idempotencyWindowMs c, safe_onboardingMaxConcurrent = cfg_onboardingMaxConcurrent c,
     safe_instanceId = cfg_instanceId c, safe_metricsEnabled = cfg_metricsEnabled c, safe_logLevel = cfg_logLevel c,
     safe_trustProxy = cfg_trustProxy c, safe_rateLimitMaxPerMinute = cfg_rateLimitMaxPerMinute c\<rparr>"

section \<open>The key ring\<close>

fun read_keys :: "string list \<Rightarrow> string list \<Rightarrow> error + MasterKey list" where
  "read_keys [] seen = Ok []"
| "read_keys (entry # es) seen = (case indexOf '':'' entry of
     None \<Rightarrow> Err (plain_server_error (''Master key entry '' @ quoted entry @ '' must be of the form ''
       @ quoted ''kid:<base64-32-bytes>'' @ ''.''))
   | Some idx \<Rightarrow> if idx = 0 \<or> idx = length entry - 1
       then Err (plain_server_error (''Master key entry '' @ quoted entry @ '' must be of the form ''
         @ quoted ''kid:<base64-32-bytes>'' @ ''.''))
       else (let kid = trim (take idx entry); b64 = trim (drop (Suc idx) entry); key = base64_decode b64 in
         if List.member seen kid then Err (plain_server_error (''Duplicate kid '' @ quoted kid @ '' in master key ring.''))
         else if \<not> isBase64 b64 then Err (plain_server_error (''Master key for kid '' @ quoted kid
           @ '' is not valid base64. Expected 44 chars of [A-Za-z0-9+/] with optional '' @ quoted ''='' @ '' padding (32 raw bytes).''))
         else if length key \<noteq> 32 then Err (plain_server_error (''Master key for kid '' @ quoted kid
           @ '' must be 32 bytes after base64 decode; got '' @ nat_str (length key) @ ''.''))
         else (case read_keys es (kid # seen) of Inl e \<Rightarrow> Inl e
           | Inr ks \<Rightarrow> Ok (\<lparr>mk_kid = kid, mk_key = key\<rparr> # ks))))"

definition readKeyring :: "string \<Rightarrow> error + MasterKey list" where
  "readKeyring raw = (let entries = filter (\<lambda>s. 0 < length s) (map trim (split_on (CHR '','') raw)) in
     if entries = [] then Err (plain_server_error
       ''ZATCA_SERVER_MASTER_KEYS is required. Format: kid:<base64-32-bytes>[,kid:<base64-32-bytes>...]'')
     else read_keys entries [])"

section \<open>The schemas\<close>

text \<open>
  \<open>Number.parseInt\<close> of a string of digits: the double nearest to its value. The comparisons are made
  on the value: rounding does not carry it over 0 or 65536.
\<close>

definition PortSchema :: "string \<Rightarrow> string + nat" where
  "PortSchema s = (if s = [] \<or> \<not> list_all is_digit s then Inl ''must be a positive integer''
     else if 0 < digits_val s \<and> digits_val s < 65536 then Inr (digits_val s) else Inl ''must be between 1 and 65535'')"

definition MsSchema :: "string \<Rightarrow> string + num64" where
  "MsSchema s = (if s = [] \<or> \<not> list_all is_digit s then Inl ''must be a positive integer''
     else if 0 < digits_val s then Inr (num_of_nat (digits_val s)) else Inl ''must be positive'')"

definition BoolSchema :: "string \<Rightarrow> string + bool" where
  "BoolSchema s = (let l = toLowerCase s in
     if l = ''true'' \<or> l = ''false'' then Inr (l = ''true'') else Inl (''must be '' @ quoted ''true'' @ '' or '' @ quoted ''false''))"

definition zod_enum :: "(string list \<Rightarrow> string \<Rightarrow> string) \<Rightarrow> string list \<Rightarrow> string \<Rightarrow> string + string" where
  "zod_enum enum_message vs s = (if List.member vs s then Inr s else Inl (enum_message vs s))"

definition EnvLiteralSchema :: "(string list \<Rightarrow> string \<Rightarrow> string) \<Rightarrow> string \<Rightarrow> string + string" where
  "EnvLiteralSchema msg = zod_enum msg [''live'', ''test'']"

definition LevelSchema :: "(string list \<Rightarrow> string \<Rightarrow> string) \<Rightarrow> string \<Rightarrow> string + string" where
  "LevelSchema msg = zod_enum msg [''fatal'', ''error'', ''warn'', ''info'', ''debug'', ''trace'', ''silent'']"

definition withDefault :: "string option \<Rightarrow> (string \<Rightarrow> string + 'a) \<Rightarrow> 'a \<Rightarrow> string \<Rightarrow> error + 'a" where
  "withDefault raw schema fallback envName = (case raw of None \<Rightarrow> Ok fallback
     | Some s \<Rightarrow> if s = [] then Ok fallback
         else (case schema s of Inl m \<Rightarrow> Err (plain_server_error (envName @ '' is invalid: '' @ m)) | Inr x \<Rightarrow> Ok x))"

section \<open>Loading\<close>

definition loadConfig :: "(string list \<Rightarrow> string \<Rightarrow> string) \<Rightarrow> process_env \<Rightarrow> error + ServerConfig" where
  "loadConfig msg env =
     (let adminKeysRaw = or_else (env ''ZATCA_SERVER_ADMIN_KEYS'') [] in
      if adminKeysRaw = [] then Err (plain_server_error
        ''ZATCA_SERVER_ADMIN_KEYS is required. Format: label:<key>[,label:<key>...]'')
      else (case readKeyring (or_else (env ''ZATCA_SERVER_MASTER_KEYS'') []) of Inl e \<Rightarrow> Inl e | Inr masterKeys \<Rightarrow>
        (let activeKid = (case env ''ZATCA_SERVER_ACTIVE_KID'' of Some k \<Rightarrow> trim k
             | None \<Rightarrow> (if masterKeys = [] then [] else mk_kid (last masterKeys))) in
         if \<not> list_ex (\<lambda>m. mk_kid m = activeKid) masterKeys
         then Err (plain_server_error (''ZATCA_SERVER_ACTIVE_KID '' @ quoted activeKid @ '' is not present in the master key ring.''))
         else
        (case withDefault (env ''ZATCA_SERVER_PORT'') PortSchema 3000 ''ZATCA_SERVER_PORT'' of Inl e \<Rightarrow> Inl e | Inr port \<Rightarrow>
        (case withDefault (env ''ZATCA_SERVER_TENANT_BEARER_ENV'') (EnvLiteralSchema msg) ''live'' ''ZATCA_SERVER_TENANT_BEARER_ENV'' of Inl e \<Rightarrow> Inl e | Inr bearer \<Rightarrow>
        (case withDefault (env ''ZATCA_SERVER_ONBOARDING_TIMEOUT_MS'') MsSchema (num_of_nat 180000) ''ZATCA_SERVER_ONBOARDING_TIMEOUT_MS''
           of Inl e \<Rightarrow> Inl e | Inr timeout \<Rightarrow>
        (case withDefault (env ''ZATCA_SERVER_IDEMPOTENCY_WINDOW_MS'') MsSchema (num_of_nat 86400000) ''ZATCA_SERVER_IDEMPOTENCY_WINDOW_MS''
           of Inl e \<Rightarrow> Inl e | Inr window \<Rightarrow>
        (case withDefault (env ''ZATCA_SERVER_ONBOARDING_MAX_CONCURRENT'') MsSchema (num_of_nat 4) ''ZATCA_SERVER_ONBOARDING_MAX_CONCURRENT''
           of Inl e \<Rightarrow> Inl e | Inr concurrent \<Rightarrow>
        (case withDefault (env ''ZATCA_SERVER_METRICS_ENABLED'') BoolSchema True ''ZATCA_SERVER_METRICS_ENABLED'' of Inl e \<Rightarrow> Inl e | Inr metrics \<Rightarrow>
        (case withDefault (env ''ZATCA_SERVER_LOG_LEVEL'') (LevelSchema msg) ''info'' ''ZATCA_SERVER_LOG_LEVEL'' of Inl e \<Rightarrow> Inl e | Inr level \<Rightarrow>
        (case withDefault (env ''ZATCA_SERVER_TRUST_PROXY'') BoolSchema False ''ZATCA_SERVER_TRUST_PROXY'' of Inl e \<Rightarrow> Inl e | Inr trust \<Rightarrow>
        (case withDefault (env ''ZATCA_SERVER_RATE_LIMIT_PER_MINUTE'') MsSchema (num_of_nat 200) ''ZATCA_SERVER_RATE_LIMIT_PER_MINUTE''
           of Inl e \<Rightarrow> Inl e | Inr rate \<Rightarrow>
         Ok \<lparr>cfg_host = or_else (env ''ZATCA_SERVER_HOST'') ''0.0.0.0'', cfg_port = port,
             cfg_timezone = or_else (env ''ZATCA_SERVER_TZ'') ''Asia/Riyadh'', cfg_adminKeysRaw = adminKeysRaw,
             cfg_masterKeys = masterKeys, cfg_activeKid = activeKid, cfg_tenantBearerEnv = bearer,
             cfg_onboardingTimeoutMs = timeout, cfg_idempotencyWindowMs = window, cfg_onboardingMaxConcurrent = concurrent,
             cfg_instanceId = or_else (env ''ZATCA_SERVER_INSTANCE_ID'') (or_else (env ''HOSTNAME'') ''instance-0''),
             cfg_metricsEnabled = metrics, cfg_logLevel = level, cfg_trustProxy = trust,
             cfg_rateLimitMaxPerMinute = rate\<rparr>))))))))))))"

section \<open>The driver\<close>

datatype Driver = Memory_driver | Mongo_driver string | Postgres_driver string

text \<open>The driver with the address it connects to, which the boot functions ask for.\<close>

definition resolveDriver :: "process_env \<Rightarrow> error + Driver" where
  "resolveDriver env = (let raw = or_else (env ''STORAGE_DRIVER'') ''memory'' in
     if raw = ''memory'' then Ok Memory_driver
     else if raw = ''mongo'' then (case env ''MONGO_URI'' of
         None \<Rightarrow> Err (plain_server_error ''STORAGE_DRIVER=mongo requires MONGO_URI to be set.'')
       | Some uri \<Rightarrow> if uri = [] then Err (plain_server_error ''STORAGE_DRIVER=mongo requires MONGO_URI to be set.'')
           else Ok (Mongo_driver uri))
     else if raw = ''postgres'' then (case env ''DATABASE_URL'' of
         None \<Rightarrow> Err (plain_server_error ''STORAGE_DRIVER=postgres requires DATABASE_URL to be set.'')
       | Some uri \<Rightarrow> if uri = [] then Err (plain_server_error ''STORAGE_DRIVER=postgres requires DATABASE_URL to be set.'')
           else Ok (Postgres_driver uri))
     else Err (plain_server_error (''STORAGE_DRIVER must be one of: memory | mongo | postgres. Got: '' @ quoted raw)))"

section \<open>A loaded configuration\<close>

lemma read_keys_ok: "read_keys es seen = Ok ks \<Longrightarrow>
    distinct (map mk_kid ks) \<and> mk_kid ` set ks \<inter> set seen = {} \<and> (\<forall>k \<in> set ks. length (mk_key k) = 32) \<and> length ks = length es"
proof (induction es seen arbitrary: ks rule: read_keys.induct)
  case (2 entry es seen)
  obtain idx where "indexOf '':'' entry = Some idx" "\<not> (idx = 0 \<or> idx = length entry - 1)"
    using "2.prems" by (auto split: option.splits if_splits)
  then show ?case using 2 by (fastforce simp: Let_def split: if_splits sum.splits)
qed simp

lemma readKeyring_ok: "readKeyring raw = Ok ks \<Longrightarrow>
    ks \<noteq> [] \<and> distinct (map mk_kid ks) \<and> (\<forall>k \<in> set ks. length (mk_key k) = 32)"
proof -
  define es where "es = filter (\<lambda>s. 0 < length s) (map trim (split_on (CHR '','') raw))"
  assume "readKeyring raw = Ok ks"
  then have "es \<noteq> []" "read_keys es [] = Ok ks" unfolding readKeyring_def es_def [symmetric] by (auto simp: Let_def split: if_splits)
  then show ?thesis using read_keys_ok [of es "[]" ks] by auto
qed

lemma load_keyring_total:
  "distinct (map mk_kid ks) \<Longrightarrow> \<forall>k \<in> set ks. length (mk_key k) = 32 \<and> mget m (mk_kid k) = None \<Longrightarrow>
    \<exists>m'. load_keyring ks m = Ok m' \<and> (\<forall>i. mget m' i \<noteq> None \<longleftrightarrow> mget m i \<noteq> None \<or> i \<in> mk_kid ` set ks)"
proof (induction ks arbitrary: m)
  case (Cons k ks)
  have "\<exists>m'. load_keyring ks (mset_to (mk_kid k) (mk_key k) m) = Ok m' \<and>
      (\<forall>i. mget m' i \<noteq> None \<longleftrightarrow> mget (mset_to (mk_kid k) (mk_key k) m) i \<noteq> None \<or> i \<in> mk_kid ` set ks)"
    by (rule Cons.IH) (use Cons.prems in \<open>auto simp: image_iff\<close>)
  then show ?case using Cons.prems by auto
qed simp

lemma cipher_from_keyring:
  assumes "readKeyring raw = Ok ks" "list_ex (\<lambda>m. mk_kid m = active) ks"
  shows "\<exists>cipher. createAesGcmCipher aes ks active = Ok cipher"
proof -
  have ks: "ks \<noteq> []" "distinct (map mk_kid ks)" "\<forall>k \<in> set ks. length (mk_key k) = 32" using readKeyring_ok [OF assms(1)] by blast+
  obtain m' where m: "load_keyring ks [] = Ok m'" "mget m' i \<noteq> None \<longleftrightarrow> i \<in> mk_kid ` set ks" for i
    using load_keyring_total [of ks "[]"] ks by auto
  have "active \<in> mk_kid ` set ks" using assms(2) by (auto simp: list_ex_iff)
  then show ?thesis using m(2) [of active] ks(1) m(1) by (auto simp: createAesGcmCipher_def)
qed

lemma bitlen_bounds: "0 < n \<Longrightarrow> 2 ^ (bitlen n - 1) \<le> n \<and> n < 2 ^ bitlen n"
proof (induction n rule: bitlen.induct)
  case (1 n)
  show ?case
  proof (cases "n = 1")
    case False
    then have "0 < n div 2" using 1(2) by simp
    then have ih: "2 ^ (bitlen (n div 2) - 1) \<le> n div 2" "n div 2 < 2 ^ bitlen (n div 2)" "bitlen (n div 2) \<noteq> 0"
      using 1 bitlen.simps [of "n div 2"] by auto
    have "bitlen n = Suc (bitlen (n div 2))" using 1(2) bitlen.simps [of n] by simp
    moreover have "(2 :: nat) ^ bitlen (n div 2) = 2 * 2 ^ (bitlen (n div 2) - 1)" using ih(3) by (cases "bitlen (n div 2)") simp_all
    moreover have "x \<le> n div 2 \<Longrightarrow> n div 2 < 2 * x \<Longrightarrow> 2 * x \<le> n \<and> n < 2 * (2 * x)" for x by arith
    ultimately show ?thesis using ih(1,2) by simp
  qed (simp add: bitlen.simps)
qed

text \<open>An integer below \<open>2 ^ 53\<close> is a double.\<close>

lemma positive_integer_nat:
  assumes "0 < n" "n < 2 ^ 53"
  shows "positive_integer (num_of_nat n) = Some (int n)"
proof -
  define k where "k = bitlen n"
  have k: "2 ^ (k - 1) \<le> n" "n < 2 ^ k" "0 < k"
    using bitlen_bounds [OF assms(1)] bitlen.simps [of n] assms(1) unfolding k_def by auto
  have "(2 :: nat) ^ (k - 1) < 2 ^ 53" using k(1) assms(2) by linarith
  then have "k - 1 < 53" by (rule power_less_imp_less_exp [rotated]) simp
  then have "k \<le> 53" by simp
  define j where "j = 53 - k"
  have j: "n * 2 ^ j < 2 ^ 53" "2 ^ 53 \<le> n * 2 ^ Suc j"
  proof -
    have "n * 2 ^ j < 2 ^ k * 2 ^ j" using k(2) by simp
    also have "\<dots> = (2 :: nat) ^ 53" using \<open>k \<le> 53\<close> by (simp add: j_def flip: power_add)
    finally show "n * 2 ^ j < 2 ^ 53" .
    have "(2 :: nat) ^ 53 = 2 ^ (k - 1) * 2 ^ Suc j" using \<open>k \<le> 53\<close> k(3) by (simp add: j_def flip: power_add)
    also have "\<dots> \<le> n * 2 ^ Suc j" using k(1) by simp
    finally show "2 ^ 53 \<le> n * 2 ^ Suc j" .
  qed
  have "bitlen 1 = 1" by (simp add: bitlen_eval)
  then have start: "int (bitlen n) - int (bitlen 1) - 53 = - int (Suc j)" using \<open>k \<le> 53\<close> by (simp add: j_def k_def)
  have "scale2 n 1 (- int (Suc j)) = (n * 2 ^ Suc j, 1)" unfolding scale2_def by (simp del: of_nat_Suc power_Suc)
  moreover have "- int (Suc j) + 1 = - int j" "j \<le> 53" by (simp_all add: j_def)
  ultimately have e: "exponent_at n 1 (- int (Suc j)) = - int j" using j(2) unfolding exponent_at_def by (simp del: power_Suc of_nat_Suc)
  have "scale2 n 1 (- int j) = (n * 2 ^ j, 1)" by (cases "j = 0") (simp_all add: scale2_def)
  moreover have "div_even (n * 2 ^ j) 1 = n * 2 ^ j" by (simp add: div_even_def)
  ultimately have "round_at False n 1 (- int j) = Fin False (n * 2 ^ j) (- int j)"
    using j(1) by (simp add: round_at_def pack64_def)
  then have "num_of_nat n = Fin False (n * 2 ^ j) (- int j)"
    using assms(1) start e unfolding num_of_nat_def round64_def by simp
  then show ?thesis using assms(1) by (cases "j = 0") simp_all
qed

lemma ms_default:
  assumes "withDefault raw MsSchema (num_of_nat d) name = Ok x" "0 < d"
  shows "\<exists>n > 0. x = num_of_nat n"
  using assms by (auto simp: withDefault_def MsSchema_def split: option.splits if_splits sum.splits)

lemma port_default: "withDefault raw PortSchema 3000 name = Ok p \<Longrightarrow> 0 < p \<and> p < 65536"
  by (auto simp: withDefault_def PortSchema_def split: option.splits if_splits sum.splits)

lemma loaded:
  assumes "loadConfig msg env = Ok c"
  shows "readKeyring (or_else (env ''ZATCA_SERVER_MASTER_KEYS'') []) = Ok (cfg_masterKeys c)"
    "list_ex (\<lambda>m. mk_kid m = cfg_activeKid c) (cfg_masterKeys c)"
    "withDefault (env ''ZATCA_SERVER_PORT'') PortSchema 3000 ''ZATCA_SERVER_PORT'' = Ok (cfg_port c)"
    "withDefault (env ''ZATCA_SERVER_ONBOARDING_MAX_CONCURRENT'') MsSchema (num_of_nat 4)
      ''ZATCA_SERVER_ONBOARDING_MAX_CONCURRENT'' = Ok (cfg_onboardingMaxConcurrent c)"
  using assms by (auto simp: loadConfig_def Let_def split: if_splits sum.splits)

end
