(* ===== verification/InputProperties.thy ===== *)
theory InputProperties
  imports Schemas Config Storage "HOL-Library.Code_Target_Numeral"
begin

text \<open>
  What comes in from outside: the schemas of the invoice inputs against the builders and the storage,
  and the configuration against the components it is for.
\<close>

section \<open>Invoice inputs\<close>

text \<open>
  C38: validating an input first does not change the invoice. What the schema of a kind puts out is
  accepted by the same schema and by the union of all kinds as it is, and the builders, which add the
  \<open>Z\<close> to the time of issue themselves, build from it what they build from the input.
\<close>

theorem validated_input_builds_the_same:
  assumes "variantSchema kind i = Some j"
  shows "variantSchema kind j = Some j \<and> invoiceInputSchema i = Some j \<and>
    build lib now b j certificate private_key = build lib now b i certificate private_key"
proof -
  note out = variant_output [OF assms]
  have j: "j = normalizeInput i" by (rule common_shape_output(1) [OF out(1)])
  have "normalizeInput (normalizeInput i) = normalizeInput i" by (simp add: normalizeInput_def ensureZatcaTimeZ_idem)
  then have "build lib now b j certificate private_key = build lib now b i certificate private_key"
    unfolding j build_def by simp
  then show ?thesis using out by (simp add: invoiceInputSchema_def kind_object_def)
qed

definition valid_input :: InvoiceInput where
  "valid_input = \<lparr>inv_kind = Standard_tax_invoice,
     inv_egsInfo = \<lparr>egs_uuid = ''11111111-1111-4111-8111-111111111111'', egs_customId = ''c'', egs_model = ''m'',
       egs_crnNumber = ''1010101010'', egs_vatName = ''Acme'', egs_vatNumber = ''300000000000003'', egs_branchName = ''b'',
       egs_branchIndustry = ''Retail'', egs_location = \<lparr>loc_cityName = ''Riyadh'', loc_citySubdivision = ''w'', loc_street = ''s'',
         loc_plotIdentification = ''1'', loc_building = ''2'', loc_postalZone = ''12345''\<rparr>, egs_certificate = None\<rparr>,
     invoiceCounterNumber = 1, invoiceSerialNumber = ''1'', issueDate = ''2024-01-15'', issueTime = ''10:00:00'',
     inv_previousInvoiceHash = ''ypeBEsobvcr6wjGzmiPcTaeG7/gUfE5yuYB3ha/uSLs='',
     lineItems = [\<lparr>item_id = ''1'', item_name = ''Tea'', item_quantity = Fin False (2 ^ 52) (- 52),
       taxExclusivePrice = Fin False (2 ^ 52) (- 49), otherTaxes = None, discounts = None,
       vatPercent = Fin False (2 ^ 52) (- 48)\<rparr>],
     cancelation = None, buyerName = None, buyerInfo = Some \<lparr>buyer_vatNumber = None, buyer_registrationName = ''B'',
       buyer_address = None, buyer_identityScheme = ''CRN'', buyer_identityNumber = ''1''\<rparr>\<rparr>"

theorem validated_input_builds_the_same_witness:
  "variantSchema Standard_tax_invoice valid_input = Some (normalizeInput valid_input) \<and>
   (\<forall>lib now b certificate private_key.
     build lib now b (normalizeInput valid_input) certificate private_key = build lib now b valid_input certificate private_key)"
proof -
  have "egsUnitInfoSchema (inv_egsInfo valid_input)" "issueDateSchema (issueDate valid_input)"
    "invoiceHashSchema (inv_previousInvoiceHash valid_input)" "issueTimeSchema (issueTime valid_input) = Some ''10:00:00Z''"
    "optional buyerInfoSchema (buyerInfo valid_input)" "ensureZatcaTimeZ (issueTime valid_input) = ''10:00:00Z''"
    by code_simp+
  moreover have "list_all lineItemSchema (lineItems valid_input)"
    by (simp add: valid_input_def lineItemSchema_def min1_def positive_def nonnegative_def optional_def le64_def eq64_def
        is_zero64_def zero64_def hundred64_def signed_def num_eval)
  ultimately have "variantSchema Standard_tax_invoice valid_input = Some (normalizeInput valid_input)"
    by (simp add: variant_defs invoiceCommonShape_def normalizeInput_def) (simp add: valid_input_def min1_def optional_def)
  then show ?thesis using validated_input_builds_the_same [of Standard_tax_invoice valid_input "normalizeInput valid_input"] by simp
qed

text \<open>
  C39: no schema accepts the first invoice of a chain. The hash that the storage gives out for an empty
  scope, and that the issuers put into the invoice, has 88 characters; the schemas ask for 44. So every
  input with that previous hash is refused, by the schema of each kind and by their union.
\<close>

theorem first_invoice_not_valid:
  "fst (mem_getPreviousHash sc (Some kind) memory_empty) = Ok ZATCA_BASE_INVOICE_HASH \<and>
   (inv_previousInvoiceHash i = ZATCA_BASE_INVOICE_HASH \<longrightarrow>
     variantSchema k i = None \<and> invoiceInputSchema i = None)"
proof -
  have "invoiceCommonShape i = None" if "inv_previousInvoiceHash i = ZATCA_BASE_INVOICE_HASH" by (rule base_hash_refused [OF that])
  then show ?thesis using variant_output(1) [of k i]
    by (cases "variantSchema k i") (auto simp: mem_getPreviousHash_def memory_empty_def invoiceInputSchema_def kind_object_def)
qed

theorem first_invoice_not_valid_witness:
  "variantSchema Standard_tax_invoice (valid_input\<lparr>inv_previousInvoiceHash := ZATCA_BASE_INVOICE_HASH\<rparr>) = None"
  using first_invoice_not_valid [of "\<lparr>scope_vatNumber = ''300000000000003'', scope_egsUuid = ''u''\<rparr>" Standard_tax_invoice "valid_input\<lparr>inv_previousInvoiceHash := ZATCA_BASE_INVOICE_HASH\<rparr>"] by simp

section \<open>The configuration\<close>

text \<open>
  C40: a server whose configuration loads can be built from it: the key ring and the active key make a
  cipher, the port is one, and the limit of concurrent onboardings is a positive integer that makes a
  semaphore of that capacity, unless it is so large that it is no exact number.
\<close>

theorem loaded_config_boots:
  assumes "loadConfig msg env = Ok c"
  shows "(\<exists>cipher. createAesGcmCipher aes (cfg_masterKeys c) (cfg_activeKid c) = Ok cipher) \<and>
    0 < cfg_port c \<and> cfg_port c < 65536 \<and>
    (\<exists>n > 0. cfg_onboardingMaxConcurrent c = num_of_nat n \<and> (n < 2 ^ 53 \<longrightarrow>
      (\<exists>s. createSemaphore (cfg_onboardingMaxConcurrent c) = Ok s \<and> sem_capacity s = int n)))"
proof -
  note l = loaded [OF assms]
  obtain n where n: "0 < n" "cfg_onboardingMaxConcurrent c = num_of_nat n" using ms_default [OF l(4)] by auto
  moreover have "n < 2 ^ 53 \<Longrightarrow> \<exists>s. createSemaphore (num_of_nat n) = Ok s \<and> sem_capacity s = int n"
    using positive_integer_nat [OF n(1)] by (simp add: createSemaphore_def)
  ultimately show ?thesis using cipher_from_keyring [OF l(1,2)] port_default [OF l(3)] by auto
qed

definition demo_process_env :: process_env where
  "demo_process_env = [''ZATCA_SERVER_ADMIN_KEYS'' \<mapsto> ''ops:k'',
     ''ZATCA_SERVER_MASTER_KEYS'' \<mapsto> ''k1:AAAAAAAAAAAAAAAAAAAAAAAAAAAAAAAAAAAAAAAAAAA='', ''ZATCA_SERVER_PORT'' \<mapsto> ''8080'']"

theorem loaded_config_boots_witness:
  "\<exists>c cipher. loadConfig (\<lambda>_ v. v) demo_process_env = Ok c \<and>
     createAesGcmCipher \<lparr>aes_encrypt = \<lambda>_ _ t. (t, []), aes_decrypt = \<lambda>_ _ t _. Some t\<rparr> (cfg_masterKeys c) (cfg_activeKid c) = Ok cipher"
proof -
  have "is_ok (loadConfig (\<lambda>_ v. v) demo_process_env)" by code_simp
  then obtain c where c: "loadConfig (\<lambda>_ v. v) demo_process_env = Ok c" by (auto simp: is_ok_def split: sum.splits)
  show ?thesis using loaded_config_boots [OF c] c by blast
qed

end
