(* ===== verification/Ops.thy ===== *)
theory Ops
  imports Server RegistrySpec Config
begin

text \<open>
  The operations routes (\<open>server/src/routes/ops.ts\<close>) and the gauges that the server refreshes from the
  registry (\<open>server/src/app.ts\<close>). \<open>ping\<close> is the registry's; the text of \<open>/metrics\<close> is the metrics library's.
\<close>

section \<open>Routes\<close>

definition get_healthz :: Reply where
  "get_healthz = send (Sent_json (JObj [(''status'', JStr ''ok'')]))"

definition get_readyz :: "error + unit \<Rightarrow> Reply" where
  "get_readyz ping = (case ping of
       Inr _ \<Rightarrow> send (Sent_json (JObj [(''status'', JStr ''ready'')]))
     | Inl e \<Rightarrow> \<lparr>rp_status = 503, rp_headers = [],
         rp_body = Sent_json (JObj [(''status'', JStr ''not-ready''), (''reason'', JStr ''backing-store-unavailable'')])\<rparr>)"

text \<open>The route exists only when metrics are enabled.\<close>

definition get_metrics :: "SafeServerConfig \<Rightarrow> string \<Rightarrow> string \<Rightarrow> Reply option" where
  "get_metrics c contentType body = (if safe_metricsEnabled c
     then Some \<lparr>rp_status = 200, rp_headers = [(''Content-Type'', contentType)], rp_body = Sent_text body\<rparr> else None)"

section \<open>Gauges\<close>

record gauges =
  activeTenants :: int
  productionCertExpirySeconds :: "(string, int) jsmap"

definition not_deleted :: TenantListFilter where
  "not_deleted = \<lparr>filter_state = None, filter_environment = None, expiringWithinDays = None, includeDeleted = False\<rparr>"

text \<open>A failure to list leaves the gauges as they are.\<close>

definition refreshRegistryGauges :: "'s FullTenantStore \<Rightarrow> int \<Rightarrow> 's \<Rightarrow> gauges \<Rightarrow> gauges \<times> 's" where
  "refreshRegistryGauges tenants now s g = (case ts_list tenants not_deleted s of
       (Inl e, s') \<Rightarrow> (g, s')
     | (Inr ts, s') \<Rightarrow> (\<lparr>activeTenants = int (length ts),
         productionCertExpirySeconds = foldl (\<lambda>m t. case productionCertificateExpiresAt t of None \<Rightarrow> m
           | Some x \<Rightarrow> mset_to (tenantRef t) ((x - now) div 1000) m) [] ts\<rparr>, s'))"

text \<open>No detail of a failing store reaches the wire.\<close>

lemma readyz_coarse: "get_readyz (Err e) = get_readyz (Err e')"
  by (simp add: get_readyz_def)

lemma gauge_fold:
  "distinct (map tenantRef ts) \<Longrightarrow> (\<forall>t \<in> set ts. mget m (tenantRef t) = None) \<Longrightarrow>
    mget (foldl (\<lambda>m t. case productionCertificateExpiresAt t of None \<Rightarrow> m
      | Some x \<Rightarrow> mset_to (tenantRef t) ((x - now) div 1000) m) m ts) ref =
    (case find (\<lambda>t. tenantRef t = ref) ts of None \<Rightarrow> mget m ref
      | Some t \<Rightarrow> map_option (\<lambda>x. (x - now) div 1000) (productionCertificateExpiresAt t))"
proof (induction ts arbitrary: m)
  case (Cons t ts)
  let ?m = "case productionCertificateExpiresAt t of None \<Rightarrow> m | Some x \<Rightarrow> mset_to (tenantRef t) ((x - now) div 1000) m"
  have step: "mget (foldl (\<lambda>m t. case productionCertificateExpiresAt t of None \<Rightarrow> m
      | Some x \<Rightarrow> mset_to (tenantRef t) ((x - now) div 1000) m) ?m ts) ref =
    (case find (\<lambda>t. tenantRef t = ref) ts of None \<Rightarrow> mget ?m ref
      | Some t \<Rightarrow> map_option (\<lambda>x. (x - now) div 1000) (productionCertificateExpiresAt t))"
    by (rule Cons.IH) (use Cons.prems in \<open>auto simp: image_iff split: option.split\<close>)
  moreover have "tenantRef t = ref \<Longrightarrow> find (\<lambda>t. tenantRef t = ref) ts = None"
    using Cons.prems(1) by (auto simp: find_None_iff image_iff)
  ultimately show ?case using Cons.prems(2) by (auto split: option.split)
qed simp

text \<open>
  After a refresh over the memory registry there is a series exactly for the live tenants with a
  certificate, whatever series there were before.
\<close>

lemma gauges_follow_registry:
  assumes "distinct (map fst m)" "\<forall>(k, r) \<in> set m. tenantRef r = k"
  shows "mget (productionCertExpirySeconds (fst (refreshRegistryGauges (memory_tenant_store collate now) now m g))) ref =
    (case visible ref m of None \<Rightarrow> None | Some r \<Rightarrow> map_option (\<lambda>x. (x - now) div 1000) (productionCertificateExpiresAt r))"
proof -
  define live where "live = filter (list_matches now not_deleted) (map snd m)"
  define ts where "ts = js_sort (tenant_order collate) live"
  have refs: "map tenantRef (map snd m) = map fst m" using assms(2) by (induction m) auto
  have "distinct (map tenantRef (map snd m))" unfolding refs by (rule assms(1))
  then have "distinct (map tenantRef live)" unfolding live_def by (rule distinct_map_filter)
  moreover have "mset (map tenantRef ts) = mset (map tenantRef live)" by (simp add: ts_def mset_js_sort)
  ultimately have d: "distinct (map tenantRef ts)" by (metis mset_eq_imp_distinct_iff)
  have list: "list_matches now not_deleted r = (deletedAt r = None)" for r by (simp add: list_matches_def not_deleted_def)
  have mem: "set ts = {r. r \<in> set (map snd m) \<and> deletedAt r = None}" by (auto simp: ts_def live_def list)
  have "find (\<lambda>t. tenantRef t = ref) ts = visible ref m"
  proof (cases "visible ref m")
    case None
    have "t \<in> set ts \<Longrightarrow> tenantRef t \<noteq> ref" for t
    proof
      assume t: "t \<in> set ts" "tenantRef t = ref"
      then obtain k where "(k, t) \<in> set m" "deletedAt t = None" using mem by auto
      then have "mget m ref = Some t" using assms t(2) by (auto intro: map_of_is_SomeI)
      then show False using None \<open>deletedAt t = None\<close> by (simp add: visible_def)
    qed
    then show ?thesis using None by (auto simp: find_None_iff)
  next
    case (Some r)
    then have r: "mget m ref = Some r" "deletedAt r = None" by (auto simp: visible_def split: option.splits if_splits)
    then have "(ref, r) \<in> set m" by (simp add: map_of_SomeD)
    then have r': "r \<in> set ts" "tenantRef r = ref" using assms(2) r(2) unfolding mem by (force, blast)
    have "inj_on tenantRef (set ts)" using d by (simp add: distinct_map)
    then have uniq: "t = r" if "t \<in> set ts" "tenantRef t = ref" for t using that r' by (auto dest: inj_onD)
    have "find (\<lambda>t. tenantRef t = ref) ts = Some r"
      by (rule find_only) (use r' uniq in blast)+
    then show ?thesis using Some by simp
  qed
  moreover have "fst (refreshRegistryGauges (memory_tenant_store collate now) now m g) = \<lparr>activeTenants = int (length ts),
      productionCertExpirySeconds = foldl (\<lambda>m t. case productionCertificateExpiresAt t of None \<Rightarrow> m
        | Some x \<Rightarrow> mset_to (tenantRef t) ((x - now) div 1000) m) [] ts\<rparr>"
    by (simp add: refreshRegistryGauges_def memory_tenant_store_def tenant_list_def ts_def live_def)
  ultimately show ?thesis using gauge_fold [OF d, of "[]" now ref] by (simp split: option.split)
qed

end
