(* ===== verification/OtherStorage.thy ===== *)
theory OtherStorage
  imports Conformance
begin

text \<open>
  Two more storage adapters of the repository: the double that the issuers' tests use
  (\<open>core/src/issue/_memory-storage.ts\<close>), which keeps the contract, and the worked example over Prisma
  (\<open>examples/byo-storage-prisma\<close>), which does not. The Prisma client is the structural interface that the
  example asks for; what its schema promises is a client over two tables.
\<close>

section \<open>The test double\<close>

text \<open>The maps of the compliance adapter, and a log of the calls.\<close>

record double_state = internal_state +
  log_incrementCounter :: nat
  log_getPreviousHash :: "InvoiceKind option list"
  log_recordInvoice :: nat

definition double_empty :: double_state where
  "double_empty = \<lparr>int_counters = [], int_previousHash = [], int_records = [],
     log_incrementCounter = 0, log_getPreviousHash = [], log_recordInvoice = 0\<rparr>"

definition double_incrementCounter :: "TenantScope \<Rightarrow> (double_state, int \<times> string) eff" where
  "double_incrementCounter scope s =
     (let n = (case mget (int_counters s) (scopeKey scope) of None \<Rightarrow> 0 | Some m \<Rightarrow> m) + 1
      in (Ok (n, ''INV-'' @ padStart 4 (CHR ''0'') (int_str n)),
          s\<lparr>log_incrementCounter := log_incrementCounter s + 1,
            int_counters := mset_to (scopeKey scope) n (int_counters s)\<rparr>))"

definition double_getPreviousHash :: "TenantScope \<Rightarrow> InvoiceKind option \<Rightarrow> (double_state, string) eff" where
  "double_getPreviousHash scope kind s =
     (Ok (case mget (int_previousHash s) (scopeKey scope) of None \<Rightarrow> ZATCA_BASE_INVOICE_HASH | Some h \<Rightarrow> h),
      s\<lparr>log_getPreviousHash := log_getPreviousHash s @ [kind]\<rparr>)"

definition double_recordInvoice :: "TenantScope \<Rightarrow> InvoiceRecord \<Rightarrow> (double_state, unit) eff" where
  "double_recordInvoice scope r s =
     (Ok (), s\<lparr>log_recordInvoice := log_recordInvoice s + 1,
       int_records := mset_to (recordKey scope (rec_invoiceId r)) r (int_records s),
       int_previousHash := mset_to (scopeKey scope) (rec_invoiceHash r) (int_previousHash s)\<rparr>)"

definition double_loadInvoice :: "TenantScope \<Rightarrow> string \<Rightarrow> (double_state, InvoiceRecord option) eff" where
  "double_loadInvoice scope invoiceId s = (Ok (mget (int_records s) (recordKey scope invoiceId)), s)"

definition double_updateInvoiceStatus :: "TenantScope \<Rightarrow> string \<Rightarrow> InvoiceStatus \<Rightarrow> (double_state, unit) eff" where
  "double_updateInvoiceStatus scope invoiceId status s =
     (case mget (int_records s) (recordKey scope invoiceId) of
        None \<Rightarrow> (Err (unknown_invoice invoiceId), s)
      | Some existing \<Rightarrow> (Ok (), s\<lparr>int_records :=
          mset_to (recordKey scope invoiceId) (existing\<lparr>rec_status := status\<rparr>) (int_records s)\<rparr>))"

definition makeMemoryStorage :: "double_state StorageAdapter" where
  "makeMemoryStorage = \<lparr>incrementCounter = double_incrementCounter, getPreviousHash = double_getPreviousHash,
     recordInvoice = double_recordInvoice, loadInvoice = double_loadInvoice,
     updateInvoiceStatus = double_updateInvoiceStatus\<rparr>"

lemmas double_defs = makeMemoryStorage_def double_incrementCounter_def double_getPreviousHash_def
  double_recordInvoice_def double_loadInvoice_def double_updateInvoiceStatus_def

text \<open>
  Every call answers as the compliance adapter's does and leaves its maps: the log is the only
  difference, so the double conforms to whatever the other one does.
\<close>

definition unlogged :: "double_state \<Rightarrow> internal_state" where
  "unlogged s = \<lparr>int_counters = int_counters s, int_previousHash = int_previousHash s, int_records = int_records s\<rparr>"

lemma double_call:
  "map_prod id unlogged (call_on makeMemoryStorage c s) = call_on createInternalMemoryStorage c (unlogged s)"
  by (cases c) (simp_all add: double_defs int_defs unlogged_def Let_def split: option.split)

lemma double_answers:
  "answers (\<lambda>_. makeMemoryStorage) cs s = answers (\<lambda>_. createInternalMemoryStorage) cs (unlogged s)"
proof (induction cs arbitrary: s)
  case (Cons tc cs)
  obtain now c where tc: "tc = (now, c)" by (cases tc)
  obtain x s' where run: "call_on makeMemoryStorage c s = (x, s')" by fastforce
  then have "call_on createInternalMemoryStorage c (unlogged s) = (x, unlogged s')"
    using double_call [of c s] by simp
  then show ?case using Cons.IH [of s'] tc run by simp
qed simp

text \<open>The log counts the calls.\<close>

lemma double_log:
  "log_recordInvoice (after_calls (\<lambda>_. makeMemoryStorage) cs s)
    = log_recordInvoice s + length (filter (\<lambda>(_, c). case c of Record _ _ \<Rightarrow> True | _ \<Rightarrow> False) cs)"
  by (induction cs arbitrary: s)
    (auto simp: double_defs Let_def split: storage_call.splits option.splits)

section \<open>The Prisma example\<close>

record prisma_invoice =
  pr_id :: string
  pr_vatNumber :: string
  pr_egsUuid :: string
  pr_kind :: InvoiceKind
  pr_serial :: string
  pr_counterNumber :: int
  pr_uuid :: string
  pr_invoiceHash :: string
  pr_previousInvoiceHash :: string
  pr_signedXml :: string
  pr_qrBase64 :: string
  pr_issuedAt :: int
  pr_status :: InvoiceStatus
  pr_clearanceNumber :: "string option"
  pr_validationResults :: "string option"

text \<open>
  \<open>PrismaLike\<close>, as the adapter calls it: \<open>findFirst\<close> by scope and perhaps id, or by scope in the
  descending order of the counter number; \<open>upsert\<close> increments the sequence of a scope and month.
\<close>

record 's PrismaLike =
  invoice_create :: "prisma_invoice \<Rightarrow> ('s, prisma_invoice) eff"
  invoice_findFirst :: "TenantScope \<Rightarrow> string option \<Rightarrow> bool \<Rightarrow> ('s, prisma_invoice option) eff"
  invoice_updateMany :: "TenantScope \<Rightarrow> string \<Rightarrow> InvoiceStatus \<Rightarrow> ('s, nat) eff"
  counter_upsert :: "TenantScope \<Rightarrow> string \<Rightarrow> ('s, int) eff"

text \<open>\<open>parse\<close> is \<open>JSON.parse\<close>; a text that it refuses is given back as it is.\<close>

definition prisma_rowToRecord :: "(string \<Rightarrow> jsval option) \<Rightarrow> prisma_invoice \<Rightarrow> InvoiceRecord" where
  "prisma_rowToRecord parse row = \<lparr>rec_invoiceId = pr_id row, rec_kind = pr_kind row, rec_serial = pr_serial row,
     rec_counterNumber = pr_counterNumber row, rec_uuid = pr_uuid row, rec_invoiceHash = pr_invoiceHash row,
     rec_previousInvoiceHash = pr_previousInvoiceHash row, rec_signedXml = pr_signedXml row,
     rec_qrBase64 = pr_qrBase64 row, rec_issuedAt = pr_issuedAt row, rec_status = pr_status row,
     rec_clearanceNumber = pr_clearanceNumber row,
     rec_validationResults = map_option (\<lambda>text. or_else (parse text) (JStr text)) (pr_validationResults row)\<rparr>"

definition prisma_data :: "TenantScope \<Rightarrow> InvoiceRecord \<Rightarrow> prisma_invoice" where
  "prisma_data scope r = \<lparr>pr_id = rec_invoiceId r, pr_vatNumber = scope_vatNumber scope,
     pr_egsUuid = scope_egsUuid scope, pr_kind = rec_kind r, pr_serial = rec_serial r,
     pr_counterNumber = rec_counterNumber r, pr_uuid = rec_uuid r, pr_invoiceHash = rec_invoiceHash r,
     pr_previousInvoiceHash = rec_previousInvoiceHash r, pr_signedXml = rec_signedXml r,
     pr_qrBase64 = rec_qrBase64 r, pr_issuedAt = rec_issuedAt r, pr_status = rec_status r,
     pr_clearanceNumber = rec_clearanceNumber r, pr_validationResults = results_json (rec_validationResults r)\<rparr>"

definition prisma_incrementCounter :: "'s PrismaLike \<Rightarrow> int \<Rightarrow> TenantScope \<Rightarrow> ('s, int \<times> string) eff" where
  "prisma_incrementCounter prisma now scope = (case yearMonthFor now of (ym, _, _) \<Rightarrow>
     andThen (counter_upsert prisma scope ym) (\<lambda>sequence s.
       (Ok (sequence, ym @ padStart 6 (CHR ''0'') (int_str sequence)), s)))"

definition prisma_getPreviousHash :: "'s PrismaLike \<Rightarrow> TenantScope \<Rightarrow> ('s, string) eff" where
  "prisma_getPreviousHash prisma scope = andThen (invoice_findFirst prisma scope None True) (\<lambda>last s.
     (Ok (case last of None \<Rightarrow> ZATCA_BASE_INVOICE_HASH | Some row \<Rightarrow> pr_invoiceHash row), s))"

definition prisma_recordInvoice :: "'s PrismaLike \<Rightarrow> TenantScope \<Rightarrow> InvoiceRecord \<Rightarrow> ('s, unit) eff" where
  "prisma_recordInvoice prisma scope r s = (case invoice_create prisma (prisma_data scope r) s of
       (Inr _, s') \<Rightarrow> (Ok (), s')
     | (Inl cause, s') \<Rightarrow> (Err (ZatcaStorageError ''recordInvoice failed''), s'))"

definition prisma_loadInvoice ::
  "(string \<Rightarrow> jsval option) \<Rightarrow> 's PrismaLike \<Rightarrow> TenantScope \<Rightarrow> string \<Rightarrow> ('s, InvoiceRecord option) eff" where
  "prisma_loadInvoice parse prisma scope invoiceId =
     andThen (invoice_findFirst prisma scope (Some invoiceId) False) (\<lambda>row s.
       (Ok (map_option (prisma_rowToRecord parse) row), s))"

definition prisma_updateInvoiceStatus ::
  "'s PrismaLike \<Rightarrow> TenantScope \<Rightarrow> string \<Rightarrow> InvoiceStatus \<Rightarrow> ('s, unit) eff" where
  "prisma_updateInvoiceStatus prisma scope invoiceId status =
     andThen (invoice_updateMany prisma scope invoiceId status) (\<lambda>_ s. (Ok (), s))"

definition createPrismaStorageAdapter ::
  "(string \<Rightarrow> jsval option) \<Rightarrow> 's PrismaLike \<Rightarrow> int \<Rightarrow> 's StorageAdapter" where
  "createPrismaStorageAdapter parse prisma now = \<lparr>incrementCounter = prisma_incrementCounter prisma now,
     getPreviousHash = (\<lambda>scope _. prisma_getPreviousHash prisma scope),
     recordInvoice = prisma_recordInvoice prisma, loadInvoice = prisma_loadInvoice parse prisma,
     updateInvoiceStatus = prisma_updateInvoiceStatus prisma\<rparr>"

text \<open>
  The tables of \<open>prisma/schema.prisma\<close> and a client over them: the id of an invoice is the primary
  key, and \<open>scan\<close> is the order in which the database delivers rows that no ORDER BY tells apart.
\<close>

record prisma_db =
  db_invoices :: "prisma_invoice list"
  db_counters :: "(string \<times> string \<times> string, int) jsmap"

definition prisma_of :: "TenantScope \<Rightarrow> prisma_invoice \<Rightarrow> bool" where
  "prisma_of sc row = (pr_vatNumber row = scope_vatNumber sc \<and> pr_egsUuid row = scope_egsUuid sc)"

fun highest :: "prisma_invoice list \<Rightarrow> prisma_invoice option" where
  "highest [] = None"
| "highest (r # rs) = (case highest rs of None \<Rightarrow> Some r
     | Some b \<Rightarrow> if pr_counterNumber r < pr_counterNumber b then Some b else Some r)"

definition db_create :: "prisma_invoice \<Rightarrow> (prisma_db, prisma_invoice) eff" where
  "db_create row d = (if \<exists>q \<in> set (db_invoices d). pr_id q = pr_id row
     then (Err (PlainError ''Unique constraint failed on the fields: (id)'' None), d)
     else (Ok row, d\<lparr>db_invoices := db_invoices d @ [row]\<rparr>))"

definition db_findFirst ::
  "(prisma_invoice list \<Rightarrow> prisma_invoice list) \<Rightarrow> TenantScope \<Rightarrow> string option \<Rightarrow> bool \<Rightarrow> (prisma_db, prisma_invoice option) eff" where
  "db_findFirst scan sc i desc d =
     (let rows = scan (filter (\<lambda>r. prisma_of sc r \<and> (case i of None \<Rightarrow> True | Some k \<Rightarrow> pr_id r = k)) (db_invoices d))
      in (Ok (if desc then highest rows else (case rows of [] \<Rightarrow> None | r # _ \<Rightarrow> Some r)), d))"

definition db_updateMany :: "TenantScope \<Rightarrow> string \<Rightarrow> InvoiceStatus \<Rightarrow> (prisma_db, nat) eff" where
  "db_updateMany sc i st d = (let hit = (\<lambda>r. prisma_of sc r \<and> pr_id r = i) in
     (Ok (length (filter hit (db_invoices d))),
      d\<lparr>db_invoices := map (\<lambda>r. if hit r then r\<lparr>pr_status := st\<rparr> else r) (db_invoices d)\<rparr>))"

definition db_upsert :: "TenantScope \<Rightarrow> string \<Rightarrow> (prisma_db, int) eff" where
  "db_upsert sc ym d = (let k = (scope_vatNumber sc, scope_egsUuid sc, ym); n = or_else (mget (db_counters d) k) 0 + 1
     in (Ok n, d\<lparr>db_counters := mset_to k n (db_counters d)\<rparr>))"

definition schema_client :: "(prisma_invoice list \<Rightarrow> prisma_invoice list) \<Rightarrow> prisma_db PrismaLike" where
  "schema_client scan = \<lparr>invoice_create = db_create, invoice_findFirst = db_findFirst scan,
     invoice_updateMany = db_updateMany, counter_upsert = db_upsert\<rparr>"

lemmas prisma_defs = createPrismaStorageAdapter_def prisma_incrementCounter_def prisma_getPreviousHash_def
  prisma_recordInvoice_def prisma_loadInvoice_def prisma_updateInvoiceStatus_def schema_client_def
  db_create_def db_findFirst_def db_updateMany_def db_upsert_def andThen_def

section \<open>Where the example breaks the contract\<close>

lemma highest_max:
  "q \<in> set rs \<Longrightarrow> (\<And>r. r \<in> set rs \<Longrightarrow> r \<noteq> q \<Longrightarrow> pr_counterNumber r < pr_counterNumber q) \<Longrightarrow> highest rs = Some q"
proof (induction rs)
  case (Cons r rs)
  show ?case
  proof (cases "q \<in> set rs")
    case True
    then have "highest rs = Some q" using Cons by simp
    then show ?thesis using Cons.prems(2) [of r] by auto
  next
    case False
    have "b \<in> set rs" if "highest rs = Some b" for b
      using that by (induction rs arbitrary: b) (auto split: option.splits if_splits)
    then show ?thesis using False Cons.prems by (fastforce split: option.split)
  qed
qed simp

text \<open>
  The head of the chain is the invoice with the greatest counter number, of any kind. As long as the
  numbers grow it is the last one recorded.
\<close>

lemma prisma_head_when_growing:
  assumes scan: "\<And>xs. set (scan xs) = set xs"
    and grows: "\<And>q. q \<in> set (db_invoices d) \<Longrightarrow> prisma_of sc q \<Longrightarrow> pr_counterNumber q < rec_counterNumber r"
    and run: "prisma_recordInvoice (schema_client scan) sc r d = (Ok (), d')"
  shows "prisma_getPreviousHash (schema_client scan) sc d' = (Ok (rec_invoiceHash r), d')"
proof -
  let ?n = "prisma_data sc r"
  have d': "db_invoices d' = db_invoices d @ [?n]" using run by (auto simp: prisma_defs split: if_splits)
  have "prisma_of sc ?n" "pr_counterNumber ?n = rec_counterNumber r" by (simp_all add: prisma_of_def prisma_data_def)
  then have "highest (scan (filter (prisma_of sc) (db_invoices d'))) = Some ?n"
    using grows by (intro highest_max) (auto simp: scan d')
  then show ?thesis by (simp add: prisma_defs prisma_data_def Let_def)
qed

text \<open>
  But the numbers start again each month: the first invoice of a month is recorded and is not the head,
  so the second one is chained to the same predecessor as the first.
\<close>

lemma prisma_month_forks:
  assumes scan: "\<And>xs. set (scan xs) = set xs"
    and head: "q \<in> set (db_invoices d)" "prisma_of sc q" "1 < pr_counterNumber q"
      "\<And>p. p \<in> set (db_invoices d) \<Longrightarrow> prisma_of sc p \<Longrightarrow> p \<noteq> q \<Longrightarrow> pr_counterNumber p < pr_counterNumber q"
    and month: "mget (db_counters d) (scope_vatNumber sc, scope_egsUuid sc, fst (yearMonthFor now)) = None"
    and number: "prisma_incrementCounter (schema_client scan) now sc d = (Ok (n, serial), d1)" "rec_counterNumber r = n"
    and recorded: "prisma_recordInvoice (schema_client scan) sc r d1 = (Ok (), d2)"
  shows "n = 1 \<and> fst (prisma_getPreviousHash (schema_client scan) sc d) = Ok (pr_invoiceHash q) \<and>
    fst (prisma_getPreviousHash (schema_client scan) sc d2) = Ok (pr_invoiceHash q)"
proof -
  obtain ym y m where ym: "yearMonthFor now = (ym, y, m)" by (cases "yearMonthFor now")
  have n: "n = 1" "db_invoices d1 = db_invoices d"
    using number(1) month by (auto simp: prisma_defs ym or_else_def Let_def)
  have d2: "db_invoices d2 = db_invoices d @ [prisma_data sc r]"
    using recorded n(2) by (auto simp: prisma_defs split: if_splits)
  have small: "pr_counterNumber (prisma_data sc r) < pr_counterNumber q"
    using number(2) n(1) head(3) by (simp add: prisma_data_def)
  have "highest (scan (filter (prisma_of sc) (db_invoices d))) = Some q"
    by (rule highest_max) (use head in \<open>auto simp: scan\<close>)
  moreover have "highest (scan (filter (prisma_of sc) (db_invoices d2))) = Some q"
    by (rule highest_max) (use head small in \<open>auto simp: scan d2 split: if_splits\<close>)
  ultimately show ?thesis using n(1) by (simp add: prisma_defs Let_def)
qed

text \<open>
  The suite, which the example's README calls the contract, has tests that no client lets it pass: a
  status update of an unknown invoice is not refused, since the count of \<open>updateMany\<close> is not looked at.
\<close>

lemma failing_test_fails_suite:
  assumes "(cs, e) \<in> set ts" "length moments = length (suite_calls ts)"
    and fails: "\<And>ms s. length ms = length cs \<Longrightarrow> \<not> e (answers ops (zip ms cs) s)"
  shows "\<not> run_suite ops ts moments s"
  using assms(1,2)
proof (induction ts arbitrary: moments s)
  case (Cons t ts)
  obtain cs' e' where t: "t = (cs', e')" by (cases t)
  have len: "length moments = length cs' + length (suite_calls ts)" using Cons.prems(2) t by simp
  show ?case
  proof (cases "(cs, e) = t")
    case True
    then show ?thesis using fails [of "take (length cs') moments" s] len t by (simp add: Let_def)
  next
    case False
    then have "(cs, e) \<in> set ts" using Cons.prems(1) by simp
    then show ?thesis using Cons.IH [of "drop (length cs') moments"] len t by (simp add: Let_def)
  qed
qed simp

lemma prisma_fails_conformance:
  assumes total: "\<And>sc i st s. is_ok (fst (invoice_updateMany prisma sc i st s))"
    and moments: "length moments = length (suite_calls (conformance_suite fx (or_else concurrency 100) (or_else skip False) sched))"
  shows "\<not> runStorageAdapterConformance (createPrismaStorageAdapter parse prisma) fx concurrency skip sched moments start"
proof -
  let ?ops = "createPrismaStorageAdapter parse prisma"
  have accepted: "\<not> (length (answers ?ops (zip ms [Update sc i Accepted]) s) = 1 \<and>
      rejected (answers ?ops (zip ms [Update sc i Accepted]) s ! 0))" if one: "length ms = 1" for ms sc i s
  proof -
    obtain m where "ms = [m]" using one by (cases ms) auto
    moreover obtain x s' where "invoice_updateMany prisma sc i Accepted s = (Ok x, s')"
      using total [of sc i Accepted s] by (cases "invoice_updateMany prisma sc i Accepted s") (auto simp: is_ok_def split: sum.splits)
    ultimately show ?thesis
      by (simp add: createPrismaStorageAdapter_def prisma_updateInvoiceStatus_def andThen_def)
  qed
  obtain sc i where "([Update sc i Accepted], \<lambda>xs. length xs = 1 \<and> rejected (xs ! 0)) \<in>
      set (conformance_suite fx (or_else concurrency 100) (or_else skip False) sched)"
    by (auto simp: conformance_suite_def Let_def)
  then show ?thesis unfolding runStorageAdapterConformance_def
    by (rule failing_test_fails_suite [OF _ moments]) (use accepted in simp)
qed

end
