(* ===== verification/Spec2Isabelle.thy ===== *)
theory Spec2Isabelle
  imports InvoiceProperties ServerProperties RouteProperties CoreOnboardingProperties StorageProperties
    RegistryProperties InputProperties Ops OtherStorage
begin

text \<open>
  A model of the ZATCA e-invoicing library and of the server around it (paths are under
  \<open>src/packages\<close>).

  \<^bold>\<open>The program.\<close> The package \<open>core\<close> turns an invoice input into a signed UBL document: a builder
  fills the template of the invoice's kind with amounts computed on doubles, hashes the document
  without its signature parts, signs the hash, and puts a TLV QR code and the XAdES signature in.
  The issuers (\<open>core/src/issue\<close>) number an invoice and chain it to the last one of its kind through a
  \<open>StorageAdapter\<close>: memory, PostgreSQL and MongoDB, and the smaller ones of the compliance tests, of the
  issuers' tests and of an example. A client talks to ZATCA with retries, and \<open>onboard\<close> obtains
  certificates, gated by six compliance tests. The package \<open>server\<close> keeps tenants with an onboarding
  lock, sealed credentials, API keys and an audit log, again over memory, PostgreSQL or MongoDB, and
  offers routes that authenticate, claim an idempotency key, issue and submit.

  \<^bold>\<open>Theories and code.\<close> Names are those of the code; a suffix or prefix is added where one clashes
  (\<open>mem_\<close> memory adapter, \<open>int_\<close> compliance adapter, \<open>pg_\<close> and \<open>sql_\<close> PostgreSQL, \<open>mg_\<close> and \<open>mongo_\<close>
  MongoDB). An asynchronous method is a function from the state to a result (an \<open>error\<close> or a value) and
  the new state; \<open>andThen\<close> is \<open>await\<close>, \<open>finally_do\<close> is \<open>finally\<close>. The clock, random values and UUIDs of
  a call are its arguments.

  \<^item> Language and data. \<open>Prelude\<close>: results, insertion-ordered maps, string functions. \<open>JsNumber\<close>: binary64
    with its decimal printing. \<open>JsValue\<close>: JSON-like values and \<open>JSON.stringify\<close>. \<open>Errors\<close>:
    \<open>core/src/types/errors.ts\<close>, \<open>server/src/errors.ts\<close>, \<open>middleware/errors.ts\<close>. \<open>Types\<close>: the records of
    \<open>core/src/types\<close>. \<open>DateTime\<close>: \<open>utils/datetime.ts\<close>. \<open>Validation\<close>: the branded strings. \<open>Schemas\<close>:
    \<open>validation/schemas.ts\<close>.
  \<^item> Documents. \<open>Xml\<close>: \<open>xml/document.ts\<close>. \<open>Encoding\<close>: \<open>validation/base64.ts\<close> and \<open>qr/tlv.ts\<close>.
    \<open>TaxArithmetic\<close>: the three arithmetic modules of \<open>invoices\<close>. \<open>Templates\<close>: \<open>templates\<close>. \<open>Signing\<close>:
    \<open>crypto/hash.ts\<close>, \<open>cert-info.ts\<close>, \<open>sign.ts\<close>, \<open>qr/phase1.ts\<close>, \<open>qr/phase2.ts\<close>. \<open>Builders\<close>: the builders of
    \<open>invoices\<close>, whose abstract class is a record of hooks.
  \<^item> Storage and issuance. \<open>Storage\<close>: the port \<open>types/storage.ts\<close>, the memory adapter and the compliance
    adapter. \<open>StorageSpec\<close>: the abstract ledger. \<open>PostgresStorage\<close>, \<open>MongoStorage\<close>: \<open>storage-postgres\<close>,
    \<open>storage-mongo\<close>. \<open>Conformance\<close>: \<open>test-helpers/storage-adapter-conformance.ts\<close>. \<open>OtherStorage\<close>: the
    test double \<open>core/src/issue/_memory-storage.ts\<close> and the example \<open>examples/byo-storage-prisma\<close> (beside
    \<open>src/packages\<close>). \<open>Issue\<close>: \<open>issue\<close>.
  \<^item> ZATCA and onboarding. \<open>Http\<close>, \<open>ZatcaApi\<close>: \<open>api\<close>. \<open>Csr\<close>: keys and requests in \<open>crypto\<close>. \<open>Certificates\<close>:
    \<open>certificates\<close>. \<open>Compliance\<close>: \<open>compliance\<close>. \<open>CoreOnboarding\<close>: \<open>onboarding/onboard.ts\<close>.
  \<^item> Registry. \<open>Tenants\<close>, \<open>Vault\<close>, \<open>ApiKeys\<close>, \<open>AuditLog\<close>: \<open>server/src/tenants/registry-memory.ts\<close> with \<open>crypto\<close>,
    \<open>auth\<close> and \<open>audit\<close>. \<open>RegistrySpec\<close>: the calls a client can make and the table of tenants all stores
    share. \<open>PostgresRegistry\<close>, \<open>PostgresTenants\<close>, \<open>PostgresClaims\<close>, \<open>PostgresSecrets\<close>:
    \<open>registry-postgres.ts\<close>, \<open>log-postgres.ts\<close>. \<open>MongoRegistry\<close>, \<open>MongoTenants\<close>, \<open>MongoSecrets\<close>:
    \<open>registry-mongo.ts\<close>, \<open>log-mongo.ts\<close>. \<open>Onboarding\<close>, \<open>Runs\<close>, \<open>ServerOnboarding\<close>: \<open>onboarding/run.ts\<close>,
    one run, interleaved runs, and a run with the core onboarding in it.
  \<^item> Requests. \<open>Idempotency\<close>, \<open>Semaphore\<close>: \<open>middleware\<close>. \<open>Server\<close>, \<open>InvoiceRoutes\<close>, \<open>AdminRoutes\<close>, \<open>Ops\<close>:
    \<open>routes\<close> and parts of \<open>app.ts\<close>. \<open>Config\<close>: \<open>config.ts\<close> and the driver choice of \<open>cli.ts\<close>.
  \<^item> \<open>Examples\<close>, \<open>ServerExamples\<close>: concrete environments. The theories named \<open>...Properties\<close> state what
    is shown.

  \<^bold>\<open>Interfaces.\<close> Each contract is a locale, proved for the model of the code that provides it.
  \<open>storage_adapter\<close> (what a call does to counters, heads and rows) has the instances \<open>memory\<close> and
  \<open>internal\<close>, and the lemmas on issuance are proved in it. \<open>ledger_refinement\<close> (every call keeps the
  relation to the ledger and answers as it does) has the instances \<open>memory_ledger\<close>, \<open>postgres_ledger\<close>
  and, for every order in which documents are delivered (\<open>delivery\<close>), \<open>mongo\<close>. \<open>tenant_store\<close> (the
  laws that onboarding needs) holds for the memory store, and for PostgreSQL over every \<open>jsonb_column\<close>.
  \<open>tenant_refinement\<close> holds for PostgreSQL and MongoDB over the table of tenants \<open>tenant_table\<close>;
  MongoDB's comes from PostgreSQL's, since a \<open>bson_field\<close> gives a \<open>jsonb_column\<close>. \<open>cipher_pair\<close> and
  \<open>secret_cipher\<close> (what one ring seals the other opens) hold for the development cipher and, as a lemma,
  for AES-GCM rings that share keys. \<open>idempotency_store\<close> holds for the memory store.

  \<^bold>\<open>What is shown.\<close>

  \<^item> Issuance: an invoice gets the next number and is linked to the last one of its kind, failures
    consume at most a number, a run of issuances is an unbroken chain, scopes are isolated, and issuing
    fails only if the build does.
  \<^item> Documents: the QR code reads back as the nine tags, it exists exactly when every value fits, what is
    hashed is free of signature parts, filled templates are simultaneous substitutions for values without
    dollars and tokens, amounts have two decimals. Library lemmas give counterexamples to more: a dollar
    in a name, an amount with an exponent, a tax total one cent off its lines.
  \<^item> Backends: PostgreSQL and MongoDB answer every sequence of calls as memory does, for storage and for
    the tenant registry; all pass the conformance suite; a lost race in PostgreSQL is harmless; a claim
    is exclusive and a unit of work is atomic with other sessions acting between the statements.
    Library lemmas show where they differ: clocks that lag or tie, retries with validation results,
    progress updates that are lost, a listing with limit 0. The Prisma example does not conform, and its
    chains fork at the start of a month.
  \<^item> Onboarding: runs that end in time implement a lock, the two outcomes of a run, the compliance tests
    gate the production certificate; a stale run breaks the lock and a fresh certificate cannot be read.
  \<^item> Server: status codes, permits, idempotency, key rotation, redaction, who may call which route,
    deleted tenants, slots given back, replays; a submitted invoice is reported as failed.
  \<^item> Input: validating first changes nothing, the first invoice of a chain is refused by the schemas, a
    configuration that loads can be used.

  \<^bold>\<open>Parameters.\<close> Code outside the repository is an argument with documented behaviour as its only
  hypotheses: the XML parser and printer, SHA-256, ECDSA and X.509 (\<open>crypto_lib\<close>, \<open>node_crypto\<close>), AES-GCM
  (\<open>aes_lib\<close>, decryption undoes encryption), scrypt, \<open>openssl\<close> (\<open>csr_env\<close>, every disk call can fail),
  \<open>fetch\<close> with its timer and random source (\<open>network\<close>), \<open>Date.parse\<close>, the number formatter, string
  collation, what \<open>jsonb\<close> and BSON give back of a value, the order of rows and documents that no ORDER BY
  fixes (\<open>scan\<close>), and what other sessions do between two statements of a method (\<open>others\<close>; \<open>quiet\<close> when
  they do nothing).

  \<^bold>\<open>Bounds.\<close> No definition uses fuel: the recursion of \<open>attempts\<close> is on the retries left, so a request
  makes at most \<open>count + 1\<close> attempts; all else is structural or over finite data. A counter in PostgreSQL
  is an \<open>INTEGER\<close>: statements about call sequences allow 2147483647 calls, each of which adds at most
  one, so that no counter overflows. Clocks may stand still between calls for PostgreSQL (ids break the
  tie) and must move on for MongoDB (they do not). The conformance suite is run within one month, since
  counters restart each month.

  \<^bold>\<open>Granularity.\<close> Methods of the memory stores run without an \<open>await\<close> or under a mutex: each is one step.
  Methods over a database are sequences of statements. A handler of a route is one step, apart from
  onboarding, whose runs interleave in \<open>Runs\<close>.

  \<^bold>\<open>Not modelled.\<close> The wiring of the HTTP framework, rate limits, timeouts of sockets, process start-up
  and connections (\<open>app.ts\<close>, \<open>cli.ts\<close>): I/O and calls of libraries. The declarations of logging and
  metrics (\<open>observability\<close>), the schema objects of Mongoose and the SQL text of the migrations: data for
  libraries, whose effect is in the tables' and collections' definitions. The issue lists of zod, of which
  the schemas keep acceptance and output. The demo programs of the other examples. The copy
  \<open>templates/ubl-extension.ts\<close>, which nothing calls. Re-exports, type declarations without code and
  scripts.
\<close>

end
